(* ===== verification/PC_Prelude.thy ===== *)
theory PC_Prelude
  imports Complex_Main "HOL-Library.List_Lexorder" "HOL-Library.Char_ord"
begin

text \<open>
  What every component of the library shares: the named collections of facts, the strings of
  C++ (\<open>std::string\<close> is a list of bytes, HOL's \<open>string\<close>) with the few operations the code
  uses (\<open>find\<close>, \<open>substr\<close>, \<open>printf\<close> conversions), \<open>std::map\<close> as an association list
  sorted by key, and the two generic interfaces: finite maps and transition systems.
\<close>

named_theorems om_simps "equations of the ordered map"
named_theorems str_simps "equations of strings and printing"
named_theorems inv_intros "preservation of a component's invariant"

subsection \<open>Strings\<close>

text \<open>\<open>std::string::find(pat)\<close>: the first index at which \<open>pat\<close> occurs, \<open>None\<close> for \<open>npos\<close>.\<close>

fun starts_with :: "string \<Rightarrow> string \<Rightarrow> bool" where
  "starts_with [] s = True"
| "starts_with (p # ps) [] = False"
| "starts_with (p # ps) (c # s) = (p = c \<and> starts_with ps s)"

fun str_find :: "string \<Rightarrow> string \<Rightarrow> nat option" where
  "str_find pat [] = (if pat = [] then Some 0 else None)"
| "str_find pat (c # s) =
     (if starts_with pat (c # s) then Some 0 else map_option Suc (str_find pat s))"

definition str_contains :: "string \<Rightarrow> string \<Rightarrow> bool" where
  "str_contains s pat = (str_find pat s \<noteq> None)"

lemma starts_with_iff: "starts_with p s \<longleftrightarrow> (\<exists>t. s = p @ t)"
  by (induction p s rule: starts_with.induct) auto

lemma starts_with_append [simp]: "starts_with p (p @ s)"
  by (simp add: starts_with_iff)

lemma starts_with_Nil_right [simp]: "starts_with p [] = (p = [])"
  by (cases p) auto

lemma str_find_Some_iff_infix: "(\<exists>i. str_find p s = Some i) \<longleftrightarrow> (\<exists>a b. s = a @ p @ b)"
proof (induction s)
  case Nil
  then show ?case by auto
next
  case (Cons c s)
  show ?case
  proof (cases "starts_with p (c # s)")
    case True
    then obtain t where "c # s = p @ t" by (auto simp: starts_with_iff)
    then have "\<exists>a b. c # s = a @ p @ b" by (metis append_Nil)
    with True show ?thesis by simp
  next
    case False
    then have "(\<exists>a b. c # s = a @ p @ b) \<longleftrightarrow> (\<exists>a b. s = a @ p @ b)"
      by (auto simp: starts_with_iff Cons_eq_append_conv)
    with False Cons.IH show ?thesis by auto
  qed
qed

lemma str_contains_iff: "str_contains s p \<longleftrightarrow> (\<exists>a b. s = a @ p @ b)"
  using str_find_Some_iff_infix [of p s] by (auto simp: str_contains_def)

lemma str_containsI: "str_contains (a @ p @ b) p"
  by (auto simp: str_contains_iff)

lemma str_contains_append1: "str_contains s p \<Longrightarrow> str_contains (s @ t) p"
  by (auto simp: str_contains_iff) (metis append.assoc)

lemma str_contains_append2: "str_contains t p \<Longrightarrow> str_contains (s @ t) p"
  by (auto simp: str_contains_iff) (metis append.assoc)

lemma str_find_first:
  "str_find p s = Some i \<Longrightarrow> starts_with p (drop i s) \<and> (\<forall>j<i. \<not> starts_with p (drop j s))"
proof (induction s arbitrary: i)
  case Nil
  then show ?case by (auto split: if_splits)
next
  case (Cons c s)
  show ?case
  proof (cases "starts_with p (c # s)")
    case True
    with Cons.prems show ?thesis by simp
  next
    case False
    with Cons.prems obtain k where k: "str_find p s = Some k" "i = Suc k" by auto
    have "\<not> starts_with p (drop j (c # s))" if "j < i" for j
      using Cons.IH [OF k(1)] False k(2) that by (cases j) auto
    then show ?thesis using Cons.IH [OF k(1)] k(2) by simp
  qed
qed

subsection \<open>Printing integers\<close>

text \<open>The digits of \<open>%d\<close> and of \<open>base::NumberToString\<close>.\<close>

definition digit_char :: "nat \<Rightarrow> char" where
  "digit_char d = char_of (48 + d)"

fun show_nat :: "nat \<Rightarrow> string" where
  "show_nat n = (if n < 10 then [digit_char n] else show_nat (n div 10) @ [digit_char (n mod 10)])"

declare show_nat.simps [simp del]

definition show_int :: "int \<Rightarrow> string" where
  "show_int i = (if i < 0 then CHR ''-'' # show_nat (nat (- i)) else show_nat (nat i))"

text \<open>\<open>%0wd\<close>: zeros up to the width \<open>w\<close>, after the sign.\<close>

definition show_pad :: "nat \<Rightarrow> int \<Rightarrow> string" where
  "show_pad w i =
     (let ds = show_nat (nat \<bar>i\<bar>); sign = (if i < 0 then ''-'' else [])
      in sign @ replicate (w - length sign - length ds) CHR ''0'' @ ds)"

definition read_digits :: "string \<Rightarrow> nat" where
  "read_digits s = foldl (\<lambda>n c. 10 * n + (of_char c - 48)) 0 s"

lemma digit_char_value: "d < 10 \<Longrightarrow> of_char (digit_char d) = 48 + d"
  by (simp add: digit_char_def of_char_of)

lemma read_show_nat [str_simps]: "read_digits (show_nat n) = n"
proof (induction n rule: show_nat.induct)
  case (1 n)
  show ?case
  proof (cases "n < 10")
    case True
    then show ?thesis
      by (subst show_nat.simps) (simp add: read_digits_def digit_char_value)
  next
    case False
    with 1 have "read_digits (show_nat (n div 10)) = n div 10" by simp
    with False show ?thesis
      by (subst show_nat.simps) (simp add: read_digits_def digit_char_value)
  qed
qed

lemma show_nat_inject [simp]: "show_nat m = show_nat n \<longleftrightarrow> m = n"
  by (metis read_show_nat)

lemma show_nat_digits: "c \<in> set (show_nat n) \<Longrightarrow> 48 \<le> (of_char c :: nat) \<and> (of_char c :: nat) < 58"
proof (induction n rule: show_nat.induct)
  case (1 n)
  show ?case
  proof (cases "n < 10")
    case True
    with "1.prems" show ?thesis
      by (subst (asm) show_nat.simps) (simp add: digit_char_value)
  next
    case False
    then have "show_nat n = show_nat (n div 10) @ [digit_char (n mod 10)]"
      by (subst show_nat.simps) simp
    with "1.prems" have "c \<in> set (show_nat (n div 10)) \<or> c = digit_char (n mod 10)" by auto
    then show ?thesis
      using "1.IH" False digit_char_value [of "n mod 10"] by auto
  qed
qed

lemma show_nat_not_Nil [simp]: "show_nat n \<noteq> []"
  by (subst show_nat.simps) simp

lemma show_nat_no_minus: "show_nat m \<noteq> CHR ''-'' # s"
proof
  assume eq: "show_nat m = CHR ''-'' # s"
  have "CHR ''-'' \<in> set (show_nat m)" unfolding eq by simp
  from show_nat_digits [OF this] show False by simp
qed

lemma show_int_inject [simp]: "show_int i = show_int j \<longleftrightarrow> i = j"
  by (auto simp: show_int_def show_nat_no_minus show_nat_no_minus [symmetric] nat_eq_iff)

lemma show_int_not_Nil [simp]: "show_int i \<noteq> []"
  by (simp add: show_int_def)

lemma show_int_chars: "c \<in> set (show_int i) \<Longrightarrow> c = CHR ''-'' \<or> (48 \<le> (of_char c :: nat) \<and> (of_char c :: nat) < 58)"
  using show_nat_digits by (auto simp: show_int_def split: if_splits)

text \<open>The first separator splits a text in one way.\<close>

lemma append_sep_inj:
  assumes "c \<notin> set u" "c \<notin> set v" "u @ c # x = v @ c # y"
  shows "u = v \<and> x = y"
  using assms
proof (induction u arbitrary: v)
  case Nil
  then show ?case by (cases v) auto
next
  case (Cons a u)
  then show ?case by (cases v) auto
qed

subsection \<open>std::map\<close>

text \<open>
  A \<open>std::map\<close> is the list of its entries in key order, which is the order in which the code
  iterates over it. \<open>find\<close> is \<open>map_of\<close>; \<open>om_put\<close> is \<open>m[k] = v\<close>, \<open>om_emplace\<close> is
  \<open>try_emplace\<close>, \<open>om_del\<close> is \<open>erase\<close>.
\<close>

type_synonym ('k, 'v) omap = "('k \<times> 'v) list"

fun om_put :: "'k::linorder \<Rightarrow> 'v \<Rightarrow> ('k, 'v) omap \<Rightarrow> ('k, 'v) omap" where
  "om_put k v [] = [(k, v)]"
| "om_put k v (e # m) =
     (if fst e = k then (k, v) # m
      else if k < fst e then (k, v) # e # m
      else e # om_put k v m)"

definition om_emplace :: "'k::linorder \<Rightarrow> 'v \<Rightarrow> ('k, 'v) omap \<Rightarrow> ('k, 'v) omap" where
  "om_emplace k v m = (if map_of m k = None then om_put k v m else m)"

definition om_del :: "'k \<Rightarrow> ('k, 'v) omap \<Rightarrow> ('k, 'v) omap" where
  "om_del k m = filter (\<lambda>e. fst e \<noteq> k) m"

definition om_ok :: "('k::linorder, 'v) omap \<Rightarrow> bool" where
  "om_ok m = sorted_wrt (<) (map fst m)"

lemma map_of_om_put [simp, om_simps]: "map_of (om_put k v m) = (map_of m)(k \<mapsto> v)"
  by (induction m) (auto simp: fun_eq_iff)

lemma map_of_om_emplace [simp, om_simps]:
  "map_of (om_emplace k v m) = (if map_of m k = None then (map_of m)(k \<mapsto> v) else map_of m)"
  by (simp add: om_emplace_def)

lemma map_of_om_del [simp, om_simps]: "map_of (om_del k m) = (map_of m)(k := None)"
  by (induction m) (auto simp: om_del_def fun_eq_iff)

lemma keys_om_put [simp]: "fst ` set (om_put k v m) = insert k (fst ` set m)"
  by (induction m) auto

lemma keys_om_del [simp]: "fst ` set (om_del k m) = fst ` set m - {k}"
  by (auto simp: om_del_def)

lemma set_om_put_subset: "set (om_put k v m) \<subseteq> insert (k, v) (set m)"
  by (induction m) auto

lemma set_om_del_subset: "set (om_del k m) \<subseteq> set m"
  by (auto simp: om_del_def)

lemma om_put_nonempty [simp]: "om_put k v m \<noteq> []"
  by (cases m) auto

lemma om_ok_Nil [simp]: "om_ok []"
  by (simp add: om_ok_def)

lemma om_ok_single [simp]: "om_ok [e]"
  by (simp add: om_ok_def)

lemma om_ok_Cons: "om_ok (e # m) \<longleftrightarrow> (\<forall>x\<in>fst ` set m. fst e < x) \<and> om_ok m"
  by (auto simp: om_ok_def)

lemma om_ok_put [simp, inv_intros]: "om_ok m \<Longrightarrow> om_ok (om_put k v m)"
proof (induction m)
  case Nil
  then show ?case by (simp add: om_ok_Cons)
next
  case (Cons e m)
  then show ?case by (fastforce simp: om_ok_Cons simp flip: image_iff)
qed

lemma om_ok_emplace [simp, inv_intros]: "om_ok m \<Longrightarrow> om_ok (om_emplace k v m)"
  by (simp add: om_emplace_def)

lemma om_ok_del [simp, inv_intros]: "om_ok m \<Longrightarrow> om_ok (om_del k m)"
  by (auto simp: om_ok_def om_del_def sorted_wrt_map sorted_wrt_filter)

lemma om_ok_distinct: "om_ok m \<Longrightarrow> distinct (map fst m)"
  by (induction m) (auto simp: om_ok_Cons)

lemma om_ok_map_of: "om_ok m \<Longrightarrow> (k, v) \<in> set m \<longleftrightarrow> map_of m k = Some v"
  by (simp add: om_ok_distinct)

lemma om_ok_map_values: "om_ok (map (\<lambda>(k, v). (k, f k v)) m) = om_ok m"
  by (simp add: om_ok_def case_prod_beta comp_def)

text \<open>Two ordered maps with the same lookups are the same list: iteration order is determined.\<close>

lemma om_ext:
  assumes "om_ok m" "om_ok m'" "map_of m = map_of m'"
  shows "m = m'"
proof -
  have "set m = set m'"
    using assms by (auto simp: om_ok_map_of)
  moreover have "sorted_wrt (\<lambda>a b. fst a < fst b) m" "sorted_wrt (\<lambda>a b. fst a < fst b) m'"
    using assms(1,2) by (simp_all add: om_ok_def sorted_wrt_map)
  moreover have "irreflp (\<lambda>a b :: 'a \<times> 'b. fst a < fst b)" "asymp (\<lambda>a b :: 'a \<times> 'b. fst a < fst b)"
    by (auto intro: irreflpI asympI)
  ultimately show ?thesis
  proof (induction m arbitrary: m')
    case Nil
    then show ?case by simp
  next
    case (Cons e m)
    then obtain e' n where m': "m' = e' # n" by (cases m') auto
    have "e = e'"
      using Cons.prems m' by (metis list.set_intros(1) order_less_asym set_ConsD sorted_wrt.simps(2))
    moreover have "e \<notin> set m" "e' \<notin> set n"
      using Cons.prems(2,3) m' by auto
    ultimately have "set m = set n"
      using Cons.prems(1) m' by auto
    then show ?case
      using Cons m' \<open>e = e'\<close> by auto
  qed
qed

lemma length_om_put: "om_ok m \<Longrightarrow> length (om_put k v m) = (if map_of m k = None then Suc (length m) else length m)"
proof (induction m)
  case Nil
  then show ?case by simp
next
  case (Cons e m)
  have "map_of m k = None" if "k < fst e"
    using Cons.prems that by (force simp: om_ok_Cons map_of_eq_None_iff)
  with Cons show ?case by (auto simp: om_ok_Cons)
qed

lemma length_om_del: "om_ok m \<Longrightarrow> length (om_del k m) = (if map_of m k = None then length m else length m - 1)"
proof (induction m)
  case Nil
  then show ?case by (simp add: om_del_def)
next
  case (Cons e m)
  have ne: "map_of m (fst e) = None"
    using Cons.prems by (force simp: om_ok_Cons map_of_eq_None_iff)
  have "length m \<ge> 1" if "map_of m k = Some v" for v
    using that by (cases m) auto
  then show ?case
    using Cons ne by (auto simp: om_ok_Cons om_del_def)
qed

text \<open>Inserting the entries of an ordered map one by one, in order, rebuilds it.\<close>

lemma om_put_last: "om_ok (m @ [e]) \<Longrightarrow> om_put (fst e) (snd e) m = m @ [e]"
proof (induction m)
  case Nil
  then show ?case by simp
next
  case (Cons d m)
  then have "fst d < fst e" "om_ok (m @ [e])" by (auto simp: om_ok_Cons)
  with Cons.IH show ?case by auto
qed

lemma om_rebuild: "om_ok es \<Longrightarrow> fold (\<lambda>e. om_put (fst e) (snd e)) es [] = es"
proof (induction es rule: rev_induct)
  case Nil
  then show ?case by simp
next
  case (snoc e es)
  then have "om_ok es" by (auto simp: om_ok_def sorted_wrt_append)
  with snoc show ?case by (simp add: om_put_last)
qed

subsection \<open>The interface of a finite map\<close>

text \<open>
  The contract the stores, the process table and the session tables rely on: what a lookup
  returns after an insertion and a removal, and that the representation invariant is kept.
\<close>

locale finite_map =
  fixes empty :: 'm
    and find :: "'m \<Rightarrow> 'k \<Rightarrow> 'v option"
    and put :: "'k \<Rightarrow> 'v \<Rightarrow> 'm \<Rightarrow> 'm"
    and del :: "'k \<Rightarrow> 'm \<Rightarrow> 'm"
    and ok :: "'m \<Rightarrow> bool"
  assumes find_empty: "find empty k = None"
    and find_put: "find (put k v m) k' = (if k' = k then Some v else find m k')"
    and find_del: "find (del k m) k' = (if k' = k then None else find m k')"
    and ok_empty: "ok empty"
    and ok_put: "ok m \<Longrightarrow> ok (put k v m)"
    and ok_del: "ok m \<Longrightarrow> ok (del k m)"
    and extensional: "ok m \<Longrightarrow> ok m' \<Longrightarrow> (\<And>k. find m k = find m' k) \<Longrightarrow> m = m'"
begin

lemma put_put: "ok m \<Longrightarrow> put k v (put k v' m) = put k v m"
  by (rule extensional) (auto simp: ok_put find_put)

lemma put_commute: "ok m \<Longrightarrow> k \<noteq> k' \<Longrightarrow> put k v (put k' v' m) = put k' v' (put k v m)"
  by (rule extensional) (auto simp: ok_put find_put)

lemma del_put: "ok m \<Longrightarrow> find m k = None \<Longrightarrow> del k (put k v m) = m"
  by (rule extensional) (auto simp: ok_put ok_del find_put find_del)

lemma put_find: "ok m \<Longrightarrow> find m k = Some v \<Longrightarrow> put k v m = m"
  by (rule extensional) (auto simp: ok_put find_put)

lemma del_absent: "ok m \<Longrightarrow> find m k = None \<Longrightarrow> del k m = m"
  by (rule extensional) (auto simp: ok_del find_del)

text \<open>Loading a list of entries into a map: the last entry of a key wins.\<close>

lemma find_fold_put:
  "find (fold (\<lambda>e. put (key e) (val e)) es m) k =
     (case map_of (rev (map (\<lambda>e. (key e, val e)) es)) k of Some v \<Rightarrow> Some v | None \<Rightarrow> find m k)"
  by (induction es arbitrary: m) (auto simp: find_put map_add_def split: option.splits)

lemma ok_fold_put: "ok m \<Longrightarrow> ok (fold (\<lambda>e. put (key e) (val e)) es m)"
  by (induction es arbitrary: m) (auto simp: ok_put)

end

interpretation om: finite_map "[]" "map_of" om_put om_del om_ok
  by unfold_locales (auto intro: om_ext)

subsection \<open>Transition systems\<close>

text \<open>
  A component whose operations are run by an event loop is a step function over events. The
  states it can be in are those reached by a run from its initial state.
  Queues without an order lose any of their elements.
\<close>

definition drop_nth :: "nat \<Rightarrow> 'a list \<Rightarrow> 'a list" where
  "drop_nth k xs = take k xs @ drop (Suc k) xs"

definition run :: "('e \<Rightarrow> 's \<Rightarrow> 's) \<Rightarrow> 'e list \<Rightarrow> 's \<Rightarrow> 's" where
  "run step es s = fold step es s"

lemma run_simps [simp]:
  "run step [] s = s"
  "run step (e # es) s = run step es (step e s)"
  by (simp_all add: run_def)

lemma run_append [simp]: "run step (es @ fs) s = run step fs (run step es s)"
  by (simp add: run_def)

locale invariant_system =
  fixes init :: 's
    and step :: "'e \<Rightarrow> 's \<Rightarrow> 's"
    and inv :: "'s \<Rightarrow> bool"
  assumes inv_init: "inv init"
    and inv_step: "inv s \<Longrightarrow> inv (step e s)"
begin

lemma inv_run_from: "inv s \<Longrightarrow> inv (run step es s)"
  by (induction es arbitrary: s) (auto intro: inv_step)

lemma inv_run: "inv (run step es init)"
  by (rule inv_run_from [OF inv_init])

end

end
