(* ===== verification/Json_Value.thy ===== *)
theory Json_Value
  imports PC_Prelude
begin

text \<open>
  The values the program stores, sends and receives: \<open>base::Value\<close>, with \<open>base::DictValue\<close> as
  its dictionaries (entries kept in key order, as the container keeps them) and
  \<open>base::ListValue\<close> as its lists. The typed lookups (\<open>FindString\<close>, \<open>FindInt\<close>, ...) answer only
  when the key holds a value of that type. Reading and writing JSON text is code outside the
  repository and is a parameter of the definitions that use it.
\<close>

datatype jval =
    JNull
  | JBool bool
  | JInt int
  | JDouble rat
  | JString string
  | JList "jval list"
  | JDict "(string \<times> jval) list"

type_synonym dict = "(string, jval) omap"

definition dict_set :: "string \<Rightarrow> jval \<Rightarrow> dict \<Rightarrow> dict" where
  "dict_set k v d = om_put k v d"

definition find_val :: "dict \<Rightarrow> string \<Rightarrow> jval option" where
  "find_val d k = map_of d k"

definition find_string :: "dict \<Rightarrow> string \<Rightarrow> string option" where
  "find_string d k = (case find_val d k of Some (JString s) \<Rightarrow> Some s | _ \<Rightarrow> None)"

definition find_int :: "dict \<Rightarrow> string \<Rightarrow> int option" where
  "find_int d k = (case find_val d k of Some (JInt i) \<Rightarrow> Some i | _ \<Rightarrow> None)"

definition find_bool :: "dict \<Rightarrow> string \<Rightarrow> bool option" where
  "find_bool d k = (case find_val d k of Some (JBool b) \<Rightarrow> Some b | _ \<Rightarrow> None)"

definition find_list :: "dict \<Rightarrow> string \<Rightarrow> jval list option" where
  "find_list d k = (case find_val d k of Some (JList l) \<Rightarrow> Some l | _ \<Rightarrow> None)"

definition find_dict :: "dict \<Rightarrow> string \<Rightarrow> dict option" where
  "find_dict d k = (case find_val d k of Some (JDict e) \<Rightarrow> Some e | _ \<Rightarrow> None)"

text \<open>
  The JSON text library (\<open>base::JSONWriter\<close>, \<open>base::JSONReader\<close>, the file serialisers): writing
  may fail, reading fails on malformed text.
\<close>

record json_lib =
  json_write :: "jval \<Rightarrow> string option"
  json_read :: "string \<Rightarrow> jval option"

text \<open>\<open>value_or\<close> of an optional, and the idiom \<open>if (v = dict.FindX(key)) field = *v;\<close>.\<close>

definition value_or :: "'a option \<Rightarrow> 'a \<Rightarrow> 'a" where
  "value_or v d = (case v of Some x \<Rightarrow> x | None \<Rightarrow> d)"

definition as_string :: "jval \<Rightarrow> string option" where
  "as_string v = (case v of JString s \<Rightarrow> Some s | _ \<Rightarrow> None)"

definition as_dict :: "jval \<Rightarrow> dict option" where
  "as_dict v = (case v of JDict d \<Rightarrow> Some d | _ \<Rightarrow> None)"

definition as_list :: "jval \<Rightarrow> jval list option" where
  "as_list v = (case v of JList l \<Rightarrow> Some l | _ \<Rightarrow> None)"

named_theorems dict_simps "lookups in dictionaries"

lemma value_or_simps [simp, dict_simps]: "value_or (Some x) d = x" "value_or None d = d"
  by (simp_all add: value_or_def)

lemma value_or_if [dict_simps]: "value_or (if b then Some x else v) d = (if b then x else value_or v d)"
  by simp

lemma find_val_set [simp, dict_simps]:
  "find_val (dict_set k v d) k' = (if k' = k then Some v else find_val d k')"
  by (simp add: find_val_def dict_set_def)

lemma find_val_Nil [simp, dict_simps]: "find_val [] k = None"
  by (simp add: find_val_def)

lemma find_string_set [simp, dict_simps]:
  "find_string (dict_set k v d) k' = (if k' = k then as_string v else find_string d k')"
  by (simp add: find_string_def as_string_def split: jval.splits)

lemma find_int_set [simp, dict_simps]:
  "find_int (dict_set k v d) k' =
     (if k' = k then (case v of JInt i \<Rightarrow> Some i | _ \<Rightarrow> None) else find_int d k')"
  by (simp add: find_int_def split: jval.splits)

lemma find_bool_set [simp, dict_simps]:
  "find_bool (dict_set k v d) k' =
     (if k' = k then (case v of JBool i \<Rightarrow> Some i | _ \<Rightarrow> None) else find_bool d k')"
  by (simp add: find_bool_def split: jval.splits)

lemma find_list_set [simp, dict_simps]:
  "find_list (dict_set k v d) k' = (if k' = k then as_list v else find_list d k')"
  by (simp add: find_list_def as_list_def split: jval.splits)

lemma find_dict_set [simp, dict_simps]:
  "find_dict (dict_set k v d) k' = (if k' = k then as_dict v else find_dict d k')"
  by (simp add: find_dict_def as_dict_def split: jval.splits)

lemma find_Nil [simp, dict_simps]:
  "find_string [] k = None" "find_int [] k = None" "find_bool [] k = None"
  "find_list [] k = None" "find_dict [] k = None"
  by (simp_all add: find_string_def find_int_def find_bool_def find_list_def find_dict_def)

lemma as_simps [simp, dict_simps]:
  "as_string (JString s) = Some s" "as_string (JInt i) = None" "as_string (JBool b) = None"
  "as_string (JList l) = None" "as_string (JDict d) = None"
  "as_list (JList l) = Some l" "as_list (JString s) = None" "as_list (JInt i) = None"
  "as_list (JBool b) = None" "as_list (JDict d) = None"
  "as_dict (JDict d) = Some d" "as_dict (JString s) = None" "as_dict (JInt i) = None"
  "as_dict (JBool b) = None" "as_dict (JList l) = None"
  by (simp_all add: as_string_def as_list_def as_dict_def)

text \<open>A conditional \<open>Set\<close>, the shape of most of the serialisers.\<close>

definition set_if :: "bool \<Rightarrow> string \<Rightarrow> jval \<Rightarrow> dict \<Rightarrow> dict" where
  "set_if b k v d = (if b then dict_set k v d else d)"

lemma find_set_if [simp, dict_simps]:
  "find_val (set_if b k v d) k' = (if b \<and> k' = k then Some v else find_val d k')"
  "find_string (set_if b k v d) k' = (if b \<and> k' = k then as_string v else find_string d k')"
  "find_int (set_if b k v d) k' =
     (if b \<and> k' = k then (case v of JInt i \<Rightarrow> Some i | _ \<Rightarrow> None) else find_int d k')"
  "find_bool (set_if b k v d) k' =
     (if b \<and> k' = k then (case v of JBool i \<Rightarrow> Some i | _ \<Rightarrow> None) else find_bool d k')"
  "find_list (set_if b k v d) k' = (if b \<and> k' = k then as_list v else find_list d k')"
  "find_dict (set_if b k v d) k' = (if b \<and> k' = k then as_dict v else find_dict d k')"
  by (simp_all add: set_if_def)

lemma om_ok_dict_set [simp, inv_intros]: "om_ok d \<Longrightarrow> om_ok (dict_set k v d)"
  by (simp add: dict_set_def)

lemma om_ok_set_if [simp, inv_intros]: "om_ok d \<Longrightarrow> om_ok (set_if b k v d)"
  by (simp add: set_if_def)

end
