(* ===== verification/Workspace_Model.thy ===== *)
theory Workspace_Model
  imports Json_Value "HOL-Library.Word"
begin

text \<open>
  The data model, \<open>browser/profiles/workspace.{h,cc}\<close>: the \<open>Workspace\<close> struct with its default
  field values, its tags, and the conversions to and from the dictionaries that are stored on
  disk and sent to the clients. \<open>base::Time\<close> is the count of microseconds since the Windows
  epoch with 0 as the null time; its calendar functions \<open>UTCExplode\<close> and \<open>FromUTCString\<close> are
  not in the repository and are the parameter \<open>time_lib\<close>. The random sources
  (\<open>base::Uuid\<close>, \<open>std::random_device\<close>) and the clock are arguments.
\<close>

subsection \<open>Types\<close>

datatype wtype = KNormal | KFingerprint

record profile_tag =
  pt_tag :: string
  pt_color :: string

record workspace =
  ws_id :: string
  ws_name :: string
  ws_type :: wtype
  ws_color :: "32 word"
  ws_default_tab_title :: string
  ws_notes :: string
  ws_fingerprint_seed :: int
  ws_user_agent :: string
  ws_screen_width :: int
  ws_screen_height :: int
  ws_gpu_vendor :: string
  ws_gpu_renderer :: string
  ws_hardware_concurrency :: int
  ws_platform :: string
  ws_color_scheme :: string
  ws_proxy :: string
  ws_timezone :: string
  ws_locale :: string
  ws_geoip :: bool
  ws_humanize :: bool
  ws_human_preset :: string
  ws_headless :: bool
  ws_clipboard_sync :: bool
  ws_launch_args :: "string list"
  ws_auto_launch :: bool
  ws_tags :: "profile_tag list"
  ws_user_data_dir :: string
  ws_status :: string
  ws_cdp_url :: string
  ws_created_at :: int
  ws_updated_at :: int

text \<open>A default-constructed \<open>Workspace\<close>: the member initialisers of the header.\<close>

definition workspace_default :: workspace where
  "workspace_default = \<lparr>
     ws_id = [], ws_name = [], ws_type = KNormal, ws_color = 0xFF6366F1,
     ws_default_tab_title = [], ws_notes = [], ws_fingerprint_seed = 0, ws_user_agent = [],
     ws_screen_width = 1920, ws_screen_height = 1080, ws_gpu_vendor = [], ws_gpu_renderer = [],
     ws_hardware_concurrency = 0, ws_platform = [], ws_color_scheme = [], ws_proxy = [],
     ws_timezone = [], ws_locale = [], ws_geoip = False, ws_humanize = False,
     ws_human_preset = [], ws_headless = False, ws_clipboard_sync = True, ws_launch_args = [],
     ws_auto_launch = False, ws_tags = [], ws_user_data_dir = [], ws_status = [],
     ws_cdp_url = [], ws_created_at = 0, ws_updated_at = 0\<rparr>"

definition type_to_string :: "wtype \<Rightarrow> string" where
  "type_to_string t = (case t of KNormal \<Rightarrow> ''normal'' | KFingerprint \<Rightarrow> ''fingerprint'')"

definition string_to_type :: "string \<Rightarrow> wtype" where
  "string_to_type s = (if s = ''fingerprint'' then KFingerprint else KNormal)"

lemma string_to_type_to_string [simp]: "string_to_type (type_to_string t) = t"
  by (cases t) (simp_all add: string_to_type_def type_to_string_def)

subsection \<open>Times\<close>

record exploded =
  ex_year :: int
  ex_month :: int
  ex_day_of_month :: int
  ex_hour :: int
  ex_minute :: int
  ex_second :: int
  ex_millisecond :: int

record time_lib =
  utc_explode :: "int \<Rightarrow> exploded"
  from_utc_string :: "string \<Rightarrow> int option"

text \<open>\<open>TimeToString\<close>: \<open>snprintf\<close> into a buffer of 32 bytes, which keeps 31 characters.\<close>

definition time_to_string :: "time_lib \<Rightarrow> int \<Rightarrow> string" where
  "time_to_string tlib t =
     (if t = 0 then []
      else let e = utc_explode tlib t
           in take 31 (show_pad 4 (ex_year e) @ ''-'' @ show_pad 2 (ex_month e) @ ''-'' @
                show_pad 2 (ex_day_of_month e) @ ''T'' @ show_pad 2 (ex_hour e) @ '':'' @
                show_pad 2 (ex_minute e) @ '':'' @ show_pad 2 (ex_second e) @ ''.'' @
                show_pad 3 (ex_millisecond e) @ ''Z''))"

text \<open>\<open>spaced[pos] = ' '\<close> at the first \<open>T\<close>, when there is one.\<close>

definition space_for_T :: "string \<Rightarrow> string option" where
  "space_for_T s = (case str_find ''T'' s of None \<Rightarrow> None | Some pos \<Rightarrow> Some (s[pos := CHR '' '']))"

definition time_from_string :: "time_lib \<Rightarrow> string \<Rightarrow> int" where
  "time_from_string tlib s =
     (if s = [] then 0
      else case from_utc_string tlib s of
             Some t \<Rightarrow> t
           | None \<Rightarrow>
               (case space_for_T s of
                  None \<Rightarrow> 0
                | Some spaced \<Rightarrow> value_or (from_utc_string tlib spaced) 0))"

subsection \<open>Tags\<close>

abbreviation (input) "kTagKey \<equiv> ''tag''"
abbreviation (input) "kTagColorKey \<equiv> ''color''"

definition tag_to_dict :: "profile_tag \<Rightarrow> dict" where
  "tag_to_dict t =
     (let d = [];
          d = dict_set kTagKey (JString (pt_tag t)) d;
          d = dict_set kTagColorKey (JString (pt_color t)) d
      in d)"

definition tag_from_dict :: "dict \<Rightarrow> profile_tag" where
  "tag_from_dict d =
     \<lparr>pt_tag = value_or (find_string d kTagKey) [],
      pt_color = value_or (find_string d kTagColorKey) []\<rparr>"

lemma tag_round_trip [simp]: "tag_from_dict (tag_to_dict t) = t"
  by (simp add: tag_from_dict_def tag_to_dict_def Let_def)

subsection \<open>Workspaces as dictionaries\<close>

definition workspace_to_dict :: "time_lib \<Rightarrow> workspace \<Rightarrow> dict" where
  "workspace_to_dict tlib w =
     (let d = [];
          d = dict_set ''id'' (JString (ws_id w)) d;
          d = dict_set ''name'' (JString (ws_name w)) d;
          d = dict_set ''type'' (JString (type_to_string (ws_type w))) d;
          d = dict_set ''color'' (JInt (sint (ws_color w))) d;
          d = set_if (ws_default_tab_title w \<noteq> []) ''default_tab_title'' (JString (ws_default_tab_title w)) d;
          d = set_if (ws_notes w \<noteq> []) ''notes'' (JString (ws_notes w)) d;
          d = dict_set ''fingerprint_seed'' (JInt (ws_fingerprint_seed w)) d;
          d = set_if (ws_user_agent w \<noteq> []) ''user_agent'' (JString (ws_user_agent w)) d;
          d = dict_set ''screen_width'' (JInt (ws_screen_width w)) d;
          d = dict_set ''screen_height'' (JInt (ws_screen_height w)) d;
          d = set_if (ws_gpu_vendor w \<noteq> []) ''gpu_vendor'' (JString (ws_gpu_vendor w)) d;
          d = set_if (ws_gpu_renderer w \<noteq> []) ''gpu_renderer'' (JString (ws_gpu_renderer w)) d;
          d = set_if (ws_hardware_concurrency w \<noteq> 0) ''hardware_concurrency'' (JInt (ws_hardware_concurrency w)) d;
          d = set_if (ws_platform w \<noteq> []) ''platform'' (JString (ws_platform w)) d;
          d = set_if (ws_color_scheme w \<noteq> []) ''color_scheme'' (JString (ws_color_scheme w)) d;
          d = set_if (ws_proxy w \<noteq> []) ''proxy'' (JString (ws_proxy w)) d;
          d = set_if (ws_timezone w \<noteq> []) ''timezone'' (JString (ws_timezone w)) d;
          d = set_if (ws_locale w \<noteq> []) ''locale'' (JString (ws_locale w)) d;
          d = dict_set ''geoip'' (JBool (ws_geoip w)) d;
          d = dict_set ''humanize'' (JBool (ws_humanize w)) d;
          d = set_if (ws_human_preset w \<noteq> []) ''human_preset'' (JString (ws_human_preset w)) d;
          d = dict_set ''headless'' (JBool (ws_headless w)) d;
          d = dict_set ''clipboard_sync'' (JBool (ws_clipboard_sync w)) d;
          d = dict_set ''auto_launch'' (JBool (ws_auto_launch w)) d;
          d = dict_set ''launch_args'' (JList (map JString (ws_launch_args w))) d;
          d = dict_set ''tags'' (JList (map (\<lambda>t. JDict (tag_to_dict t)) (ws_tags w))) d;
          d = dict_set ''created_at'' (JString (time_to_string tlib (ws_created_at w))) d;
          d = dict_set ''updated_at'' (JString (time_to_string tlib (ws_updated_at w))) d
      in d)"

text \<open>The two list fields: items of the wrong type are skipped.\<close>

definition strings_of :: "jval list \<Rightarrow> string list" where
  "strings_of l = List.map_filter as_string l"

definition tags_of :: "jval list \<Rightarrow> profile_tag list" where
  "tags_of l = map tag_from_dict (List.map_filter as_dict l)"

definition workspace_from_dict :: "time_lib \<Rightarrow> dict \<Rightarrow> workspace" where
  "workspace_from_dict tlib d =
     (let w = workspace_default in
      \<lparr>ws_id = value_or (find_string d ''id'') (ws_id w),
       ws_name = value_or (find_string d ''name'') (ws_name w),
       ws_type = value_or (map_option string_to_type (find_string d ''type'')) (ws_type w),
       ws_color = value_or (map_option word_of_int (find_int d ''color'')) (ws_color w),
       ws_default_tab_title = value_or (find_string d ''default_tab_title'') (ws_default_tab_title w),
       ws_notes = value_or (find_string d ''notes'') (ws_notes w),
       ws_fingerprint_seed = value_or (find_int d ''fingerprint_seed'') (ws_fingerprint_seed w),
       ws_user_agent = value_or (find_string d ''user_agent'') (ws_user_agent w),
       ws_screen_width = value_or (find_int d ''screen_width'') (ws_screen_width w),
       ws_screen_height = value_or (find_int d ''screen_height'') (ws_screen_height w),
       ws_gpu_vendor = value_or (find_string d ''gpu_vendor'') (ws_gpu_vendor w),
       ws_gpu_renderer = value_or (find_string d ''gpu_renderer'') (ws_gpu_renderer w),
       ws_hardware_concurrency = value_or (find_int d ''hardware_concurrency'') (ws_hardware_concurrency w),
       ws_platform = value_or (find_string d ''platform'') (ws_platform w),
       ws_color_scheme = value_or (find_string d ''color_scheme'') (ws_color_scheme w),
       ws_proxy = value_or (find_string d ''proxy'') (ws_proxy w),
       ws_timezone = value_or (find_string d ''timezone'') (ws_timezone w),
       ws_locale = value_or (find_string d ''locale'') (ws_locale w),
       ws_geoip = value_or (find_bool d ''geoip'') (ws_geoip w),
       ws_humanize = value_or (find_bool d ''humanize'') (ws_humanize w),
       ws_human_preset = value_or (find_string d ''human_preset'') (ws_human_preset w),
       ws_headless = value_or (find_bool d ''headless'') (ws_headless w),
       ws_clipboard_sync = value_or (find_bool d ''clipboard_sync'') (ws_clipboard_sync w),
       ws_launch_args = value_or (map_option strings_of (find_list d ''launch_args'')) (ws_launch_args w),
       ws_auto_launch = value_or (find_bool d ''auto_launch'') (ws_auto_launch w),
       ws_tags = value_or (map_option tags_of (find_list d ''tags'')) (ws_tags w),
       ws_user_data_dir = ws_user_data_dir w,
       ws_status = ws_status w,
       ws_cdp_url = ws_cdp_url w,
       ws_created_at = value_or (map_option (time_from_string tlib) (find_string d ''created_at'')) (ws_created_at w),
       ws_updated_at = value_or (map_option (time_from_string tlib) (find_string d ''updated_at'')) (ws_updated_at w)\<rparr>)"

subsection \<open>Creation\<close>

definition create_basic :: "string \<Rightarrow> int \<Rightarrow> int \<Rightarrow> string \<Rightarrow> wtype \<Rightarrow> workspace" where
  "create_basic gen_id gen_seed now name type =
     workspace_default
       \<lparr>ws_id := gen_id, ws_name := name, ws_type := type, ws_fingerprint_seed := gen_seed,
        ws_screen_width := 1920, ws_screen_height := 1080, ws_platform := ''windows'',
        ws_clipboard_sync := True, ws_human_preset := ''default'', ws_color := 0xFF6366F1,
        ws_created_at := now, ws_updated_at := now\<rparr>"

subsection \<open>What survives a round trip\<close>

text \<open>
  What the dictionary keeps of a workspace: everything but the runtime fields, which are reset,
  and the sub-millisecond part of the two times.
\<close>

definition time_view :: "time_lib \<Rightarrow> int \<Rightarrow> int" where
  "time_view tlib t = time_from_string tlib (time_to_string tlib t)"

definition persisted :: "time_lib \<Rightarrow> workspace \<Rightarrow> workspace" where
  "persisted tlib w = w
     \<lparr>ws_user_data_dir := [], ws_status := [], ws_cdp_url := [],
      ws_created_at := time_view tlib (ws_created_at w),
      ws_updated_at := time_view tlib (ws_updated_at w)\<rparr>"

lemma strings_of_map [simp]: "strings_of (map JString xs) = xs"
  by (induction xs) (simp_all add: strings_of_def List.map_filter_simps)

lemma tags_of_map [simp]: "tags_of (map (\<lambda>t. JDict (tag_to_dict t)) ts) = ts"
  by (induction ts) (simp_all add: tags_of_def List.map_filter_simps)

text \<open>What each key of the dictionary holds; the serialiser is not unfolded after this.\<close>

lemmas lookup_simps = dict_simps as_string_def as_list_def jval.case list.inject list.distinct char.inject
  simp_thms if_True if_False

lemma find_string_to_dict [simp]:
  "find_string (workspace_to_dict tlib w) ''id'' = Some (ws_id w)"
  "find_string (workspace_to_dict tlib w) ''name'' = Some (ws_name w)"
  "find_string (workspace_to_dict tlib w) ''type'' = Some (type_to_string (ws_type w))"
  "find_string (workspace_to_dict tlib w) ''default_tab_title'' = (if ws_default_tab_title w \<noteq> [] then Some (ws_default_tab_title w) else None)"
  "find_string (workspace_to_dict tlib w) ''notes'' = (if ws_notes w \<noteq> [] then Some (ws_notes w) else None)"
  "find_string (workspace_to_dict tlib w) ''user_agent'' = (if ws_user_agent w \<noteq> [] then Some (ws_user_agent w) else None)"
  "find_string (workspace_to_dict tlib w) ''gpu_vendor'' = (if ws_gpu_vendor w \<noteq> [] then Some (ws_gpu_vendor w) else None)"
  "find_string (workspace_to_dict tlib w) ''gpu_renderer'' = (if ws_gpu_renderer w \<noteq> [] then Some (ws_gpu_renderer w) else None)"
  "find_string (workspace_to_dict tlib w) ''platform'' = (if ws_platform w \<noteq> [] then Some (ws_platform w) else None)"
  "find_string (workspace_to_dict tlib w) ''color_scheme'' = (if ws_color_scheme w \<noteq> [] then Some (ws_color_scheme w) else None)"
  "find_string (workspace_to_dict tlib w) ''proxy'' = (if ws_proxy w \<noteq> [] then Some (ws_proxy w) else None)"
  "find_string (workspace_to_dict tlib w) ''timezone'' = (if ws_timezone w \<noteq> [] then Some (ws_timezone w) else None)"
  "find_string (workspace_to_dict tlib w) ''locale'' = (if ws_locale w \<noteq> [] then Some (ws_locale w) else None)"
  "find_string (workspace_to_dict tlib w) ''human_preset'' = (if ws_human_preset w \<noteq> [] then Some (ws_human_preset w) else None)"
  "find_string (workspace_to_dict tlib w) ''created_at'' = Some (time_to_string tlib (ws_created_at w))"
  "find_string (workspace_to_dict tlib w) ''updated_at'' = Some (time_to_string tlib (ws_updated_at w))"
  unfolding workspace_to_dict_def Let_def by (simp_all only: lookup_simps)

lemma find_other_to_dict [simp]:
  "find_int (workspace_to_dict tlib w) ''color'' = Some (sint (ws_color w))"
  "find_int (workspace_to_dict tlib w) ''fingerprint_seed'' = Some (ws_fingerprint_seed w)"
  "find_int (workspace_to_dict tlib w) ''screen_width'' = Some (ws_screen_width w)"
  "find_int (workspace_to_dict tlib w) ''screen_height'' = Some (ws_screen_height w)"
  "find_int (workspace_to_dict tlib w) ''hardware_concurrency'' =
     (if ws_hardware_concurrency w \<noteq> 0 then Some (ws_hardware_concurrency w) else None)"
  "find_bool (workspace_to_dict tlib w) ''geoip'' = Some (ws_geoip w)"
  "find_bool (workspace_to_dict tlib w) ''humanize'' = Some (ws_humanize w)"
  "find_bool (workspace_to_dict tlib w) ''headless'' = Some (ws_headless w)"
  "find_bool (workspace_to_dict tlib w) ''clipboard_sync'' = Some (ws_clipboard_sync w)"
  "find_bool (workspace_to_dict tlib w) ''auto_launch'' = Some (ws_auto_launch w)"
  "find_list (workspace_to_dict tlib w) ''launch_args'' = Some (map JString (ws_launch_args w))"
  "find_list (workspace_to_dict tlib w) ''tags'' = Some (map (\<lambda>t. JDict (tag_to_dict t)) (ws_tags w))"
  unfolding workspace_to_dict_def Let_def by (simp_all only: lookup_simps)

lemma om_ok_to_dict [simp]: "om_ok (workspace_to_dict tlib w)"
  by (simp add: workspace_to_dict_def Let_def)

lemma from_to_dict: "workspace_from_dict tlib (workspace_to_dict tlib w) = persisted tlib w"
  by (rule workspace.equality)
    (simp_all add: workspace_from_dict_def persisted_def Let_def workspace_default_def time_view_def)

lemma persisted_id [simp]: "ws_id (persisted tlib w) = ws_id w"
  by (simp add: persisted_def)

lemma from_dict_runtime [simp]:
  "ws_status (workspace_from_dict tlib d) = []"
  "ws_cdp_url (workspace_from_dict tlib d) = []"
  "ws_user_data_dir (workspace_from_dict tlib d) = []"
  by (simp_all add: workspace_from_dict_def workspace_default_def Let_def)

end
