(* ===== verification/Workspace_Store.thy ===== *)
theory Workspace_Store
  imports Workspace_Model
begin

text \<open>
  The workspace store, \<open>browser/profiles/workspace_store.{h,cc}\<close>: the map of workspaces, its
  CRUD operations, the observers they notify and the file they are saved to. The file is read
  and written by tasks on one sequenced background runner, so the queue of posted tasks, the
  file and the replies that come back to the UI sequence are part of the state: the theory
  models the races between loading and the operations that come before it. The operating
  system's answers (is the directory there or can it be made, does a write succeed, what does a
  failed one leave of the file) are fields of the disk.
\<close>

subsection \<open>State\<close>

datatype ws_event =
    WorkspaceAdded workspace
  | WorkspaceUpdated workspace
  | WorkspaceRemoved string
  | WorkspacesChanged

datatype file_task = ReadFile | WriteFile dict

record store =
  st_workspaces :: "(string, workspace) omap"
  st_initialized :: bool
  st_observers :: "nat list"
  st_log :: "(nat \<times> ws_event) list"
  st_file_tasks :: "file_task list"

record disk =
  dk_dir_ok :: bool
  dk_write_ok :: bool
  dk_file :: "string option"
  dk_torn :: "string option"

definition new_store :: store where
  "new_store = \<lparr>st_workspaces = [], st_initialized = False, st_observers = [], st_log = [],
                st_file_tasks = []\<rparr>"

subsection \<open>The file\<close>

definition read_workspaces_file :: "json_lib \<Rightarrow> disk \<Rightarrow> dict option" where
  "read_workspaces_file jl dk =
     (case dk_file dk of
        None \<Rightarrow> None
      | Some txt \<Rightarrow> (case json_read jl txt of
                       None \<Rightarrow> None
                     | Some v \<Rightarrow> as_dict v))"

definition write_workspaces_file :: "json_lib \<Rightarrow> dict \<Rightarrow> disk \<Rightarrow> bool \<times> disk" where
  "write_workspaces_file jl d dk =
     (if \<not> dk_dir_ok dk then (False, dk)
      else case json_write jl (JDict d) of
             None \<Rightarrow> (False, dk)
           | Some txt \<Rightarrow> if dk_write_ok dk then (True, dk\<lparr>dk_file := Some txt\<rparr>)
                         else (False, dk\<lparr>dk_file := dk_torn dk\<rparr>))"

text \<open>The dictionary \<open>SaveToDisk\<close> builds, and the posting of the write.\<close>

definition saved_dict :: "time_lib \<Rightarrow> store \<Rightarrow> dict" where
  "saved_dict tlib st =
     (let d = [];
          d = dict_set ''version'' (JInt 1) d;
          d = dict_set ''workspaces''
                (JList (map (\<lambda>(i, w). JDict (workspace_to_dict tlib w)) (st_workspaces st))) d
      in d)"

definition save_to_disk :: "time_lib \<Rightarrow> store \<Rightarrow> store" where
  "save_to_disk tlib st = st\<lparr>st_file_tasks := st_file_tasks st @ [WriteFile (saved_dict tlib st)]\<rparr>"

definition flush :: "time_lib \<Rightarrow> store \<Rightarrow> store" where
  "flush tlib st = save_to_disk tlib st"

definition store_init :: "store \<Rightarrow> store" where
  "store_init st = st\<lparr>st_file_tasks := st_file_tasks st @ [ReadFile]\<rparr>"

subsection \<open>Observers\<close>

definition add_observer :: "nat \<Rightarrow> store \<Rightarrow> store" where
  "add_observer ob st =
     (if ob \<in> set (st_observers st) then st else st\<lparr>st_observers := st_observers st @ [ob]\<rparr>)"

definition remove_observer :: "nat \<Rightarrow> store \<Rightarrow> store" where
  "remove_observer ob st = st\<lparr>st_observers := filter (\<lambda>x. x \<noteq> ob) (st_observers st)\<rparr>"

definition notify :: "ws_event \<Rightarrow> store \<Rightarrow> store" where
  "notify ev st = st\<lparr>st_log := st_log st @ map (\<lambda>ob. (ob, ev)) (st_observers st)\<rparr>"

subsection \<open>Loading\<close>

definition put_workspace :: "workspace \<Rightarrow> store \<Rightarrow> store" where
  "put_workspace w st = st\<lparr>st_workspaces := om_put (ws_id w) w (st_workspaces st)\<rparr>"

definition emplace_workspace :: "workspace \<Rightarrow> store \<Rightarrow> store" where
  "emplace_workspace w st = st\<lparr>st_workspaces := om_emplace (ws_id w) w (st_workspaces st)\<rparr>"

definition disk_workspaces :: "time_lib \<Rightarrow> jval list \<Rightarrow> workspace list" where
  "disk_workspaces tlib items = map (workspace_from_dict tlib) (List.map_filter as_dict items)"

definition on_init_data :: "time_lib \<Rightarrow> dict option \<Rightarrow> store \<Rightarrow> store" where
  "on_init_data tlib data st =
     (let st = st\<lparr>st_initialized := True\<rparr> in
      case data of
        None \<Rightarrow> st
      | Some d \<Rightarrow>
          (case find_list d ''workspaces'' of
             None \<Rightarrow> st
           | Some items \<Rightarrow>
               if st_workspaces st = []
               then fold put_workspace (disk_workspaces tlib items) st
               else fold emplace_workspace (disk_workspaces tlib items) st))"

subsection \<open>CRUD\<close>

definition create_workspace ::
  "time_lib \<Rightarrow> string \<Rightarrow> int \<Rightarrow> int \<Rightarrow> workspace \<Rightarrow> store \<Rightarrow> workspace \<times> store" where
  "create_workspace tlib gen_id gen_seed now w st =
     (let w = (if ws_id w = [] then w\<lparr>ws_id := gen_id\<rparr> else w);
          w = (if ws_fingerprint_seed w = 0 then w\<lparr>ws_fingerprint_seed := gen_seed\<rparr> else w);
          w = w\<lparr>ws_created_at := now, ws_updated_at := now\<rparr>;
          st = put_workspace w st;
          st = save_to_disk tlib st;
          st = notify (WorkspaceAdded w) st;
          st = notify WorkspacesChanged st
      in (w, st))"

definition get_workspace :: "store \<Rightarrow> string \<Rightarrow> workspace option" where
  "get_workspace st i = map_of (st_workspaces st) i"

definition get_all_workspaces :: "store \<Rightarrow> workspace list" where
  "get_all_workspaces st = map snd (st_workspaces st)"

definition rename_workspace :: "time_lib \<Rightarrow> int \<Rightarrow> string \<Rightarrow> string \<Rightarrow> store \<Rightarrow> bool \<times> store" where
  "rename_workspace tlib now i new_name st =
     (case map_of (st_workspaces st) i of
        None \<Rightarrow> (False, st)
      | Some old \<Rightarrow>
          let w = old\<lparr>ws_name := new_name, ws_updated_at := now\<rparr>;
              st = st\<lparr>st_workspaces := om_put i w (st_workspaces st)\<rparr>;
              st = save_to_disk tlib st;
              st = notify (WorkspaceUpdated w) st;
              st = notify WorkspacesChanged st
          in (True, st))"

definition update_workspace :: "time_lib \<Rightarrow> int \<Rightarrow> workspace \<Rightarrow> store \<Rightarrow> bool \<times> store" where
  "update_workspace tlib now w st =
     (case map_of (st_workspaces st) (ws_id w) of
        None \<Rightarrow> (False, st)
      | Some old \<Rightarrow>
          let preserved_type = ws_type old;
              preserved_created = ws_created_at old;
              w = w\<lparr>ws_type := preserved_type, ws_created_at := preserved_created,
                    ws_updated_at := now\<rparr>;
              st = st\<lparr>st_workspaces := om_put (ws_id w) w (st_workspaces st)\<rparr>;
              st = save_to_disk tlib st;
              st = notify (WorkspaceUpdated w) st;
              st = notify WorkspacesChanged st
          in (True, st))"

definition delete_workspace :: "time_lib \<Rightarrow> string \<Rightarrow> store \<Rightarrow> bool \<times> store" where
  "delete_workspace tlib i st =
     (case map_of (st_workspaces st) i of
        None \<Rightarrow> (False, st)
      | Some old \<Rightarrow>
          let st = st\<lparr>st_workspaces := om_del i (st_workspaces st)\<rparr>;
              st = save_to_disk tlib st;
              st = notify (WorkspaceRemoved i) st;
              st = notify WorkspacesChanged st
          in (True, st))"

definition verify_type :: "store \<Rightarrow> string \<Rightarrow> wtype \<Rightarrow> bool" where
  "verify_type st i t =
     (case map_of (st_workspaces st) i of None \<Rightarrow> False | Some w \<Rightarrow> ws_type w = t)"

subsection \<open>The store with its disk, as a transition system\<close>

record store_sys =
  sy_store :: store
  sy_disk :: disk
  sy_replies :: "dict option list"

text \<open>
  The file runner executes the oldest posted task; a read posts its result back to the UI
  sequence, where it waits as a reply until \<open>OnInitData\<close> is run on it.
\<close>

definition run_file_task :: "json_lib \<Rightarrow> store_sys \<Rightarrow> store_sys" where
  "run_file_task jl sy =
     (case st_file_tasks (sy_store sy) of
        [] \<Rightarrow> sy
      | ReadFile # ts \<Rightarrow>
          sy\<lparr>sy_store := (sy_store sy)\<lparr>st_file_tasks := ts\<rparr>,
             sy_replies := sy_replies sy @ [read_workspaces_file jl (sy_disk sy)]\<rparr>
      | WriteFile d # ts \<Rightarrow>
          sy\<lparr>sy_store := (sy_store sy)\<lparr>st_file_tasks := ts\<rparr>,
             sy_disk := snd (write_workspaces_file jl d (sy_disk sy))\<rparr>)"

definition run_reply :: "time_lib \<Rightarrow> store_sys \<Rightarrow> store_sys" where
  "run_reply tlib sy =
     (case sy_replies sy of
        [] \<Rightarrow> sy
      | r # rs \<Rightarrow> sy\<lparr>sy_store := on_init_data tlib r (sy_store sy), sy_replies := rs\<rparr>)"

datatype store_event =
    EvInit
  | EvFileTask
  | EvReply
  | EvCreate string int int workspace
  | EvRename int string string
  | EvUpdate int workspace
  | EvDelete string
  | EvFlush
  | EvAddObserver nat
  | EvRemoveObserver nat

fun store_step :: "time_lib \<Rightarrow> json_lib \<Rightarrow> store_event \<Rightarrow> store_sys \<Rightarrow> store_sys" where
  "store_step tlib jl EvInit sy = sy\<lparr>sy_store := store_init (sy_store sy)\<rparr>"
| "store_step tlib jl EvFileTask sy = run_file_task jl sy"
| "store_step tlib jl EvReply sy = run_reply tlib sy"
| "store_step tlib jl (EvCreate gid gseed now w) sy =
     sy\<lparr>sy_store := snd (create_workspace tlib gid gseed now w (sy_store sy))\<rparr>"
| "store_step tlib jl (EvRename now i n) sy =
     sy\<lparr>sy_store := snd (rename_workspace tlib now i n (sy_store sy))\<rparr>"
| "store_step tlib jl (EvUpdate now w) sy =
     sy\<lparr>sy_store := snd (update_workspace tlib now w (sy_store sy))\<rparr>"
| "store_step tlib jl (EvDelete i) sy =
     sy\<lparr>sy_store := snd (delete_workspace tlib i (sy_store sy))\<rparr>"
| "store_step tlib jl EvFlush sy = sy\<lparr>sy_store := flush tlib (sy_store sy)\<rparr>"
| "store_step tlib jl (EvAddObserver ob) sy = sy\<lparr>sy_store := add_observer ob (sy_store sy)\<rparr>"
| "store_step tlib jl (EvRemoveObserver ob) sy = sy\<lparr>sy_store := remove_observer ob (sy_store sy)\<rparr>"

definition init_sys :: "disk \<Rightarrow> store_sys" where
  "init_sys dk = \<lparr>sy_store = new_store, sy_disk = dk, sy_replies = []\<rparr>"

subsection \<open>Frame lemmas\<close>

named_theorems store_simps "effects of the store's helpers on its fields"

lemma save_to_disk_fields [simp, store_simps]:
  "st_workspaces (save_to_disk tlib st) = st_workspaces st"
  "st_initialized (save_to_disk tlib st) = st_initialized st"
  "st_observers (save_to_disk tlib st) = st_observers st"
  "st_log (save_to_disk tlib st) = st_log st"
  "st_file_tasks (save_to_disk tlib st) = st_file_tasks st @ [WriteFile (saved_dict tlib st)]"
  by (simp_all add: save_to_disk_def)

lemma notify_fields [simp, store_simps]:
  "st_workspaces (notify ev st) = st_workspaces st"
  "st_initialized (notify ev st) = st_initialized st"
  "st_observers (notify ev st) = st_observers st"
  "st_log (notify ev st) = st_log st @ map (\<lambda>ob. (ob, ev)) (st_observers st)"
  "st_file_tasks (notify ev st) = st_file_tasks st"
  by (simp_all add: notify_def)

lemma observer_fields [simp, store_simps]:
  "st_workspaces (add_observer ob st) = st_workspaces st"
  "st_workspaces (remove_observer ob st) = st_workspaces st"
  "st_workspaces (store_init st) = st_workspaces st"
  "st_workspaces (flush tlib st) = st_workspaces st"
  by (simp_all add: add_observer_def remove_observer_def store_init_def flush_def)

lemma put_workspace_fields [simp, store_simps]:
  "st_workspaces (put_workspace w st) = om_put (ws_id w) w (st_workspaces st)"
  "st_observers (put_workspace w st) = st_observers st"
  "st_log (put_workspace w st) = st_log st"
  "st_file_tasks (put_workspace w st) = st_file_tasks st"
  "st_workspaces (emplace_workspace w st) = om_emplace (ws_id w) w (st_workspaces st)"
  by (simp_all add: put_workspace_def emplace_workspace_def)

lemma saved_dict_workspaces [simp]:
  "find_list (saved_dict tlib st) ''workspaces'' =
     Some (map (\<lambda>(i, w). JDict (workspace_to_dict tlib w)) (st_workspaces st))"
  by (simp add: saved_dict_def)

lemma saved_dict_cong: "st_workspaces s = st_workspaces t \<Longrightarrow> saved_dict tlib s = saved_dict tlib t"
  by (simp add: saved_dict_def)

subsection \<open>The invariant\<close>

text \<open>The entries are in key order and each workspace is filed under its own id.\<close>

definition store_inv :: "store \<Rightarrow> bool" where
  "store_inv st = (om_ok (st_workspaces st) \<and> (\<forall>i w. map_of (st_workspaces st) i = Some w \<longrightarrow> ws_id w = i))"

lemma store_invI:
  "om_ok (st_workspaces st) \<Longrightarrow> (\<And>i w. map_of (st_workspaces st) i = Some w \<Longrightarrow> ws_id w = i) \<Longrightarrow> store_inv st"
  by (simp add: store_inv_def)

lemma store_inv_cong: "st_workspaces s = st_workspaces t \<Longrightarrow> store_inv s = store_inv t"
  by (simp add: store_inv_def)

lemma store_inv_ok: "store_inv st \<Longrightarrow> om_ok (st_workspaces st)"
  by (simp add: store_inv_def)

lemma store_inv_id: "store_inv st \<Longrightarrow> map_of (st_workspaces st) i = Some w \<Longrightarrow> ws_id w = i"
  by (simp add: store_inv_def)

lemma put_workspace_inv [inv_intros]: "store_inv st \<Longrightarrow> store_inv (put_workspace w st)"
  by (auto simp: store_inv_def split: if_splits)

lemma emplace_workspace_inv [inv_intros]: "store_inv st \<Longrightarrow> store_inv (emplace_workspace w st)"
  by (auto simp: store_inv_def split: if_splits)

lemma fold_put_inv [inv_intros]: "store_inv st \<Longrightarrow> store_inv (fold put_workspace ws st)"
  by (induction ws arbitrary: st) (simp_all add: inv_intros)

lemma fold_emplace_inv [inv_intros]: "store_inv st \<Longrightarrow> store_inv (fold emplace_workspace ws st)"
  by (induction ws arbitrary: st) (simp_all add: inv_intros)

lemma store_inv_initialized [simp]: "store_inv (st\<lparr>st_initialized := b\<rparr>) = store_inv st"
  by (simp add: store_inv_def)

lemma on_init_data_inv [inv_intros]: "store_inv st \<Longrightarrow> store_inv (on_init_data tlib data st)"
  by (simp add: on_init_data_def Let_def inv_intros split: option.split)

lemma create_workspace_inv [inv_intros]:
  "store_inv st \<Longrightarrow> store_inv (snd (create_workspace tlib gid gseed now w st))"
  by (auto simp: create_workspace_def Let_def store_inv_def)

lemma rename_workspace_inv [inv_intros]:
  "store_inv st \<Longrightarrow> store_inv (snd (rename_workspace tlib now i n st))"
  by (auto simp: rename_workspace_def Let_def store_inv_def split: option.split)

lemma update_workspace_inv [inv_intros]:
  "store_inv st \<Longrightarrow> store_inv (snd (update_workspace tlib now w st))"
  by (auto simp: update_workspace_def Let_def store_inv_def split: option.split)

lemma delete_workspace_inv [inv_intros]:
  "store_inv st \<Longrightarrow> store_inv (snd (delete_workspace tlib i st))"
  by (auto simp: delete_workspace_def Let_def store_inv_def split: option.split)

lemma run_file_task_workspaces [simp]:
  "st_workspaces (sy_store (run_file_task jl sy)) = st_workspaces (sy_store sy)"
  by (simp add: run_file_task_def split: list.split file_task.split)

lemma store_inv_frame [simp]:
  "store_inv (add_observer ob st) = store_inv st"
  "store_inv (remove_observer ob st) = store_inv st"
  "store_inv (store_init st) = store_inv st"
  "store_inv (flush tlib st) = store_inv st"
  "store_inv (st\<lparr>st_file_tasks := ts\<rparr>) = store_inv st"
  "store_inv (sy_store (run_file_task jl sy)) = store_inv (sy_store sy)"
  by (simp_all add: store_inv_def)

lemma run_reply_inv [inv_intros]: "store_inv (sy_store sy) \<Longrightarrow> store_inv (sy_store (run_reply tlib sy))"
  by (auto simp: run_reply_def split: list.split intro: inv_intros)

lemma store_step_inv: "store_inv (sy_store sy) \<Longrightarrow> store_inv (sy_store (store_step tlib jl e sy))"
  by (cases e) (simp_all add: inv_intros)

interpretation store_system: invariant_system "init_sys dk" "store_step tlib jl" "\<lambda>sy. store_inv (sy_store sy)"
  by unfold_locales (simp_all add: store_step_inv, simp add: init_sys_def new_store_def store_inv_def)

subsection \<open>Specification: the store as a map\<close>

text \<open>The workspace a creation stores: the id and the seed filled in when missing, the times set.\<close>

definition completed :: "string \<Rightarrow> int \<Rightarrow> int \<Rightarrow> workspace \<Rightarrow> workspace" where
  "completed gen_id gen_seed now w =
     w\<lparr>ws_id := (if ws_id w = [] then gen_id else ws_id w),
       ws_fingerprint_seed := (if ws_fingerprint_seed w = 0 then gen_seed else ws_fingerprint_seed w),
       ws_created_at := now, ws_updated_at := now\<rparr>"

text \<open>The workspace an update stores: the id, the type and the creation time of the old one.\<close>

definition revised :: "int \<Rightarrow> workspace \<Rightarrow> workspace \<Rightarrow> workspace" where
  "revised now old w =
     w\<lparr>ws_type := ws_type old, ws_created_at := ws_created_at old, ws_updated_at := now\<rparr>"

definition renamed :: "int \<Rightarrow> string \<Rightarrow> workspace \<Rightarrow> workspace" where
  "renamed now n old = old\<lparr>ws_name := n, ws_updated_at := now\<rparr>"

text \<open>Saving and the two notifications that end every successful operation.\<close>

definition commit :: "time_lib \<Rightarrow> ws_event \<Rightarrow> store \<Rightarrow> store" where
  "commit tlib ev st = notify WorkspacesChanged (notify ev (save_to_disk tlib st))"

lemma commit_fields [simp, store_simps]:
  "st_workspaces (commit tlib ev st) = st_workspaces st"
  "st_observers (commit tlib ev st) = st_observers st"
  "st_file_tasks (commit tlib ev st) = st_file_tasks st @ [WriteFile (saved_dict tlib st)]"
  "st_log (commit tlib ev st) =
     st_log st @ map (\<lambda>ob. (ob, ev)) (st_observers st) @ map (\<lambda>ob. (ob, WorkspacesChanged)) (st_observers st)"
  by (simp_all add: commit_def)

lemma create_workspace_eq:
  "create_workspace tlib gid gseed now w st =
     (let v = completed gid gseed now w
      in (v, commit tlib (WorkspaceAdded v) (put_workspace v st)))"
  by (simp add: create_workspace_def commit_def completed_def Let_def)

lemma rename_workspace_eq:
  "rename_workspace tlib now i n st =
     (case get_workspace st i of
        None \<Rightarrow> (False, st)
      | Some old \<Rightarrow>
          let v = renamed now n old
          in (True, commit tlib (WorkspaceUpdated v) (st\<lparr>st_workspaces := om_put i v (st_workspaces st)\<rparr>)))"
  by (simp add: rename_workspace_def commit_def renamed_def get_workspace_def Let_def split: option.split)

lemma update_workspace_eq:
  "update_workspace tlib now w st =
     (case get_workspace st (ws_id w) of
        None \<Rightarrow> (False, st)
      | Some old \<Rightarrow>
          let v = revised now old w
          in (True, commit tlib (WorkspaceUpdated v) (st\<lparr>st_workspaces := om_put (ws_id w) v (st_workspaces st)\<rparr>)))"
  by (simp add: update_workspace_def commit_def revised_def get_workspace_def Let_def split: option.split)

lemma delete_workspace_eq:
  "delete_workspace tlib i st =
     (case get_workspace st i of
        None \<Rightarrow> (False, st)
      | Some old \<Rightarrow>
          (True, commit tlib (WorkspaceRemoved i) (st\<lparr>st_workspaces := om_del i (st_workspaces st)\<rparr>)))"
  by (simp add: delete_workspace_def commit_def get_workspace_def Let_def split: option.split)

lemmas crud_eqs = create_workspace_eq rename_workspace_eq update_workspace_eq delete_workspace_eq

lemma ws_id_derived [simp]:
  "ws_id (completed gid gseed now w) = (if ws_id w = [] then gid else ws_id w)"
  "ws_id (revised now old w) = ws_id w"
  "ws_id (renamed now n old) = ws_id old"
  by (simp_all add: completed_def revised_def renamed_def)

lemma ws_type_derived [simp]:
  "ws_type (completed gid gseed now w) = ws_type w"
  "ws_type (revised now old w) = ws_type old"
  "ws_type (renamed now n old) = ws_type old"
  by (simp_all add: completed_def revised_def renamed_def)

lemma ws_times_derived [simp]:
  "ws_created_at (completed gid gseed now w) = now"
  "ws_created_at (revised now old w) = ws_created_at old"
  "ws_created_at (renamed now n old) = ws_created_at old"
  by (simp_all add: completed_def revised_def renamed_def)

lemma look_crud:
  "get_workspace (snd (create_workspace tlib gid gseed now w st)) =
     (get_workspace st)(ws_id (completed gid gseed now w) \<mapsto> completed gid gseed now w)"
  "get_workspace (snd (rename_workspace tlib now i n st)) =
     (case get_workspace st i of None \<Rightarrow> get_workspace st
      | Some old \<Rightarrow> (get_workspace st)(i \<mapsto> renamed now n old))"
  "get_workspace (snd (update_workspace tlib now w st)) =
     (case get_workspace st (ws_id w) of None \<Rightarrow> get_workspace st
      | Some old \<Rightarrow> (get_workspace st)(ws_id w \<mapsto> revised now old w))"
  "get_workspace (snd (delete_workspace tlib i st)) = (get_workspace st)(i := None)"
  by (simp_all add: crud_eqs Let_def get_workspace_def fun_eq_iff split: option.split)

lemma ok_crud:
  "fst (rename_workspace tlib now i n st) = (get_workspace st i \<noteq> None)"
  "fst (update_workspace tlib now w st) = (get_workspace st (ws_id w) \<noteq> None)"
  "fst (delete_workspace tlib i st) = (get_workspace st i \<noteq> None)"
  by (simp_all add: crud_eqs Let_def split: option.split)

lemma create_returns: "fst (create_workspace tlib gid gseed now w st) = completed gid gseed now w"
  by (simp add: crud_eqs Let_def)

text \<open>
  The operations a client can call, queries included, on the store and on the specification: a map
  from ids to workspaces. A listing of the map is in the order of the ids.
\<close>

datatype store_op =
    CreateOp string int int workspace
  | RenameOp int string string
  | UpdateOp int workspace
  | DeleteOp string
  | GetOp string
  | GetAllOp
  | VerifyOp string wtype

datatype store_reply = Stored workspace | Succeeded bool | Found "workspace option" | Listed "workspace list"

fun on_store :: "time_lib \<Rightarrow> store_op \<Rightarrow> store \<Rightarrow> store_reply \<times> store" where
  "on_store tlib (CreateOp gid gseed now w) st = apfst Stored (create_workspace tlib gid gseed now w st)"
| "on_store tlib (RenameOp now i n) st = apfst Succeeded (rename_workspace tlib now i n st)"
| "on_store tlib (UpdateOp now w) st = apfst Succeeded (update_workspace tlib now w st)"
| "on_store tlib (DeleteOp i) st = apfst Succeeded (delete_workspace tlib i st)"
| "on_store tlib (GetOp i) st = (Found (get_workspace st i), st)"
| "on_store tlib GetAllOp st = (Listed (get_all_workspaces st), st)"
| "on_store tlib (VerifyOp i t) st = (Succeeded (verify_type st i t), st)"

fun on_map :: "store_op \<Rightarrow> (string \<rightharpoonup> workspace) \<Rightarrow> store_reply \<times> (string \<rightharpoonup> workspace)" where
  "on_map (CreateOp gid gseed now w) m =
     (let v = completed gid gseed now w in (Stored v, m(ws_id v \<mapsto> v)))"
| "on_map (RenameOp now i n) m =
     (case m i of None \<Rightarrow> (Succeeded False, m) | Some old \<Rightarrow> (Succeeded True, m(i \<mapsto> renamed now n old)))"
| "on_map (UpdateOp now w) m =
     (case m (ws_id w) of None \<Rightarrow> (Succeeded False, m)
      | Some old \<Rightarrow> (Succeeded True, m(ws_id w \<mapsto> revised now old w)))"
| "on_map (DeleteOp i) m = (Succeeded (i \<in> dom m), m(i := None))"
| "on_map (GetOp i) m = (Found (m i), m)"
| "on_map GetAllOp m = (Listed (map (the \<circ> m) (sorted_list_of_set (dom m))), m)"
| "on_map (VerifyOp i t) m = (Succeeded (map_option ws_type (m i) = Some t), m)"

fun perform_all :: "('op \<Rightarrow> 's \<Rightarrow> 'reply \<times> 's) \<Rightarrow> 'op list \<Rightarrow> 's \<Rightarrow> 'reply list \<times> 's" where
  "perform_all f [] s = ([], s)"
| "perform_all f (x # xs) s = (let (r, s) = f x s; (rs, s) = perform_all f xs s in (r # rs, s))"

lemma om_listing:
  "om_ok m \<Longrightarrow> map (the \<circ> map_of m) (sorted_list_of_set (dom (map_of m))) = map snd m"
proof -
  assume ok: "om_ok m"
  have "sorted_list_of_set (dom (map_of m)) = map fst m"
    using ok unfolding dom_map_of_conv_image_fst set_map [symmetric]
    by (intro sorted_list_of_set.idem_if_sorted_distinct) (simp_all add: om_ok_def strict_sorted_iff)
  moreover have "map (the \<circ> map_of m) (map fst m) = map snd m"
    using om_ok_map_of [OF ok] by (auto simp: map_eq_conv)
  ultimately show ?thesis by simp
qed

lemma store_simulates_map:
  assumes "store_inv st"
  shows "on_map x (get_workspace st) =
      (fst (on_store tlib x st), get_workspace (snd (on_store tlib x st)))"
    "store_inv (snd (on_store tlib x st))"
proof -
  have "map (the \<circ> get_workspace st) (sorted_list_of_set (dom (get_workspace st))) = get_all_workspaces st"
    using om_listing [OF store_inv_ok [OF assms]] by (simp add: get_all_workspaces_def get_workspace_def [abs_def])
  then show "on_map x (get_workspace st) = (fst (on_store tlib x st), get_workspace (snd (on_store tlib x st)))"
    by (cases x) (auto simp: look_crud ok_crud create_returns Let_def verify_type_def get_workspace_def [symmetric]
        split: option.split)
  show "store_inv (snd (on_store tlib x st))" by (cases x) (simp_all add: assms inv_intros)
qed

text \<open>
  C2 (refinement): the store implements a map from ids to workspaces. In every reachable state, each
  sequence of creations, renames, updates, deletions and queries (one workspace, all of them in the
  order of their ids, whether one has a given type) gets from the store the replies that it gets
  from the map, and leaves the contents that it leaves in the map.
\<close>

theorem store_refines_map:
  "let st = sy_store (run (store_step tlib jl) es (init_sys dk));
       (replies, st') = perform_all (on_store tlib) xs st
   in perform_all on_map xs (get_workspace st) = (replies, get_workspace st')"
proof -
  have "perform_all on_map xs (get_workspace st) =
      (case perform_all (on_store tlib) xs st of (replies, st') \<Rightarrow> (replies, get_workspace st'))"
    if "store_inv st" for st
    using that
  proof (induction xs arbitrary: st)
    case (Cons x xs)
    note one = store_simulates_map [OF Cons.prems, where x = x and tlib = tlib]
    show ?case by (simp add: one(1) Cons.IH [OF one(2)] split_beta)
  qed simp
  from this [OF store_system.inv_run] show ?thesis by (simp add: Let_def split_beta)
qed

text \<open>
  An operation that finds its workspace posts exactly one write, of the
  contents after the operation, and tells every observer first what happened and then, in a
  second pass, that the list changed; an operation on an id that is not there returns false
  and leaves the whole store as it was.
\<close>

theorem crud_commits_once:
  "(case get_workspace st i of
      None \<Rightarrow> delete_workspace tlib i st = (False, st) \<and> rename_workspace tlib now i n st = (False, st)
    | Some old \<Rightarrow>
        (let (ok, st') = delete_workspace tlib i st; (ok2, st2) = rename_workspace tlib now i n st
         in ok \<and> st_file_tasks st' = st_file_tasks st @ [WriteFile (saved_dict tlib st')] \<and>
            st_log st' = st_log st @ map (\<lambda>ob. (ob, WorkspaceRemoved i)) (st_observers st) @
                         map (\<lambda>ob. (ob, WorkspacesChanged)) (st_observers st) \<and>
            ok2 \<and> st_file_tasks st2 = st_file_tasks st @ [WriteFile (saved_dict tlib st2)] \<and>
            st_log st2 = st_log st @ map (\<lambda>ob. (ob, WorkspaceUpdated (renamed now n old))) (st_observers st) @
                         map (\<lambda>ob. (ob, WorkspacesChanged)) (st_observers st)))"
  by (simp add: delete_workspace_eq rename_workspace_eq Let_def saved_dict_def split: option.split)

subsection \<open>The interface the API and the WebUI rely on\<close>

text \<open>
  What the clients of the store use: lookup, creation, full update and deletion, with the laws
  of a map whose entries keep their type. The environment of a creation (generated id, seed,
  time) is its first argument.
\<close>

locale workspace_repo =
  fixes look :: "'s \<Rightarrow> string \<Rightarrow> workspace option"
    and good :: "'s \<Rightarrow> bool"
    and mk :: "'e \<Rightarrow> workspace \<Rightarrow> workspace"
    and create :: "'e \<Rightarrow> workspace \<Rightarrow> 's \<Rightarrow> workspace \<times> 's"
    and update :: "workspace \<Rightarrow> 's \<Rightarrow> bool \<times> 's"
    and delete :: "string \<Rightarrow> 's \<Rightarrow> bool \<times> 's"
  assumes create_result: "fst (create e w s) = mk e w"
    and create_look: "look (snd (create e w s)) = (look s)(ws_id (mk e w) \<mapsto> mk e w)"
    and create_good: "good s \<Longrightarrow> good (snd (create e w s))"
    and update_result: "fst (update w s) = (look s (ws_id w) \<noteq> None)"
    and update_other: "i \<noteq> ws_id w \<Longrightarrow> look (snd (update w s)) i = look s i"
    and update_kept: "look s (ws_id w) = Some old \<Longrightarrow>
          \<exists>v. look (snd (update w s)) (ws_id w) = Some v \<and> ws_type v = ws_type old"
    and update_good: "good s \<Longrightarrow> good (snd (update w s))"
    and delete_result: "fst (delete i s) = (look s i \<noteq> None)"
    and delete_look: "look (snd (delete i s)) = (look s)(i := None)"
    and delete_good: "good s \<Longrightarrow> good (snd (delete i s))"
begin

lemma create_then_look: "look (snd (create e w s)) (ws_id (fst (create e w s))) = Some (fst (create e w s))"
  by (simp add: create_result create_look)

lemma delete_twice: "fst (delete i (snd (delete i s))) = False"
  by (simp add: delete_result delete_look)

lemma update_after_delete: "fst (update w (snd (delete (ws_id w) s))) = False"
  by (simp add: update_result delete_look)

text \<open>Deleting a list of ids one by one removes exactly these and succeeds once per id present.\<close>

lemma fold_delete_look: "look (fold (\<lambda>i s. snd (delete i s)) ids s) = (\<lambda>i. if i \<in> set ids then None else look s i)"
  by (induction ids arbitrary: s) (auto simp: delete_look fun_eq_iff)

lemma fold_delete_good: "good s \<Longrightarrow> good (fold (\<lambda>i s. snd (delete i s)) ids s)"
  by (induction ids arbitrary: s) (simp_all add: delete_good)

lemma count_deletes:
  "snd (fold (\<lambda>i (n, s). let (b, s') = delete i s in (if b then Suc n else n, s')) ids (n, s)) =
     fold (\<lambda>i s. snd (delete i s)) ids s \<and>
   fst (fold (\<lambda>i (n, s). let (b, s') = delete i s in (if b then Suc n else n, s')) ids (n, s)) =
     n + card (set ids \<inter> dom (look s))"
proof (induction ids arbitrary: n s)
  case Nil
  then show ?case by simp
next
  case (Cons i ids)
  obtain b s' where d: "delete i s = (b, s')" by (cases "delete i s")
  have look': "look s' = (look s)(i := None)" using delete_look [of i s] d by simp
  have b: "b = (look s i \<noteq> None)" using delete_result [of i s] d by simp
  have "card (set (i # ids) \<inter> dom (look s)) =
        (if b then Suc (card (set ids \<inter> dom (look s'))) else card (set ids \<inter> dom (look s')))"
  proof (cases b)
    case True
    then have "set (i # ids) \<inter> dom (look s) = insert i (set ids \<inter> dom (look s'))"
      using b look' by auto
    moreover have "i \<notin> set ids \<inter> dom (look s')" using look' by simp
    ultimately show ?thesis using True by simp
  next
    case False
    then have "set (i # ids) \<inter> dom (look s) = set ids \<inter> dom (look s')"
      using b look' by auto
    with False show ?thesis by simp
  qed
  then show ?case using Cons.IH [of "if b then Suc n else n" s'] d by simp
qed

text \<open>Creating a list of workspaces with distinct new ids adds them all and touches nothing else.\<close>

lemma fold_create_look:
  "look (fold (\<lambda>(e, w) s. snd (create e w s)) ews s) i =
     (case map_of (rev (map (\<lambda>(e, w). (ws_id (mk e w), mk e w)) ews)) i of
        Some v \<Rightarrow> Some v | None \<Rightarrow> look s i)"
  by (induction ews arbitrary: s) (auto simp: create_look map_add_def split: option.splits)

lemma fold_create_good: "good s \<Longrightarrow> good (fold (\<lambda>(e, w) s. snd (create e w s)) ews s)"
  by (induction ews arbitrary: s) (auto simp: create_good)

end

interpretation repo: workspace_repo get_workspace store_inv
  "\<lambda>(gid, gseed, now). completed gid gseed now"
  "\<lambda>(gid, gseed, now). create_workspace tlib gid gseed now"
  "update_workspace tlib unow" "delete_workspace tlib"
proof (unfold_locales, goal_cases)
  case (1 e w s)
  then show ?case by (cases e) (simp add: crud_eqs Let_def)
next
  case (2 e w s)
  then show ?case by (cases e) (simp only: prod.case look_crud)
next
  case (3 s e w)
  then show ?case by (cases e) (simp add: inv_intros)
next
  case (6 s w old)
  then show ?case by (simp add: look_crud)
qed (auto simp: look_crud ok_crud inv_intros split: option.split)

subsection \<open>Runs of the store\<close>

text \<open>
  C31 (invariant): whatever the order of loading, file tasks, operations and observers, the map
  is in key order and every workspace is filed under its own id.
\<close>

theorem store_inv_reachable: "store_inv (sy_store (run (store_step tlib jl) es (init_sys dk)))"
  by (rule store_system.inv_run)

text \<open>
  A text library that serves the witnesses: it has one text for each of the two values it
  has to carry.
\<close>

definition two_texts :: "jval \<Rightarrow> jval \<Rightarrow> json_lib" where
  "two_texts u v =
     \<lparr>json_write = (\<lambda>x. if x = u then Some ''U'' else if x = v then Some ''V'' else None),
      json_read = (\<lambda>t. if t = ''U'' then Some u else if t = ''V'' then Some v else None)\<rparr>"

definition iso_times :: time_lib where
  "iso_times = \<lparr>utc_explode = (\<lambda>t. \<lparr>ex_year = 2026, ex_month = 6, ex_day_of_month = 20, ex_hour = 12,
                  ex_minute = 30, ex_second = 5, ex_millisecond = 7\<rparr>),
                from_utc_string = (\<lambda>s. if s = ''2026-06-20T12:30:05.007Z'' then Some 42 else None)\<rparr>"

definition sample_a :: workspace where
  "sample_a = workspace_default\<lparr>ws_id := ''a'', ws_name := ''shop'', ws_created_at := 42\<rparr>"

definition sample_b :: workspace where
  "sample_b = workspace_default\<lparr>ws_id := ''b''\<rparr>"

text \<open>The events that may put another workspace in the place of \<open>i\<close>.\<close>

definition replaces :: "string \<Rightarrow> store_event \<Rightarrow> bool" where
  "replaces i e =
     (case e of
        EvDelete j \<Rightarrow> j = i
      | EvCreate gid gseed now w \<Rightarrow> ws_id (completed gid gseed now w) = i
      | _ \<Rightarrow> False)"

definition same_kind :: "store \<Rightarrow> store \<Rightarrow> string \<Rightarrow> bool" where
  "same_kind st st' i =
     (case get_workspace st i of
        None \<Rightarrow> True
      | Some w \<Rightarrow>
          (case get_workspace st' i of
             None \<Rightarrow> False
           | Some w' \<Rightarrow> ws_type w' = ws_type w \<and> ws_created_at w' = ws_created_at w))"

lemma same_kind_refl: "same_kind st st i"
  by (simp add: same_kind_def split: option.split)

lemma same_kind_trans: "same_kind a b i \<Longrightarrow> same_kind b c i \<Longrightarrow> same_kind a c i"
  by (auto simp: same_kind_def split: option.splits)

lemma same_kindI: "get_workspace st' i = get_workspace st i \<Longrightarrow> same_kind st st' i"
  by (simp add: same_kind_def split: option.split)

lemma map_of_emplace_kept: "map_of m i = Some w \<Longrightarrow> map_of (om_emplace k v m) i = Some w"
  by auto

lemma fold_emplace_look:
  "map_of (st_workspaces st) i = Some w \<Longrightarrow>
   map_of (st_workspaces (fold emplace_workspace ws st)) i = Some w"
  by (induction ws arbitrary: st) (simp_all add: map_of_emplace_kept del: map_of_om_emplace)

lemma on_init_data_keeps:
  "get_workspace st i = Some w \<Longrightarrow> get_workspace (on_init_data tlib data st) i = Some w"
  by (auto simp: on_init_data_def get_workspace_def Let_def fold_emplace_look split: option.splits)

lemma same_kind_reply: "same_kind (sy_store sy) (sy_store (run_reply tlib sy)) i"
  by (auto simp: run_reply_def same_kind_def on_init_data_keeps split: list.split option.split)

lemma same_kind_step:
  assumes "\<not> replaces i e"
  shows "same_kind (sy_store sy) (sy_store (store_step tlib jl e sy)) i"
proof (cases e)
  case EvReply
  then show ?thesis by (simp add: same_kind_reply)
next
  case (EvCreate gid gseed now w)
  with assms show ?thesis
    by (auto intro!: same_kindI simp: look_crud replaces_def simp del: ws_id_derived)
next
  case (EvRename now j n)
  then show ?thesis by (auto simp: look_crud same_kind_def split: option.split)
next
  case (EvUpdate now w)
  then show ?thesis by (auto simp: look_crud same_kind_def split: option.split)
next
  case (EvDelete j)
  with assms show ?thesis by (auto intro!: same_kindI simp: look_crud replaces_def)
qed (simp_all add: same_kind_def get_workspace_def split: option.split)

lemma same_kind_run:
  assumes "\<forall>e\<in>set es. \<not> replaces i e"
  shows "same_kind (sy_store sy) (sy_store (run (store_step tlib jl) es sy)) i"
  using assms
proof (induction es arbitrary: sy)
  case Nil
  then show ?case by (simp add: same_kind_refl)
next
  case (Cons e es)
  then have "\<not> replaces i e" "\<forall>e\<in>set es. \<not> replaces i e" by simp_all
  from same_kind_trans [OF same_kind_step [OF this(1)] Cons.IH [OF this(2)]]
  show ?case by simp
qed

text \<open>
  C9 (safety): type locking. As long as a workspace is not deleted and no workspace is created
  under its id, no sequence of operations, loads and saves changes its type or its creation
  time, and it stays in the store.
\<close>

theorem type_is_locked:
  assumes "\<forall>e\<in>set es. \<not> replaces i e"
  shows "same_kind (sy_store sy) (sy_store (run (store_step tlib jl) es sy)) i"
  using assms by (rule same_kind_run)

theorem type_is_locked_witness:
  "let w = workspace_default\<lparr>ws_id := ''a'', ws_type := KFingerprint\<rparr>;
       dk = \<lparr>dk_dir_ok = True, dk_write_ok = True, dk_file = None, dk_torn = None\<rparr>;
       sy = (init_sys dk)\<lparr>sy_store := put_workspace w new_store\<rparr>;
       es = [EvUpdate 7 (workspace_default\<lparr>ws_id := ''a'', ws_type := KNormal\<rparr>), EvFileTask]
   in same_kind (sy_store sy) (sy_store (run (store_step iso_times (two_texts JNull JNull)) es sy)) ''a'' \<and>
      get_workspace (sy_store sy) ''a'' = Some w"
  unfolding Let_def
  by (intro conjI type_is_locked)
    (simp_all add: replaces_def get_workspace_def new_store_def)

subsection \<open>Saving and loading\<close>

lemma fold_put_workspaces:
  "st_workspaces (fold put_workspace ws st) =
     fold (\<lambda>e. om_put (fst e) (snd e)) (map (\<lambda>w. (ws_id w, w)) ws) (st_workspaces st)"
  by (induction ws arbitrary: st) simp_all

lemma disk_workspaces_saved:
  "disk_workspaces tlib (map (\<lambda>(i, w). JDict (workspace_to_dict tlib w)) m) =
     map (\<lambda>(i, w). persisted tlib w) m"
  by (induction m) (auto simp: disk_workspaces_def List.map_filter_simps from_to_dict)

definition persisted_map :: "time_lib \<Rightarrow> (string, workspace) omap \<Rightarrow> (string, workspace) omap" where
  "persisted_map tlib m = map (\<lambda>(i, w). (i, persisted tlib w)) m"

lemma load_saved:
  assumes inv: "store_inv st" and empty: "st_workspaces st' = []"
  shows "st_workspaces (on_init_data tlib (Some (saved_dict tlib st)) st') =
           persisted_map tlib (st_workspaces st)"
proof -
  let ?m = "st_workspaces st"
  have keys: "map (\<lambda>w. (ws_id w, w)) (map (\<lambda>(i, w). persisted tlib w) ?m) = persisted_map tlib ?m"
    using inv om_ok_map_of [of ?m] by (auto simp: persisted_map_def store_inv_def)
  have "om_ok (persisted_map tlib ?m)"
    using inv by (simp add: persisted_map_def store_inv_def om_ok_map_values)
  from om_rebuild [OF this]
  show ?thesis
    by (simp add: on_init_data_def Let_def empty fold_put_workspaces disk_workspaces_saved keys del: map_map)
qed

lemma lookup_persisted_map:
  "map_of (persisted_map tlib m) i = map_option (persisted tlib) (map_of m i)"
  by (induction m) (auto simp: persisted_map_def)

text \<open>A fresh start on a disk: the store reads the file and gets the reply.\<close>

definition restart :: "time_lib \<Rightarrow> json_lib \<Rightarrow> disk \<Rightarrow> store" where
  "restart tlib jl dk = sy_store (run (store_step tlib jl) [EvInit, EvFileTask, EvReply] (init_sys dk))"

lemma restart_eq: "restart tlib jl dk = on_init_data tlib (read_workspaces_file jl dk) new_store"
  by (simp add: restart_def run_file_task_def run_reply_def init_sys_def store_init_def new_store_def)

text \<open>
  C8 (roundtrip): saving a store and starting again on the file gives back every workspace
  under its id, with all its settings; only the runtime fields are reset and the two times are
  what the calendar text of them parses to. The JSON text library must read back the value it
  wrote, the directory must be there and the write succeed.
\<close>

theorem save_restart_round_trip:
  assumes inv: "store_inv st"
    and ok: "dk_dir_ok dk" "dk_write_ok dk"
    and wr: "json_write jl (JDict (saved_dict tlib st)) = Some txt"
    and rd: "json_read jl txt = Some (JDict (saved_dict tlib st))"
  shows "fst (write_workspaces_file jl (saved_dict tlib st) dk) \<and>
         get_workspace (restart tlib jl (snd (write_workspaces_file jl (saved_dict tlib st) dk))) i =
           map_option (persisted tlib) (get_workspace st i)"
proof -
  have "read_workspaces_file jl (snd (write_workspaces_file jl (saved_dict tlib st) dk)) =
          Some (saved_dict tlib st)"
    using ok wr rd by (simp add: read_workspaces_file_def write_workspaces_file_def)
  then show ?thesis
    using load_saved [OF inv, of new_store tlib] ok wr
    by (simp add: restart_eq new_store_def get_workspace_def lookup_persisted_map
        write_workspaces_file_def)
qed

lemma find_emplaced:
  "map_of (st_workspaces (fold emplace_workspace ws st)) i =
     (case map_of (st_workspaces st) i of Some w \<Rightarrow> Some w
      | None \<Rightarrow> List.find (\<lambda>w. ws_id w = i) ws)"
  by (induction ws arbitrary: st) (auto split: option.split)

lemma find_put_all:
  "map_of (st_workspaces (fold put_workspace ws st)) i =
     (case List.find (\<lambda>w. ws_id w = i) (rev ws) of Some w \<Rightarrow> Some w
      | None \<Rightarrow> map_of (st_workspaces st) i)"
proof (induction ws arbitrary: st rule: rev_induct)
  case Nil
  then show ?case by simp
next
  case (snoc w ws)
  then show ?case by (auto split: option.split)
qed

lemma load_look:
  "get_workspace (on_init_data tlib (Some d) st) i =
     (let disk = disk_workspaces tlib (value_or (find_list d ''workspaces'') []) in
      if st_workspaces st = [] then List.find (\<lambda>w. ws_id w = i) (rev disk)
      else case get_workspace st i of Some w \<Rightarrow> Some w
           | None \<Rightarrow> List.find (\<lambda>w. ws_id w = i) disk)"
  by (cases "find_list d ''workspaces''")
    (auto simp: on_init_data_def Let_def get_workspace_def find_emplaced find_put_all
      disk_workspaces_def List.map_filter_simps split: option.split)

text \<open>
  What loading does to a store that already has workspaces, created before the
  file was read: these stay exactly as they are, and of the entries on disk with a new id the
  first one is added. Loading into an empty store keeps the last entry of an id instead.
\<close>

theorem load_merges:
  "get_workspace (on_init_data tlib (Some d) st) i =
     (let disk = disk_workspaces tlib (value_or (find_list d ''workspaces'') []) in
      if st_workspaces st = [] then List.find (\<lambda>w. ws_id w = i) (rev disk)
      else case get_workspace st i of Some w \<Rightarrow> Some w
           | None \<Rightarrow> List.find (\<lambda>w. ws_id w = i) disk)"
  by (rule load_look)

definition race :: "string \<Rightarrow> int \<Rightarrow> int \<Rightarrow> workspace \<Rightarrow> store_event list" where
  "race gid gseed now w = [EvInit, EvCreate gid gseed now w, EvFileTask, EvFileTask, EvReply]"

definition one_entry :: "workspace \<Rightarrow> store" where
  "one_entry w = put_workspace w new_store"

lemma one_entry_fields [simp]:
  "st_workspaces (one_entry w) = [(ws_id w, w)]"
  "store_inv (one_entry w)"
  by (simp_all add: one_entry_def new_store_def store_inv_def)

lemma disk_one_entry [simp]:
  "disk_workspaces tlib [JDict (workspace_to_dict tlib w)] = [persisted tlib w]"
  by (simp add: disk_workspaces_def List.map_filter_simps from_to_dict)

lemma fold_put_tasks [simp]:
  "st_file_tasks (fold put_workspace ws st) = st_file_tasks st"
  by (induction ws arbitrary: st) simp_all

lemma fold_emplace_tasks [simp]:
  "st_file_tasks (fold emplace_workspace ws st) = st_file_tasks st"
  by (induction ws arbitrary: st) (simp_all add: emplace_workspace_def)

lemma on_init_data_tasks [simp]: "st_file_tasks (on_init_data tlib d st) = st_file_tasks st"
  by (simp add: on_init_data_def Let_def split: option.split)

lemma new_store_fields [simp]:
  "st_workspaces new_store = []" "st_file_tasks new_store = []"
  by (simp_all add: new_store_def)

text \<open>
  The loading race. A workspace is on disk; the store is started and, before the
  file has been read, another workspace is created. When every posted task and the reply have
  run, the store holds both, but nothing is left to be written and the file holds the new
  workspace only: the merge is not saved, and a restart forgets the old one.
\<close>

theorem loading_race_forgets:
  assumes fl: "dk_file dk = Some txt" "json_read jl txt = Some (JDict (saved_dict tlib (one_entry old)))"
    and ok: "dk_dir_ok dk" "dk_write_ok dk"
    and wr: "json_write jl (JDict (saved_dict tlib (one_entry (completed gid gseed now w)))) = Some txt2"
    and rd: "json_read jl txt2 = Some (JDict (saved_dict tlib (one_entry (completed gid gseed now w))))"
    and ids: "ws_id (completed gid gseed now w) \<noteq> ws_id old"
  shows "let sy = run (store_step tlib jl) (race gid gseed now w) (init_sys dk)
         in get_workspace (sy_store sy) (ws_id old) = Some (persisted tlib old) \<and>
            st_file_tasks (sy_store sy) = [] \<and> sy_replies sy = [] \<and>
            get_workspace (restart tlib jl (sy_disk sy)) (ws_id old) = None"
proof -
  let ?v = "completed gid gseed now w"
  let ?sy = "run (store_step tlib jl) (race gid gseed now w) (init_sys dk)"
  have sd: "saved_dict tlib (put_workspace ?v s) = saved_dict tlib (one_entry ?v)"
    if "st_workspaces s = []" for s
    using that by (simp add: saved_dict_def one_entry_def new_store_def)
  define st where "st = (commit tlib (WorkspaceAdded ?v) (put_workspace ?v (store_init new_store)))\<lparr>st_file_tasks := []\<rparr>"
  have sy: "?sy = \<lparr>sy_store = on_init_data tlib (Some (saved_dict tlib (one_entry old))) st,
                   sy_disk = dk\<lparr>dk_file := Some txt2\<rparr>, sy_replies = []\<rparr>"
    using fl ok wr unfolding st_def
    by (simp add: race_def init_sys_def create_workspace_eq Let_def run_file_task_def run_reply_def
        read_workspaces_file_def write_workspaces_file_def sd store_init_def)
  have st: "st_workspaces st = [(ws_id ?v, ?v)]" "st_file_tasks st = []"
    by (simp_all add: st_def)
  have file2: "read_workspaces_file jl (dk\<lparr>dk_file := Some txt2\<rparr>) = Some (saved_dict tlib (one_entry ?v))"
    using rd by (simp add: read_workspaces_file_def)
  have "get_workspace st (ws_id old) = None"
    using ids st(1) by (simp add: get_workspace_def del: ws_id_derived)
  then have "get_workspace (sy_store ?sy) (ws_id old) = Some (persisted tlib old)"
    using st by (simp add: sy load_look Let_def)
  moreover have "get_workspace (restart tlib jl (sy_disk ?sy)) (ws_id old) = None"
    using ids by (simp add: sy restart_eq file2 load_look Let_def del: ws_id_derived)
  ultimately show ?thesis
    using st by (simp add: Let_def sy)
qed

theorem save_restart_round_trip_witness:
  "let v = JDict (saved_dict iso_times (one_entry sample_a));
       dk = \<lparr>dk_dir_ok = True, dk_write_ok = True, dk_file = None, dk_torn = None\<rparr>
   in get_workspace (restart iso_times (two_texts v v)
        (snd (write_workspaces_file (two_texts v v) (saved_dict iso_times (one_entry sample_a)) dk))) ''a'' =
      Some sample_a"
proof -
  have inv: "store_inv (one_entry sample_a)" by simp
  have tv: "time_view iso_times 42 = 42" by code_simp
  have keep: "persisted iso_times sample_a = sample_a"
    using tv by (simp add: persisted_def sample_a_def workspace_default_def time_view_def
        time_to_string_def time_from_string_def)
  show ?thesis
    unfolding Let_def
    using save_restart_round_trip [OF inv, of "\<lparr>dk_dir_ok = True, dk_write_ok = True, dk_file = None, dk_torn = None\<rparr>"
        "two_texts (JDict (saved_dict iso_times (one_entry sample_a))) (JDict (saved_dict iso_times (one_entry sample_a)))"
        iso_times "''U''" "''a''"]
    by (simp add: two_texts_def keep get_workspace_def sample_a_def [THEN arg_cong, of ws_id])
qed

theorem loading_race_forgets_witness:
  "let u = JDict (saved_dict iso_times (one_entry sample_a));
       v = JDict (saved_dict iso_times (one_entry (completed ''g'' 12345 42 sample_b)));
       dk = \<lparr>dk_dir_ok = True, dk_write_ok = True, dk_file = Some ''U'', dk_torn = None\<rparr>;
       sy = run (store_step iso_times (two_texts u v)) (race ''g'' 12345 42 sample_b) (init_sys dk)
   in get_workspace (restart iso_times (two_texts u v) (sy_disk sy)) ''a'' = None"
proof -
  let ?u = "JDict (saved_dict iso_times (one_entry sample_a))"
  let ?v = "JDict (saved_dict iso_times (one_entry (completed ''g'' 12345 42 sample_b)))"
  have ids: "ws_id (completed ''g'' 12345 42 sample_b) \<noteq> ws_id sample_a" "ws_id sample_a = ''a''"
    by (simp_all add: sample_a_def sample_b_def)
  have ne: "?v \<noteq> ?u"
  proof
    assume "?v = ?u"
    then have "find_list (saved_dict iso_times (one_entry (completed ''g'' 12345 42 sample_b))) ''workspaces'' =
               find_list (saved_dict iso_times (one_entry sample_a)) ''workspaces''" by simp
    then have "workspace_to_dict iso_times (completed ''g'' 12345 42 sample_b) =
               workspace_to_dict iso_times sample_a" by (simp add: one_entry_def new_store_def)
    then show False using ids(1) find_string_to_dict(1) option.inject by metis
  qed
  show ?thesis
    using loading_race_forgets [of "\<lparr>dk_dir_ok = True, dk_write_ok = True, dk_file = Some ''U'', dk_torn = None\<rparr>" "''U''"
        "two_texts ?u ?v" iso_times sample_a "''g''" 12345 42 sample_b "''V''"] ids ne
    by (simp add: Let_def two_texts_def)
qed

end
