(* ===== verification/Noise.thy ===== *)
theory Noise
  imports PC_Prelude "HOL-Library.Word"
begin

unbundle bit_operations_syntax

text \<open>
  The deterministic noise of \<open>common/purecloak_prng.h\<close>: a hash of seed and index on 32-bit
  words, of which the low byte, shifted to be centred, is the noise delta. The theory shows that
  for a fixed seed the hash is a permutation of the indices, so that every delta is taken by
  equally many indices.
\<close>

subsection \<open>The hash\<close>

definition noise_x :: "int \<Rightarrow> 32 word \<Rightarrow> 32 word" where
  "noise_x seed index = word_of_int seed * 0x9E3779B9 + index"

definition noise_y :: "32 word \<Rightarrow> 32 word" where
  "noise_y x = (x XOR drop_bit 16 x) * 0x85EBCA6B"

definition noise_z :: "32 word \<Rightarrow> 32 word" where
  "noise_z y = (y XOR drop_bit 13 y) * 0xC2B2AE35"

definition purecloak_noise :: "int \<Rightarrow> int \<Rightarrow> int" where
  "purecloak_noise seed index =
     uint (noise_z (noise_y (noise_x seed (word_of_int index))) AND 0xFF) - 128"

text \<open>
  \<open>PureCloakFreqNoise\<close> divides by 256 and multiplies by 0.5: both exact in binary floating
  point for these values, so the rational number is the float.
\<close>

definition purecloak_freq_noise :: "int \<Rightarrow> int \<Rightarrow> rat" where
  "purecloak_freq_noise seed index = (of_int (purecloak_noise seed index) / 256) * (1 / 2)"

subsection \<open>The hash is a permutation\<close>

lemma xor_cancel_eq: "(a :: 32 word) XOR b = 0 \<Longrightarrow> a = b"
proof -
  assume "a XOR b = 0"
  then have "(a XOR b) XOR b = b" by simp
  then show "a = b" by (simp add: xor.assoc)
qed

lemma xorshift_inj:
  fixes x y :: "32 word"
  assumes eq: "x XOR drop_bit n x = y XOR drop_bit n y" and n: "0 < n"
  shows "x = y"
proof -
  define d where "d = x XOR y"
  have "d XOR drop_bit n d = (x XOR drop_bit n x) XOR (y XOR drop_bit n y)"
    by (simp add: d_def drop_bit_xor ac_simps)
  also have "\<dots> = 0" by (simp add: eq)
  finally have "d = drop_bit n d"
    using xor_cancel_eq [of d "drop_bit n d"] by simp
  then have "unat d = unat d div 2 ^ n"
    using unat_drop_bit_eq [of n d] by (simp only: drop_bit_eq_div)
  moreover have "1 < (2 :: nat) ^ n" using n by (intro one_less_power) simp_all
  ultimately have "unat d = 0" using div_less_dividend [of "2 ^ n" "unat d"] by linarith
  then have "d = 0" by (simp add: unat_eq_zero)
  then show ?thesis using xor_cancel_eq [of x y] by (simp only: d_def)
qed

lemma mult_unit_inj:
  fixes a b c c' :: "32 word"
  assumes "a * c = b * c" "c * c' = 1"
  shows "a = b"
proof -
  have "a = (a * c) * c'" unfolding mult.assoc assms(2) by simp
  also have "\<dots> = (b * c) * c'" by (simp only: assms(1))
  also have "\<dots> = b" unfolding mult.assoc assms(2) by simp
  finally show ?thesis .
qed

lemma noise_y_inj:
  assumes "noise_y a = noise_y b"
  shows "a = b"
proof -
  have unit: "(0x85EBCA6B :: 32 word) * 0xA5CB9243 = 1" by simp
  have "a XOR drop_bit 16 a = b XOR drop_bit 16 b"
    by (rule mult_unit_inj [OF assms [unfolded noise_y_def] unit])
  then show ?thesis by (rule xorshift_inj) simp
qed

lemma noise_z_inj:
  assumes "noise_z a = noise_z b"
  shows "a = b"
proof -
  have unit: "(0xC2B2AE35 :: 32 word) * 0x7ED1B41D = 1" by simp
  have "a XOR drop_bit 13 a = b XOR drop_bit 13 b"
    by (rule mult_unit_inj [OF assms [unfolded noise_z_def] unit])
  then show ?thesis by (rule xorshift_inj) simp
qed

definition noise_hash :: "int \<Rightarrow> 32 word \<Rightarrow> 32 word" where
  "noise_hash seed index = noise_z (noise_y (noise_x seed index))"

lemma noise_hash_inj: "inj (noise_hash seed)"
  by (auto simp: inj_def noise_hash_def noise_x_def dest!: noise_z_inj noise_y_inj)

lemma noise_hash_bij: "bij (noise_hash seed)"
  using noise_hash_inj by (simp add: bij_def finite_UNIV_inj_surj)

lemma noise_of_hash:
  "purecloak_noise seed index = uint (noise_hash seed (word_of_int index) AND 0xFF) - 128"
  by (simp add: purecloak_noise_def noise_hash_def)

lemma low_byte: "uint (w AND 0xFF :: 32 word) = uint w mod 256"
proof -
  have m: "(255 :: int) = mask 8" by (simp add: mask_eq_exp_minus_1)
  have "uint (w AND 0xFF) = uint w AND 255" by (simp add: uint_and)
  also have "\<dots> = take_bit 8 (uint w)" unfolding m by (rule take_bit_eq_mask [symmetric])
  finally show ?thesis by (simp add: take_bit_eq_mod)
qed

lemma uint_small:
  "\<lbrakk>0 \<le> k; k < 2 ^ 24; 0 \<le> c; c < 256\<rbrakk> \<Longrightarrow> uint (word_of_int (256 * k + c) :: 32 word) = 256 * k + c"
  unfolding uint_word_of_int by (rule mod_pos_pos_trivial) simp_all

lemma card_low_byte:
  assumes "0 \<le> c" "c < 256"
  shows "card {w :: 32 word. uint w mod 256 = c} = 2 ^ 24"
proof -
  have "{w :: 32 word. uint w mod 256 = c} = (\<lambda>k. word_of_int (256 * k + c)) ` {0..<2 ^ 24}"
  proof (intro equalityI subsetI)
    fix w :: "32 word" assume "w \<in> {w. uint w mod 256 = c}"
    then have "w = word_of_int (256 * (uint w div 256) + c)"
      by (metis (mono_tags) mem_Collect_eq mult_div_mod_eq word_of_int_uint)
    moreover have "uint w < 2 ^ 32" using uint_bounded [of w] by simp
    then have "uint w div 256 \<in> {0..<2 ^ 24}"
      by (simp add: pos_imp_zdiv_nonneg_iff)
    ultimately show "w \<in> (\<lambda>k. word_of_int (256 * k + c)) ` {0..<2 ^ 24}" by blast
  next
    fix w :: "32 word" assume "w \<in> (\<lambda>k. word_of_int (256 * k + c)) ` {0..<2 ^ 24}"
    then obtain k where k: "0 \<le> k" "k < 2 ^ 24" "w = word_of_int (256 * k + c)" by auto
    then have "uint w = 256 * k + c"
      using assms by (simp only: uint_small)
    then show "w \<in> {w. uint w mod 256 = c}" using assms by simp
  qed
  moreover have "inj_on (\<lambda>k. word_of_int (256 * k + c) :: 32 word) {0..<2 ^ 24}"
  proof (rule inj_onI)
    fix j k :: int
    assume jk: "j \<in> {0..<2 ^ 24}" "k \<in> {0..<2 ^ 24}"
      and eq: "(word_of_int (256 * j + c) :: 32 word) = word_of_int (256 * k + c)"
    have "uint (word_of_int (256 * j + c) :: 32 word) = 256 * j + c"
         "uint (word_of_int (256 * k + c) :: 32 word) = 256 * k + c"
      using assms jk by (simp_all only: uint_small atLeastLessThan_iff)
    with eq show "j = k" by simp
  qed
  ultimately show ?thesis by (simp add: card_image)
qed

subsection \<open>Properties\<close>

text \<open>
  A noise delta is at least -128 and at most 127, and the frequency noise stays
  within a quarter on either side of 0.
\<close>

theorem noise_bounds:
  "-128 \<le> purecloak_noise seed index \<and> purecloak_noise seed index \<le> 127 \<and>
   \<bar>purecloak_freq_noise seed index\<bar> \<le> 1 / 4"
proof -
  have b: "-128 \<le> purecloak_noise seed index" "purecloak_noise seed index \<le> 127"
    using pos_mod_bound [of 256 "uint (noise_hash seed (word_of_int index))"]
      pos_mod_sign [of 256 "uint (noise_hash seed (word_of_int index))"]
    by (simp_all add: noise_of_hash low_byte)
  then have "(-128 :: rat) \<le> of_int (purecloak_noise seed index)"
    "of_int (purecloak_noise seed index) \<le> (127 :: rat)" by linarith+
  with b show ?thesis by (simp add: purecloak_freq_noise_def abs_le_iff)
qed

text \<open>
  The noise is evenly spread. For every seed, each of the 256 deltas from -128
  to 127 is the noise of exactly 2 to the 24 of the 2 to the 32 indices of a C++ \<open>int\<close>.
\<close>

theorem noise_uniform:
  assumes "-128 \<le> d" "d \<le> 127"
  shows "card {i. -(2 ^ 31) \<le> i \<and> i < 2 ^ 31 \<and> purecloak_noise seed i = d} = 2 ^ 24"
proof -
  let ?W = "{w :: 32 word. uint (noise_hash seed w) mod 256 = d + 128}"
  have "{i. -(2 ^ 31) \<le> i \<and> i < 2 ^ 31 \<and> purecloak_noise seed i = d} = sint ` ?W"
  proof (intro equalityI subsetI)
    fix i assume i: "i \<in> {i. -(2 ^ 31) \<le> i \<and> i < 2 ^ 31 \<and> purecloak_noise seed i = d}"
    then have "i = sint (word_of_int i :: 32 word)"
      by (simp add: signed_of_int signed_take_bit_int_eq_self)
    moreover have "word_of_int i \<in> ?W" using i by (auto simp: noise_of_hash low_byte)
    ultimately show "i \<in> sint ` ?W" by blast
  next
    fix i assume "i \<in> sint ` ?W"
    then obtain w where "w \<in> ?W" "i = sint w" by blast
    then show "i \<in> {i. -(2 ^ 31) \<le> i \<and> i < 2 ^ 31 \<and> purecloak_noise seed i = d}"
      using sint_lt [of w] sint_ge [of w] by (simp add: noise_of_hash low_byte)
  qed
  moreover have "card (sint ` ?W) = card ?W"
    by (rule card_image) (auto intro: inj_onI dest: signed_word_eqI)
  moreover have "card ?W = card (noise_hash seed ` ?W)"
    using noise_hash_inj [of seed] by (simp add: card_image inj_on_subset)
  moreover have "noise_hash seed ` ?W = {w. uint w mod 256 = d + 128}"
    using noise_hash_bij [of seed] by (auto simp: bij_def surj_def image_iff)
  ultimately show ?thesis using card_low_byte [of "d + 128"] assms by simp
qed

theorem noise_uniform_witness:
  "card {i. -(2 ^ 31) \<le> i \<and> i < 2 ^ 31 \<and> purecloak_noise 42 i = -128} = 2 ^ 24"
  by (rule noise_uniform) simp_all

end
