(* ===== verification/Fingerprint_Seed.thy ===== *)
theory Fingerprint_Seed
  imports PC_Prelude
begin

text \<open>
  The per-process fingerprint settings of \<open>common/purecloak_seed.cc\<close>, read from the
  \<open>--fingerprint-*\<close> switches of \<open>common/purecloak_switches.cc\<close>. The lock of the singleton
  makes each operation atomic, so the object is a state that \<open>InitializeFromCommandLine\<close>
  replaces. The command line and the parser of numbers belong to the base library and are
  parameters.
\<close>

subsection \<open>Switches\<close>

definition kPureCloakApiPort :: string where "kPureCloakApiPort = ''purecloak-api-port''"
definition kPureCloakApiToken :: string where "kPureCloakApiToken = ''purecloak-api-token''"
definition kFingerprint :: string where "kFingerprint = ''fingerprint''"
definition kFingerprintPlatform :: string where "kFingerprintPlatform = ''fingerprint-platform''"
definition kFingerprintGpuVendor :: string where "kFingerprintGpuVendor = ''fingerprint-gpu-vendor''"
definition kFingerprintGpuRenderer :: string where
  "kFingerprintGpuRenderer = ''fingerprint-gpu-renderer''"
definition kFingerprintHardwareConcurrency :: string where
  "kFingerprintHardwareConcurrency = ''fingerprint-hardware-concurrency''"
definition kFingerprintDeviceMemory :: string where
  "kFingerprintDeviceMemory = ''fingerprint-device-memory''"
definition kFingerprintScreenWidth :: string where
  "kFingerprintScreenWidth = ''fingerprint-screen-width''"
definition kFingerprintScreenHeight :: string where
  "kFingerprintScreenHeight = ''fingerprint-screen-height''"
definition kFingerprintTaskbarHeight :: string where
  "kFingerprintTaskbarHeight = ''fingerprint-taskbar-height''"
definition kFingerprintBrand :: string where "kFingerprintBrand = ''fingerprint-brand''"
definition kFingerprintBrandVersion :: string where
  "kFingerprintBrandVersion = ''fingerprint-brand-version''"
definition kFingerprintPlatformVersion :: string where
  "kFingerprintPlatformVersion = ''fingerprint-platform-version''"
definition kFingerprintWebrtcIp :: string where "kFingerprintWebrtcIp = ''fingerprint-webrtc-ip''"
definition kFingerprintFontsDir :: string where "kFingerprintFontsDir = ''fingerprint-fonts-dir''"
definition kFingerprintLocation :: string where "kFingerprintLocation = ''fingerprint-location''"
definition kFingerprintStorageQuota :: string where
  "kFingerprintStorageQuota = ''fingerprint-storage-quota''"
definition kFingerprintNoise :: string where "kFingerprintNoise = ''fingerprint-noise''"
definition kFingerprintTimezone :: string where "kFingerprintTimezone = ''fingerprint-timezone''"
definition kFingerprintLocale :: string where "kFingerprintLocale = ''fingerprint-locale''"

lemmas switch_key_defs = kFingerprint_def
  kFingerprintPlatform_def kFingerprintGpuVendor_def kFingerprintGpuRenderer_def
  kFingerprintHardwareConcurrency_def kFingerprintDeviceMemory_def kFingerprintScreenWidth_def
  kFingerprintScreenHeight_def kFingerprintTaskbarHeight_def kFingerprintBrand_def
  kFingerprintBrandVersion_def kFingerprintPlatformVersion_def kFingerprintWebrtcIp_def
  kFingerprintFontsDir_def kFingerprintLocation_def kFingerprintStorageQuota_def
  kFingerprintNoise_def kFingerprintTimezone_def kFingerprintLocale_def

text \<open>
  What the program asks of \<open>base::CommandLine\<close>: whether a switch is present, and its value, which
  is the empty string for an absent switch.
\<close>

record command_line =
  has_switch :: "string \<Rightarrow> bool"
  switch_value :: "string \<Rightarrow> string"

subsection \<open>State and platform defaults\<close>

record seed_state =
  sd_seed :: int
  sd_platform :: string
  sd_gpu_vendor :: string
  sd_gpu_renderer :: string
  sd_hardware_concurrency :: int
  sd_device_memory :: int
  sd_screen_width :: int
  sd_screen_height :: int
  sd_taskbar_height :: int
  sd_brand :: string
  sd_brand_version :: string
  sd_platform_version :: string
  sd_webrtc_ip :: string
  sd_fonts_dir :: string
  sd_location :: string
  sd_timezone :: string
  sd_locale :: string
  sd_storage_quota_mb :: int
  sd_noise_enabled :: bool

definition new_seed :: seed_state where
  "new_seed = \<lparr>sd_seed = 0, sd_platform = [], sd_gpu_vendor = [], sd_gpu_renderer = [],
     sd_hardware_concurrency = 8, sd_device_memory = 8, sd_screen_width = 1920,
     sd_screen_height = 1080, sd_taskbar_height = 0, sd_brand = [], sd_brand_version = [],
     sd_platform_version = [], sd_webrtc_ip = [], sd_fonts_dir = [], sd_location = [],
     sd_timezone = [], sd_locale = [], sd_storage_quota_mb = 500, sd_noise_enabled = True\<rparr>"

definition default_screen_width :: "string \<Rightarrow> int" where
  "default_screen_width platform = (if platform = ''macos'' then 1440 else 1920)"

definition default_screen_height :: "string \<Rightarrow> int" where
  "default_screen_height platform = (if platform = ''macos'' then 900 else 1080)"

definition default_taskbar_height :: "string \<Rightarrow> int" where
  "default_taskbar_height platform =
     (if platform = ''windows'' then 48 else if platform = ''macos'' then 95 else 0)"

definition default_hardware_concurrency :: "string \<Rightarrow> int" where
  "default_hardware_concurrency platform =
     (if platform = ''android'' then 4 else if platform = ''ios'' then 4 else 8)"

definition default_device_memory :: "string \<Rightarrow> int" where
  "default_device_memory platform =
     (if platform = ''android'' then 4 else if platform = ''ios'' then 3 else 8)"

subsection \<open>Initialisation\<close>

text \<open>
  \<open>stoi s\<close> is the pair of \<open>base::StringToInt\<close>'s answer and the number it leaves in its output
  argument, also when the answer is false.
\<close>

definition get_switch :: "command_line \<Rightarrow> string \<Rightarrow> string \<Rightarrow> string" where
  "get_switch cmd name default_val =
     (if has_switch cmd name then switch_value cmd name else default_val)"

definition int_switch :: "(string \<Rightarrow> bool \<times> int) \<Rightarrow> command_line \<Rightarrow> string \<Rightarrow> int \<Rightarrow> int" where
  "int_switch stoi cmd name dflt =
     (let s = get_switch cmd name [] in if s \<noteq> [] \<and> fst (stoi s) then snd (stoi s) else dflt)"

definition initialize_from_command_line ::
  "(string \<Rightarrow> bool \<times> int) \<Rightarrow> command_line \<Rightarrow> seed_state \<Rightarrow> seed_state" where
  "initialize_from_command_line stoi cmd st =
     (let seed_str = switch_value cmd kFingerprint;
          platform = get_switch cmd kFingerprintPlatform ''windows''
      in st\<lparr>sd_seed := (if seed_str \<noteq> [] then snd (stoi seed_str) else 0),
            sd_platform := platform,
            sd_gpu_vendor := get_switch cmd kFingerprintGpuVendor [],
            sd_gpu_renderer := get_switch cmd kFingerprintGpuRenderer [],
            sd_hardware_concurrency := int_switch stoi cmd kFingerprintHardwareConcurrency
              (default_hardware_concurrency platform),
            sd_device_memory := int_switch stoi cmd kFingerprintDeviceMemory
              (default_device_memory platform),
            sd_screen_width := int_switch stoi cmd kFingerprintScreenWidth
              (default_screen_width platform),
            sd_screen_height := int_switch stoi cmd kFingerprintScreenHeight
              (default_screen_height platform),
            sd_taskbar_height := int_switch stoi cmd kFingerprintTaskbarHeight
              (default_taskbar_height platform),
            sd_brand := get_switch cmd kFingerprintBrand [],
            sd_brand_version := get_switch cmd kFingerprintBrandVersion [],
            sd_platform_version := get_switch cmd kFingerprintPlatformVersion [],
            sd_webrtc_ip := get_switch cmd kFingerprintWebrtcIp [],
            sd_fonts_dir := get_switch cmd kFingerprintFontsDir [],
            sd_location := get_switch cmd kFingerprintLocation [],
            sd_timezone := get_switch cmd kFingerprintTimezone [],
            sd_locale := get_switch cmd kFingerprintLocale [],
            sd_storage_quota_mb :=
              int_switch stoi cmd kFingerprintStorageQuota (sd_storage_quota_mb st),
            sd_noise_enabled := (switch_value cmd kFingerprintNoise \<noteq> ''false'')\<rparr>)"

lemmas seed_defs = initialize_from_command_line_def get_switch_def int_switch_def Let_def
  default_screen_width_def default_screen_height_def default_taskbar_height_def
  default_hardware_concurrency_def default_device_memory_def

lemma int_switch_bad [simp]:
  "get_switch cmd name [] = [] \<Longrightarrow> int_switch stoi cmd name d = d"
  "\<not> fst (stoi (get_switch cmd name [])) \<Longrightarrow> int_switch stoi cmd name d = d"
  by (simp_all add: int_switch_def)

subsection \<open>Properties\<close>

text \<open>
  The settings of a process that got no fingerprint switch: the Windows profile of the code's
  defaults, whatever the parser of numbers.
\<close>

definition windows_defaults :: seed_state where
  "windows_defaults = new_seed\<lparr>sd_platform := ''windows'', sd_taskbar_height := 48\<rparr>"

lemma init_no_switches:
  assumes "\<And>k. \<not> has_switch cmd k" "\<And>k. switch_value cmd k = []"
  shows "initialize_from_command_line stoi cmd new_seed = windows_defaults"
  using assms by (simp add: seed_defs windows_defaults_def new_seed_def)

text \<open>
  What an earlier initialisation leaves behind. A second one gives the state it
  would have given to a fresh object, except for the storage quota: without a usable
  \<open>--fingerprint-storage-quota\<close> the old quota stays, where every other setting goes back to its
  default.
\<close>

theorem reinitialization:
  "initialize_from_command_line stoi cmd st =
     (initialize_from_command_line stoi cmd new_seed)
       \<lparr>sd_storage_quota_mb :=
          int_switch stoi cmd kFingerprintStorageQuota (sd_storage_quota_mb st)\<rparr>"
  by (simp add: initialize_from_command_line_def Let_def new_seed_def)

text \<open>
  The screen, task bar, core count and memory are those of the platform the
  switches name, unless a switch that parses overrides them: on macOS 1440 by 900 with 95,
  on Windows 1920 by 1080 with 48, elsewhere 1920 by 1080 with 0.
\<close>

theorem platform_profile:
  assumes "\<And>k. k \<in> {kFingerprintScreenWidth, kFingerprintScreenHeight, kFingerprintTaskbarHeight,
                     kFingerprintHardwareConcurrency, kFingerprintDeviceMemory} \<Longrightarrow>
                get_switch cmd k [] = [] \<or> \<not> fst (stoi (get_switch cmd k []))"
  shows "let s = initialize_from_command_line stoi cmd st; p = sd_platform s in
           (sd_screen_width s, sd_screen_height s, sd_taskbar_height s) =
              (if p = ''macos'' then (1440, 900, 95)
               else (1920, 1080, if p = ''windows'' then 48 else 0)) \<and>
           (sd_hardware_concurrency s, sd_device_memory s) =
              (if p = ''android'' then (4, 4) else if p = ''ios'' then (4, 3) else (8, 8))"
proof -
  have "int_switch stoi cmd k d = d"
    if "k \<in> {kFingerprintScreenWidth, kFingerprintScreenHeight, kFingerprintTaskbarHeight,
             kFingerprintHardwareConcurrency, kFingerprintDeviceMemory}" for k d
    using assms [OF that] by auto
  then show ?thesis
    by (simp add: initialize_from_command_line_def Let_def default_screen_width_def
        default_screen_height_def default_taskbar_height_def default_hardware_concurrency_def
        default_device_memory_def)
qed

theorem platform_profile_witness:
  "let cmd = \<lparr>has_switch = (\<lambda>k. k = kFingerprintPlatform \<or> k = kFingerprintScreenWidth),
              switch_value = (\<lambda>k. if k = kFingerprintPlatform then ''macos''
                                  else if k = kFingerprintScreenWidth then ''wide'' else [])\<rparr>;
       s = initialize_from_command_line (\<lambda>s. (s = ''7'', 7)) cmd new_seed in
     (sd_screen_width s, sd_screen_height s, sd_taskbar_height s) = (1440, 900, 95)"
proof -
  let ?cmd = "\<lparr>has_switch = (\<lambda>k. k = kFingerprintPlatform \<or> k = kFingerprintScreenWidth),
               switch_value = (\<lambda>k. if k = kFingerprintPlatform then ''macos''
                                  else if k = kFingerprintScreenWidth then ''wide'' else [])\<rparr>"
  let ?s = "initialize_from_command_line (\<lambda>s. (s = ''7'', 7)) ?cmd new_seed"
  have "get_switch ?cmd k [] = [] \<or> \<not> fst ((\<lambda>s. (s = ''7'', 7 :: int)) (get_switch ?cmd k []))" for k
    by (simp add: get_switch_def)
  note p = platform_profile [of ?cmd "\<lambda>s. (s = ''7'', 7)" new_seed, OF this]
  have "sd_platform ?s = ''macos''" by (simp add: initialize_from_command_line_def get_switch_def Let_def)
  with p show ?thesis by (simp add: Let_def)
qed

end
