(* ===== verification/Storage_Partition.thy ===== *)
theory Storage_Partition
  imports PC_Prelude Workspace_Model
begin

text \<open>
  Which storage partition a page gets, \<open>content/storage_partition_controller.cc\<close>. The state is
  the user data the controller hangs on a browser context (workspace with its type, and the
  consume-once active profile) and on each tab (its profile).
\<close>

subsection \<open>State\<close>

record controller =
  sp_workspace :: string
  sp_type :: wtype

record browser_context =
  bc_controller :: "controller option"
  bc_active_profile :: "string option"

type_synonym web_contents = "string option"

definition new_context :: browser_context where
  "new_context = \<lparr>bc_controller = None, bc_active_profile = None\<rparr>"

text \<open>\<open>content::StoragePartitionConfig\<close>: the default one, or a domain with a partition name.\<close>

datatype partition_config = DefaultPartition | Partition string string bool

subsection \<open>Operations\<close>

definition kPureCloakDomain :: string where "kPureCloakDomain = ''purecloak''"

definition kProfilePartitionSeparator :: string where "kProfilePartitionSeparator = ''#''"

definition build_partition_name :: "string \<Rightarrow> string \<Rightarrow> string" where
  "build_partition_name workspace profile_id =
     (if profile_id = [] then workspace
      else workspace @ kProfilePartitionSeparator @ profile_id)"

definition set_workspace :: "string \<Rightarrow> wtype \<Rightarrow> browser_context \<Rightarrow> browser_context" where
  "set_workspace workspace type bc =
     (let bc1 = (if bc_controller bc \<noteq> None then bc\<lparr>bc_controller := None\<rparr> else bc) in
      if workspace \<noteq> []
      then bc1\<lparr>bc_controller := Some \<lparr>sp_workspace = workspace, sp_type = type\<rparr>\<rparr>
      else bc1)"

definition context_workspace :: "browser_context \<Rightarrow> string" where
  "context_workspace bc = (case bc_controller bc of None \<Rightarrow> [] | Some c \<Rightarrow> sp_workspace c)"

definition context_type :: "browser_context \<Rightarrow> wtype" where
  "context_type bc = (case bc_controller bc of None \<Rightarrow> KNormal | Some c \<Rightarrow> sp_type c)"

definition set_profile :: "string \<Rightarrow> web_contents \<Rightarrow> web_contents" where
  "set_profile profile_id wc = (if profile_id = [] then None else Some profile_id)"

definition get_profile :: "web_contents \<Rightarrow> string" where
  "get_profile wc = (case wc of None \<Rightarrow> [] | Some p \<Rightarrow> p)"

definition set_active_profile :: "string \<Rightarrow> browser_context \<Rightarrow> browser_context" where
  "set_active_profile profile_id bc = bc\<lparr>bc_active_profile := Some profile_id\<rparr>"

definition consume_active_profile :: "browser_context \<Rightarrow> string \<times> browser_context" where
  "consume_active_profile bc =
     (case bc_active_profile bc of
        None \<Rightarrow> ([], bc)
      | Some data \<Rightarrow>
          (let result = data; left = [] in
           (result, bc\<lparr>bc_active_profile := (if left = [] then None else Some left)\<rparr>)))"

text \<open>
  \<open>is_purecloak\<close> is the build flag: without it every site gets the default partition.
\<close>

definition get_config_for_site ::
  "bool \<Rightarrow> browser_context \<Rightarrow> partition_config \<times> browser_context" where
  "get_config_for_site is_purecloak bc =
     (if \<not> is_purecloak then (DefaultPartition, bc)
      else let workspace = context_workspace bc in
        if workspace = [] then (DefaultPartition, bc)
        else if context_type bc = KNormal then (DefaultPartition, bc)
        else let (profile_id, bc') = consume_active_profile bc in
          (Partition kPureCloakDomain (build_partition_name workspace profile_id) False, bc'))"

definition get_config ::
  "bool \<Rightarrow> web_contents option \<Rightarrow> browser_context \<Rightarrow> partition_config \<times> browser_context" where
  "get_config is_purecloak web_contents bc =
     (if \<not> is_purecloak then (DefaultPartition, bc)
      else let workspace = context_workspace bc in
        if workspace = [] then (DefaultPartition, bc)
        else if context_type bc = KNormal then (DefaultPartition, bc)
        else let
            p = (case web_contents of None \<Rightarrow> [] | Some wc \<Rightarrow> get_profile wc);
            (profile_id, bc') = (if p = [] then consume_active_profile bc else (p, bc))
          in (Partition kPureCloakDomain (build_partition_name workspace profile_id) False, bc'))"

lemmas partition_defs = get_config_for_site_def get_config_def context_workspace_def
  context_type_def consume_active_profile_def set_workspace_def set_profile_def get_profile_def
  set_active_profile_def Let_def

lemma get_config_without_tab: "get_config b None bc = get_config_for_site b bc"
  by (simp add: partition_defs split: option.splits prod.splits)

lemma separator_in_name:
  "CHR ''#'' \<notin> set w \<Longrightarrow> CHR ''#'' \<in> set (build_partition_name w p) \<longleftrightarrow> p \<noteq> []"
  by (simp add: build_partition_name_def kProfilePartitionSeparator_def)

lemma partition_name_inj:
  assumes "CHR ''#'' \<notin> set w" "CHR ''#'' \<notin> set w'"
    and eq: "build_partition_name w p = build_partition_name w' p'"
  shows "w = w' \<and> p = p'"
proof (cases "p = []")
  case True
  then have "p' = []"
    using separator_in_name [OF assms(1), of p] separator_in_name [OF assms(2), of p'] eq by simp
  with True eq show ?thesis by (simp add: build_partition_name_def)
next
  case False
  then have "p' \<noteq> []"
    using separator_in_name [OF assms(1), of p] separator_in_name [OF assms(2), of p'] eq by simp
  with False eq have "w @ kProfilePartitionSeparator @ p = w' @ kProfilePartitionSeparator @ p'"
    by (simp add: build_partition_name_def)
  then have "w @ CHR ''#'' # p = w' @ CHR ''#'' # p'" by (simp only: kProfilePartitionSeparator_def append.simps)
  from append_sep_inj [OF assms(1, 2) this] show ?thesis .
qed

subsection \<open>Properties\<close>

text \<open>
  The profile a tab opens under: its own, or else the active one that the context keeps for the next tab;
  and whether a workspace of some type is kept apart at all.
\<close>

definition tab_profile :: "string \<Rightarrow> browser_context \<Rightarrow> string" where
  "tab_profile p bc = (if p = [] then value_or (bc_active_profile bc) [] else p)"

definition kept_apart :: "string \<Rightarrow> wtype \<Rightarrow> bool" where
  "kept_apart w type \<longleftrightarrow> w \<noteq> [] \<and> type \<noteq> KNormal"

lemma get_config_tab:
  "fst (get_config True (Some (set_profile p wc)) (set_workspace w type bc)) =
     (if kept_apart w type
      then Partition kPureCloakDomain (build_partition_name w (tab_profile p bc)) False
      else DefaultPartition)"
  by (simp add: partition_defs kept_apart_def tab_profile_def split: option.split)

text \<open>
  C13 (safety): isolation. Two tabs, whatever the types of their workspaces and with a profile of their
  own or not, get the same storage partition exactly when neither is in a fingerprint workspace (then
  it is the default one), or both are, in the same one and under the same profile. The ids of the
  workspaces must not contain the number sign that separates workspace and profile.
\<close>

theorem tabs_isolated:
  assumes "CHR ''#'' \<notin> set w" "CHR ''#'' \<notin> set w'"
  shows "fst (get_config True (Some (set_profile p wc)) (set_workspace w type bc)) =
         fst (get_config True (Some (set_profile p' wc')) (set_workspace w' type' bc')) \<longleftrightarrow>
         (if kept_apart w type \<and> kept_apart w' type' then w = w' \<and> tab_profile p bc = tab_profile p' bc'
          else \<not> kept_apart w type \<and> \<not> kept_apart w' type')"
  using partition_name_inj [OF assms] by (auto simp: get_config_tab)

theorem tabs_isolated_witness:
  "fst (get_config True (Some (set_profile ''a'' None)) (set_workspace ''w1'' KFingerprint new_context)) \<noteq>
   fst (get_config True (Some (set_profile [] None))
     (set_workspace ''w1'' KFingerprint (set_active_profile ''b'' new_context))) \<and>
   fst (get_config True (Some (set_profile ''a'' None)) (set_workspace ''w1'' KFingerprint new_context)) \<noteq>
   fst (get_config True (Some (set_profile ''a'' None)) (set_workspace ''w1'' KNormal new_context))"
  using tabs_isolated [of "''w1''" "''w1''" "''a''" None KFingerprint new_context]
  by (simp add: kept_apart_def tab_profile_def set_active_profile_def)

text \<open>
  The number sign matters: an id that contains it can name another workspace's profile.
\<close>

lemma partition_name_clash: "build_partition_name ''a'' ''b#c'' = build_partition_name ''a#b'' ''c''"
  by (simp add: build_partition_name_def kProfilePartitionSeparator_def)

fun sites :: "nat \<Rightarrow> browser_context \<Rightarrow> partition_config list \<times> browser_context" where
  "sites 0 bc = ([], bc)"
| "sites (Suc n) bc =
     (let (c, bc1) = get_config_for_site True bc; (cs, bc2) = sites n bc1 in (c # cs, bc2))"

lemma sites_no_profile:
  "\<lbrakk>w \<noteq> []; bc_controller bc = Some \<lparr>sp_workspace = w, sp_type = KFingerprint\<rparr>;
    bc_active_profile bc = None\<rbrakk> \<Longrightarrow>
   sites n bc = (replicate n (Partition kPureCloakDomain w False), bc)"
  by (induction n) (simp_all add: partition_defs build_partition_name_def)

lemma site_with_profile:
  assumes "w \<noteq> []" "bc_controller bc = Some \<lparr>sp_workspace = w, sp_type = KFingerprint\<rparr>"
  shows "get_config_for_site True (set_active_profile p bc) =
     (Partition kPureCloakDomain (build_partition_name w p) False, bc\<lparr>bc_active_profile := None\<rparr>)"
  using assms by (simp add: partition_defs)

text \<open>
  An active profile is used once. After \<open>SetActiveProfile\<close> the next
  site of a fingerprint workspace gets the profile's partition, and every later one, until a
  profile is set again, the partition of the workspace alone.
\<close>

theorem active_profile_once:
  assumes "w \<noteq> []" "bc_controller bc = Some \<lparr>sp_workspace = w, sp_type = KFingerprint\<rparr>"
  shows "fst (sites (Suc n) (set_active_profile p bc)) =
         Partition kPureCloakDomain (build_partition_name w p) False #
         replicate n (Partition kPureCloakDomain w False)"
  using assms sites_no_profile [of w "bc\<lparr>bc_active_profile := None\<rparr>" n]
  by (simp add: site_with_profile)

theorem active_profile_once_witness:
  "fst (sites 3 (set_active_profile ''p'' (set_workspace ''w'' KFingerprint new_context))) =
   [Partition ''purecloak'' ''w#p'' False, Partition ''purecloak'' ''w'' False,
    Partition ''purecloak'' ''w'' False]"
proof -
  let ?bc = "set_workspace ''w'' KFingerprint new_context"
  have "bc_controller ?bc = Some \<lparr>sp_workspace = ''w'', sp_type = KFingerprint\<rparr>"
    by (simp add: set_workspace_def new_context_def Let_def)
  from active_profile_once [OF _ this, of 2 "''p''"] show ?thesis
    by (simp add: numeral_eq_Suc kPureCloakDomain_def build_partition_name_def
        kProfilePartitionSeparator_def)
qed

text \<open>
  A context without a workspace or with a normal one always gets the default
  partition, whatever the tab's profile, and its active profile is not consumed.
\<close>

theorem normal_shares_default:
  assumes "context_workspace bc = [] \<or> context_type bc = KNormal"
  shows "get_config b wc bc = (DefaultPartition, bc) \<and>
         get_config_for_site b bc = (DefaultPartition, bc)"
  using assms by (auto simp: get_config_def get_config_for_site_def Let_def)

theorem normal_shares_default_witness:
  "get_config True (Some (set_profile ''p'' None))
     (set_active_profile ''q'' (set_workspace ''w'' KNormal new_context)) =
   (DefaultPartition, set_active_profile ''q'' (set_workspace ''w'' KNormal new_context))"
proof -
  let ?bc = "set_active_profile ''q'' (set_workspace ''w'' KNormal new_context)"
  have "context_type ?bc = KNormal"
    by (simp add: context_type_def set_active_profile_def set_workspace_def new_context_def Let_def)
  with normal_shares_default [of ?bc] show ?thesis by simp
qed

end
