(* ===== verification/Js_Text.thy ===== *)
theory Js_Text
  imports PC_Prelude
begin

text \<open>
  Texts that go into the generated scripts: \<open>%s\<close> and \<open>%f\<close>, the loop that escapes quotes (used for
  vendor, renderer, time zone and user agent), and a lexer of single-quoted JavaScript strings
  with which the generated scripts are read: which part of a script is code and which is the
  contents of its literals.
\<close>

subsection \<open>Escaping and formatting\<close>

record js_lib =
  js_escape :: "string \<Rightarrow> string"
  js_humanize :: "string \<Rightarrow> string"

abbreviation (input) "quote \<equiv> CHR 0x27"
abbreviation (input) "backslash \<equiv> CHR 0x5C"
abbreviation (input) "newline \<equiv> CHR 0x0A"

text \<open>\<open>%s\<close> of \<open>s.c_str()\<close>: the text up to the first NUL.\<close>

definition c_str :: "string \<Rightarrow> string" where
  "c_str s = takeWhile (\<lambda>c. c \<noteq> CHR 0x00) s"

text \<open>The escaping loop of the engine, over an index into the growing string.\<close>

function escape_loop :: "nat \<Rightarrow> string \<Rightarrow> string" where
  "escape_loop i s =
     (if i < length s
      then if s ! i = quote
           then escape_loop (Suc (Suc i)) (take i s @ [backslash] @ drop i s)
           else escape_loop (Suc i) s
      else s)"
  by pat_completeness auto
termination by (relation "measure (\<lambda>(i, s). length s - i)") auto

declare escape_loop.simps [simp del]

definition escape_quotes :: "string \<Rightarrow> string" where
  "escape_quotes s = escape_loop 0 s"

text \<open>\<open>%f\<close> of a coordinate given in millionths of a degree.\<close>

definition show_fixed6 :: "int \<Rightarrow> string" where
  "show_fixed6 m =
     (if m < 0 then ''-'' else []) @ show_nat (nat (\<bar>m\<bar> div 1000000)) @ ''.'' @
     show_pad 6 (\<bar>m\<bar> mod 1000000)"

subsection \<open>Escaping, proved\<close>

definition quoted_quotes :: "string \<Rightarrow> string" where
  "quoted_quotes s = concat (map (\<lambda>c. if c = quote then [backslash, quote] else [c]) s)"

lemma escape_loop_append: "escape_loop (length p) (p @ s) = p @ quoted_quotes s"
proof (induction s arbitrary: p)
  case Nil
  then show ?case by (simp add: escape_loop.simps quoted_quotes_def)
next
  case (Cons c s)
  show ?case
  proof (cases "c = quote")
    case True
    have "escape_loop (length p) (p @ c # s) = escape_loop (length (p @ [backslash, c])) ((p @ [backslash, c]) @ s)"
      using True by (subst escape_loop.simps) simp
    then show ?thesis using True by (simp only: Cons.IH) (simp add: quoted_quotes_def)
  next
    case False
    have "escape_loop (length p) (p @ c # s) = escape_loop (length (p @ [c])) ((p @ [c]) @ s)"
      using False by (subst escape_loop.simps) simp
    then show ?thesis using False by (simp only: Cons.IH) (simp add: quoted_quotes_def)
  qed
qed

lemma escape_quotes_eq: "escape_quotes s = quoted_quotes s"
  using escape_loop_append [of "[]" s] by (simp add: escape_quotes_def)

lemma escape_quotes_simps [simp]:
  "escape_quotes [] = []"
  "escape_quotes (c # s) = (if c = quote then [backslash, quote] else [c]) @ escape_quotes s"
  by (simp_all add: escape_quotes_eq quoted_quotes_def)

lemma escape_quotes_empty [simp]: "escape_quotes s = [] \<longleftrightarrow> s = []"
  by (cases s) simp_all

subsection \<open>Reading the scripts\<close>

text \<open>
  A lexer for scripts whose string literals are single-quoted, as all of the templates' are: in
  code, in a string, after a backslash in a string, or past a raw line break in a string, which
  is an error. \<open>js_erase\<close> is what is left of a script as code: the contents of its literals,
  with their closing quotes, are dropped.
\<close>

datatype js_mode = JCode | JStr | JEsc | JBad

fun js_step :: "js_mode \<Rightarrow> char \<Rightarrow> js_mode" where
  "js_step JCode c = (if c = quote then JStr else JCode)"
| "js_step JStr c =
     (if c = quote then JCode else if c = backslash then JEsc
      else if c = newline \<or> c = CHR 0x0D then JBad else JStr)"
| "js_step JEsc c = JStr"
| "js_step JBad c = JBad"

fun js_scan :: "js_mode \<Rightarrow> string \<Rightarrow> js_mode" where
  "js_scan m [] = m"
| "js_scan m (c # s) = js_scan (js_step m c) s"

fun js_erase :: "js_mode \<Rightarrow> string \<Rightarrow> string" where
  "js_erase m [] = []"
| "js_erase m (c # s) = (if m = JCode then c # js_erase (js_step m c) s else js_erase (js_step m c) s)"

lemma js_scan_append [simp]: "js_scan m (s @ t) = js_scan (js_scan m s) t"
  by (induction s arbitrary: m) simp_all

lemma js_erase_append [simp]: "js_erase m (s @ t) = js_erase m s @ js_erase (js_scan m s) t"
  by (induction s arbitrary: m) simp_all

lemma js_scan_no_quote [simp]:
  "quote \<notin> set s \<Longrightarrow> js_scan JCode s = JCode"
  by (induction s) auto

lemma show_int_no_quote [simp]: "quote \<notin> set (show_int i)"
  using show_int_chars [of quote i] by auto

lemma show_nat_no_quote [simp]: "quote \<notin> set (show_nat n)"
  using show_int_no_quote [of "int n"] by (simp add: show_int_def)

lemma show_fixed6_no_quote [simp]: "quote \<notin> set (show_fixed6 i)"
  by (auto simp: show_fixed6_def show_pad_def Let_def)

text \<open>Text that is safe in a literal as it is, and text that is once its quotes are escaped.\<close>

definition plain_char :: "char \<Rightarrow> bool" where
  "plain_char c = (c \<noteq> backslash \<and> c \<noteq> newline \<and> c \<noteq> CHR 0x0D \<and> c \<noteq> CHR 0x00)"

fun literal_text :: "string \<Rightarrow> bool" where
  "literal_text [] = True"
| "literal_text [c] = (plain_char c \<and> c \<noteq> quote)"
| "literal_text (c # d # s) =
     (if c = backslash then d \<noteq> newline \<and> d \<noteq> CHR 0x0D \<and> d \<noteq> CHR 0x00 \<and> literal_text s
      else plain_char c \<and> c \<noteq> quote \<and> literal_text (d # s))"

fun json_text :: "string \<Rightarrow> bool" where
  "json_text [] = True"
| "json_text [c] = plain_char c"
| "json_text (c # d # s) =
     (if c = backslash
      then d \<noteq> quote \<and> d \<noteq> newline \<and> d \<noteq> CHR 0x0D \<and> d \<noteq> CHR 0x00 \<and> json_text s
      else plain_char c \<and> json_text (d # s))"

lemma literal_text_stays:
  "literal_text t \<Longrightarrow> js_scan JStr t = JStr \<and> js_erase JStr t = []"
  by (induction t rule: literal_text.induct) (auto simp: plain_char_def split: if_splits)

lemma literal_text_Cons:
  "\<lbrakk>plain_char c; c \<noteq> quote\<rbrakk> \<Longrightarrow> literal_text (c # s) = literal_text s"
  by (cases s) (simp_all add: plain_char_def)

lemma literal_text_escape: "json_text t \<Longrightarrow> literal_text (escape_quotes t)"
  by (induction t rule: json_text.induct)
    (auto simp: literal_text_Cons plain_char_def split: if_splits)

lemma plain_json: "(\<And>c. c \<in> set t \<Longrightarrow> plain_char c) \<Longrightarrow> json_text t"
  by (induction t rule: json_text.induct) (auto simp: plain_char_def)

lemma literal_c_str: "literal_text t \<Longrightarrow> c_str t = t"
  by (induction t rule: literal_text.induct) (auto simp: c_str_def plain_char_def split: if_splits)

lemma c_str_Nil [simp]: "c_str [] = []"
  by (simp add: c_str_def)

lemma splice [simp]:
  "literal_text t \<Longrightarrow> js_scan JStr (c_str t) = JStr"
  "literal_text t \<Longrightarrow> js_erase JStr (c_str t) = []"
  using literal_text_stays literal_c_str by simp_all

text \<open>
  What the properties ask of \<open>EscapeJSONString\<close>, as its documentation says: the result is made of
  plain characters and of escapes of a backslash and a character that is not a quote, and is
  empty only for the empty string.
\<close>

definition escapes_json :: "js_lib \<Rightarrow> bool" where
  "escapes_json js = (\<forall>s. json_text (js_escape js s) \<and> (js_escape js s = [] \<longleftrightarrow> s = []))"

lemma escapes_jsonD:
  assumes "escapes_json js"
  shows "literal_text (escape_quotes (js_escape js s))" "js_escape js s = [] \<longleftrightarrow> s = []"
  using assms by (simp_all add: escapes_json_def literal_text_escape)

subsection \<open>Splicing a text into a template\<close>

lemma scan_splice:
  "\<lbrakk>js_scan JCode a = JStr; literal_text t; js_scan JStr b = JCode\<rbrakk> \<Longrightarrow> js_scan JCode (a @ c_str t @ b) = JCode"
  by simp

lemma erase_splice:
  "\<lbrakk>js_scan JCode a = JStr; literal_text t\<rbrakk> \<Longrightarrow>
   js_erase JCode (a @ c_str t @ b) = js_erase JCode a @ js_erase JStr b"
  by simp

lemma splice_escapes:
  assumes "js_scan JCode a = JStr" "js_erase JStr (c_str t) = p"
  shows "str_contains (js_erase JCode (a @ c_str t @ b)) p"
proof -
  have "js_erase JCode (a @ c_str t @ b) = js_erase JCode a @ p @ js_erase (js_scan JStr (c_str t)) b"
    using assms by simp
  then show ?thesis unfolding str_contains_iff by blast
qed

lemma scan_splice2:
  "\<lbrakk>js_scan JCode a = JStr; literal_text t; js_scan JStr b = JStr; literal_text u; js_scan JStr c = JCode\<rbrakk> \<Longrightarrow>
   js_scan JCode (a @ c_str t @ b @ c_str u @ c) = JCode"
  by simp

lemma erase_splice2:
  "\<lbrakk>js_scan JCode a = JStr; literal_text t; js_scan JStr b = JStr; literal_text u\<rbrakk> \<Longrightarrow>
   js_erase JCode (a @ c_str t @ b @ c_str u @ c) = js_erase JCode a @ js_erase JStr b @ js_erase JStr c"
  by simp

lemma c_str_plain: "(\<And>c. c \<in> set s \<Longrightarrow> c \<noteq> CHR 0x00) \<Longrightarrow> c_str s = s"
  by (simp add: c_str_def takeWhile_eq_all_conv)

lemma literal_no_nul: "literal_text t \<Longrightarrow> c \<in> set t \<Longrightarrow> c \<noteq> CHR 0x00"
  by (induction t rule: literal_text.induct) (auto simp: plain_char_def split: if_splits)

text \<open>Scripts are built by appending parts, some only under a condition.\<close>

definition add_when :: "bool \<Rightarrow> string \<Rightarrow> string \<Rightarrow> string" where
  "add_when b part script = (if b then (script @ part) @ [newline] else script)"

lemma add_when_eq: "add_when b part script = script @ (if b then part @ [newline] else [])"
  by (simp add: add_when_def)

lemma scan_add_when:
  "\<lbrakk>js_scan JCode script = JCode; b \<Longrightarrow> js_scan JCode part = JCode\<rbrakk> \<Longrightarrow>
   js_scan JCode (add_when b part script) = JCode"
  by (simp add: add_when_eq)

lemma erase_add_when:
  "\<lbrakk>js_scan JCode script = JCode; b \<Longrightarrow> js_scan JCode part = JCode\<rbrakk> \<Longrightarrow>
   js_erase JCode (add_when b part script) =
     js_erase JCode script @ (if b then js_erase JCode part @ [newline] else [])"
  by (simp add: add_when_eq)

end
