(* ===== verification/Anti_Detection.thy ===== *)
theory Anti_Detection
  imports Js_Text Workspace_Model
begin

text \<open>
  The scripts that hide the fingerprint, \<open>content/anti_detection/anti_detection_engine.cc\<close>: each
  generator is a function to the text of the script. The escaping of JSON strings and the
  humanising engine are code outside the repository, fields of \<open>js_lib\<close>. The properties read the
  generated text with a small lexer of single-quoted JavaScript strings and show where the text
  of a workspace's fields can and cannot leave the literal it is put in.
\<close>

subsection \<open>Generators\<close>

definition generate_prng_function :: "int \<Rightarrow> string" where
  "generate_prng_function seed =
     ''function _pcNoise(base,index){var s='' @ show_int seed @
     ('';var x=(s*0x9E3779B9+index)&0xFFFFFFFF;var y=((x^(x>>>16))*0x85EBCA6B)&0xFFFFFFFF;'' @
     ''var z=((y^(y>>>13))*0xC2B2AE35)&0xFFFFFFFF;var delta=((z&0xFF)-128);return Math.max(0,'' @
     ''Math.min(255,base+delta));}'')"

definition generate_canvas_protector :: "int \<Rightarrow> string" where
  \<open>generate_canvas_protector seed =
     (''var _origGetImageData=CanvasRenderingContext2D.prototype.getImageData;'' @
     ''CanvasRenderingContext2D.prototype.getImageData=function(){'' @
     ''var d=_origGetImageData.apply(this,arguments);for(var i=0;i<d.data.length;i+=4){'' @
     ''d.data[i]=_pcNoise(d.data[i],'') @ show_int seed @
     ''+i);d.data[i+1]=_pcNoise(d.data[i+1],'' @ show_int seed @
     ''+i+1);d.data[i+2]=_pcNoise(d.data[i+2],'' @ show_int seed @
     (''+i+2);}return d;};var _origToDataURL=HTMLCanvasElement.prototype.toDataURL;'' @
     ''HTMLCanvasElement.prototype.toDataURL=function(){var ctx=this.getContext(\'2d\');if(ctx){'' @
     ''try{var w=this.width,h=this.height;var img=_origGetImageData.call(ctx,0,0,Math.min(w,1),'' @
     ''Math.min(h,1));if(img&&img.data&&img.data.length>=4){img.data[0]=_pcNoise(img.data[0],'') @ show_int seed @
     '');ctx.putImageData(img,0,0);}}catch(e){}}return _origToDataURL.apply(this,arguments);};''\<close>

definition webgl_filter_only :: string where
  \<open>webgl_filter_only =
     ''var _origGetExt=WebGLRenderingContext.prototype.getSupportedExtensions;'' @
     ''WebGLRenderingContext.prototype.getSupportedExtensions=function(){'' @
     ''var e=_origGetExt.call(this)||[];return e.filter(function(x){'' @
     ''return x.indexOf(\'WEBGL_debug_renderer\')===-1;});};''\<close>

definition webgl_override :: "string \<Rightarrow> string \<Rightarrow> string" where
  \<open>webgl_override vendor renderer =
     (''var _v='' @ [quote]) @ c_str vendor @
     (''\',_r='' @ [quote]) @ c_str renderer @
     (''\';var _origGetParam=WebGLRenderingContext.prototype.getParameter;'' @
     ''WebGLRenderingContext.prototype.getParameter=function(p){if(p===0x9245)return _v;'' @
     ''if(p===0x9246)return _r;if(p===0x1F01&&_r)return _r;if(p===0x1F00&&_v)return _v;'' @
     ''return _origGetParam.call(this,p);};if(typeof WebGL2RenderingContext!==\'undefined\'){'' @
     ''var _origGetParam2=WebGL2RenderingContext.prototype.getParameter;'' @
     ''WebGL2RenderingContext.prototype.getParameter=function(p){if(p===0x9245)return _v;'' @
     ''if(p===0x9246)return _r;if(p===0x1F01&&_r)return _r;if(p===0x1F00&&_v)return _v;'' @
     ''return _origGetParam2.call(this,p);};}'' @
     ''var _origGetExt=WebGLRenderingContext.prototype.getSupportedExtensions;'' @
     ''WebGLRenderingContext.prototype.getSupportedExtensions=function(){'' @
     ''var e=_origGetExt.call(this)||[];return e.filter(function(x){'' @
     ''return x.indexOf(\'debug\')===-1;});};'')\<close>

definition generate_webgl_protector :: "js_lib \<Rightarrow> workspace \<Rightarrow> string" where
  "generate_webgl_protector js w =
     (let vendor = (if ws_gpu_vendor w \<noteq> [] then escape_quotes (js_escape js (ws_gpu_vendor w)) else []);
          renderer = (if ws_gpu_renderer w \<noteq> []
                      then escape_quotes (js_escape js (ws_gpu_renderer w)) else [])
      in if vendor = [] \<and> renderer = [] then webgl_filter_only
         else webgl_override vendor renderer)"

definition generate_audio_protector :: "int \<Rightarrow> string" where
  "generate_audio_protector seed =
     (''var _origGetFloat=AnalyserNode.prototype.getFloatFrequencyData;'' @
     ''AnalyserNode.prototype.getFloatFrequencyData=function(arr){_origGetFloat.call(this,arr);'' @
     ''for(var i=0;i<arr.length;i++){var n=((_pcNoise(0,'') @ show_int seed @
     (''+i)-128)/256)*0.5;arr[i]+=n;}};'' @
     ''var _origGetByte=AnalyserNode.prototype.getByteFrequencyData;'' @
     ''AnalyserNode.prototype.getByteFrequencyData=function(arr){_origGetByte.call(this,arr);'' @
     ''for(var i=0;i<arr.length;i++){arr[i]=_pcNoise(arr[i],'') @ show_int seed @
     (''+i);}};var _origGetChannel=AudioBuffer.prototype.getChannelData;'' @
     ''AudioBuffer.prototype.getChannelData=function(ch){var d=_origGetChannel.call(this,ch);'' @
     ''for(var i=0;i<d.length;i++){d[i]+=((_pcNoise(128,'') @ show_int seed @
     ''+i)-128)/256)*0.0001;}return d;};''"

definition generate_font_protector :: "int \<Rightarrow> string" where
  \<open>generate_font_protector seed =
     (''if(\'queryLocalFonts\' in window){var _origQueryFonts=window.queryLocalFonts;'' @
     ''window.queryLocalFonts=function(){return _origQueryFonts.apply(this,'' @
     ''arguments).then(function(fonts){var allowed=[\'Arial\',\'Helvetica\',\'Times New Roman\','' @
     ''\'Courier New\',\'Georgia\',\'Palatino\',\'Garamond\',\'Bookman\',\'Comic Sans MS\',\'Trebuchet MS\','' @
     ''\'Arial Black\',\'Impact\',\'Verdana\',\'Tahoma\',\'Segoe UI\',\'Calibri\',\'Cambria\',\'Consolas\','' @
     ''\'DejaVu Sans\',\'DejaVu Serif\',\'DejaVu Sans Mono\',\'Liberation Sans\',\'Liberation Serif\','' @
     ''\'Liberation Mono\',\'Noto Sans\',\'Noto Serif\',\'Roboto\',\'Open Sans\',\'Source Sans Pro\','' @
     ''\'Ubuntu\',\'Cantarell\',\'Menlo\',\'Monaco\'];return fonts.filter(function(f){'' @
     ''return allowed.some(function(a){'' @
     ''return f.family.toLowerCase().indexOf(a.toLowerCase())>=0;});});});};}'' @
     ''var _origMeasureText=CanvasRenderingContext2D.prototype.measureText;'' @
     ''CanvasRenderingContext2D.prototype.measureText=function(text){'' @
     ''var m=_origMeasureText.call(this,text);var orig={width:m.width,'' @
     ''actualBoundingBoxLeft:m.actualBoundingBoxLeft||0,'' @
     ''actualBoundingBoxRight:m.actualBoundingBoxRight||0,'' @
     ''actualBoundingBoxAscent:m.actualBoundingBoxAscent||0,'' @
     ''actualBoundingBoxDescent:m.actualBoundingBoxDescent||0};'' @
     ''m.width=orig.width+((_pcNoise(128,'') @ show_int seed @
     '')-128)/256)*0.1;m.actualBoundingBoxLeft=orig.actualBoundingBoxLeft+((_pcNoise(128,'' @ show_int seed @
     ''+1)-128)/256)*0.1;m.actualBoundingBoxRight=orig.actualBoundingBoxRight+((_pcNoise(128,'' @ show_int seed @
     ''+2)-128)/256)*0.1;return m;};''\<close>

definition generate_webrtc_protector :: string where
  \<open>generate_webrtc_protector =
     ''var _origRTC=window.RTCPeerConnection;if(_origRTC){var _RTCWrapper=function(config,'' @
     ''constraints){if(config&&config.iceServers){'' @
     ''config.iceServers=config.iceServers.map(function(s){return{urls:s.urls,'' @
     ''username:s.username,credential:s.credential};});}var pc=new _origRTC(config,'' @
     ''constraints);var _origAddIceCandidate=pc.addIceCandidate;'' @
     ''pc.addIceCandidate=function(candidate){if(candidate&&candidate.candidate){'' @
     ''var c=candidate.candidate;if(c.indexOf(\'srflx\')!==-1){return Promise.resolve();}}'' @
     ''return _origAddIceCandidate.apply(this,arguments);};return pc;};'' @
     ''_RTCWrapper.prototype=_origRTC.prototype;window.RTCPeerConnection=_RTCWrapper;'' @
     ''if(typeof window.webkitRTCPeerConnection!==\'undefined\'){'' @
     ''window.webkitRTCPeerConnection=_RTCWrapper;}}if(typeof RTCPeerConnection!==\'undefined\'){'' @
     ''Object.defineProperty(navigator,\'mediaDevices\',{get:function(){'' @
     ''var d=Object.getOwnPropertyDescriptor(Navigator.prototype,'' @
     ''\'mediaDevices\')  ||Object.getOwnPropertyDescriptor(navigator,\'mediaDevices\');'' @
     ''if(d&&d.get){var origDevices=d.get.call(navigator);'' @
     ''var wrapper=Object.create(origDevices);wrapper.enumerateDevices=function(){'' @
     ''return origDevices.enumerateDevices().then(function(devices){'' @
     ''return devices.map(function(d){return{kind:d.kind,deviceId:'' @ [quote] @ [quote] @ '',groupId:'' @ [quote] @ [quote] @ '','' @
     ''label:d.kind===\'videoinput\'?\'camera\':\'audio\'};});});};return wrapper;}return undefined;}'' @
     ''});}''\<close>

definition generate_webdriver_remover :: string where
  \<open>generate_webdriver_remover =
     ''try{Object.defineProperty(navigator,\'webdriver\',{get:function(){return undefined;},'' @
     ''configurable:true});}catch(e){}try{delete window.cdc_adoQpoasnfa76pfcZLmcfl_Array;'' @
     ''delete window.cdc_adoQpoasnfa76pfcZLmcfl_Promise;'' @
     ''delete window.cdc_adoQpoasnfa76pfcfl_Symbol;}catch(e){}try{'' @
     ''Object.defineProperty(navigator,\'plugins\',{get:function(){return[{name:\'PDF Viewer\','' @
     ''filename:\'internal-pdf-viewer\',description:\'Portable Document Format\'},{'' @
     ''name:\'Chrome PDF Viewer\',filename:\'internal-pdf-viewer\','' @
     ''description:\'Portable Document Format\'},{name:\'Chromium PDF Viewer\','' @
     ''filename:\'internal-pdf-viewer\',description:\'Portable Document Format\'},{'' @
     ''name:\'Microsoft Edge PDF Viewer\',filename:\'internal-pdf-viewer\','' @
     ''description:\'Portable Document Format\'},{name:\'WebKit built-in PDF\','' @
     ''filename:\'internal-pdf-viewer\',description:\'Portable Document Format\'}];},'' @
     ''configurable:true});}catch(e){}try{Object.defineProperty(navigator,\'languages\',{'' @
     ''get:function(){return[\'en-US\',\'en\'];},configurable:true});}catch(e){}''\<close>

definition add_api :: "string \<Rightarrow> string \<Rightarrow> string" where
  "add_api name apis = (if apis \<noteq> [] then apis @ '','' else apis) @ [quote] @ name @ [quote]"

definition hidden_apis :: "string \<Rightarrow> string" where
  "hidden_apis platform =
     (let apis = [];
          apis = (if platform = ''windows'' \<or> platform = ''macos'' \<or> platform = ''linux''
                  then add_api ''wakeLock'' (add_api ''virtualKeyboard'' (add_api ''mediaSession'' apis))
                  else apis);
          apis = (if platform = ''linux'' then add_api ''serial'' (add_api ''bluetooth'' apis) else apis);
          apis = (if platform = ''macos'' then add_api ''serial'' apis else apis)
      in apis)"

definition hide_apis :: "string \<Rightarrow> string" where
  "hide_apis apis =
     ''try{var _hidden=['' @ c_str apis @
     (''];for(var _i=0;_i<_hidden.length;_i++){var _api=_hidden[_i];try{if(_api in navigator){'' @
     ''Object.defineProperty(navigator,_api,{value:undefined,writable:false,configurable:true}'' @
     '');}}catch(e){}try{if(_api in window){Object.defineProperty(window,_api,{value:undefined,'' @
     ''writable:false,configurable:true});}}catch(e){}}}catch(e){}'')"

definition generate_feature_consistency_protector :: "string \<Rightarrow> string" where
  "generate_feature_consistency_protector platform =
     (if platform = [] then []
      else let apis = hidden_apis platform in
        if apis = [] then [] else hide_apis apis)"

definition blocked_patterns :: "string \<Rightarrow> string" where
  \<open>blocked_patterns gpu_vendor =
     (if str_contains gpu_vendor ''NVIDIA'' \<or> str_contains gpu_vendor ''AMD''
      then ''\'NV_\',\'AMD_\',\'ATI_\',\'INTEL_\',\'QCOM_\',\'SAMSUNG_\',\'IMG_'' @ [quote]
      else ''\'NV_\',\'AMD_\',\'ATI_\',\'INTEL_\',\'QCOM_'' @ [quote])\<close>

definition generate_webgl_extension_filter :: "string \<Rightarrow> string" where
  \<open>generate_webgl_extension_filter gpu_vendor =
     ''try{var _blocked=['' @ blocked_patterns gpu_vendor @
     ('',\'debug\'];var _origExt=WebGLRenderingContext.prototype.getSupportedExtensions;'' @
     ''WebGLRenderingContext.prototype.getSupportedExtensions=function(){'' @
     ''var e=_origExt.call(this)||[];return e.filter(function(x){for(var _b=0;'' @
     ''_b<_blocked.length;_b++){if(x.indexOf(_blocked[_b])!==-1)return false;}return true;});};'' @
     ''if(typeof WebGL2RenderingContext!==\'undefined\'){'' @
     ''var _origExt2=WebGL2RenderingContext.prototype.getSupportedExtensions;'' @
     ''WebGL2RenderingContext.prototype.getSupportedExtensions=function(){'' @
     ''var e=_origExt2.call(this)||[];return e.filter(function(x){for(var _b=0;'' @
     ''_b<_blocked.length;_b++){if(x.indexOf(_blocked[_b])!==-1)return false;}return true;});};'' @
     ''}}catch(e){}'')\<close>

definition generate_performance_protector :: string where
  \<open>generate_performance_protector =
     ''try{var _origNow=performance.now.bind(performance);performance.now=function(){'' @
     ''return Math.floor(_origNow()*10)/10;};if(performance.memory){'' @
     ''Object.defineProperty(performance,\'memory\',{value:undefined,writable:false,'' @
     ''configurable:true});}}catch(e){}''\<close>

definition generate_geolocation_protector :: "int \<Rightarrow> int \<Rightarrow> string" where
  "generate_geolocation_protector lat lng =
     (if lat = 0 \<and> lng = 0 then []
      else
     ''try{var _pos={coords:{latitude:'' @ show_fixed6 lat @
     '',longitude:'' @ show_fixed6 lng @
     ('',accuracy:100,altitude:null,altitudeAccuracy:null,heading:null,speed:null},'' @
     ''timestamp:Date.now()};var _origGet=navigator.geolocation.getCurrentPosition;'' @
     ''navigator.geolocation.getCurrentPosition=function(success,error,opts){'' @
     ''setTimeout(function(){success(_pos);},50);};'' @
     ''navigator.geolocation.watchPosition=function(success,error,opts){setTimeout(function(){'' @
     ''success(_pos);},50);var _id=Math.floor(Math.random()*99999)+1;return _id;};}catch(e){}''))"

definition generate_battery_protector :: string where
  "generate_battery_protector =
     ''try{if(navigator.getBattery){var _origGetBattery=navigator.getBattery.bind(navigator);'' @
     ''navigator.getBattery=function(){return _origGetBattery().then(function(battery){'' @
     ''Object.defineProperties(battery,{charging:{get:function(){return true;},'' @
     ''configurable:true},chargingTime:{get:function(){return 0;},configurable:true},'' @
     ''dischargingTime:{get:function(){return Infinity;},configurable:true},level:{'' @
     ''get:function(){return 1.0;},configurable:true}});return battery;});};}}catch(e){}''"

definition generate_network_info_protector :: string where
  \<open>generate_network_info_protector =
     ''try{if(navigator.connection){Object.defineProperties(navigator.connection,{'' @
     ''effectiveType:{get:function(){return \'4g\';},configurable:true},downlink:{get:function(){'' @
     ''return 10;},configurable:true},rtt:{get:function(){return 50;},configurable:true},'' @
     ''saveData:{get:function(){return false;},configurable:true}});}}catch(e){}''\<close>

definition generate_hardware_concurrency_protector :: "int \<Rightarrow> string" where
  \<open>generate_hardware_concurrency_protector hw_concurrency =
     (if hw_concurrency \<le> 0 then []
      else
     ''try{Object.defineProperty(navigator,\'hardwareConcurrency\',{get:function(){return '' @ show_int hw_concurrency @
     '';},configurable:true});}catch(e){}'')\<close>

definition generate_device_memory_protector :: "int \<Rightarrow> string" where
  \<open>generate_device_memory_protector device_memory =
     (if device_memory \<le> 0 then []
      else
     ''try{Object.defineProperty(navigator,\'deviceMemory\',{get:function(){return '' @ show_int device_memory @
     '';},configurable:true});}catch(e){}'')\<close>

definition generate_screen_protector :: "int \<Rightarrow> int \<Rightarrow> string" where
  "generate_screen_protector width height =
     (if width \<le> 0 \<or> height \<le> 0 then []
      else
     ''try{var _w='' @ show_int width @
     '',_h='' @ show_int height @
     ('';Object.defineProperties(screen,{width:{get:function(){return _w;},configurable:true},'' @
     ''height:{get:function(){return _h;},configurable:true},availWidth:{get:function(){'' @
     ''return _w;},configurable:true},availHeight:{get:function(){return _h;},'' @
     ''configurable:true},colorDepth:{get:function(){return 24;},configurable:true},'' @
     ''pixelDepth:{get:function(){return 24;},configurable:true}});}catch(e){}''))"

definition timezone_script :: "string \<Rightarrow> string" where
  \<open>timezone_script escaped =
     (''try{var _tz='' @ [quote]) @ c_str escaped @
     (''\';var _origDTF=Intl.DateTimeFormat;Intl.DateTimeFormat=function(locales,opts){'' @
     ''opts=Object.assign({},opts);if(opts.timeZone)opts.timeZone=_tz;'' @
     ''return new _origDTF(locales,opts);};Intl.DateTimeFormat.prototype=_origDTF.prototype;'' @
     ''Intl.DateTimeFormat.resolvedOptions=function(){var r=_origDTF().resolvedOptions();'' @
     ''r.timeZone=_tz;return r;};var _tzOffset=(function(){var map={\'America/New_York\':300,'' @
     ''\'America/Chicago\':360,\'America/Denver\':420,\'America/Los_Angeles\':480,'' @
     ''\'America/Anchorage\':540,\'Pacific/Honolulu\':600,\'Europe/London\':0,\'Europe/Paris\':-60,'' @
     ''\'Europe/Berlin\':-60,\'Europe/Moscow\':-180,\'Europe/Dublin\':0,\'Asia/Shanghai\':-480,'' @
     ''\'Asia/Tokyo\':-540,\'Asia/Seoul\':-540,\'Asia/Hong_Kong\':-480,\'Asia/Singapore\':-480,'' @
     ''\'Asia/Kolkata\':-330,\'Asia/Dubai\':-240,\'Asia/Jakarta\':-420,\'Australia/Sydney\':-660,'' @
     ''\'Australia/Melbourne\':-660,\'Pacific/Auckland\':-720,\'Canada/Eastern\':300,'' @
     ''\'Canada/Central\':360,\'Brazil/East\':-180,\'UTC\':0,\'GMT\':0};return map[_tz];})();'' @
     ''if(_tzOffset!==undefined){var _origGetTO=Date.prototype.getTimezoneOffset;'' @
     ''Date.prototype.getTimezoneOffset=function(){return _tzOffset;};}}catch(e){}'')\<close>

definition generate_timezone_protector :: "string \<Rightarrow> string" where
  "generate_timezone_protector tz = (if tz = [] then [] else timezone_script (escape_quotes tz))"

definition js_platform :: "string \<Rightarrow> string" where
  "js_platform platform =
     (if platform = ''windows'' then ''Win32''
      else if platform = ''macos'' then ''MacIntel''
      else if platform = ''linux'' then ''Linux x86_64''
      else platform)"

definition generate_platform_protector :: "string \<Rightarrow> string" where
  \<open>generate_platform_protector platform =
     (if platform = [] then []
      else
     (''try{Object.defineProperty(navigator,\'platform\',{get:function(){return '' @ [quote]) @ c_str (js_platform platform) @
     ''\';},configurable:true});}catch(e){}'')\<close>

definition generate_color_scheme_protector :: "string \<Rightarrow> string" where
  \<open>generate_color_scheme_protector scheme =
     (if scheme = [] then []
      else let is_dark = (scheme = ''dark''); is_light = (scheme = ''light'') in
     (''try{var _matchMedia=window.matchMedia;window.matchMedia=function(query){'' @
     ''var m=_matchMedia.call(window,query);if(query.indexOf(\'prefers-color-scheme\')!==-1){'' @
     ''var _origGet=m.__lookupGetter__(\'matches\');Object.defineProperty(m,\'matches\',{'' @
     ''get:function(){return query.indexOf(\'dark\')!==-1?'') @ (if is_dark then ''true'' else ''false'') @
     '':query.indexOf(\'light\')!==-1?'' @ (if is_light then ''true'' else ''false'') @
     '':false;},configurable:true});}return m;};}catch(e){}'')\<close>

subsection \<open>The whole script\<close>

text \<open>Coordinates of a time zone, in millionths of a degree.\<close>

definition coordinates_of :: "string \<Rightarrow> int \<times> int" where
  "coordinates_of tz =
     (if str_contains tz ''Europe'' then (48856600, 2352200)
      else if str_contains tz ''Asia/Shanghai'' \<or> str_contains tz ''Asia/Hong_Kong''
        then (31230400, 121473700)
      else if str_contains tz ''Asia/Tokyo'' then (35676200, 139650300)
      else if str_contains tz ''Australia'' then (-33868800, 151209300)
      else if str_contains tz ''America/Los_Angeles'' then (34052200, -118243700)
      else (40712800, -74006000))"

definition generate_protection_script :: "js_lib \<Rightarrow> workspace \<Rightarrow> string" where
  "generate_protection_script js w =
     (if ws_fingerprint_seed w = 0 then []
      else let
        seed = ws_fingerprint_seed w;
        script = [];
        script = script @ ''(function(){'';
        script = add_when True (generate_prng_function seed) script;
        script = add_when True (generate_canvas_protector seed) script;
        script = add_when True (generate_webgl_protector js w) script;
        script = add_when True (generate_audio_protector seed) script;
        script = add_when True (generate_font_protector seed) script;
        script = add_when True generate_webrtc_protector script;
        script = add_when True generate_webdriver_remover script;
        script = add_when (ws_hardware_concurrency w > 0)
          (generate_hardware_concurrency_protector (ws_hardware_concurrency w)) script;
        script = add_when (ws_screen_width w > 0 \<and> ws_screen_height w > 0)
          (generate_screen_protector (ws_screen_width w) (ws_screen_height w)) script;
        script = add_when (ws_timezone w \<noteq> []) (generate_timezone_protector (ws_timezone w)) script;
        script = add_when (ws_platform w \<noteq> []) (generate_platform_protector (ws_platform w)) script;
        script = add_when (ws_color_scheme w \<noteq> [])
          (generate_color_scheme_protector (ws_color_scheme w)) script;
        script = add_when (ws_platform w \<noteq> [])
          (generate_feature_consistency_protector (ws_platform w)) script;
        script = add_when (ws_gpu_vendor w \<noteq> [])
          (generate_webgl_extension_filter (ws_gpu_vendor w)) script;
        script = add_when True generate_performance_protector script;
        (lat, lng) = coordinates_of (ws_timezone w);
        script = add_when (ws_timezone w \<noteq> []) (generate_geolocation_protector lat lng) script;
        script = add_when True generate_battery_protector script;
        script = add_when True generate_network_info_protector script
      in script @ ''})();'')"

named_theorems scans "generated scripts leave the lexer in code mode"

lemma scan_constant [simp, scans]:
  "js_scan JCode (generate_prng_function seed) = JCode"
  "js_scan JCode (generate_canvas_protector seed) = JCode"
  "js_scan JCode webgl_filter_only = JCode"
  "js_scan JCode (generate_audio_protector seed) = JCode"
  "js_scan JCode (generate_font_protector seed) = JCode"
  "js_scan JCode generate_webrtc_protector = JCode"
  "js_scan JCode generate_webdriver_remover = JCode"
  "js_scan JCode generate_performance_protector = JCode"
  "js_scan JCode generate_battery_protector = JCode"
  "js_scan JCode generate_network_info_protector = JCode"
  by (simp_all add: generate_prng_function_def generate_canvas_protector_def webgl_filter_only_def
      generate_audio_protector_def generate_font_protector_def generate_webrtc_protector_def
      generate_webdriver_remover_def generate_performance_protector_def
      generate_battery_protector_def generate_network_info_protector_def)

lemma scan_number [simp, scans]:
  "js_scan JCode (generate_hardware_concurrency_protector n) = JCode"
  "js_scan JCode (generate_device_memory_protector n) = JCode"
  "js_scan JCode (generate_screen_protector n m) = JCode"
  "js_scan JCode (generate_geolocation_protector n m) = JCode"
  "js_scan JCode (generate_color_scheme_protector s) = JCode"
  by (simp_all add: generate_hardware_concurrency_protector_def generate_device_memory_protector_def
      generate_screen_protector_def generate_geolocation_protector_def
      generate_color_scheme_protector_def Let_def)

lemma scan_blocked [simp, scans]: "js_scan JCode (blocked_patterns v) = JCode"
  by (simp add: blocked_patterns_def)

lemma scan_extension_filter [simp, scans]: "js_scan JCode (generate_webgl_extension_filter v) = JCode"
  by (simp add: generate_webgl_extension_filter_def)

lemma scan_hide_apis [simp, scans]: "js_scan JCode (hide_apis (hidden_apis p)) = JCode"
  by (simp add: hide_apis_def hidden_apis_def add_api_def c_str_def Let_def)

lemma scan_feature [simp, scans]: "js_scan JCode (generate_feature_consistency_protector p) = JCode"
  by (simp add: generate_feature_consistency_protector_def Let_def)

lemma scan_webgl_override [simp, scans]:
  "\<lbrakk>literal_text v; literal_text r\<rbrakk> \<Longrightarrow> js_scan JCode (webgl_override v r) = JCode"
  unfolding webgl_override_def by (rule scan_splice2) simp_all

lemma erase_webgl_override:
  assumes "literal_text v" "literal_text r"
  shows "js_erase JCode (webgl_override v r) = js_erase JCode (webgl_override [] [])"
proof -
  have e: "literal_text []" by simp
  show ?thesis
    unfolding webgl_override_def
    by (subst erase_splice2 [OF _ assms(1) _ assms(2)], simp, simp, subst erase_splice2 [OF _ e _ e], simp, simp)
       (rule refl)
qed

definition webgl_code :: string where
  "webgl_code = js_erase JCode (webgl_override [] [])"

lemma scan_timezone [simp, scans]:
  "literal_text t \<Longrightarrow> js_scan JCode (timezone_script t) = JCode"
  unfolding timezone_script_def by (rule scan_splice) simp_all

lemma erase_timezone:
  assumes "literal_text t"
  shows "js_erase JCode (timezone_script t) = js_erase JCode (timezone_script [])"
proof -
  have e: "literal_text []" by simp
  show ?thesis
    unfolding timezone_script_def
    by (subst erase_splice [OF _ assms], simp, subst erase_splice [OF _ e], simp) (rule refl)
qed

definition timezone_code :: string where
  "timezone_code = js_erase JCode (timezone_script [])"

lemma literal_js_platform: "literal_text p \<Longrightarrow> literal_text (js_platform p)"
  by (simp add: js_platform_def plain_char_def)

lemma scan_platform [simp, scans]:
  "literal_text p \<Longrightarrow> js_scan JCode (generate_platform_protector p) = JCode"
  by (simp add: generate_platform_protector_def literal_js_platform)

lemma scan_webgl [simp, scans]:
  "escapes_json js \<Longrightarrow> js_scan JCode (generate_webgl_protector js w) = JCode"
  by (simp add: generate_webgl_protector_def escapes_jsonD Let_def)

lemma erase_webgl:
  "escapes_json js \<Longrightarrow> js_erase JCode (generate_webgl_protector js w) =
     (if ws_gpu_vendor w = [] \<and> ws_gpu_renderer w = [] then js_erase JCode webgl_filter_only
      else webgl_code)"
  by (simp add: generate_webgl_protector_def escapes_jsonD Let_def
      erase_webgl_override [folded webgl_code_def])

lemma scan_timezone_protector [simp, scans]:
  "json_text t \<Longrightarrow> js_scan JCode (generate_timezone_protector t) = JCode"
  by (simp add: generate_timezone_protector_def literal_text_escape)

lemma erase_timezone_protector:
  "json_text t \<Longrightarrow> js_erase JCode (generate_timezone_protector t) = (if t = [] then [] else timezone_code)"
  by (simp add: generate_timezone_protector_def literal_text_escape
      erase_timezone [folded timezone_code_def])

text \<open>The fields the code of the script depends on; the other texts are only data of it.\<close>

definition script_fields where
  "script_fields w =
     (ws_fingerprint_seed w, ws_hardware_concurrency w, ws_screen_width w, ws_screen_height w,
      ws_platform w, ws_color_scheme w, ws_timezone w = [], coordinates_of (ws_timezone w),
      ws_gpu_vendor w = [], blocked_patterns (ws_gpu_vendor w), ws_gpu_renderer w = [])"

definition script_safe :: "workspace \<Rightarrow> bool" where
  "script_safe w = (json_text (ws_timezone w) \<and> literal_text (ws_platform w))"

lemma scan_protection:
  "\<lbrakk>escapes_json js; script_safe w\<rbrakk> \<Longrightarrow> js_scan JCode (generate_protection_script js w) = JCode"
  by (simp add: generate_protection_script_def script_safe_def Let_def scan_add_when
      split: prod.split)

definition part_when :: "bool \<Rightarrow> string \<Rightarrow> string" where
  "part_when b part = (if b then part @ [newline] else [])"

lemma erase_protection_eq:
  assumes "escapes_json js" "script_safe w"
  shows "js_erase JCode (generate_protection_script js w) =
    (if ws_fingerprint_seed w = 0 then []
     else ''(function(){'' @
       part_when True (js_erase JCode (generate_prng_function (ws_fingerprint_seed w))) @
       part_when True (js_erase JCode (generate_canvas_protector (ws_fingerprint_seed w))) @
       part_when True (js_erase JCode (generate_webgl_protector js w)) @
       part_when True (js_erase JCode (generate_audio_protector (ws_fingerprint_seed w))) @
       part_when True (js_erase JCode (generate_font_protector (ws_fingerprint_seed w))) @
       part_when True (js_erase JCode generate_webrtc_protector) @
       part_when True (js_erase JCode generate_webdriver_remover) @
       part_when (ws_hardware_concurrency w > 0)
         (js_erase JCode (generate_hardware_concurrency_protector (ws_hardware_concurrency w))) @
       part_when (ws_screen_width w > 0 \<and> ws_screen_height w > 0)
         (js_erase JCode (generate_screen_protector (ws_screen_width w) (ws_screen_height w))) @
       part_when (ws_timezone w \<noteq> []) (js_erase JCode (generate_timezone_protector (ws_timezone w))) @
       part_when (ws_platform w \<noteq> []) (js_erase JCode (generate_platform_protector (ws_platform w))) @
       part_when (ws_color_scheme w \<noteq> [])
         (js_erase JCode (generate_color_scheme_protector (ws_color_scheme w))) @
       part_when (ws_platform w \<noteq> [])
         (js_erase JCode (generate_feature_consistency_protector (ws_platform w))) @
       part_when (ws_gpu_vendor w \<noteq> [])
         (js_erase JCode (generate_webgl_extension_filter (ws_gpu_vendor w))) @
       part_when True (js_erase JCode generate_performance_protector) @
       part_when (ws_timezone w \<noteq> [])
         (js_erase JCode (case coordinates_of (ws_timezone w) of (lat, lng) \<Rightarrow>
            generate_geolocation_protector lat lng)) @
       part_when True (js_erase JCode generate_battery_protector) @
       part_when True (js_erase JCode generate_network_info_protector) @ ''})();'')"
proof (cases "ws_fingerprint_seed w = 0")
  case True
  then show ?thesis by (simp add: generate_protection_script_def)
next
  case False
  obtain lat lng where c: "coordinates_of (ws_timezone w) = (lat, lng)" by fastforce
  have safe: "json_text (ws_timezone w)" "literal_text (ws_platform w)"
    using assms(2) by (simp_all add: script_safe_def)
  show ?thesis
    using False c safe assms(1)
    by (simp add: generate_protection_script_def Let_def scan_add_when erase_add_when
        part_when_def [symmetric] split del: if_split)
qed

lemma erase_extension_filter:
  "blocked_patterns v = blocked_patterns v' \<Longrightarrow>
   generate_webgl_extension_filter v = generate_webgl_extension_filter v'"
  by (simp add: generate_webgl_extension_filter_def)

lemma erase_protection:
  assumes "escapes_json js" "script_safe w" "script_safe w'" "script_fields w = script_fields w'"
  shows "js_erase JCode (generate_protection_script js w) = js_erase JCode (generate_protection_script js w')"
proof -
  have f: "ws_fingerprint_seed w = ws_fingerprint_seed w'"
    "ws_hardware_concurrency w = ws_hardware_concurrency w'" "ws_screen_width w = ws_screen_width w'"
    "ws_screen_height w = ws_screen_height w'" "ws_platform w = ws_platform w'"
    "ws_color_scheme w = ws_color_scheme w'" "ws_timezone w = [] \<longleftrightarrow> ws_timezone w' = []"
    "coordinates_of (ws_timezone w) = coordinates_of (ws_timezone w')"
    "ws_gpu_vendor w = [] \<longleftrightarrow> ws_gpu_vendor w' = []"
    "ws_gpu_renderer w = [] \<longleftrightarrow> ws_gpu_renderer w' = []"
    "generate_webgl_extension_filter (ws_gpu_vendor w) = generate_webgl_extension_filter (ws_gpu_vendor w')"
    using assms(4) by (auto simp: script_fields_def intro: erase_extension_filter)
  have safe: "json_text (ws_timezone w)" "json_text (ws_timezone w')"
    using assms(2, 3) by (simp_all add: script_safe_def)
  have parts: "js_erase JCode (generate_webgl_protector js w) = js_erase JCode (generate_webgl_protector js w')"
    "js_erase JCode (generate_timezone_protector (ws_timezone w)) =
     js_erase JCode (generate_timezone_protector (ws_timezone w'))"
    using assms(1) safe f(7, 9, 10) by (simp_all add: erase_webgl erase_timezone_protector)
  show ?thesis
    unfolding erase_protection_eq [OF assms(1, 2)] erase_protection_eq [OF assms(1, 3)] parts f
    by (rule refl)
qed

lemma script_head:
  assumes "ws_fingerprint_seed w \<noteq> 0"
  obtains rest where "generate_protection_script js w =
    ''(function(){function _pcNoise(base,index){var s='' @ show_int (ws_fingerprint_seed w) @
    CHR '';'' # rest"
proof -
  obtain lat lng where c: "coordinates_of (ws_timezone w) = (lat, lng)" by fastforce
  have p: "\<exists>r. generate_prng_function seed =
    ''function _pcNoise(base,index){var s='' @ show_int seed @ CHR '';'' # r" for seed
    by (simp add: generate_prng_function_def)
  obtain r where "generate_prng_function (ws_fingerprint_seed w) =
    ''function _pcNoise(base,index){var s='' @ show_int (ws_fingerprint_seed w) @ CHR '';'' # r"
    using p by blast
  then show ?thesis
    using that assms by (simp add: generate_protection_script_def Let_def add_when_eq c)
qed

lemma script_empty: "generate_protection_script js w = [] \<longleftrightarrow> ws_fingerprint_seed w = 0"
proof
  assume empty: "generate_protection_script js w = []"
  show "ws_fingerprint_seed w = 0"
  proof (rule ccontr)
    assume "ws_fingerprint_seed w \<noteq> 0"
    then show False by (rule script_head [where js = js]) (simp add: empty)
  qed
qed (simp add: generate_protection_script_def)

lemma timezone_escapes:
  "js_erase JStr (c_str t) = p \<Longrightarrow> str_contains (js_erase JCode (timezone_script t)) p"
  unfolding timezone_script_def by (rule splice_escapes) simp_all

lemma platform_escapes:
  "\<lbrakk>js_erase JStr (c_str (js_platform t)) = p; t \<noteq> []\<rbrakk> \<Longrightarrow>
   str_contains (js_erase JCode (generate_platform_protector t)) p"
  unfolding generate_platform_protector_def by (simp only: if_False) (rule splice_escapes; simp)

subsection \<open>Properties\<close>

text \<open>
  C35 (functional): the seed can be read off the script. Two workspaces with the same script have
  the same seed, whatever their other fields: distinct seeds never give the same protection, and
  the script is empty exactly for seed 0.
\<close>

theorem script_determines_seed:
  assumes "generate_protection_script js w = generate_protection_script js w'"
  shows "ws_fingerprint_seed w = ws_fingerprint_seed w'"
proof (cases "ws_fingerprint_seed w = 0 \<or> ws_fingerprint_seed w' = 0")
  case True
  then show ?thesis using assms script_empty by metis
next
  case False
  then have nz: "ws_fingerprint_seed w \<noteq> 0" "ws_fingerprint_seed w' \<noteq> 0" by simp_all
  obtain r where
    r: "generate_protection_script js w = ''(function(){function _pcNoise(base,index){var s='' @
        show_int (ws_fingerprint_seed w) @ CHR '';'' # r"
    using nz(1) by (rule script_head)
  obtain r' where
    r': "generate_protection_script js w' = ''(function(){function _pcNoise(base,index){var s='' @
        show_int (ws_fingerprint_seed w') @ CHR '';'' # r'"
    using nz(2) by (rule script_head)
  have sep: "CHR '';'' \<notin> set (show_int i)" for i using show_int_chars [where c = "CHR '';''" and i = i] by auto
  have "show_int (ws_fingerprint_seed w) @ CHR '';'' # r = show_int (ws_fingerprint_seed w') @ CHR '';'' # r'"
    using assms unfolding r r' same_append_eq .
  from append_sep_inj [OF sep sep this]
  have "show_int (ws_fingerprint_seed w) = show_int (ws_fingerprint_seed w')" ..
  then show ?thesis by simp
qed

theorem script_determines_seed_witness:
  "generate_protection_script \<lparr>js_escape = (\<lambda>s. s), js_humanize = (\<lambda>s. [])\<rparr>
     (workspace_default\<lparr>ws_fingerprint_seed := 7, ws_name := ''a''\<rparr>) =
   generate_protection_script \<lparr>js_escape = (\<lambda>s. s), js_humanize = (\<lambda>s. [])\<rparr>
     (workspace_default\<lparr>ws_fingerprint_seed := 7, ws_name := ''b''\<rparr>) \<and>
   ws_fingerprint_seed (workspace_default\<lparr>ws_fingerprint_seed := 7, ws_name := ''a''\<rparr>) =
   ws_fingerprint_seed (workspace_default\<lparr>ws_fingerprint_seed := 7, ws_name := ''b''\<rparr>)"
proof -
  have webgl: "generate_webgl_protector js (workspace_default\<lparr>ws_fingerprint_seed := 7, ws_name := ''a''\<rparr>) =
        generate_webgl_protector js (workspace_default\<lparr>ws_fingerprint_seed := 7, ws_name := ''b''\<rparr>)" for js
    by (simp add: generate_webgl_protector_def)
  have same: "generate_protection_script js (workspace_default\<lparr>ws_fingerprint_seed := 7, ws_name := ''a''\<rparr>) =
        generate_protection_script js (workspace_default\<lparr>ws_fingerprint_seed := 7, ws_name := ''b''\<rparr>)"
    for js by (simp add: generate_protection_script_def webgl Let_def split del: if_split)
  show ?thesis using same script_determines_seed [OF same] by blast
qed

text \<open>
  What the escaping misses. The time zone's quotes are escaped but not its
  backslashes, and the platform is not escaped at all: a backslash and a quote in the time zone,
  a quote in the platform, end the literal, and the text after it is code of the script.
\<close>

theorem unescaped_text_becomes_code:
  "str_contains (js_erase JCode (generate_timezone_protector
       ([backslash, quote] @ ''+alert(1);//''))) ''+alert(1);//'' \<and>
   str_contains (js_erase JCode (generate_platform_protector ([quote] @ ''+alert(1);//'')))
     ''+alert(1);//''"
proof
  show "str_contains (js_erase JCode (generate_timezone_protector
       ([backslash, quote] @ ''+alert(1);//''))) ''+alert(1);//''"
    by (simp add: generate_timezone_protector_def timezone_escapes c_str_def)
  show "str_contains (js_erase JCode (generate_platform_protector ([quote] @ ''+alert(1);//'')))
     ''+alert(1);//''"
    by (rule platform_escapes) (simp_all add: c_str_def js_platform_def)
qed

end
