(* ===== verification/Cdp_Injector.thy ===== *)
theory Cdp_Injector
  imports Anti_Detection Json_Value
begin

text \<open>
  The commands and scripts that put a workspace's settings into a running browser,
  \<open>content/profile_cdp_injector.cc\<close>.
\<close>

subsection \<open>Commands\<close>

definition make_command :: "string \<Rightarrow> dict \<Rightarrow> dict" where
  "make_command method params =
     (let command = [];
          command = dict_set ''method'' (JString method) command;
          command = dict_set ''params'' (JDict params) command
      in command)"

definition make_screen_override :: "int \<Rightarrow> int \<Rightarrow> dict" where
  "make_screen_override width height =
     (let params = [];
          params = dict_set ''width'' (JInt width) params;
          params = dict_set ''height'' (JInt height) params;
          params = dict_set ''deviceScaleFactor'' (JInt 1) params;
          params = dict_set ''mobile'' (JBool False) params
      in make_command ''Emulation.setDeviceMetricsOverride'' params)"

definition make_timezone_override :: "string \<Rightarrow> dict" where
  "make_timezone_override timezone =
     make_command ''Emulation.setTimezoneOverride'' (dict_set ''timezoneId'' (JString timezone) [])"

definition make_dark_mode_override :: "bool \<Rightarrow> dict" where
  "make_dark_mode_override enabled =
     make_command ''Emulation.setAutoDarkModeOverride'' (dict_set ''enabled'' (JBool enabled) [])"

definition make_script_injection :: "string \<Rightarrow> dict" where
  "make_script_injection source =
     make_command ''Page.addScriptToEvaluateOnNewDocument'' (dict_set ''source'' (JString source) [])"

subsection \<open>Scripts\<close>

definition navigator_platform :: "string \<Rightarrow> string" where
  "navigator_platform platform =
     (if platform = ''windows'' then ''Win32''
      else if platform = ''macos'' then ''MacIntel''
      else if platform = ''linux'' then ''Linux x86_64''
      else if platform = [] then ''Win32''
      else platform)"

definition user_agent_override :: "string \<Rightarrow> string" where
  \<open>user_agent_override escaped_ua =
     ''userAgent:{get:function(){return '' @ [quote] @ c_str escaped_ua @ ''\';}},''\<close>

definition navigator_head :: "string \<Rightarrow> int \<Rightarrow> string" where
  \<open>navigator_head platform concurrency =
     (''(function(){var overrides={platform:{get:function(){return '' @ [quote]) @ c_str platform @
     ''\';}},hardwareConcurrency:{get:function(){return '' @ show_int concurrency @
     '';}},''\<close>

definition navigator_tail :: string where
  "navigator_tail =
     (''};for(var k in overrides){try{Object.defineProperty(navigator,k,overrides[k]);}catch(e){'' @
     ''}}})();'')"

definition navigator_script :: "string \<Rightarrow> int \<Rightarrow> string \<Rightarrow> string" where
  "navigator_script platform concurrency agent =
     navigator_head platform concurrency @ c_str agent @ navigator_tail"

definition generate_navigator_overrides :: "js_lib \<Rightarrow> workspace \<Rightarrow> string" where
  "generate_navigator_overrides js w =
     (let platform = navigator_platform (ws_platform w);
          concurrency = ws_hardware_concurrency w;
          concurrency = (if concurrency \<le> 0 then 4 else concurrency);
          escaped_ua = (if ws_user_agent w \<noteq> [] then escape_quotes (js_escape js (ws_user_agent w)) else [])
      in navigator_script platform concurrency
           (if escaped_ua = [] then [] else user_agent_override escaped_ua))"

definition screen_script :: "int \<Rightarrow> int \<Rightarrow> string" where
  \<open>screen_script width height =
     (''(function(){var _s=window.screen;if(!_s)return;try{window.screen=new Proxy(_s,{'' @
     ''get:function(t,p){if(p===\'width\'||p===\'availWidth\')return '') @ show_int width @
     '';if(p===\'height\'||p===\'availHeight\')return '' @ show_int height @
     ('';if(p===\'availLeft\')return 0;if(p===\'availTop\')return 0;var v=t[p];'' @
     ''return typeof v===\'function\'?v.bind(t):v;}});}catch(e){}})();'')\<close>

definition generate_screen_overrides :: "workspace \<Rightarrow> string" where
  "generate_screen_overrides w =
     (let width = (if ws_screen_width w > 0 then ws_screen_width w else 1366);
          height = (if ws_screen_height w > 0 then ws_screen_height w else 768)
      in screen_script width height)"

definition generate_injection_script :: "js_lib \<Rightarrow> workspace \<Rightarrow> bool \<Rightarrow> string" where
  "generate_injection_script js w include_anti_detection =
     (let script = [];
          script = script @ generate_navigator_overrides js w;
          script = script @ [newline];
          script = script @ generate_screen_overrides w
      in if include_anti_detection
         then let protection_script = generate_protection_script js w;
                  script = (if protection_script \<noteq> [] then (script @ [newline]) @ protection_script else script);
                  humanize_script = js_humanize js (ws_human_preset w)
              in if ws_humanize w \<and> humanize_script \<noteq> []
                 then (script @ [newline]) @ humanize_script else script
         else script)"

definition generate_cdp_commands :: "js_lib \<Rightarrow> workspace \<Rightarrow> dict list" where
  "generate_cdp_commands js w =
     (let commands = [];
          commands = (if ws_screen_width w > 0 \<and> ws_screen_height w > 0
                      then commands @ [make_screen_override (ws_screen_width w) (ws_screen_height w)]
                      else commands);
          commands = (if ws_timezone w \<noteq> []
                      then commands @ [make_timezone_override (ws_timezone w)] else commands);
          commands = (if ws_color_scheme w = ''dark'' then commands @ [make_dark_mode_override True]
                      else if ws_color_scheme w = ''light'' then commands @ [make_dark_mode_override False]
                      else commands);
          injection_script = generate_injection_script js w True
      in if injection_script \<noteq> [] then commands @ [make_script_injection injection_script]
         else commands)"

subsection \<open>The commands\<close>

lemma command_fields [simp]:
  "find_string (make_command m p) ''method'' = Some m"
  "find_dict (make_command m p) ''params'' = Some p"
  "find_val (make_command m p) ''id'' = None"
  by (simp_all add: make_command_def Let_def)

lemma command_methods [simp]:
  "find_string (make_screen_override a b) ''method'' = Some ''Emulation.setDeviceMetricsOverride''"
  "find_string (make_timezone_override t) ''method'' = Some ''Emulation.setTimezoneOverride''"
  "find_string (make_dark_mode_override d) ''method'' = Some ''Emulation.setAutoDarkModeOverride''"
  "find_string (make_script_injection s) ''method'' = Some ''Page.addScriptToEvaluateOnNewDocument''"
  by (simp_all add: make_screen_override_def make_timezone_override_def make_dark_mode_override_def
      make_script_injection_def Let_def)

lemma screen_script_nonempty: "screen_script a b \<noteq> []"
  by (simp add: screen_script_def)

lemma injection_nonempty [simp]: "generate_injection_script js w b \<noteq> []"
  by (simp add: generate_injection_script_def Let_def)

lemma commands_eq:
  "generate_cdp_commands js w =
     (if ws_screen_width w > 0 \<and> ws_screen_height w > 0
      then [make_screen_override (ws_screen_width w) (ws_screen_height w)] else []) @
     (if ws_timezone w \<noteq> [] then [make_timezone_override (ws_timezone w)] else []) @
     (if ws_color_scheme w = ''dark'' then [make_dark_mode_override True]
      else if ws_color_scheme w = ''light'' then [make_dark_mode_override False] else []) @
     [make_script_injection (generate_injection_script js w True)]"
  by (simp add: generate_cdp_commands_def Let_def)

subsection \<open>The scripts, read by the lexer\<close>

lemma literal_navigator_platform: "literal_text p \<Longrightarrow> literal_text (navigator_platform p)"
  by (simp add: navigator_platform_def plain_char_def)

lemma scan_user_agent:
  "literal_text u \<Longrightarrow> js_scan JCode (user_agent_override u) = JCode"
  by (simp add: user_agent_override_def)

lemma user_agent_no_nul:
  "literal_text u \<Longrightarrow> c_str (user_agent_override u) = user_agent_override u"
  by (rule c_str_plain) (auto simp: user_agent_override_def literal_c_str dest: literal_no_nul)

lemma erase_user_agent:
  assumes "literal_text u"
  shows "js_erase JCode (user_agent_override u) = js_erase JCode (user_agent_override [])"
proof -
  have e: "literal_text []" by simp
  have a: "js_scan JCode (''userAgent:{get:function(){return '' @ [quote]) = JStr" by simp
  show ?thesis
    unfolding user_agent_override_def append.assoc [symmetric]
    by (simp only: append.assoc erase_splice [OF a assms, unfolded append.assoc]
        erase_splice [OF a e, unfolded append.assoc])
qed

definition agent_code :: string where
  "agent_code = js_erase JCode (user_agent_override [])"

lemma scan_navigator_head:
  "literal_text p \<Longrightarrow> js_scan JCode (navigator_head p n) = JCode"
  by (simp add: navigator_head_def)

lemma scan_navigator_tail: "js_scan JCode navigator_tail = JCode"
  by (simp add: navigator_tail_def)

lemma scan_navigator:
  "\<lbrakk>literal_text p; js_scan JCode (c_str agent) = JCode\<rbrakk> \<Longrightarrow>
   js_scan JCode (navigator_script p n agent) = JCode"
  by (simp add: navigator_script_def scan_navigator_head scan_navigator_tail)

lemma erase_navigator:
  "\<lbrakk>literal_text p; js_scan JCode (c_str a) = JCode; js_scan JCode (c_str b) = JCode;
    js_erase JCode (c_str a) = js_erase JCode (c_str b)\<rbrakk> \<Longrightarrow>
   js_erase JCode (navigator_script p n a) = js_erase JCode (navigator_script p n b)"
  by (simp add: navigator_script_def scan_navigator_head)

text \<open>The user agent as an override: empty for no user agent.\<close>

lemma agent_text:
  assumes "escapes_json js"
  defines "a \<equiv> \<lambda>u. if (if u \<noteq> [] then escape_quotes (js_escape js u) else []) = [] then []
    else user_agent_override (if u \<noteq> [] then escape_quotes (js_escape js u) else [])"
  shows "js_scan JCode (c_str (a u)) = JCode"
    and "js_erase JCode (c_str (a u)) = (if u = [] then [] else agent_code)"
  using escapes_jsonD [OF assms(1)]
  by (simp_all add: a_def user_agent_no_nul scan_user_agent erase_user_agent [folded agent_code_def])

lemma scan_navigator_overrides:
  assumes "escapes_json js" "literal_text (ws_platform w)"
  shows "js_scan JCode (generate_navigator_overrides js w) = JCode"
  unfolding generate_navigator_overrides_def Let_def
  by (intro scan_navigator literal_navigator_platform agent_text assms)

lemma erase_navigator_overrides:
  assumes "escapes_json js" "literal_text (ws_platform w)" "ws_platform w = ws_platform w'"
    "ws_hardware_concurrency w = ws_hardware_concurrency w'"
    "ws_user_agent w = [] \<longleftrightarrow> ws_user_agent w' = []"
  shows "js_erase JCode (generate_navigator_overrides js w) =
         js_erase JCode (generate_navigator_overrides js w')"
  unfolding generate_navigator_overrides_def Let_def assms(3)[symmetric] assms(4)[symmetric]
  by (intro erase_navigator literal_navigator_platform agent_text assms)
    (simp only: agent_text(2) [OF assms(1)], simp add: assms(5))

lemma scan_screen_overrides: "js_scan JCode (generate_screen_overrides w) = JCode"
  by (simp add: generate_screen_overrides_def screen_script_def Let_def)

lemma injection_eq:
  "generate_injection_script js w b =
     generate_navigator_overrides js w @ [newline] @ generate_screen_overrides w @
     (if b \<and> generate_protection_script js w \<noteq> [] then [newline] @ generate_protection_script js w else []) @
     (if b \<and> ws_humanize w \<and> js_humanize js (ws_human_preset w) \<noteq> []
      then [newline] @ js_humanize js (ws_human_preset w) else [])"
  by (simp add: generate_injection_script_def Let_def)

lemma method_list:
  "let ms = map (\<lambda>c. find_string c ''method'')
         ((if b1 then [make_screen_override x y] else []) @ (if b2 then [make_timezone_override t] else []) @
          (if d1 then [make_dark_mode_override True] else if d2 then [make_dark_mode_override False] else []) @
          [make_script_injection i]) in
     (Some ''Emulation.setDeviceMetricsOverride'' \<in> set ms \<longleftrightarrow> b1) \<and>
     (Some ''Emulation.setTimezoneOverride'' \<in> set ms \<longleftrightarrow> b2) \<and>
     (Some ''Emulation.setAutoDarkModeOverride'' \<in> set ms \<longleftrightarrow> d1 \<or> d2) \<and>
     distinct ms"
  by (cases b1; cases b2; cases d1; cases d2; simp)

subsection \<open>Properties\<close>

text \<open>
  C14 (safety): texts stay data. For a time zone and platform without stray backslashes and line
  breaks, the code of the injected script (what is left without the contents of its literals)
  does not depend on what the user agent, the GPU vendor and renderer and the time zone say, only
  on which of them are given, on the coordinates and on the list of blocked extensions chosen for them: no value of these fields can
  become code.
\<close>

theorem user_text_stays_data:
  assumes "escapes_json js" "script_safe w" "script_safe w'" "script_fields w = script_fields w'"
    "ws_user_agent w = [] \<longleftrightarrow> ws_user_agent w' = []"
    "ws_humanize w = ws_humanize w'" "ws_human_preset w = ws_human_preset w'"
  shows "js_erase JCode (generate_injection_script js w b) = js_erase JCode (generate_injection_script js w' b) \<and>
         js_scan JCode (generate_injection_script js w False) = JCode"
proof -
  have f: "ws_platform w = ws_platform w'" "ws_hardware_concurrency w = ws_hardware_concurrency w'"
    "ws_screen_width w = ws_screen_width w'" "ws_screen_height w = ws_screen_height w'"
    "ws_fingerprint_seed w = ws_fingerprint_seed w'"
    using assms(4) by (simp_all add: script_fields_def)
  have p: "literal_text (ws_platform w)" "literal_text (ws_platform w')"
    using assms(2, 3) by (simp_all add: script_safe_def)
  have screen: "generate_screen_overrides w = generate_screen_overrides w'"
    by (simp add: generate_screen_overrides_def f)
  have empty: "generate_protection_script js w = [] \<longleftrightarrow> generate_protection_script js w' = []"
    by (simp add: script_empty f)
  have scans: "js_scan JCode (generate_navigator_overrides js w) = JCode"
    "js_scan JCode (generate_navigator_overrides js w') = JCode"
    "js_scan JCode (generate_screen_overrides w') = JCode"
    "js_scan JCode (generate_protection_script js w) = JCode"
    "js_scan JCode (generate_protection_script js w') = JCode"
    using assms p by (simp_all add: scan_navigator_overrides scan_screen_overrides scan_protection)
  show ?thesis
    using scans empty
    by (simp add: injection_eq assms(6, 7) screen erase_navigator_overrides [OF assms(1) p(1) f(1, 2) assms(5)]
        erase_protection [OF assms(1-4)])
qed

definition sample_js :: js_lib where
  "sample_js = \<lparr>js_escape = map (\<lambda>c. if plain_char c then c else CHR ''x''), js_humanize = (\<lambda>s. [])\<rparr>"

lemma sample_js_escapes: "escapes_json sample_js"
proof -
  have "json_text (map (\<lambda>c. if plain_char c then c else CHR ''x'') s)" for s
    by (rule plain_json) (auto simp: plain_char_def)
  then show ?thesis by (simp add: escapes_json_def sample_js_def)
qed

theorem user_text_stays_data_witness:
  "let w = workspace_default\<lparr>ws_fingerprint_seed := 7, ws_user_agent := ''it'' @ [quote] @ ''s'',
             ws_timezone := ''Europe/Paris'', ws_gpu_vendor := [quote, quote]\<rparr>;
       w' = workspace_default\<lparr>ws_fingerprint_seed := 7, ws_user_agent := ''it'',
             ws_timezone := ''Europe/Rome'', ws_gpu_vendor := ''Intel''\<rparr> in
   js_erase JCode (generate_injection_script sample_js w True) =
   js_erase JCode (generate_injection_script sample_js w' True)"
proof -
  let ?w = "workspace_default\<lparr>ws_fingerprint_seed := 7, ws_user_agent := ''it'' @ [quote] @ ''s'',
             ws_timezone := ''Europe/Paris'', ws_gpu_vendor := [quote, quote]\<rparr>"
  let ?w' = "workspace_default\<lparr>ws_fingerprint_seed := 7, ws_user_agent := ''it'',
             ws_timezone := ''Europe/Rome'', ws_gpu_vendor := ''Intel''\<rparr>"
  have safe: "script_safe ?w" "script_safe ?w'"
    by (simp_all add: script_safe_def workspace_default_def plain_char_def)
  have fields: "script_fields ?w = script_fields ?w'"
    by (simp add: script_fields_def coordinates_of_def blocked_patterns_def str_contains_def)
  show ?thesis
    unfolding Let_def
    by (rule user_text_stays_data [OF sample_js_escapes safe fields, THEN conjunct1]) simp_all
qed

text \<open>
  Which commands a workspace gets: a screen override exactly for a positive
  width and height, a time zone override exactly for a time zone, dark mode on or off exactly
  for the two schemes that say so, and always, as the last command, one script.
\<close>

theorem commands_of_workspace:
  "let ms = map (\<lambda>c. find_string c ''method'') (generate_cdp_commands js w) in
     (Some ''Emulation.setDeviceMetricsOverride'' \<in> set ms \<longleftrightarrow>
        ws_screen_width w > 0 \<and> ws_screen_height w > 0) \<and>
     (Some ''Emulation.setTimezoneOverride'' \<in> set ms \<longleftrightarrow> ws_timezone w \<noteq> []) \<and>
     (Some ''Emulation.setAutoDarkModeOverride'' \<in> set ms \<longleftrightarrow>
        ws_color_scheme w \<in> {''dark'', ''light''}) \<and>
     distinct ms \<and>
     last (generate_cdp_commands js w) = make_script_injection (generate_injection_script js w True)"
proof -
  have "last (generate_cdp_commands js w) = make_script_injection (generate_injection_script js w True)"
    unfolding commands_eq append.assoc [symmetric] by (rule last_snoc)
  then show ?thesis
    using method_list [of "ws_screen_width w > 0 \<and> ws_screen_height w > 0" "ws_screen_width w"
        "ws_screen_height w" "ws_timezone w \<noteq> []" "ws_timezone w" "ws_color_scheme w = ''dark''"
        "ws_color_scheme w = ''light''" "generate_injection_script js w True"]
    unfolding Let_def commands_eq [symmetric] by (simp only: insert_iff empty_iff simp_thms)
qed

end
