(* ===== verification/Profile_Applier.thy ===== *)
theory Profile_Applier
  imports Cdp_Injector
begin

text \<open>
  Applying the settings to a launched browser, \<open>browser/workspace_profile_applier.cc\<close>: numbered
  commands, polling until the browser's port answers, sending, and watching the socket. The
  tasks posted to the thread pool (checks of the port, sends) are part of the state, as is the
  set of open descriptors; running a null callback ends the process.
\<close>

subsection \<open>State\<close>

datatype ap_effect = CallbackRun bool | NullCallbackRun bool | SocketClosed int | SendPosted int "string list"

record applier =
  ap_endpoint :: string
  ap_poll_timer :: bool
  ap_health_timer :: bool
  ap_port :: int
  ap_retries :: int
  ap_started :: bool
  ap_pending :: "string list"
  ap_callback :: bool
  ap_socket :: int
  ap_saved :: "string list"
  ap_alive :: bool
  ap_crashed :: bool
  ap_checks :: nat
  ap_sends :: "(int \<times> string list) list"
  ap_open :: "int list"
  ap_log :: "ap_effect list"

definition new_applier :: applier where
  "new_applier = \<lparr>ap_endpoint = [], ap_poll_timer = False, ap_health_timer = False, ap_port = 0,
     ap_retries = 0, ap_started = False, ap_pending = [], ap_callback = False, ap_socket = -1,
     ap_saved = [], ap_alive = True, ap_crashed = False, ap_checks = 0, ap_sends = [],
     ap_open = [], ap_log = []\<rparr>"

text \<open>
  \<open>std::move(pending_callback_).Run(b)\<close>: running it leaves it null, and running a null one ends the
  process. The log tells both.
\<close>

definition run_callback :: "bool \<Rightarrow> applier \<Rightarrow> applier" where
  "run_callback b a =
     (if ap_callback a then a\<lparr>ap_callback := False, ap_log := ap_log a @ [CallbackRun b]\<rparr>
      else a\<lparr>ap_crashed := True, ap_log := ap_log a @ [NullCallbackRun b]\<rparr>)"

definition close_socket :: "applier \<Rightarrow> applier" where
  "close_socket a =
     (if ap_socket a \<ge> 0
      then a\<lparr>ap_open := filter (\<lambda>fd. fd \<noteq> ap_socket a) (ap_open a),
             ap_log := ap_log a @ [SocketClosed (ap_socket a)], ap_socket := -1\<rparr>
      else a)"

subsection \<open>The commands\<close>

definition generate_command_batch :: "js_lib \<Rightarrow> workspace list \<Rightarrow> dict list" where
  "generate_command_batch js workspaces = concat (map (generate_cdp_commands js) workspaces)"

definition to_json :: "json_lib \<Rightarrow> dict \<Rightarrow> string" where
  "to_json jl d = value_or (json_write jl (JDict d)) []"

fun number_commands :: "json_lib \<Rightarrow> int \<Rightarrow> dict list \<Rightarrow> string list" where
  "number_commands jl i [] = []"
| "number_commands jl i (c # cs) =
     to_json jl (dict_set ''id'' (JInt (i + 1)) c) # number_commands jl (i + 1) cs"

definition page_enable :: dict where
  "page_enable = dict_set ''params'' (JDict [])
     (dict_set ''method'' (JString ''Page.enable'') (dict_set ''id'' (JInt 0) []))"

subsection \<open>Operations\<close>

definition apply_settings ::
  "js_lib \<Rightarrow> json_lib \<Rightarrow> string \<Rightarrow> int \<Rightarrow> workspace list \<Rightarrow> applier \<Rightarrow> applier" where
  "apply_settings js jl cdp_url cdp_port workspaces a =
     (if workspaces = [] then a\<lparr>ap_log := ap_log a @ [CallbackRun True]\<rparr>
      else let
        a = a\<lparr>ap_endpoint := cdp_url\<rparr>;
        commands = generate_command_batch js workspaces;
        a = a\<lparr>ap_pending := ap_pending a @ number_commands jl 0 commands\<rparr>;
        a = a\<lparr>ap_pending := to_json jl page_enable # ap_pending a\<rparr>;
        a = a\<lparr>ap_port := cdp_port, ap_callback := True, ap_retries := 30\<rparr>
      in a\<lparr>ap_poll_timer := True\<rparr>)"

definition on_poll_tick :: "applier \<Rightarrow> applier" where
  "on_poll_tick a = a\<lparr>ap_checks := ap_checks a + 1\<rparr>"

definition on_cdp_check_result :: "bool \<Rightarrow> applier \<Rightarrow> applier" where
  "on_cdp_check_result available a =
     (if ap_started a then a
      else if available then
        let a = a\<lparr>ap_started := True, ap_poll_timer := False\<rparr>;
            a = a\<lparr>ap_saved := ap_pending a\<rparr>;
            a = a\<lparr>ap_sends := ap_sends a @ [(ap_port a, ap_pending a)],
                  ap_log := ap_log a @ [SendPosted (ap_port a) (ap_pending a)]\<rparr>
        in a\<lparr>ap_pending := []\<rparr>
      else
        let a = a\<lparr>ap_retries := ap_retries a - 1\<rparr> in
        if ap_retries a \<le> 0
        then run_callback False (a\<lparr>ap_started := True, ap_poll_timer := False\<rparr>)
        else a)"

definition on_commands_sent :: "int \<Rightarrow> applier \<Rightarrow> applier" where
  "on_commands_sent fd a =
     (let a = (if fd \<ge> 0 then a\<lparr>ap_socket := fd, ap_health_timer := True\<rparr> else a)
      in run_callback (fd \<ge> 0) a)"

definition reconnect_cdp :: "applier \<Rightarrow> applier" where
  "reconnect_cdp a =
     (let a = a\<lparr>ap_health_timer := False\<rparr>;
          a = close_socket a;
          a = a\<lparr>ap_pending := ap_saved a, ap_started := False, ap_retries := 60\<rparr>
      in a\<lparr>ap_poll_timer := True\<rparr>)"

text \<open>\<open>ret\<close> is the answer of \<open>poll\<close>, \<open>hup\<close> whether an error or hang-up bit is set.\<close>

definition on_health_check :: "int \<Rightarrow> bool \<Rightarrow> applier \<Rightarrow> applier" where
  "on_health_check ret hup a =
     (if ap_socket a < 0 then a\<lparr>ap_health_timer := False\<rparr>
      else if ret < 0 then reconnect_cdp a
      else if ret > 0 \<and> hup then reconnect_cdp a
      else a)"

definition destroy_applier :: "applier \<Rightarrow> applier" where
  "destroy_applier a =
     (close_socket a)\<lparr>ap_alive := False, ap_poll_timer := False, ap_health_timer := False\<rparr>"

subsection \<open>Steps\<close>

datatype ap_event = Tick | CheckDone bool | SendDone int | Health int bool | Destroy

text \<open>
  A timer fires only while it runs; a posted check or send answers once; the reply to a destroyed
  applier is dropped, though the descriptor a send returned stays open.
\<close>

definition take_fd :: "int \<Rightarrow> applier \<Rightarrow> applier" where
  "take_fd fd a = (if fd \<ge> 0 then a\<lparr>ap_open := fd # ap_open a\<rparr> else a)"

inductive ap_step :: "applier \<Rightarrow> ap_event \<Rightarrow> applier \<Rightarrow> bool" where
  tick: "\<lbrakk>ap_alive a; \<not> ap_crashed a; ap_poll_timer a\<rbrakk> \<Longrightarrow> ap_step a Tick (on_poll_tick a)"
| check: "\<lbrakk>ap_alive a; \<not> ap_crashed a; ap_checks a > 0\<rbrakk> \<Longrightarrow>
    ap_step a (CheckDone b) (on_cdp_check_result b (a\<lparr>ap_checks := ap_checks a - 1\<rparr>))"
| sent: "\<lbrakk>ap_alive a; \<not> ap_crashed a; ap_sends a = s # ss; fd \<notin> set (ap_open a)\<rbrakk> \<Longrightarrow>
    ap_step a (SendDone fd) (on_commands_sent fd (take_fd fd (a\<lparr>ap_sends := ss\<rparr>)))"
| health: "\<lbrakk>ap_alive a; \<not> ap_crashed a; ap_health_timer a\<rbrakk> \<Longrightarrow>
    ap_step a (Health ret hup) (on_health_check ret hup a)"
| destroy: "\<lbrakk>ap_alive a; \<not> ap_crashed a\<rbrakk> \<Longrightarrow> ap_step a Destroy (destroy_applier a)"
| sent_late: "\<lbrakk>\<not> ap_alive a; \<not> ap_crashed a; ap_sends a = s # ss; fd \<notin> set (ap_open a)\<rbrakk> \<Longrightarrow>
    ap_step a (SendDone fd) (take_fd fd (a\<lparr>ap_sends := ss\<rparr>))"

inductive_cases ap_step_cases: "ap_step a e a'"
inductive_simps ap_step_destroy: "ap_step a Destroy a'"

inductive ap_run :: "applier \<Rightarrow> ap_event list \<Rightarrow> applier \<Rightarrow> bool" where
  nil: "ap_run a [] a"
| cons: "\<lbrakk>ap_step a e b; ap_run b es c\<rbrakk> \<Longrightarrow> ap_run a (e # es) c"

definition started :: "js_lib \<Rightarrow> json_lib \<Rightarrow> string \<Rightarrow> int \<Rightarrow> workspace list \<Rightarrow> applier" where
  "started js jl url port ws = apply_settings js jl url port ws new_applier"

lemmas applier_defs = on_poll_tick_def on_cdp_check_result_def on_commands_sent_def
  reconnect_cdp_def on_health_check_def destroy_applier_def run_callback_def close_socket_def
  take_fd_def Let_def

subsection \<open>The invariant\<close>

definition callbacks :: "applier \<Rightarrow> bool list" where
  "callbacks a = concat (map (\<lambda>e. case e of CallbackRun b \<Rightarrow> [b] | _ \<Rightarrow> []) (ap_log a))"

text \<open>
  The callback is pending or has run, once; a send in flight excludes an open socket and a second
  send; while the applier lives the open descriptors are its socket, and a running health timer
  means that the callback has run.
\<close>

definition ap_inv :: "applier \<Rightarrow> bool" where
  "ap_inv a =
     (length (callbacks a) + (if ap_callback a then 1 else 0) = 1 \<and>
      (ap_sends a = [] \<or> (ap_started a \<and> ap_socket a < 0 \<and> length (ap_sends a) = 1)) \<and>
      (ap_alive a \<longrightarrow> ap_open a = (if ap_socket a \<ge> 0 then [ap_socket a] else [])) \<and>
      (ap_socket a \<ge> 0 \<longrightarrow> ap_started a \<and> \<not> ap_callback a))"

lemma run_callback_inv:
  "ap_inv a \<Longrightarrow> ap_callback a \<Longrightarrow> ap_inv (run_callback b a)"
  by (auto simp: ap_inv_def callbacks_def run_callback_def split: if_splits)

lemma check_inv: "ap_inv a \<Longrightarrow> ap_inv (on_cdp_check_result b a)"
  by (auto simp: ap_inv_def callbacks_def on_cdp_check_result_def run_callback_def Let_def
      split: if_splits)

lemma sent_inv:
  "\<lbrakk>ap_inv a; ap_sends a = s # ss; ap_alive a\<rbrakk> \<Longrightarrow>
   ap_inv (on_commands_sent fd (take_fd fd (a\<lparr>ap_sends := ss\<rparr>)))"
  by (auto simp: ap_inv_def callbacks_def on_commands_sent_def run_callback_def take_fd_def Let_def
      split: if_splits)

lemma close_inv: "ap_inv a \<Longrightarrow> ap_inv (close_socket a)"
  by (auto simp: ap_inv_def callbacks_def close_socket_def split: if_splits)

lemma health_inv: "ap_inv a \<Longrightarrow> ap_inv (on_health_check ret hup a)"
  by (auto simp: ap_inv_def callbacks_def on_health_check_def reconnect_cdp_def close_socket_def Let_def
      split: if_splits)

lemma ap_inv_step: "ap_step a e a' \<Longrightarrow> ap_inv a \<Longrightarrow> ap_inv a'"
proof (induction rule: ap_step.induct)
  case (tick a)
  then show ?case by (simp add: ap_inv_def callbacks_def on_poll_tick_def)
next
  case (check a b)
  then have "ap_inv (a\<lparr>ap_checks := ap_checks a - 1\<rparr>)" by (simp add: ap_inv_def callbacks_def)
  then show ?case by (rule check_inv)
next
  case (sent a s ss fd)
  then show ?case by (simp add: sent_inv)
next
  case (health a ret hup)
  then show ?case by (simp add: health_inv)
next
  case (destroy a)
  then show ?case using close_inv [of a] by (auto simp: destroy_applier_def ap_inv_def callbacks_def)
next
  case (sent_late a s ss fd)
  then show ?case by (auto simp: ap_inv_def callbacks_def take_fd_def split: if_splits)
qed

lemma ap_inv_run: "ap_run a es b \<Longrightarrow> ap_inv a \<Longrightarrow> ap_inv b"
  by (induction rule: ap_run.induct) (auto intro: ap_inv_step)

lemma ap_inv_started: "ap_inv (started js jl url port ws)"
  by (simp add: started_def apply_settings_def new_applier_def ap_inv_def callbacks_def Let_def)

subsection \<open>Polling\<close>

lemma number_commands_eq:
  "number_commands jl (int i - 1) cs =
     map (\<lambda>(k, c). to_json jl (dict_set ''id'' (JInt (int k)) c)) (enumerate i cs)"
  by (induction cs arbitrary: i) (simp_all flip: of_nat_Suc, metis diff_add_cancel of_nat_Suc add.commute add_diff_cancel_left')

lemma check_started [simp]: "ap_started a \<Longrightarrow> on_cdp_check_result b a = a"
  by (simp add: on_cdp_check_result_def)

lemma fold_check_started: "ap_started a \<Longrightarrow> fold on_cdp_check_result rs a = a"
  by (induction rs) simp_all

text \<open>What a series of check results makes of an applier that is waiting.\<close>

definition answered :: "applier \<Rightarrow> applier" where
  "answered a = on_cdp_check_result True a"

definition timed_out :: "applier \<Rightarrow> applier" where
  "timed_out a = run_callback False (a\<lparr>ap_started := True, ap_poll_timer := False\<rparr>)"

definition polled :: "nat \<Rightarrow> bool list \<Rightarrow> applier \<Rightarrow> int \<Rightarrow> applier" where
  "polled n rs a r =
    (if True \<in> set (take n rs) then answered (a\<lparr>ap_retries := r\<rparr>)
     else if length rs \<ge> n then timed_out (a\<lparr>ap_retries := r\<rparr>)
     else a\<lparr>ap_retries := r\<rparr>)"

lemma polled_simps [simp]:
  "polled n rs (a\<lparr>ap_retries := x\<rparr>) r = polled n rs a r"
  "polled (Suc n) (True # rs) a r = answered (a\<lparr>ap_retries := r\<rparr>)"
  "polled (Suc n) (False # rs) a r = polled n rs a r"
  by (simp_all add: polled_def)

lemma fold_check_waiting:
  assumes "\<not> ap_started a" "ap_retries a = int (Suc n)"
  shows "\<exists>r. fold on_cdp_check_result rs a = polled (Suc n) rs a r"
  using assms
proof (induction rs arbitrary: a n)
  case Nil
  then show ?case by (auto simp: polled_def intro: exI [of _ "ap_retries a"])
next
  case (Cons b rs)
  show ?case
  proof (cases b)
    case True
    have "ap_started (answered a)" using Cons.prems by (simp add: answered_def on_cdp_check_result_def Let_def)
    then have "fold on_cdp_check_result (b # rs) a = answered a"
      using True by (simp add: fold_check_started answered_def [symmetric])
    then show ?thesis using True by (auto intro!: exI [of _ "ap_retries a"])
  next
    case False
    show ?thesis
    proof (cases n)
      case 0
      have "ap_started (timed_out x)" for x by (simp add: timed_out_def run_callback_def)
      moreover have "on_cdp_check_result b a = timed_out (a\<lparr>ap_retries := 0\<rparr>)"
        using Cons.prems False 0 by (simp add: on_cdp_check_result_def timed_out_def Let_def)
      ultimately show ?thesis using False 0
        by (auto simp: fold_check_started polled_def intro!: exI [of _ 0])
    next
      case (Suc m)
      have "on_cdp_check_result b a = a\<lparr>ap_retries := int (Suc m)\<rparr>"
        using Cons.prems False Suc by (simp add: on_cdp_check_result_def Let_def)
      moreover have "\<exists>r. fold on_cdp_check_result rs (a\<lparr>ap_retries := int (Suc m)\<rparr>) = polled (Suc m) rs a r"
        using Cons.IH [of "a\<lparr>ap_retries := int (Suc m)\<rparr>" m] Cons.prems by simp
      ultimately show ?thesis using False Suc by simp
    qed
  qed
qed

definition sent_commands :: "js_lib \<Rightarrow> json_lib \<Rightarrow> workspace list \<Rightarrow> string list" where
  "sent_commands js jl ws =
     map (\<lambda>(k, c). to_json jl (dict_set ''id'' (JInt (int k)) c))
       (enumerate 0 (dict_set ''params'' (JDict []) (dict_set ''method'' (JString ''Page.enable'') []) #
                     concat (map (generate_cdp_commands js) ws)))"

lemma started_fields:
  assumes "ws \<noteq> []"
  shows "\<not> ap_started (started js jl url port ws)" "ap_retries (started js jl url port ws) = 30"
    "ap_callback (started js jl url port ws)" "ap_sends (started js jl url port ws) = []"
    "ap_log (started js jl url port ws) = []" "ap_port (started js jl url port ws) = port"
    "ap_poll_timer (started js jl url port ws)" "ap_alive (started js jl url port ws)"
    "\<not> ap_crashed (started js jl url port ws)" "ap_socket (started js jl url port ws) = -1"
    "ap_pending (started js jl url port ws) = sent_commands js jl ws"
proof -
  have "page_enable = dict_set ''id'' (JInt 0)
      (dict_set ''params'' (JDict []) (dict_set ''method'' (JString ''Page.enable'') []))"
    by (simp add: page_enable_def dict_set_def)
  then show "ap_pending (started js jl url port ws) = sent_commands js jl ws"
    using assms number_commands_eq [of jl 1 "generate_command_batch js ws"]
    by (simp add: started_def apply_settings_def new_applier_def sent_commands_def
        generate_command_batch_def Let_def)
qed (use assms in \<open>simp_all add: started_def apply_settings_def new_applier_def Let_def\<close>)

subsection \<open>Properties\<close>

text \<open>
  C19 (functional): launching ends. The port's checks have one of three outcomes: it answers
  within the first 30 checks and the commands are sent, \<open>Page.enable\<close> as number 0 and the
  settings' commands numbered from 1 in order; or 30 checks have failed, polling stops and the
  callback has run with false; or fewer have come back and polling goes on.
\<close>

theorem polling_outcome:
  assumes "ws \<noteq> []"
  shows "let a = fold on_cdp_check_result rs (started js jl url port ws) in
    (callbacks a, ap_sends a, ap_poll_timer a) =
      (if True \<in> set (take 30 rs) then ([], [(port, sent_commands js jl ws)], False)
       else if length rs \<ge> 30 then ([False], [], False)
       else ([], [], True))"
proof -
  let ?s = "started js jl url port ws"
  note f = started_fields [OF assms]
  have "ap_retries ?s = int (Suc 29)" using f(2) by simp
  from fold_check_waiting [OF f(1) this, of rs]
  obtain r where r: "fold on_cdp_check_result rs ?s = polled 30 rs ?s r" by auto
  show ?thesis
    unfolding Let_def r
    by (simp add: polled_def answered_def timed_out_def on_cdp_check_result_def run_callback_def
        callbacks_def f Let_def)
qed

definition fixed_json :: json_lib where
  "fixed_json = \<lparr>json_write = (\<lambda>v. Some ''{}''), json_read = (\<lambda>s. None)\<rparr>"

theorem polling_outcome_witness:
  "let a = fold on_cdp_check_result (replicate 31 False)
        (started sample_js fixed_json [] 9333 [workspace_default]) in
   (callbacks a, ap_sends a, ap_poll_timer a) = ([False], [], False)"
  using polling_outcome [of "[workspace_default]" "replicate 31 False" sample_js fixed_json "[]" 9333]
  by (simp add: Let_def)

text \<open>
  What the code asks for, in vain or not: every statement that runs the callback, with its argument.
  A health check that finds the connection lost is the start of a reconnection.
\<close>

definition outcomes :: "applier \<Rightarrow> bool list" where
  "outcomes a = concat (map (\<lambda>e. case e of CallbackRun b \<Rightarrow> [b] | NullCallbackRun b \<Rightarrow> [b] | _ \<Rightarrow> []) (ap_log a))"

fun finds_lost :: "ap_event \<Rightarrow> bool" where
  "finds_lost (Health ret hup) = (ret < 0 \<or> ret > 0 \<and> hup)"
| "finds_lost e = False"

text \<open>
  Until a connection is lost, an outcome is reported only by the one that ends the polling or by the
  answer to the one send that it posted, so not before \<open>ap_started\<close> is set and nothing is being sent.
\<close>

definition outcome_inv :: "applier \<Rightarrow> bool" where
  "outcome_inv a \<longleftrightarrow>
     (outcomes a = [] \<longleftrightarrow> ap_callback a) \<and> length (outcomes a) \<le> 1 \<and> \<not> ap_crashed a \<and>
     (outcomes a \<noteq> [] \<longrightarrow> ap_started a \<and> ap_sends a = []) \<and>
     (ap_sends a \<noteq> [] \<longrightarrow> ap_started a \<and> length (ap_sends a) = 1)"

lemmas outcome_defs = outcome_inv_def outcomes_def run_callback_def Let_def

lemma outcome_checks [simp]: "outcome_inv (a\<lparr>ap_checks := n\<rparr>) = outcome_inv a"
  by (simp add: outcome_inv_def outcomes_def)

lemma outcome_check: "outcome_inv a \<Longrightarrow> outcome_inv (on_cdp_check_result b a)"
  by (auto simp: outcome_defs on_cdp_check_result_def)

lemma outcome_sent:
  "\<lbrakk>outcome_inv a; ap_sends a = s # ss\<rbrakk> \<Longrightarrow> outcome_inv (on_commands_sent fd (take_fd fd (a\<lparr>ap_sends := ss\<rparr>)))"
  by (auto simp: outcome_defs on_commands_sent_def take_fd_def)

lemma outcome_step:
  assumes "ap_step a e a'" "outcome_inv a" "\<not> finds_lost e"
  shows "outcome_inv a'"
  using assms
proof (induction rule: ap_step.induct)
  case (tick a)
  then show ?case by (simp add: on_poll_tick_def)
next
  case (check a b)
  then have "outcome_inv (a\<lparr>ap_checks := ap_checks a - 1\<rparr>)" by simp
  then show ?case by (rule outcome_check)
next
  case (sent a s ss fd)
  then show ?case by (simp add: outcome_sent)
next
  case (health a ret hup)
  then show ?case by (auto simp: outcome_inv_def outcomes_def on_health_check_def)
next
  case (destroy a)
  then show ?case by (auto simp: outcome_inv_def outcomes_def destroy_applier_def close_socket_def)
next
  case (sent_late a s ss fd)
  then show ?case by (auto simp: outcome_inv_def outcomes_def take_fd_def)
qed

lemma outcome_run:
  "ap_run a es b \<Longrightarrow> outcome_inv a \<Longrightarrow> \<forall>e\<in>set es. \<not> finds_lost e \<Longrightarrow> outcome_inv b"
  by (induction rule: ap_run.induct) (auto intro: outcome_step)

lemma outcome_started: "ws \<noteq> [] \<Longrightarrow> outcome_inv (started js jl url port ws)"
  by (simp add: outcome_inv_def outcomes_def started_fields)

lemma connected_run:
  assumes "ws \<noteq> []" "0 \<le> fd"
  shows "\<exists>a. ap_run (started js jl url port ws) [Tick, CheckDone True, SendDone fd] a \<and>
             ap_socket a = fd \<and> ap_alive a \<and> \<not> ap_crashed a"
proof -
  note f = started_fields [OF assms(1)]
  let ?s = "started js jl url port ws"
  let ?b = "on_poll_tick ?s"
  let ?c = "on_cdp_check_result True (?b\<lparr>ap_checks := ap_checks ?b - 1\<rparr>)"
  let ?d = "on_commands_sent fd (take_fd fd (?c\<lparr>ap_sends := []\<rparr>))"
  have open0: "ap_open ?s = []" by (simp add: started_def apply_settings_def new_applier_def Let_def)
  have s1: "ap_step ?s Tick ?b" using f by (intro ap_step.tick) simp_all
  have s2: "ap_step ?b (CheckDone True) ?c"
    using f by (intro ap_step.check) (simp_all add: on_poll_tick_def)
  have s3: "ap_step ?c (SendDone fd) ?d"
    by (rule ap_step.sent [where s = "(port, sent_commands js jl ws)"])
      (use f open0 in \<open>simp_all add: on_poll_tick_def on_cdp_check_result_def Let_def\<close>)
  have "ap_run ?s [Tick, CheckDone True, SendDone fd] ?d"
    by (rule ap_run.cons [OF s1 ap_run.cons [OF s2 ap_run.cons [OF s3 ap_run.nil]]])
  moreover have "ap_socket ?d = fd \<and> ap_alive ?d \<and> \<not> ap_crashed ?d"
    using f assms(2) by (simp add: applier_defs)
  ultimately show ?thesis by blast
qed

lemma told_is_reported:
  assumes "ap_inv a" "outcome_inv a"
  shows "callbacks a = outcomes a"
proof (cases "outcomes a = []")
  case True
  then have "ap_callback a" using assms(2) by (simp add: outcome_inv_def)
  then have "length (callbacks a) = 0" using assms(1) by (simp add: ap_inv_def)
  then show ?thesis using True by simp
next
  case False
  then have "ap_callback a = False" "length (outcomes a) = 1"
    using assms(2) by (auto simp: outcome_inv_def le_Suc_eq)
  moreover have "length (callbacks a) = 1" using assms(1) calculation(1) by (simp add: ap_inv_def)
  moreover have "set (callbacks a) \<subseteq> set (outcomes a)"
    by (auto simp: outcomes_def callbacks_def split: ap_effect.splits)
  ultimately show ?thesis by (cases "callbacks a"; cases "outcomes a") auto
qed

lemma reconnection_reports_again:
  assumes "ap_inv a" "outcome_inv a" "ap_socket a \<ge> 0" "finds_lost (Health ret hup)" "length rs \<ge> 60"
  shows "let b = fold on_cdp_check_result rs (on_health_check ret hup a);
             c = (if True \<in> set (take 60 rs) then on_commands_sent fd b else b)
         in length (outcomes c) = 2 \<and> ap_crashed c"
proof -
  have cb: "\<not> ap_callback a" using assms(1,3) by (simp add: ap_inv_def)
  then have one: "length (outcomes a) = 1" using assms(2) by (auto simp: outcome_inv_def le_Suc_eq)
  let ?r = "on_health_check ret hup a"
  have r: "\<not> ap_started ?r" "ap_retries ?r = int (Suc 59)" "\<not> ap_callback ?r" "length (outcomes ?r) = 1"
    using assms(3,4) cb one
    by (auto simp: on_health_check_def reconnect_cdp_def close_socket_def outcomes_def Let_def)
  obtain k where k: "fold on_cdp_check_result rs ?r = polled 60 rs ?r k"
    using fold_check_waiting [OF r(1, 2), of rs] by auto
  show ?thesis
    unfolding Let_def k using r assms(5)
    by (simp add: polled_def answered_def timed_out_def on_cdp_check_result_def on_commands_sent_def
        run_callback_def outcomes_def Let_def)
qed

text \<open>
  C16 (error): until a connection is lost, an applier reports at most one outcome, so it never runs the
  callback it has given away, in whatever order the checks of the port, the send and the health checks
  come back; and what it has reported is what its callback was told. Once it is connected and a health
  check finds the connection lost, the reconnection reports an outcome again and the process ends: when
  the commands are sent again, or when sixty checks have failed.
\<close>

theorem one_outcome_until_lost:
  assumes "ws \<noteq> []" "ap_run (started js jl url port ws) es a" "\<forall>e\<in>set es. \<not> finds_lost e"
  shows "length (outcomes a) \<le> 1 \<and> \<not> ap_crashed a \<and> callbacks a = outcomes a \<and>
    (\<forall>ret hup rs fd. ap_socket a \<ge> 0 \<and> finds_lost (Health ret hup) \<and> length rs \<ge> 60 \<longrightarrow>
      (let b = fold on_cdp_check_result rs (on_health_check ret hup a);
           c = (if True \<in> set (take 60 rs) then on_commands_sent fd b else b)
       in length (outcomes c) = 2 \<and> ap_crashed c))"
proof -
  have inv: "ap_inv a" "outcome_inv a"
    using ap_inv_run [OF assms(2) ap_inv_started] outcome_run [OF assms(2) outcome_started [OF assms(1)] assms(3)]
    by blast+
  show ?thesis
  proof (intro conjI allI impI)
    show "length (outcomes a) \<le> 1" "\<not> ap_crashed a" using inv(2) by (simp_all add: outcome_inv_def)
    show "callbacks a = outcomes a" by (rule told_is_reported [OF inv])
    fix ret :: int and hup :: bool and rs :: "bool list" and fd :: int
    assume l: "ap_socket a \<ge> 0 \<and> finds_lost (Health ret hup) \<and> length rs \<ge> 60"
    show "let b = fold on_cdp_check_result rs (on_health_check ret hup a);
           c = (if True \<in> set (take 60 rs) then on_commands_sent fd b else b)
       in length (outcomes c) = 2 \<and> ap_crashed c"
      using l by (intro reconnection_reports_again [OF inv]) blast+
  qed
qed

theorem one_outcome_until_lost_witness:
  "\<exists>a. ap_run (started sample_js fixed_json [] 9333 [workspace_default])
         [Tick, CheckDone True, SendDone 5] a \<and> outcomes a = callbacks a \<and> \<not> ap_crashed a \<and>
       ap_crashed (fold on_cdp_check_result (replicate 60 False) (on_health_check 1 True a))"
proof -
  obtain a where a: "ap_run (started sample_js fixed_json [] 9333 [workspace_default])
      [Tick, CheckDone True, SendDone 5] a" "ap_socket a = 5"
    using connected_run [of "[workspace_default]" 5 sample_js fixed_json "[]" 9333] by auto
  have ne: "[workspace_default] \<noteq> []" and calm: "\<forall>e\<in>set [Tick, CheckDone True, SendDone 5]. \<not> finds_lost e"
    by simp_all
  note claim = one_outcome_until_lost [OF ne a(1) calm]
  have "ap_crashed (fold on_cdp_check_result (replicate 60 False) (on_health_check 1 True a))"
    using claim [THEN conjunct2, THEN conjunct2, THEN conjunct2, THEN spec [of _ 1], THEN spec [of _ True],
        THEN spec [of _ "replicate 60 False"], THEN spec [of _ 0]] a(2)
    by (simp add: Let_def)
  then show ?thesis using a(1) claim by metis
qed

text \<open>
  An applier destroyed while its commands are being sent leaks the socket: the send
  returns the descriptor to nobody, and no later step closes it.
\<close>

theorem late_send_leaks:
  assumes "ws \<noteq> []" "0 \<le> fd"
  shows "\<exists>a. ap_run (started js jl url port ws) [Tick, CheckDone True, Destroy, SendDone fd] a \<and>
             ap_open a = [fd] \<and> (\<forall>e b. \<not> ap_step a e b)"
proof -
  note f = started_fields [OF assms(1)]
  let ?s = "started js jl url port ws"
  let ?b = "on_poll_tick ?s"
  let ?c = "on_cdp_check_result True (?b\<lparr>ap_checks := ap_checks ?b - 1\<rparr>)"
  let ?d = "destroy_applier ?c"
  let ?e = "take_fd fd (?d\<lparr>ap_sends := []\<rparr>)"
  have open0: "ap_open ?s = []" by (simp add: started_def apply_settings_def new_applier_def Let_def)
  have s1: "ap_step ?s Tick ?b" using f by (intro ap_step.tick) simp_all
  have s2: "ap_step ?b (CheckDone True) ?c"
    using f by (intro ap_step.check) (simp_all add: on_poll_tick_def)
  have s3: "ap_step ?c Destroy ?d"
    using f by (intro ap_step.destroy) (simp_all add: on_poll_tick_def on_cdp_check_result_def Let_def)
  have s4: "ap_step ?d (SendDone fd) ?e"
    by (rule ap_step.sent_late [where s = "(port, sent_commands js jl ws)"])
      (use f open0 in \<open>simp_all add: on_poll_tick_def on_cdp_check_result_def destroy_applier_def
        close_socket_def Let_def\<close>)
  have "ap_run ?s [Tick, CheckDone True, Destroy, SendDone fd] ?e"
    by (rule ap_run.cons [OF s1 ap_run.cons [OF s2 ap_run.cons [OF s3 ap_run.cons [OF s4 ap_run.nil]]]])
  moreover have "ap_open ?e = [fd]"
    using f open0 assms(2) by (simp add: applier_defs)
  moreover have "\<not> ap_alive ?e" "ap_sends ?e = []"
    using assms(2) by (simp_all add: take_fd_def destroy_applier_def)
  then have "\<not> ap_step ?e e b" for e b by (auto elim: ap_step_cases)
  ultimately show ?thesis by blast
qed

theorem late_send_leaks_witness:
  "\<exists>a. ap_run (started sample_js fixed_json [] 9333 [workspace_default])
         [Tick, CheckDone True, Destroy, SendDone 5] a \<and> ap_open a = [5]"
proof -
  have "[workspace_default] \<noteq> []" "0 \<le> (5 :: int)" by simp_all
  from late_send_leaks [OF this] show ?thesis by blast
qed

end
