(* ===== verification/Launcher.thy ===== *)
theory Launcher
  imports Profile_Applier
begin

text \<open>
  Running workspaces as browser processes of their own, \<open>browser/workspace_launcher.{h,cc}\<close>, and
  the watchdog that polls them, \<open>browser/workspace_launcher_watchdog.cc\<close>. Starting is
  asynchronous: the directory is prepared by a posted task, whose reply launches the process, so
  the posted starts are part of the state. What the operating system answers (free ports, process
  ids, exits, the clock) are arguments of the operations.
\<close>

subsection \<open>State\<close>

datatype rw_status = SStarting | SRunning | SStopped | SCrashed

record running =
  rw_id :: string
  rw_type :: wtype
  rw_process :: "int option"
  rw_dir :: string
  rw_port :: int
  rw_url :: string
  rw_status :: rw_status
  rw_launched_at :: int

datatype cmd_item = SwitchPath string string | SwitchText string string | Switch string | Arg string

datatype launch_effect =
    ObserverLaunched nat running
  | ObserverStopped nat string
  | ObserverStatus nat string rw_status dict
  | Spawned int "cmd_item list"
  | Terminated int
  | DeleteDir string
  | StartReplied nat bool dict
  | PrefsWritten string string

record pending_start =
  ps_workspace :: workspace
  ps_dir :: string
  ps_port :: int
  ps_callback :: nat

record manager =
  mg_workspaces :: "(string, running) omap"
  mg_appliers :: "(string, applier) omap"
  mg_observers :: "nat list"
  mg_watched :: "(string, bool) omap"
  mg_timer :: bool
  mg_pending :: "pending_start list"
  mg_live :: "int list"
  mg_log :: "launch_effect list"

definition new_manager :: manager where
  "new_manager = \<lparr>mg_workspaces = [], mg_appliers = [], mg_observers = [], mg_watched = [],
     mg_timer = False, mg_pending = [], mg_live = [], mg_log = []\<rparr>"

definition log_effect :: "launch_effect \<Rightarrow> manager \<Rightarrow> manager" where
  "log_effect e mg = mg\<lparr>mg_log := mg_log mg @ [e]\<rparr>"

definition notify_all :: "(nat \<Rightarrow> launch_effect) \<Rightarrow> manager \<Rightarrow> manager" where
  "notify_all f mg = mg\<lparr>mg_log := mg_log mg @ map f (mg_observers mg)\<rparr>"

subsection \<open>Ports, status, dictionaries\<close>

definition kMinCdpPort :: int where "kMinCdpPort = 9333"
definition kMaxCdpPort :: int where "kMaxCdpPort = 9352"
definition kMaxConcurrentWorkspaces :: nat where "kMaxConcurrentWorkspaces = 10"

text \<open>\<open>can_bind p\<close>: a socket can be made and bound to port \<open>p\<close> of the loopback address.\<close>

definition find_available_port :: "(int \<Rightarrow> bool) \<Rightarrow> int" where
  "find_available_port can_bind =
     (case List.find can_bind [kMinCdpPort..kMaxCdpPort] of Some port \<Rightarrow> port | None \<Rightarrow> 0)"

fun status_to_string :: "rw_status \<Rightarrow> string" where
  "status_to_string SStarting = ''starting''"
| "status_to_string SRunning = ''running''"
| "status_to_string SStopped = ''stopped''"
| "status_to_string SCrashed = ''crashed''"

definition string_to_status :: "string \<Rightarrow> rw_status" where
  "string_to_status str =
     (if str = ''starting'' then SStarting else if str = ''running'' then SRunning
      else if str = ''crashed'' then SCrashed else SStopped)"

lemma string_to_status_to_string: "string_to_status (status_to_string s) = s"
  by (cases s) (simp_all add: string_to_status_def)

text \<open>Times are microseconds since the epoch of \<open>base::Time\<close>, 0 for the null time.\<close>

definition uptime :: "int \<Rightarrow> running \<Rightarrow> int" where
  "uptime now r = (if rw_launched_at r = 0 then 0 else now - rw_launched_at r)"

definition in_seconds :: "int \<Rightarrow> int" where
  "in_seconds us = (if us < 0 then - (- us div 1000000) else us div 1000000)"

definition running_to_dict :: "int \<Rightarrow> running \<Rightarrow> dict" where
  "running_to_dict now r =
     (let d = [];
          d = dict_set ''workspace_id'' (JString (rw_id r)) d;
          d = dict_set ''status'' (JString (status_to_string (rw_status r))) d;
          d = dict_set ''cdp_port'' (JInt (rw_port r)) d;
          d = dict_set ''cdp_url'' (JString (rw_url r)) d;
          d = (case rw_process r of Some pid \<Rightarrow> dict_set ''pid'' (JInt pid) d | None \<Rightarrow> d);
          d = dict_set ''uptime_seconds'' (JInt (in_seconds (uptime now r))) d;
          d = dict_set ''launched_at'' (JDouble (of_int (rw_launched_at r))) d
      in d)"

definition error_dict :: "string \<Rightarrow> dict" where
  "error_dict msg = dict_set ''error'' (JString msg) (dict_set ''success'' (JBool False) [])"

subsection \<open>The command line\<close>

definition build_command_line :: "workspace \<Rightarrow> string \<Rightarrow> int \<Rightarrow> cmd_item list" where
  "build_command_line w user_data_dir cdp_port =
     (let cmd = [];
          cmd = cmd @ [SwitchPath ''user-data-dir'' user_data_dir];
          cmd = cmd @ [SwitchText ''remote-debugging-port'' (show_int cdp_port)];
          cmd = cmd @ [Switch ''no-first-run''];
          cmd = cmd @ [Switch ''no-default-browser-check''];
          cmd = cmd @ [SwitchText ''disable-features'' ''Translate''];
          cmd = (if ws_user_agent w \<noteq> [] then cmd @ [SwitchText ''user-agent'' (ws_user_agent w)] else cmd);
          cmd = (if ws_screen_width w > 0 \<and> ws_screen_height w > 0
                 then cmd @ [SwitchText ''window-size''
                        (show_int (ws_screen_width w) @ '','' @ show_int (ws_screen_height w))]
                 else cmd);
          cmd = (if ws_proxy w \<noteq> [] then cmd @ [SwitchText ''proxy-server'' (ws_proxy w)] else cmd);
          cmd = (if ws_locale w \<noteq> [] then cmd @ [SwitchText ''accept-lang'' (ws_locale w)] else cmd);
          cmd = (if ws_headless w then cmd @ [SwitchText ''headless'' ''new''] else cmd);
          cmd = cmd @ [SwitchText ''force-webrtc-ip-handling-policy'' ''disable_non_proxied_udp''];
          cmd = cmd @ map Arg (ws_launch_args w);
          cmd = cmd @ [Arg ''about:blank'']
      in cmd)"

text \<open>\<open>temp\<close> is the temporary directory, if the path service knows one.\<close>

definition workspace_base_dir :: "string option \<Rightarrow> string" where
  "workspace_base_dir temp = value_or temp ''/tmp'' @ ''/purecloak''"

definition preferences :: "json_lib \<Rightarrow> string \<Rightarrow> string" where
  "preferences jl locale =
     (let prefs = (if locale \<noteq> []
        then dict_set ''intl'' (JDict (dict_set ''accept_languages'' (JString locale) [])) [] else [])
      in value_or (json_write jl (JDict prefs)) [])"

subsection \<open>Watchdog\<close>

definition start_watching :: "string \<Rightarrow> manager \<Rightarrow> manager" where
  "start_watching i mg =
     (let mg = mg\<lparr>mg_watched := om_put i True (mg_watched mg)\<rparr> in
      if \<not> mg_timer mg then mg\<lparr>mg_timer := True\<rparr> else mg)"

definition stop_watching :: "string \<Rightarrow> manager \<Rightarrow> manager" where
  "stop_watching i mg =
     (let mg = mg\<lparr>mg_watched := om_del i (mg_watched mg)\<rparr> in
      if mg_watched mg = [] \<and> mg_timer mg then mg\<lparr>mg_timer := False\<rparr> else mg)"

definition watchdog_stop_all :: "manager \<Rightarrow> manager" where
  "watchdog_stop_all mg = mg\<lparr>mg_watched := [], mg_timer := False\<rparr>"

definition notify_status_changed :: "int \<Rightarrow> string \<Rightarrow> rw_status \<Rightarrow> manager \<Rightarrow> manager" where
  "notify_status_changed now i status mg =
     (let mg = (case map_of (mg_workspaces mg) i of
                  Some r \<Rightarrow> mg\<lparr>mg_workspaces := om_put i (r\<lparr>rw_status := status\<rparr>) (mg_workspaces mg)\<rparr>
                | None \<Rightarrow> mg);
          details = (case map_of (mg_workspaces mg) i of
                       Some r \<Rightarrow> running_to_dict now r | None \<Rightarrow> []);
          details = dict_set ''workspace_id'' (JString i) details;
          details = dict_set ''status'' (JString (status_to_string status)) details
      in notify_all (\<lambda>ob. ObserverStatus ob i status details) mg)"

text \<open>\<open>exited pid\<close>: the process has exited by the time of the poll.\<close>

definition check_process :: "(int \<Rightarrow> bool) \<Rightarrow> int \<Rightarrow> string \<Rightarrow> manager \<Rightarrow> manager" where
  "check_process exited now i mg =
     (case map_of (mg_workspaces mg) i of
        None \<Rightarrow> stop_watching i mg
      | Some r \<Rightarrow>
          (case rw_process r of
             None \<Rightarrow> notify_status_changed now i SCrashed (stop_watching i mg)
           | Some pid \<Rightarrow>
               if \<not> exited pid then mg
               else let was_intentionally_stopped = (rw_status r = SStopped);
                        mg = stop_watching i mg
                    in if \<not> was_intentionally_stopped
                       then notify_status_changed now i SCrashed mg else mg))"

definition on_poll :: "(int \<Rightarrow> bool) \<Rightarrow> int \<Rightarrow> manager \<Rightarrow> manager" where
  "on_poll exited now mg =
     fold (\<lambda>(i, active) mg. if active then check_process exited now i mg else mg) (mg_watched mg) mg"

subsection \<open>Starting\<close>

definition start_fresh ::
  "string option \<Rightarrow> (int \<Rightarrow> bool) \<Rightarrow> workspace \<Rightarrow> nat \<Rightarrow> manager \<Rightarrow> manager" where
  "start_fresh temp can_bind w cb mg =
     (if length (mg_workspaces mg) \<ge> kMaxConcurrentWorkspaces
      then log_effect (StartReplied cb False (error_dict ''Maximum concurrent workspaces reached'')) mg
      else let cdp_port = find_available_port can_bind in
        if cdp_port = 0
        then log_effect (StartReplied cb False (error_dict ''No available CDP port'')) mg
        else mg\<lparr>mg_pending := mg_pending mg @
               [\<lparr>ps_workspace = w, ps_dir = workspace_base_dir temp @ ''/ws_'' @ ws_id w,
                 ps_port = cdp_port, ps_callback = cb\<rparr>]\<rparr>)"

definition start_workspace ::
  "string option \<Rightarrow> (int \<Rightarrow> bool) \<Rightarrow> int \<Rightarrow> workspace \<Rightarrow> nat \<Rightarrow> manager \<Rightarrow> manager" where
  "start_workspace temp can_bind now w cb mg =
     (case map_of (mg_workspaces mg) (ws_id w) of
        Some r \<Rightarrow>
          (if rw_status r \<noteq> SStopped \<and> rw_status r \<noteq> SCrashed
           then log_effect (StartReplied cb True (running_to_dict now r)) mg
           else start_fresh temp can_bind w cb mg)
      | None \<Rightarrow> start_fresh temp can_bind w cb mg)"

text \<open>
  Launching, once the directory is there. \<open>pid\<close> is the new process, or none if it cannot be
  launched. An entry that was under the same id is overwritten, and its applier destroyed; its
  process is only forgotten.
\<close>

definition new_running :: "int \<Rightarrow> int \<Rightarrow> workspace \<Rightarrow> string \<Rightarrow> int \<Rightarrow> running" where
  "new_running pid now w dir port =
     \<lparr>rw_id = ws_id w, rw_type = ws_type w, rw_process = Some pid, rw_dir = dir, rw_port = port,
      rw_url = ''http://127.0.0.1:'' @ show_int port, rw_status = SStarting, rw_launched_at = now\<rparr>"

definition continue_start ::
  "js_lib \<Rightarrow> json_lib \<Rightarrow> int option \<Rightarrow> int \<Rightarrow> workspace \<Rightarrow> string \<Rightarrow> int \<Rightarrow> nat \<Rightarrow> manager \<Rightarrow> manager" where
  "continue_start js jl pid now w dir port cb mg =
     (let cmd_line = build_command_line w dir port in
      case pid of
        None \<Rightarrow> log_effect (StartReplied cb False (error_dict ''Failed to launch subprocess'')) mg
      | Some p \<Rightarrow>
          (let mg = log_effect (Spawned p cmd_line) (mg\<lparr>mg_live := p # mg_live mg\<rparr>);
               running = new_running p now w dir port;
               mg = mg\<lparr>mg_workspaces := om_put (ws_id w) running (mg_workspaces mg)\<rparr>;
               mg = start_watching (ws_id w) mg;
               running = running\<lparr>rw_status := SRunning\<rparr>;
               mg = mg\<lparr>mg_workspaces := om_put (ws_id w) running (mg_workspaces mg)\<rparr>;
               mg = notify_all (\<lambda>ob. ObserverLaunched ob running) mg;
               applier = apply_settings js jl (rw_url running) (rw_port running) [w] new_applier;
               mg = mg\<lparr>mg_appliers := om_put (rw_id running) applier (mg_appliers mg)\<rparr>
           in log_effect (StartReplied cb True (running_to_dict now running)) mg))"

text \<open>The reply to the posted task, of the \<open>k\<close>-th start in flight; they may come in any order.\<close>

definition start_reply ::
  "js_lib \<Rightarrow> json_lib \<Rightarrow> nat \<Rightarrow> int option \<Rightarrow> int \<Rightarrow> manager \<Rightarrow> manager" where
  "start_reply js jl k pid now mg =
     (if k < length (mg_pending mg)
      then let ps = mg_pending mg ! k;
               mg = mg\<lparr>mg_pending := drop_nth k (mg_pending mg)\<rparr>;
               mg = log_effect (PrefsWritten (ps_dir ps) (preferences jl (ws_locale (ps_workspace ps)))) mg
           in continue_start js jl pid now (ps_workspace ps) (ps_dir ps) (ps_port ps) (ps_callback ps) mg
      else mg)"

subsection \<open>Stopping\<close>

definition terminate :: "running \<Rightarrow> manager \<Rightarrow> manager" where
  "terminate r mg =
     (case rw_process r of
        Some pid \<Rightarrow> log_effect (Terminated pid) (mg\<lparr>mg_live := filter (\<lambda>p. p \<noteq> pid) (mg_live mg)\<rparr>)
      | None \<Rightarrow> mg)"

definition delete_dir :: "running \<Rightarrow> manager \<Rightarrow> manager" where
  "delete_dir r mg = (if rw_dir r \<noteq> [] then log_effect (DeleteDir (rw_dir r)) mg else mg)"

definition stop_workspace :: "string \<Rightarrow> manager \<Rightarrow> manager" where
  "stop_workspace i mg =
     (case map_of (mg_workspaces mg) i of
        None \<Rightarrow> mg
      | Some r \<Rightarrow>
          (let mg = stop_watching i mg;
               mg = terminate r mg;
               mg = delete_dir r mg;
               mg = mg\<lparr>mg_workspaces := om_put i (r\<lparr>rw_status := SStopped\<rparr>) (mg_workspaces mg)\<rparr>;
               mg = notify_all (\<lambda>ob. ObserverStopped ob i) mg;
               mg = mg\<lparr>mg_appliers := om_del i (mg_appliers mg)\<rparr>
           in mg\<lparr>mg_workspaces := om_del i (mg_workspaces mg)\<rparr>))"

definition stop_all :: "manager \<Rightarrow> manager" where
  "stop_all mg =
     (let mg = watchdog_stop_all mg;
          mg = fold (\<lambda>(i, r) mg. delete_dir r (terminate r mg)) (mg_workspaces mg) mg
      in mg\<lparr>mg_appliers := [], mg_workspaces := []\<rparr>)"

subsection \<open>Queries and observers\<close>

definition get_running :: "manager \<Rightarrow> string \<Rightarrow> running option" where
  "get_running mg i = map_of (mg_workspaces mg) i"

definition get_all_running :: "manager \<Rightarrow> running list" where
  "get_all_running mg = map snd (mg_workspaces mg)"

definition is_running :: "manager \<Rightarrow> string \<Rightarrow> bool" where
  "is_running mg i =
     (case map_of (mg_workspaces mg) i of
        None \<Rightarrow> False
      | Some r \<Rightarrow> rw_status r = SRunning \<or> rw_status r = SStarting)"

definition running_count :: "manager \<Rightarrow> nat" where
  "running_count mg =
     length (filter (\<lambda>(i, r). rw_status r = SRunning \<or> rw_status r = SStarting) (mg_workspaces mg))"

definition get_status_dict :: "int \<Rightarrow> manager \<Rightarrow> string \<Rightarrow> dict" where
  "get_status_dict now mg i =
     (case map_of (mg_workspaces mg) i of
        None \<Rightarrow> dict_set ''status'' (JString ''stopped'') (dict_set ''workspace_id'' (JString i) [])
      | Some r \<Rightarrow> running_to_dict now r)"

definition add_running_observer :: "nat \<Rightarrow> manager \<Rightarrow> manager" where
  "add_running_observer ob mg =
     (if ob \<in> set (mg_observers mg) then mg else mg\<lparr>mg_observers := mg_observers mg @ [ob]\<rparr>)"

definition remove_running_observer :: "nat \<Rightarrow> manager \<Rightarrow> manager" where
  "remove_running_observer ob mg = mg\<lparr>mg_observers := filter (\<lambda>x. x \<noteq> ob) (mg_observers mg)\<rparr>"

subsection \<open>The manager as a transition system\<close>

datatype launcher_event =
    LStart "string option" "int \<Rightarrow> bool" int workspace nat
  | LReply nat "int option" int
  | LStop string
  | LStopAll
  | LPoll "int \<Rightarrow> bool" int
  | LObserve nat
  | LUnobserve nat

fun launcher_step :: "js_lib \<Rightarrow> json_lib \<Rightarrow> launcher_event \<Rightarrow> manager \<Rightarrow> manager" where
  "launcher_step js jl (LStart temp can_bind now w cb) mg = start_workspace temp can_bind now w cb mg"
| "launcher_step js jl (LReply k pid now) mg = start_reply js jl k pid now mg"
| "launcher_step js jl (LStop i) mg = stop_workspace i mg"
| "launcher_step js jl LStopAll mg = stop_all mg"
| "launcher_step js jl (LPoll exited now) mg = (if mg_timer mg then on_poll exited now mg else mg)"
| "launcher_step js jl (LObserve ob) mg = add_running_observer ob mg"
| "launcher_step js jl (LUnobserve ob) mg = remove_running_observer ob mg"

subsection \<open>Frame lemmas\<close>

lemma log_fields [simp]:
  "mg_workspaces (log_effect e mg) = mg_workspaces mg" "mg_appliers (log_effect e mg) = mg_appliers mg"
  "mg_observers (log_effect e mg) = mg_observers mg" "mg_watched (log_effect e mg) = mg_watched mg"
  "mg_timer (log_effect e mg) = mg_timer mg" "mg_pending (log_effect e mg) = mg_pending mg"
  "mg_live (log_effect e mg) = mg_live mg" "mg_log (log_effect e mg) = mg_log mg @ [e]"
  by (simp_all add: log_effect_def)

lemma notify_all_fields [simp]:
  "mg_workspaces (notify_all f mg) = mg_workspaces mg" "mg_appliers (notify_all f mg) = mg_appliers mg"
  "mg_observers (notify_all f mg) = mg_observers mg" "mg_watched (notify_all f mg) = mg_watched mg"
  "mg_timer (notify_all f mg) = mg_timer mg" "mg_pending (notify_all f mg) = mg_pending mg"
  "mg_live (notify_all f mg) = mg_live mg" "mg_log (notify_all f mg) = mg_log mg @ map f (mg_observers mg)"
  by (simp_all add: notify_all_def)

lemma watch_fields [simp]:
  "mg_workspaces (start_watching i mg) = mg_workspaces mg" "mg_appliers (start_watching i mg) = mg_appliers mg"
  "mg_observers (start_watching i mg) = mg_observers mg" "mg_watched (start_watching i mg) = om_put i True (mg_watched mg)"
  "mg_timer (start_watching i mg)" "mg_pending (start_watching i mg) = mg_pending mg"
  "mg_live (start_watching i mg) = mg_live mg" "mg_log (start_watching i mg) = mg_log mg"
  "mg_workspaces (stop_watching i mg) = mg_workspaces mg" "mg_appliers (stop_watching i mg) = mg_appliers mg"
  "mg_observers (stop_watching i mg) = mg_observers mg" "mg_watched (stop_watching i mg) = om_del i (mg_watched mg)"
  "mg_timer (stop_watching i mg) \<longleftrightarrow> mg_timer mg \<and> om_del i (mg_watched mg) \<noteq> []"
  "mg_pending (stop_watching i mg) = mg_pending mg"
  "mg_live (stop_watching i mg) = mg_live mg" "mg_log (stop_watching i mg) = mg_log mg"
  by (auto simp: start_watching_def stop_watching_def Let_def)

lemma terminate_fields [simp]:
  "mg_workspaces (terminate r mg) = mg_workspaces mg" "mg_appliers (terminate r mg) = mg_appliers mg"
  "mg_observers (terminate r mg) = mg_observers mg" "mg_watched (terminate r mg) = mg_watched mg"
  "mg_timer (terminate r mg) = mg_timer mg" "mg_pending (terminate r mg) = mg_pending mg"
  "set (mg_live (terminate r mg)) = set (mg_live mg) - set_option (rw_process r)"
  by (auto simp: terminate_def split: option.split)

lemma delete_dir_fields [simp]:
  "mg_workspaces (delete_dir r mg) = mg_workspaces mg" "mg_appliers (delete_dir r mg) = mg_appliers mg"
  "mg_observers (delete_dir r mg) = mg_observers mg" "mg_watched (delete_dir r mg) = mg_watched mg"
  "mg_timer (delete_dir r mg) = mg_timer mg" "mg_pending (delete_dir r mg) = mg_pending mg"
  "mg_live (delete_dir r mg) = mg_live mg"
  by (simp_all add: delete_dir_def)

lemma status_fields [simp]:
  "mg_workspaces (notify_status_changed now i st mg) =
     (case map_of (mg_workspaces mg) i of
        Some r \<Rightarrow> om_put i (r\<lparr>rw_status := st\<rparr>) (mg_workspaces mg) | None \<Rightarrow> mg_workspaces mg)"
  "mg_appliers (notify_status_changed now i st mg) = mg_appliers mg"
  "mg_watched (notify_status_changed now i st mg) = mg_watched mg"
  "mg_timer (notify_status_changed now i st mg) = mg_timer mg"
  "mg_pending (notify_status_changed now i st mg) = mg_pending mg"
  "mg_live (notify_status_changed now i st mg) = mg_live mg"
  "mg_observers (notify_status_changed now i st mg) = mg_observers mg"
  by (simp_all add: notify_status_changed_def Let_def split: option.split)

lemma find_available_port_range:
  "find_available_port can_bind \<noteq> 0 \<Longrightarrow>
   find_available_port can_bind \<in> {kMinCdpPort..kMaxCdpPort} \<and> can_bind (find_available_port can_bind)"
proof -
  assume "find_available_port can_bind \<noteq> 0"
  then obtain p where p: "List.find can_bind [kMinCdpPort..kMaxCdpPort] = Some p"
    by (cases "List.find can_bind [kMinCdpPort..kMaxCdpPort]") (auto simp: find_available_port_def)
  then have "p \<in> set [kMinCdpPort..kMaxCdpPort] \<and> can_bind p" by (metis find_Some_iff nth_mem)
  then show ?thesis using p by (simp add: find_available_port_def)
qed

subsection \<open>The invariant\<close>

definition launcher_inv :: "manager \<Rightarrow> bool" where
  "launcher_inv mg =
     (om_ok (mg_workspaces mg) \<and> om_ok (mg_appliers mg) \<and> om_ok (mg_watched mg) \<and>
      dom (map_of (mg_appliers mg)) = dom (map_of (mg_workspaces mg)) \<and>
      dom (map_of (mg_watched mg)) \<subseteq> dom (map_of (mg_workspaces mg)) \<and>
      (mg_timer mg \<longleftrightarrow> mg_watched mg \<noteq> []) \<and>
      (\<forall>i. map_of (mg_watched mg) i \<noteq> Some False) \<and>
      (\<forall>i r. map_of (mg_workspaces mg) i = Some r \<longrightarrow>
         rw_id r = i \<and> rw_process r \<noteq> None \<and> rw_port r \<in> {kMinCdpPort..kMaxCdpPort} \<and>
         (rw_status r = SCrashed \<and> map_of (mg_watched mg) i = None \<or>
          rw_status r = SRunning \<and> map_of (mg_watched mg) i \<noteq> None)) \<and>
      (\<forall>ps\<in>set (mg_pending mg). ps_port ps \<in> {kMinCdpPort..kMaxCdpPort}))"

lemma start_inv: "launcher_inv mg \<Longrightarrow> launcher_inv (start_workspace temp can_bind now w cb mg)"
  using find_available_port_range [of can_bind]
  by (auto simp: start_workspace_def start_fresh_def launcher_inv_def Let_def split: option.split)

lemma set_drop_nth: "set (drop_nth k xs) \<subseteq> set xs"
  using set_take_subset [of k xs] set_drop_subset [of "Suc k" xs] by (auto simp: drop_nth_def)

lemma continue_inv:
  assumes "launcher_inv mg" "port \<in> {kMinCdpPort..kMaxCdpPort}"
  shows "launcher_inv (continue_start js jl pid now w dir port cb mg)"
  using assms
  by (cases pid) (auto simp: continue_start_def launcher_inv_def new_running_def Let_def)

lemma reply_inv: "launcher_inv mg \<Longrightarrow> launcher_inv (start_reply js jl k pid now mg)"
proof (cases "k < length (mg_pending mg)")
  case True
  assume inv: "launcher_inv mg"
  let ?ps = "mg_pending mg ! k"
  let ?mg = "log_effect (PrefsWritten (ps_dir ?ps) (preferences jl (ws_locale (ps_workspace ?ps))))
               (mg\<lparr>mg_pending := drop_nth k (mg_pending mg)\<rparr>)"
  have "launcher_inv ?mg" using inv set_drop_nth [of k "mg_pending mg"] by (auto simp: launcher_inv_def)
  moreover have "ps_port ?ps \<in> {kMinCdpPort..kMaxCdpPort}"
    using inv True by (simp add: launcher_inv_def)
  ultimately show ?thesis using True by (simp add: start_reply_def Let_def continue_inv)
qed (simp add: start_reply_def)

lemma om_del_empty_list [simp]: "om_del k [] = []"
  by (simp add: om_del_def)

lemma stop_inv: "launcher_inv mg \<Longrightarrow> launcher_inv (stop_workspace i mg)"
  by (auto simp: stop_workspace_def launcher_inv_def Let_def split: option.split)

lemma fold_terminate_fields [simp]:
  "mg_workspaces (fold (\<lambda>(i, r) mg. delete_dir r (terminate r mg)) rs mg) = mg_workspaces mg"
  "mg_watched (fold (\<lambda>(i, r) mg. delete_dir r (terminate r mg)) rs mg) = mg_watched mg"
  "mg_timer (fold (\<lambda>(i, r) mg. delete_dir r (terminate r mg)) rs mg) = mg_timer mg"
  "mg_pending (fold (\<lambda>(i, r) mg. delete_dir r (terminate r mg)) rs mg) = mg_pending mg"
  "mg_observers (fold (\<lambda>(i, r) mg. delete_dir r (terminate r mg)) rs mg) = mg_observers mg"
  "set (mg_live (fold (\<lambda>(i, r) mg. delete_dir r (terminate r mg)) rs mg)) =
     set (mg_live mg) - {pid. \<exists>(i, r)\<in>set rs. rw_process r = Some pid}"
  by (induction rs arbitrary: mg) (auto simp: case_prod_beta)

lemma stop_all_inv: "launcher_inv mg \<Longrightarrow> launcher_inv (stop_all mg)"
  by (simp add: stop_all_def launcher_inv_def watchdog_stop_all_def Let_def)

lemma launcher_invD:
  assumes "launcher_inv mg" "map_of (mg_workspaces mg) i = Some r"
  shows "rw_id r = i" "\<exists>pid. rw_process r = Some pid" "rw_status r \<noteq> SStopped"
    "rw_status r = SCrashed \<and> map_of (mg_watched mg) i = None \<or>
     rw_status r = SRunning \<and> map_of (mg_watched mg) i \<noteq> None"
proof -
  have "rw_id r = i \<and> rw_process r \<noteq> None \<and> rw_port r \<in> {kMinCdpPort..kMaxCdpPort} \<and>
      (rw_status r = SCrashed \<and> map_of (mg_watched mg) i = None \<or>
       rw_status r = SRunning \<and> map_of (mg_watched mg) i \<noteq> None)"
    using assms unfolding launcher_inv_def by blast
  then show "rw_id r = i" "\<exists>pid. rw_process r = Some pid" "rw_status r \<noteq> SStopped"
    "rw_status r = SCrashed \<and> map_of (mg_watched mg) i = None \<or>
     rw_status r = SRunning \<and> map_of (mg_watched mg) i \<noteq> None"
    by auto
qed

lemma check_process_eq:
  assumes "launcher_inv mg"
  shows "check_process exited now i mg =
    (case map_of (mg_workspaces mg) i of
       None \<Rightarrow> stop_watching i mg
     | Some r \<Rightarrow> if exited (the (rw_process r))
                then notify_status_changed now i SCrashed (stop_watching i mg) else mg)"
  using launcher_invD [OF assms, of i]
  by (auto simp: check_process_def split: option.split)

lemma stop_watching_inv:
  "launcher_inv mg \<Longrightarrow> map_of (mg_workspaces mg) i = None \<Longrightarrow> launcher_inv (stop_watching i mg)"
  by (auto simp: launcher_inv_def)

lemma crash_inv:
  "launcher_inv mg \<Longrightarrow> map_of (mg_workspaces mg) i = Some r \<Longrightarrow>
   launcher_inv (notify_status_changed now i SCrashed (stop_watching i mg))"
  by (auto simp: launcher_inv_def)

lemma check_inv_launcher: "launcher_inv mg \<Longrightarrow> launcher_inv (check_process exited now i mg)"
  by (simp add: check_process_eq stop_watching_inv crash_inv split: option.split)

lemma poll_inv: "launcher_inv mg \<Longrightarrow> launcher_inv (on_poll exited now mg)"
proof -
  assume inv: "launcher_inv mg"
  have "launcher_inv (fold (\<lambda>(i, active) mg. if active then check_process exited now i mg else mg) ws mg)" for ws
    using inv by (induction ws arbitrary: mg) (auto simp: check_inv_launcher)
  then show ?thesis by (simp add: on_poll_def)
qed

lemma observer_inv:
  "launcher_inv mg \<Longrightarrow> launcher_inv (add_running_observer ob mg)"
  "launcher_inv mg \<Longrightarrow> launcher_inv (remove_running_observer ob mg)"
  by (simp_all add: launcher_inv_def add_running_observer_def remove_running_observer_def)

interpretation launcher_system: invariant_system new_manager "launcher_step js jl" launcher_inv
proof
  show "launcher_inv new_manager" by (simp add: launcher_inv_def new_manager_def)
  fix mg e assume "launcher_inv mg"
  then show "launcher_inv (launcher_step js jl e mg)"
    by (cases e) (simp_all add: start_inv reply_inv stop_inv stop_all_inv poll_inv observer_inv)
qed

lemma om_put_put [simp]: "om_put k v (om_put k u m) = om_put k v m"
  by (induction m) auto

subsection \<open>Polling\<close>

definition mark :: "(int \<Rightarrow> bool) \<Rightarrow> running \<Rightarrow> running" where
  "mark exited r = (if exited (the (rw_process r)) then r\<lparr>rw_status := SCrashed\<rparr> else r)"

lemma check_lookup:
  assumes "launcher_inv mg"
  shows "map_of (mg_workspaces (check_process exited now i mg)) =
    (map_of (mg_workspaces mg))(i := map_option (mark exited) (map_of (mg_workspaces mg) i))"
  using assms by (auto simp: check_process_eq mark_def fun_eq_iff split: option.split)

lemma mark_mark [simp]: "mark exited (mark exited r) = mark exited r"
  by (simp add: mark_def)

lemma fold_check_lookup:
  assumes "launcher_inv mg"
  shows "map_of (mg_workspaces (fold (\<lambda>(i, active) mg. if active then check_process exited now i mg else mg) ws mg)) j =
    (if (j, True) \<in> set ws then map_option (mark exited) (map_of (mg_workspaces mg) j)
     else map_of (mg_workspaces mg) j)"
  using assms
proof (induction ws arbitrary: mg)
  case (Cons e ws)
  obtain i b where e: "e = (i, b)" by fastforce
  show ?case
  proof (cases b)
    case True
    then show ?thesis
      using Cons.IH [OF check_inv_launcher [OF Cons.prems]] Cons.prems e
      by (auto simp: check_lookup option.map_comp comp_def)
  qed (use Cons e in auto)
qed simp

lemma watched_iff:
  assumes "launcher_inv mg"
  shows "(i, True) \<in> set (mg_watched mg) \<longleftrightarrow> map_of (mg_watched mg) i \<noteq> None"
proof -
  have "om_ok (mg_watched mg)" "map_of (mg_watched mg) i \<noteq> Some False"
    using assms unfolding launcher_inv_def by blast+
  then show ?thesis using om_ok_map_of [of "mg_watched mg" i True] by (cases "map_of (mg_watched mg) i") auto
qed

lemma poll_lookup:
  assumes "launcher_inv mg"
  shows "map_of (mg_workspaces (on_poll exited now mg)) i =
    (if map_of (mg_watched mg) i \<noteq> None then map_option (mark exited) (map_of (mg_workspaces mg) i)
     else map_of (mg_workspaces mg) i)"
  unfolding on_poll_def fold_check_lookup [OF assms] watched_iff [OF assms] ..

subsection \<open>Properties\<close>

text \<open>
  C6 (invariant): in every reachable state the tables agree: entries are filed under their ids,
  have a process, a port of the range and the status running or crashed; each has its applier;
  the watchdog watches exactly the running ones, and its timer runs exactly when it watches something.
\<close>

theorem launcher_inv_reachable: "launcher_inv (run (launcher_step js jl) es new_manager)"
  by (rule launcher_system.inv_run)

text \<open>What the observers are told of an entry whose process has gone.\<close>

definition crash_details :: "int \<Rightarrow> string \<Rightarrow> running \<Rightarrow> dict" where
  "crash_details now i r =
     dict_set ''status'' (JString (status_to_string SCrashed))
       (dict_set ''workspace_id'' (JString i) (running_to_dict now (r\<lparr>rw_status := SCrashed\<rparr>)))"

definition crash_reports :: "int \<Rightarrow> nat list \<Rightarrow> string \<Rightarrow> running \<Rightarrow> launch_effect list" where
  "crash_reports now obs i r = map (\<lambda>ob. ObserverStatus ob i SCrashed (crash_details now i r)) obs"

lemma check_reports:
  assumes "launcher_inv mg" "map_of (mg_workspaces mg) i = Some r"
  shows "mg_log (check_process exited now i mg) =
      mg_log mg @ (if exited (the (rw_process r)) then crash_reports now (mg_observers mg) i r else [])"
    "mg_observers (check_process exited now i mg) = mg_observers mg"
  using assms(2)
  by (simp_all add: check_process_eq [OF assms(1)] notify_status_changed_def crash_reports_def
      crash_details_def Let_def)

lemma fold_check_reports:
  assumes "launcher_inv mg" "distinct (map fst ws)"
    "\<And>i b. (i, b) \<in> set ws \<Longrightarrow> b \<and> map_of (mg_workspaces mg) i \<noteq> None"
  shows "mg_log (fold (\<lambda>(i, active) mg. if active then check_process exited now i mg else mg) ws mg) =
    mg_log mg @ concat (map (\<lambda>i. crash_reports now (mg_observers mg) i (the (get_running mg i)))
      (filter (\<lambda>i. exited (the (rw_process (the (get_running mg i))))) (map fst ws)))"
  using assms
proof (induction ws arbitrary: mg)
  case (Cons e ws)
  obtain i where e: "e = (i, True)" using Cons.prems(3) by (cases e) auto
  obtain r where r: "map_of (mg_workspaces mg) i = Some r" using Cons.prems(3) e by auto
  let ?mg = "check_process exited now i mg"
  have other: "map_of (mg_workspaces ?mg) j = map_of (mg_workspaces mg) j" if "j \<noteq> i" for j
    using that by (simp add: check_lookup [OF Cons.prems(1)])
  have new: "i \<notin> fst ` set ws" using Cons.prems(2) e by simp
  have same: "get_running ?mg j = get_running mg j" if "j \<in> fst ` set ws" for j
  proof -
    have "j \<noteq> i" using that new by blast
    then show ?thesis by (simp add: get_running_def other)
  qed
  note log = check_reports(1) [OF Cons.prems(1) r, of exited now]
  note obs = check_reports(2) [OF Cons.prems(1) r, of exited now]
  have rest: "mg_log (fold (\<lambda>(i, active) mg. if active then check_process exited now i mg else mg) ws ?mg) =
    mg_log ?mg @ concat (map (\<lambda>i. crash_reports now (mg_observers ?mg) i (the (get_running ?mg i)))
      (filter (\<lambda>i. exited (the (rw_process (the (get_running ?mg i))))) (map fst ws)))"
  proof (rule Cons.IH [OF check_inv_launcher [OF Cons.prems(1)]])
    fix j b assume j: "(j, b) \<in> set ws"
    then have "j \<noteq> i" using new by force
    then show "b \<and> map_of (mg_workspaces ?mg) j \<noteq> None"
      using Cons.prems(3) [of j b] j other by simp
  qed (use Cons.prems(2) in simp)
  have gone: "filter (\<lambda>j. exited (the (rw_process (the (get_running ?mg j))))) (map fst ws) =
      filter (\<lambda>j. exited (the (rw_process (the (get_running mg j))))) (map fst ws)"
    by (rule filter_cong) (simp_all add: same)
  have told: "map (\<lambda>j. crash_reports now (mg_observers mg) j (the (get_running ?mg j)))
        (filter (\<lambda>j. exited (the (rw_process (the (get_running mg j))))) (map fst ws)) =
      map (\<lambda>j. crash_reports now (mg_observers mg) j (the (get_running mg j)))
        (filter (\<lambda>j. exited (the (rw_process (the (get_running mg j))))) (map fst ws))"
    by (rule map_cong) (auto simp: same)
  have here: "get_running mg i = Some r" using r by (simp add: get_running_def)
  show ?case using rest [unfolded obs gone told log] here by (simp add: e)
qed simp

lemma watched_running:
  assumes "launcher_inv mg"
  shows "(i, b) \<in> set (mg_watched mg) \<longleftrightarrow> b \<and> is_running mg i"
proof -
  have ok: "om_ok (mg_watched mg)" "dom (map_of (mg_watched mg)) \<subseteq> dom (map_of (mg_workspaces mg))"
    "map_of (mg_watched mg) i \<noteq> Some False"
    using assms unfolding launcher_inv_def by blast+
  have "map_of (mg_watched mg) i \<noteq> None \<longleftrightarrow> is_running mg i"
    using launcher_invD(4) [OF assms, of i] ok(2)
    by (cases "map_of (mg_workspaces mg) i") (auto simp: is_running_def)
  then show ?thesis using ok(3) by (auto simp: om_ok_map_of [OF ok(1)])
qed

text \<open>
  C34 (functional): the watchdog finds the crashes, each once. A poll of a reachable manager tells
  every observer, for each running workspace whose process has exited and for no other, that it has
  crashed; after it, exactly these do not count as running any more, so the next poll is silent on them.
\<close>

theorem poll_finds_crashes:
  "let mg = run (launcher_step js jl) es new_manager;
       mg' = on_poll exited now mg;
       gone = filter (\<lambda>i. exited (the (rw_process (the (get_running mg i))))) (map fst (mg_watched mg)) in
   distinct gone \<and>
   set gone = {i. is_running mg i \<and> exited (the (rw_process (the (get_running mg i))))} \<and>
   mg_log mg' = mg_log mg @ concat (map (\<lambda>i. crash_reports now (mg_observers mg) i (the (get_running mg i))) gone) \<and>
   (\<forall>i. is_running mg' i \<longleftrightarrow> is_running mg i \<and> i \<notin> set gone)"
proof -
  let ?mg = "run (launcher_step js jl) es new_manager"
  let ?gone = "filter (\<lambda>i. exited (the (rw_process (the (get_running ?mg i))))) (map fst (mg_watched ?mg))"
  have inv: "launcher_inv ?mg" by (rule launcher_system.inv_run)
  then have "om_ok (mg_watched ?mg)" by (simp add: launcher_inv_def)
  then have dist: "distinct (map fst (mg_watched ?mg))" by (rule om_ok_distinct)
  have set: "set ?gone = {i. is_running ?mg i \<and> exited (the (rw_process (the (get_running ?mg i))))}"
  proof (rule set_eqI)
    fix i
    have "i \<in> fst ` ws \<longleftrightarrow> (\<exists>b. (i, b) \<in> ws)" for ws :: "(string \<times> bool) set" by force
    then have "i \<in> fst ` set (mg_watched ?mg) \<longleftrightarrow> is_running ?mg i"
      by (simp only: watched_running [OF inv]) blast
    then show "i \<in> set ?gone \<longleftrightarrow>
        i \<in> {i. is_running ?mg i \<and> exited (the (rw_process (the (get_running ?mg i))))}"
      by (simp only: set_filter set_map mem_Collect_eq)
  qed
  have log: "mg_log (on_poll exited now ?mg) = mg_log ?mg @
      concat (map (\<lambda>i. crash_reports now (mg_observers ?mg) i (the (get_running ?mg i))) ?gone)"
    unfolding on_poll_def
  proof (rule fold_check_reports [OF inv dist])
    fix i b assume "(i, b) \<in> set (mg_watched ?mg)"
    then have "b \<and> is_running ?mg i" by (simp only: watched_running [OF inv])
    then show "b \<and> map_of (mg_workspaces ?mg) i \<noteq> None" by (cases "map_of (mg_workspaces ?mg) i") (simp_all add: is_running_def)
  qed
  have "is_running (on_poll exited now ?mg) i \<longleftrightarrow> is_running ?mg i \<and> i \<notin> set ?gone" for i
  proof (cases "map_of (mg_workspaces ?mg) i")
    case (Some r)
    then show ?thesis
      unfolding set using launcher_invD(4) [OF inv Some]
      by (auto simp: is_running_def get_running_def poll_lookup [OF inv] mark_def)
  next
    case None
    then show ?thesis unfolding set by (simp add: is_running_def poll_lookup [OF inv])
  qed
  then show ?thesis
    unfolding Let_def by (intro conjI allI distinct_filter dist set log)
qed

lemma fold_terminate_log:
  "set (mg_log mg) \<union> (\<lambda>(i, r). DeleteDir (rw_dir r)) ` {(i, r) \<in> set rs. rw_dir r \<noteq> []}
     \<subseteq> set (mg_log (fold (\<lambda>(i, r) mg. delete_dir r (terminate r mg)) rs mg))"
proof (induction rs arbitrary: mg)
  case (Cons e rs)
  obtain i r where e: "e = (i, r)" by fastforce
  let ?mg = "delete_dir r (terminate r mg)"
  have "set (mg_log mg) \<subseteq> set (mg_log ?mg)" "rw_dir r \<noteq> [] \<Longrightarrow> DeleteDir (rw_dir r) \<in> set (mg_log ?mg)"
    by (auto simp: delete_dir_def terminate_def split: option.split)
  then show ?case using Cons.IH [of ?mg] e by (auto simp: image_iff)
qed auto

text \<open>
  Stopping everything empties the tables, stops the timer, terminates exactly the
  processes of the table and has the directory of each of its entries deleted.
\<close>

theorem stop_all_stops:
  "let mg' = stop_all mg in
     mg_workspaces mg' = [] \<and> mg_appliers mg' = [] \<and> mg_watched mg' = [] \<and> \<not> mg_timer mg' \<and>
     set (mg_live mg') = set (mg_live mg) - {pid. \<exists>(i, r)\<in>set (mg_workspaces mg). rw_process r = Some pid} \<and>
     (\<lambda>(i, r). DeleteDir (rw_dir r)) ` {(i, r) \<in> set (mg_workspaces mg). rw_dir r \<noteq> []} \<subseteq> set (mg_log mg')"
  using fold_terminate_log [of "watchdog_stop_all mg" "mg_workspaces mg"]
  by (simp add: stop_all_def watchdog_stop_all_def Let_def)

text \<open>
  When a start goes ahead: exactly when the workspace is not running, fewer than
  ten entries are in the table, crashed ones included, and some port of the range can be bound.
\<close>

theorem start_goes_ahead:
  "mg_pending (start_workspace temp can_bind now w cb mg) \<noteq> mg_pending mg \<longleftrightarrow>
     \<not> is_running mg (ws_id w) \<and> length (mg_workspaces mg) < 10 \<and>
     (\<exists>p. 9333 \<le> p \<and> p \<le> 9352 \<and> can_bind p)"
proof -
  have port: "find_available_port can_bind = 0 \<longleftrightarrow> (\<nexists>p. 9333 \<le> p \<and> p \<le> 9352 \<and> can_bind p)"
  proof
    assume z: "find_available_port can_bind = 0"
    show "\<nexists>p. 9333 \<le> p \<and> p \<le> 9352 \<and> can_bind p"
    proof (cases "List.find can_bind [kMinCdpPort..kMaxCdpPort]")
      case None
      then have "p \<notin> set [kMinCdpPort..kMaxCdpPort] \<or> \<not> can_bind p" for p
        by (simp only: find_None_iff) blast
      then show ?thesis by (simp only: set_upto atLeastAtMost_iff kMinCdpPort_def kMaxCdpPort_def) blast
    next
      case (Some p)
      then have "p \<in> set [kMinCdpPort..kMaxCdpPort]" by (metis find_Some_iff nth_mem)
      with z Some show ?thesis by (simp add: find_available_port_def kMinCdpPort_def)
    qed
  next
    assume "\<nexists>p. 9333 \<le> p \<and> p \<le> 9352 \<and> can_bind p"
    then show "find_available_port can_bind = 0"
      using find_available_port_range [of can_bind] by (auto simp: kMinCdpPort_def kMaxCdpPort_def)
  qed
  have fresh: "mg_pending (start_fresh temp can_bind w cb mg) \<noteq> mg_pending mg \<longleftrightarrow>
      length (mg_workspaces mg) < 10 \<and> find_available_port can_bind \<noteq> 0"
    by (simp add: start_fresh_def kMaxConcurrentWorkspaces_def Let_def)
  show ?thesis
    using fresh port rw_status.exhaust
    by (auto simp: start_workspace_def is_running_def split: option.split)
qed

lemma start_empty:
  assumes "mg_workspaces mg = []" "find_available_port can_bind = p" "p \<noteq> 0"
  shows "start_workspace temp can_bind now w cb mg =
    mg\<lparr>mg_pending := mg_pending mg @ [\<lparr>ps_workspace = w, ps_dir = workspace_base_dir temp @ ''/ws_'' @ ws_id w,
         ps_port = p, ps_callback = cb\<rparr>]\<rparr>"
  using assms by (simp add: start_workspace_def start_fresh_def kMaxConcurrentWorkspaces_def Let_def)

lemma starts_empty:
  assumes "find_available_port can_bind = p" "p \<noteq> 0"
  shows "mg_workspaces mg = [] \<Longrightarrow>
    mg_workspaces (run (launcher_step js jl) (map (\<lambda>w. LStart temp can_bind now w cb) ws) mg) = [] \<and>
    map (\<lambda>ps. (ps_workspace ps, ps_port ps)) (mg_pending (run (launcher_step js jl) (map (\<lambda>w. LStart temp can_bind now w cb) ws) mg)) =
    map (\<lambda>ps. (ps_workspace ps, ps_port ps)) (mg_pending mg) @ map (\<lambda>w. (w, p)) ws"
proof (induction ws arbitrary: mg)
  case (Cons w ws)
  have e: "start_workspace temp can_bind now w cb mg =
    mg\<lparr>mg_pending := mg_pending mg @ [\<lparr>ps_workspace = w, ps_dir = workspace_base_dir temp @ ''/ws_'' @ ws_id w,
         ps_port = p, ps_callback = cb\<rparr>]\<rparr>"
    by (rule start_empty [OF Cons.prems assms])
  show ?case using Cons.IH [of "start_workspace temp can_bind now w cb mg"] Cons.prems by (simp add: e)
qed simp

lemma reply_first:
  assumes "mg_pending mg = ps # rest"
  shows "mg_pending (start_reply js jl 0 (Some pid) now mg) = rest"
    "\<exists>r. mg_workspaces (start_reply js jl 0 (Some pid) now mg) = om_put (ws_id (ps_workspace ps)) r (mg_workspaces mg) \<and>
         rw_port r = ps_port ps"
  using assms by (auto simp: start_reply_def continue_start_def drop_nth_def new_running_def Let_def
      intro!: exI [of _ "(new_running pid now (ps_workspace ps) (ps_dir ps) (ps_port ps))\<lparr>rw_status := SRunning\<rparr>"])

lemma reply_effects:
  assumes "mg_pending mg = ps # rest"
  shows "mg_pending (start_reply js jl 0 (Some pid) now mg) = rest"
    "mg_live (start_reply js jl 0 (Some pid) now mg) = pid # mg_live mg"
    "insert (Spawned pid (build_command_line (ps_workspace ps) (ps_dir ps) (ps_port ps))) (set (mg_log mg)) \<subseteq>
       set (mg_log (start_reply js jl 0 (Some pid) now mg))"
    "\<exists>r. mg_workspaces (start_reply js jl 0 (Some pid) now mg) = om_put (ws_id (ps_workspace ps)) r (mg_workspaces mg) \<and>
         rw_process r = Some pid"
  using assms by (auto simp: start_reply_def continue_start_def drop_nth_def new_running_def Let_def
      intro!: exI [of _ "(new_running pid now (ps_workspace ps) (ps_dir ps) (ps_port ps))\<lparr>rw_status := SRunning\<rparr>"])

lemma replies_all:
  "\<lbrakk>map (\<lambda>ps. (ps_workspace ps, ps_port ps)) (mg_pending mg) = map (\<lambda>w. (w, p)) ws;
    distinct (map ws_id ws); fst ` set (mg_workspaces mg) \<inter> ws_id ` set ws = {};
    length pids = length ws; \<forall>e\<in>set (mg_workspaces mg). rw_port (snd e) = p; om_ok (mg_workspaces mg)\<rbrakk> \<Longrightarrow>
   (let mg' = run (launcher_step js jl) (map (\<lambda>pid. LReply 0 (Some pid) now) pids) mg in
      length (mg_workspaces mg') = length (mg_workspaces mg) + length ws \<and>
      (\<forall>e\<in>set (mg_workspaces mg'). rw_port (snd e) = p))"
proof (induction pids arbitrary: mg ws)
  case (Cons pid pids)
  then obtain w ws' where ws: "ws = w # ws'" by (cases ws) auto
  then obtain ps rest where ps: "mg_pending mg = ps # rest" "ps_workspace ps = w" "ps_port ps = p"
      "map (\<lambda>ps. (ps_workspace ps, ps_port ps)) rest = map (\<lambda>w. (w, p)) ws'"
    using Cons.prems(1) by (auto simp: Cons_eq_map_conv)
  let ?mg = "start_reply js jl 0 (Some pid) now mg"
  obtain r where r: "mg_workspaces ?mg = om_put (ws_id w) r (mg_workspaces mg)" "rw_port r = p"
    using reply_first(2) [OF ps(1), of js jl pid now] ps(2, 3) by auto
  have new: "map_of (mg_workspaces mg) (ws_id w) = None"
    using Cons.prems(3) ws by (auto simp: map_of_eq_None_iff)
  have "let mg' = run (launcher_step js jl) (map (\<lambda>pid. LReply 0 (Some pid) now) pids) ?mg in
      length (mg_workspaces mg') = length (mg_workspaces ?mg) + length ws' \<and>
      (\<forall>e\<in>set (mg_workspaces mg'). rw_port (snd e) = p)"
  proof (rule Cons.IH)
    show "map (\<lambda>ps. (ps_workspace ps, ps_port ps)) (mg_pending ?mg) = map (\<lambda>w. (w, p)) ws'"
      using reply_first(1) [OF ps(1)] ps(4) by simp
    show "fst ` set (mg_workspaces ?mg) \<inter> ws_id ` set ws' = {}"
      using Cons.prems(2, 3) ws r(1) by auto
    show "\<forall>e\<in>set (mg_workspaces ?mg). rw_port (snd e) = p"
      using Cons.prems(5) r set_om_put_subset [of "ws_id w" r "mg_workspaces mg"] by auto
  qed (use Cons.prems ws r in auto)
  moreover have "length (mg_workspaces ?mg) = Suc (length (mg_workspaces mg))"
    using r(1) new Cons.prems(6) by (simp add: length_om_put)
  ultimately show ?case using ws by (simp add: Let_def)
qed simp

text \<open>
  Starts in flight pass the limit. Starting any number of workspaces before the first
  directory is ready launches all of them, all on the same port.
\<close>

theorem starts_in_flight_pass_limit:
  assumes "distinct (map ws_id ws)" "find_available_port can_bind = p" "p \<noteq> 0" "length pids = length ws"
  shows "let mg = run (launcher_step js jl)
           (map (\<lambda>w. LStart temp can_bind now w cb) ws @ map (\<lambda>pid. LReply 0 (Some pid) now) pids) new_manager in
         map rw_port (get_all_running mg) = replicate (length ws) p"
proof -
  let ?mg = "run (launcher_step js jl) (map (\<lambda>w. LStart temp can_bind now w cb) ws) new_manager"
  have "mg_workspaces ?mg = [] \<and>
      map (\<lambda>ps. (ps_workspace ps, ps_port ps)) (mg_pending ?mg) = map (\<lambda>w. (w, p)) ws"
    using starts_empty [OF assms(2, 3), of new_manager js jl temp now cb ws] by (simp add: new_manager_def)
  then have "let mg' = run (launcher_step js jl) (map (\<lambda>pid. LReply 0 (Some pid) now) pids) ?mg in
      length (mg_workspaces mg') = length ws \<and> (\<forall>e\<in>set (mg_workspaces mg'). rw_port (snd e) = p)"
    using replies_all [of ?mg p ws pids js jl now] assms(1, 4) by simp
  then show ?thesis
    by (auto simp: Let_def get_all_running_def intro!: replicate_eqI)
qed

theorem starts_in_flight_pass_limit_witness:
  "length (get_all_running (run (launcher_step sample_js fixed_json)
     (map (\<lambda>w. LStart None (\<lambda>p. True) 7 w 0)
        (map (\<lambda>k. workspace_default\<lparr>ws_id := replicate k CHR ''a''\<rparr>) [0..<11]) @
      map (\<lambda>pid. LReply 0 (Some pid) 7) (map int [100..<111])) new_manager)) = 11"
proof -
  let ?ws = "map (\<lambda>k. workspace_default\<lparr>ws_id := replicate k CHR ''a''\<rparr>) [0..<11]"
  have d: "distinct (map ws_id ?ws)" by (simp only: map_map comp_def distinct_map) (auto simp: inj_on_def dest: arg_cong [of _ _ length])
  have p: "find_available_port (\<lambda>p. True) = 9333"
    by (simp add: find_available_port_def kMinCdpPort_def kMaxCdpPort_def)
  have "map rw_port (get_all_running (run (launcher_step sample_js fixed_json)
     (map (\<lambda>w. LStart None (\<lambda>p. True) 7 w 0) ?ws @
      map (\<lambda>pid. LReply 0 (Some pid) 7) (map int [100..<111])) new_manager)) = replicate (length ?ws) 9333"
    using starts_in_flight_pass_limit [OF d p, of "map int [100..<111]"] by (simp only: Let_def) simp
  from arg_cong [OF this, of length] show ?thesis by (simp only: length_map length_replicate) simp
qed

lemma stop_all_kills:
  "mg_workspaces mg = [(i, r)] \<Longrightarrow> rw_process r = Some pid \<Longrightarrow>
   set (mg_live (stop_all mg)) = set (mg_live mg) - {pid}"
  by (auto simp: stop_all_def watchdog_stop_all_def Let_def)

text \<open>
  Two starts of one workspace in flight leave a process behind. Both are launched on
  the same directory and port, and the first is in no table any more: stopping everything empties the
  tables and leaves it running.
\<close>

theorem double_start_orphans:
  assumes "find_available_port can_bind \<noteq> 0" "pid1 \<noteq> pid2"
  shows "let mg = run (launcher_step js jl)
           [LStart temp can_bind t1 w c1, LStart temp can_bind t2 w c2,
            LReply 0 (Some pid1) t3, LReply 0 (Some pid2) t4] new_manager;
             cmd = build_command_line w (workspace_base_dir temp @ ''/ws_'' @ ws_id w)
                     (find_available_port can_bind) in
         {Spawned pid1 cmd, Spawned pid2 cmd} \<subseteq> set (mg_log mg) \<and>
         mg_workspaces (stop_all mg) = [] \<and> pid1 \<in> set (mg_live (stop_all mg))"
proof -
  let ?port = "find_available_port can_bind"
  let ?dir = "workspace_base_dir temp @ ''/ws_'' @ ws_id w"
  let ?p = "\<lambda>c. \<lparr>ps_workspace = w, ps_dir = ?dir, ps_port = ?port, ps_callback = c\<rparr>"
  have two: "start_workspace temp can_bind t2 w c2 (start_workspace temp can_bind t1 w c1 new_manager) =
    new_manager\<lparr>mg_pending := [?p c1, ?p c2]\<rparr>"
    using assms(1) by (simp add: start_workspace_def start_fresh_def new_manager_def Let_def
        kMaxConcurrentWorkspaces_def)
  let ?m1 = "new_manager\<lparr>mg_pending := [?p c1, ?p c2]\<rparr>"
  let ?m2 = "start_reply js jl 0 (Some pid1) t3 ?m1"
  let ?m3 = "start_reply js jl 0 (Some pid2) t4 ?m2"
  have pend: "mg_pending ?m1 = [?p c1, ?p c2]" by simp
  note r1 = reply_effects [OF pend, where js = js and jl = jl and pid = pid1 and now = t3, simplified]
  note r2 = reply_effects [OF r1(1), where js = js and jl = jl and pid = pid2 and now = t4, simplified]
  obtain r where r: "mg_workspaces ?m3 = [(ws_id w, r)]" "rw_process r = Some pid2"
    using r1(4) r2(4) by (auto simp: new_manager_def)
  have live: "mg_live ?m3 = [pid2, pid1]" using r1(2) r2(2) by (simp add: new_manager_def)
  have "pid1 \<in> set (mg_live (stop_all ?m3))"
    unfolding stop_all_kills [OF r] using live assms(2) by simp
  moreover have "mg_workspaces (stop_all ?m3) = []" by (simp add: stop_all_def Let_def)
  moreover have "{Spawned pid1 (build_command_line w ?dir ?port), Spawned pid2 (build_command_line w ?dir ?port)}
      \<subseteq> set (mg_log ?m3)" using r1(3) r2(3) by auto
  ultimately show ?thesis by (simp add: two Let_def)
qed

theorem double_start_orphans_witness:
  "11 \<in> set (mg_live (stop_all (run (launcher_step sample_js fixed_json)
           [LStart None (\<lambda>p. p = 9340) 1 workspace_default 0, LStart None (\<lambda>p. p = 9340) 2 workspace_default 1,
            LReply 0 (Some 11) 3, LReply 0 (Some 12) 4] new_manager)))"
proof -
  have "find_available_port (\<lambda>p. p = 9340) \<noteq> 0"
    by (simp add: find_available_port_def kMinCdpPort_def kMaxCdpPort_def upto.simps)
  from double_start_orphans [OF this, of 11 12] show ?thesis by (simp add: Let_def)
qed

fun switch_name :: "cmd_item \<Rightarrow> string option" where
  "switch_name (SwitchPath k v) = Some k"
| "switch_name (SwitchText k v) = Some k"
| "switch_name (Switch k) = Some k"
| "switch_name (Arg a) = None"

lemma set_if_append: "set (if b then l @ m else l) = set l \<union> (if b then set m else {})"
  by auto

lemma switch_names_of:
  "Some k \<in> switch_name ` set (build_command_line w dir port) \<Longrightarrow>
   k \<in> {''user-data-dir'', ''remote-debugging-port'', ''no-first-run'', ''no-default-browser-check'',
        ''disable-features'', ''user-agent'', ''window-size'', ''proxy-server'', ''accept-lang'',
        ''headless'', ''force-webrtc-ip-handling-policy''}"
  unfolding build_command_line_def Let_def set_append set_if_append list.set set_map Un_iff image_Un
    image_image switch_name.simps
  by (auto split: if_splits)

text \<open>
  The command line of every workspace isolates it: its own data directory and
  debugging port and the WebRTC policy are always there, the proxy and the user agent exactly when
  configured, the extra arguments as they are, and the last argument is the blank page.
\<close>

theorem command_line_isolates:
  "let cmd = build_command_line w dir port in
     {SwitchPath ''user-data-dir'' dir, SwitchText ''remote-debugging-port'' (show_int port),
      SwitchText ''force-webrtc-ip-handling-policy'' ''disable_non_proxied_udp''} \<subseteq> set cmd \<and>
     {v. SwitchText ''proxy-server'' v \<in> set cmd} = {ws_proxy w} - {[]} \<and>
     {v. SwitchText ''user-agent'' v \<in> set cmd} = {ws_user_agent w} - {[]} \<and>
     {a. Arg a \<in> set cmd} = insert ''about:blank'' (set (ws_launch_args w)) \<and>
     last cmd = Arg ''about:blank''"
  by (auto simp: build_command_line_def Let_def split: if_splits)

end
