(* ===== verification/Byte_Stream.thy ===== *)
theory Byte_Stream
  imports PC_Prelude "HOL-Library.Word"
begin

unbundle bit_operations_syntax

text \<open>
  Sockets as the client sees them, \<open>content/cdp_websocket_client.cc\<close>: \<open>recv\<close> hands out what has
  arrived, in pieces of the network's choosing, \<open>send\<close> takes as much as it likes, and both may
  fail. The loops \<open>SendAll\<close> and \<open>RecvAll\<close> hide the pieces: an interface for readers of exact
  lengths is stated as a locale, which the loop over the socket implements.
\<close>

type_synonym byte = "8 word"

subsection \<open>Characters and bytes\<close>

definition byte_of :: "char \<Rightarrow> byte" where
  "byte_of c = of_nat (of_char c)"

definition char_of_byte :: "byte \<Rightarrow> char" where
  "char_of_byte b = char_of (unat b)"

definition bytes_of :: "string \<Rightarrow> byte list" where
  "bytes_of s = map byte_of s"

definition string_of :: "byte list \<Rightarrow> string" where
  "string_of bs = map char_of_byte bs"

lemma char_of_byte_of [simp]: "char_of_byte (byte_of c) = c"
proof -
  have "(of_char c :: nat) < 256" by simp
  then have "unat (of_nat (of_char c) :: byte) = of_char c" by (simp add: unat_of_nat)
  then show ?thesis by (simp add: byte_of_def char_of_byte_def)
qed

lemma string_of_bytes_of [simp]: "string_of (bytes_of s) = s"
  by (induction s) (simp_all add: string_of_def bytes_of_def)

lemma length_bytes [simp]: "length (bytes_of s) = length s" "length (string_of bs) = length bs"
  by (simp_all add: bytes_of_def string_of_def)

lemma bytes_of_append [simp]: "bytes_of (s @ t) = bytes_of s @ bytes_of t"
  by (simp add: bytes_of_def)

lemma string_of_append [simp]: "string_of (s @ t) = string_of s @ string_of t"
  by (simp add: string_of_def)

subsection \<open>The socket\<close>

text \<open>
  \<open>sk_in\<close> holds the pieces that will arrive; an empty piece is a call of \<open>recv\<close> that times out
  or fails, and the end of the list the end of the connection. \<open>sk_accept\<close> says how much each
  call of \<open>send\<close> takes, 0 for a failing one.
\<close>

record sock =
  sk_fd :: int
  sk_in :: "byte list list"
  sk_accept :: "nat list"
  sk_out :: "byte list"

definition sock_recv :: "nat \<Rightarrow> sock \<Rightarrow> byte list \<times> sock" where
  "sock_recv n s =
     (case sk_in s of
        [] \<Rightarrow> ([], s)
      | ch # chs \<Rightarrow>
          (take n ch, s\<lparr>sk_in := (if drop n ch = [] then chs else drop n ch # chs)\<rparr>))"

definition sock_send :: "byte list \<Rightarrow> sock \<Rightarrow> nat \<times> sock" where
  "sock_send bs s =
     (case sk_accept s of
        [] \<Rightarrow> (0, s)
      | k # ks \<Rightarrow>
          (let n = min k (length bs)
           in (n, s\<lparr>sk_accept := ks, sk_out := sk_out s @ take n bs\<rparr>)))"

function send_all :: "byte list \<Rightarrow> sock \<Rightarrow> bool \<times> sock" where
  "send_all bs s =
     (if bs = [] then (True, s)
      else let (n, s) = sock_send bs s in
        if n = 0 then (False, s) else send_all (drop n bs) s)"
  by pat_completeness auto
termination by (relation "measure (\<lambda>(bs, s). length bs)") auto

function recv_all :: "nat \<Rightarrow> sock \<Rightarrow> byte list option \<times> sock" where
  "recv_all n s =
     (if n = 0 then (Some [], s)
      else let (got, s) = sock_recv n s in
        if got = [] then (None, s)
        else let (rest, s) = recv_all (n - length got) s in
          (case rest of None \<Rightarrow> (None, s) | Some bs \<Rightarrow> (Some (got @ bs), s)))"
  by pat_completeness auto
termination by (relation "measure (\<lambda>(n, s). n)") auto

declare send_all.simps [simp del] recv_all.simps [simp del]

lemma send_all_simps [simp]: "send_all [] s = (True, s)"
  by (simp add: send_all.simps)

lemma recv_all_0 [simp]: "recv_all 0 s = (Some [], s)"
  by (simp add: recv_all.simps)

subsection \<open>What the loops do\<close>

text \<open>The bytes that arrive before the next failing call.\<close>

definition arriving :: "sock \<Rightarrow> byte list" where
  "arriving s = concat (takeWhile (\<lambda>c. c \<noteq> []) (sk_in s))"

lemma sock_recv_empty: "fst (sock_recv n s) = [] \<Longrightarrow> 0 < n \<Longrightarrow> arriving s = []"
  by (auto simp: sock_recv_def arriving_def split: list.splits)

lemma sock_recv_some:
  assumes "sock_recv n s = (got, s')" "got \<noteq> []"
  shows "arriving s = got @ arriving s'" "length got \<le> n"
  using assms by (auto simp: sock_recv_def arriving_def split: list.splits if_splits)

lemma recv_all_enough:
  "n \<le> length (arriving s) \<Longrightarrow>
   fst (recv_all n s) = Some (take n (arriving s)) \<and> arriving (snd (recv_all n s)) = drop n (arriving s)"
proof (induction n s rule: recv_all.induct)
  case (1 n s)
  show ?case
  proof (cases "n = 0")
    case False
    obtain got s' where g: "sock_recv n s = (got, s')" by fastforce
    have ne: "got \<noteq> []" using sock_recv_empty [of n s] g False 1(2) by auto
    note got = sock_recv_some [OF g ne]
    have IH: "fst (recv_all (n - length got) s') = Some (take (n - length got) (arriving s')) \<and>
        arriving (snd (recv_all (n - length got) s')) = drop (n - length got) (arriving s')"
      using 1(1) [OF False g [symmetric] refl ne] 1(2) got by simp
    show ?thesis
      using False ne got IH
      by (subst (1 2) recv_all.simps) (auto simp: g split: prod.splits option.splits)
  qed simp
qed

lemma recv_all_short: "length (arriving s) < n \<Longrightarrow> fst (recv_all n s) = None"
proof (induction n s rule: recv_all.induct)
  case (1 n s)
  obtain got s' where g: "sock_recv n s = (got, s')" by fastforce
  have n: "n \<noteq> 0" using 1(2) by simp
  show ?case
  proof (cases "got = []")
    case True
    then show ?thesis using n by (subst recv_all.simps) (simp add: g)
  next
    case False
    note got = sock_recv_some [OF g False]
    have "fst (recv_all (n - length got) s') = None"
      using 1(1) [OF n g [symmetric] refl False] 1(2) got by simp
    then show ?thesis using n False by (subst recv_all.simps) (auto simp: g split: prod.splits)
  qed
qed

lemma sock_send_fields:
  "sk_in (snd (sock_send bs s)) = sk_in s" "sk_fd (snd (sock_send bs s)) = sk_fd s"
  "sk_out (snd (sock_send bs s)) = sk_out s @ take (fst (sock_send bs s)) bs"
  "fst (sock_send bs s) \<le> length bs"
  by (simp_all add: sock_send_def Let_def split: list.split)

lemma send_all_fields:
  "sk_in (snd (send_all bs s)) = sk_in s \<and> sk_fd (snd (send_all bs s)) = sk_fd s \<and>
   (fst (send_all bs s) \<longrightarrow> sk_out (snd (send_all bs s)) = sk_out s @ bs)"
proof (induction bs s rule: send_all.induct)
  case (1 bs s)
  obtain n s' where g: "sock_send bs s = (n, s')" by fastforce
  have f: "sk_in s' = sk_in s" "sk_fd s' = sk_fd s" "sk_out s' = sk_out s @ take n bs" "n \<le> length bs"
    using sock_send_fields [of bs s] g by simp_all
  show ?case
  proof (cases "bs = [] \<or> n = 0")
    case True
    then show ?thesis using f by (subst (1 2 3 4) send_all.simps) (auto simp: g)
  next
    case False
    then have IH: "sk_in (snd (send_all (drop n bs) s')) = sk_in s' \<and>
        sk_fd (snd (send_all (drop n bs) s')) = sk_fd s' \<and>
        (fst (send_all (drop n bs) s') \<longrightarrow>
          sk_out (snd (send_all (drop n bs) s')) = sk_out s' @ drop n bs)"
      using 1 [OF _ g [symmetric] refl] by blast
    have "send_all bs s = send_all (drop n bs) s'"
      using False by (subst send_all.simps) (simp add: g)
    then show ?thesis using IH f by simp
  qed
qed

lemma recv_fields: "sk_out (snd (sock_recv n s)) = sk_out s" "sk_fd (snd (sock_recv n s)) = sk_fd s"
  "sk_accept (snd (sock_recv n s)) = sk_accept s"
  by (simp_all add: sock_recv_def split: list.split)

lemma recv_all_fields:
  "sk_out (snd (recv_all n s)) = sk_out s \<and> sk_fd (snd (recv_all n s)) = sk_fd s \<and>
   sk_accept (snd (recv_all n s)) = sk_accept s"
proof (induction n s rule: recv_all.induct)
  case (1 n s)
  obtain got s' where g: "sock_recv n s = (got, s')" by fastforce
  have f: "sk_out s' = sk_out s" "sk_fd s' = sk_fd s" "sk_accept s' = sk_accept s"
    using recv_fields [of n s] g by simp_all
  show ?case
  proof (cases "n = 0 \<or> got = []")
    case True
    then show ?thesis using f by (subst (1 2 3) recv_all.simps) (auto simp: g)
  next
    case False
    then have IH: "sk_out (snd (recv_all (n - length got) s')) = sk_out s' \<and>
        sk_fd (snd (recv_all (n - length got) s')) = sk_fd s' \<and>
        sk_accept (snd (recv_all (n - length got) s')) = sk_accept s'"
      using 1 [OF _ g [symmetric] refl] by blast
    have "snd (recv_all n s) = snd (recv_all (n - length got) s')"
      using False by (subst recv_all.simps) (auto simp: g split: prod.splits option.splits)
    then show ?thesis using IH f by simp
  qed
qed

subsection \<open>The interface of an exact reader\<close>

text \<open>
  What the frame and proxy code relies on: a read of \<open>n\<close> bytes gives the next \<open>n\<close> bytes of the
  stream and moves past them, or fails when the stream is shorter.
\<close>

locale exact_reader =
  fixes rd :: "nat \<Rightarrow> 's \<Rightarrow> byte list option \<times> 's"
    and avail :: "'s \<Rightarrow> byte list"
  assumes rd_enough: "n \<le> length (avail s) \<Longrightarrow>
      fst (rd n s) = Some (take n (avail s)) \<and> avail (snd (rd n s)) = drop n (avail s)"
    and rd_short: "length (avail s) < n \<Longrightarrow> fst (rd n s) = None"
begin

lemma rd_cases:
  obtains (enough) s' where "n \<le> length (avail s)" "rd n s = (Some (take n (avail s)), s')"
      "avail s' = drop n (avail s)"
  | (short) s' where "length (avail s) < n" "rd n s = (None, s')"
  using rd_enough [of n s] rd_short [of s n]
  by (cases "n \<le> length (avail s)"; cases "rd n s") auto

lemma rd_append:
  assumes "avail s = xs @ ys" "length xs = n"
  shows "\<exists>s'. rd n s = (Some xs, s') \<and> avail s' = ys"
  using rd_enough [of n s] assms by (cases "rd n s") auto

end

interpretation sock_reader: exact_reader recv_all arriving
  by unfold_locales (simp_all add: recv_all_enough recv_all_short)

text \<open>Reading off a list of bytes, the reference the socket is compared with.\<close>

definition list_read :: "nat \<Rightarrow> byte list \<Rightarrow> byte list option \<times> byte list" where
  "list_read n bs = (if n \<le> length bs then (Some (take n bs), drop n bs) else (None, []))"

interpretation list_reader: exact_reader list_read "\<lambda>bs. bs"
  by unfold_locales (simp_all add: list_read_def)

end
