(* ===== verification/Ws_Frame.thy ===== *)
theory Ws_Frame
  imports Byte_Stream
begin

unbundle bit_operations_syntax

text \<open>
  WebSocket frames as \<open>SendFrame\<close> writes them and \<open>ReadFrame\<close> reads them,
  \<open>content/cdp_websocket_client.cc\<close>: the three length encodings, the mask, the opcodes, and the
  limit of 1 MB. The reader is written over an exact reader, so that what it does on a socket and
  on the list of the bytes that arrive can be compared.
\<close>

subsection \<open>Writing\<close>

definition kMaxWsPayload :: nat where "kMaxWsPayload = 1048576"

definition len_byte :: "nat \<Rightarrow> nat \<Rightarrow> byte" where
  "len_byte i len = of_nat (len div 2 ^ (i * 8) mod 256)"

definition length_bytes :: "nat \<Rightarrow> byte list" where
  "length_bytes len =
     (if len \<le> 125 then [0x80 OR of_nat len]
      else if len \<le> 65535 then [0x80 OR 126, len_byte 1 len, len_byte 0 len]
      else (0x80 OR 127) # map (\<lambda>i. len_byte i len) (rev [0..<8]))"

definition xor_mask :: "byte list \<Rightarrow> byte list \<Rightarrow> byte list" where
  "xor_mask key bs = map (\<lambda>i. bs ! i XOR key ! (i mod 4)) [0..<length bs]"

definition encode_frame :: "byte list \<Rightarrow> string \<Rightarrow> byte list" where
  "encode_frame key payload =
     [0x81] @ length_bytes (length payload) @ key @ xor_mask key (bytes_of payload)"

definition send_frame :: "byte list \<Rightarrow> string \<Rightarrow> sock \<Rightarrow> bool \<times> sock" where
  "send_frame key payload s = send_all (encode_frame key payload) s"

subsection \<open>Reading\<close>

definition big_endian :: "byte list \<Rightarrow> nat" where
  "big_endian bs = fold (\<lambda>b acc. acc * 256 + unat b) bs 0"

definition read_length ::
  "(nat \<Rightarrow> 's \<Rightarrow> byte list option \<times> 's) \<Rightarrow> nat \<Rightarrow> 's \<Rightarrow> nat option \<times> 's" where
  "read_length rd len7 s =
     (if len7 = 126 then
        (case rd 2 s of (None, s) \<Rightarrow> (None, s) | (Some ext, s) \<Rightarrow> (Some (big_endian ext), s))
      else if len7 = 127 then
        (case rd 8 s of (None, s) \<Rightarrow> (None, s) | (Some ext, s) \<Rightarrow> (Some (big_endian ext), s))
      else (Some len7, s))"

definition read_payload ::
  "(nat \<Rightarrow> 's \<Rightarrow> byte list option \<times> 's) \<Rightarrow> byte \<Rightarrow> bool \<Rightarrow> byte list \<Rightarrow> nat \<Rightarrow> 's \<Rightarrow> string \<times> 's" where
  "read_payload rd opcode masked key len s =
     (case (if len > 0 then rd len s else (Some [], s)) of
        (None, s) \<Rightarrow> ([], s)
      | (Some payload, s) \<Rightarrow>
          (let payload = (if masked then xor_mask key payload else payload) in
           if opcode = 0x9 \<or> opcode = 0xA then ([], s) else (string_of payload, s)))"

definition read_body ::
  "(nat \<Rightarrow> 's \<Rightarrow> byte list option \<times> 's) \<Rightarrow> byte \<Rightarrow> bool \<Rightarrow> nat \<Rightarrow> 's \<Rightarrow> string \<times> 's" where
  "read_body rd opcode masked len s =
     (case (if masked then rd 4 s else (Some [0, 0, 0, 0], s)) of
        (None, s) \<Rightarrow> ([], s)
      | (Some key, s) \<Rightarrow> read_payload rd opcode masked key len s)"

definition read_frame :: "(nat \<Rightarrow> 's \<Rightarrow> byte list option \<times> 's) \<Rightarrow> 's \<Rightarrow> string \<times> 's" where
  "read_frame rd s =
     (case rd 2 s of
        (None, s) \<Rightarrow> ([], s)
      | (Some header, s) \<Rightarrow>
          (let opcode = (header ! 0) AND 0x0F in
           if opcode = 0x8 then ([], s)
           else let masked = ((header ! 1) AND 0x80 \<noteq> 0);
                    len7 = unat ((header ! 1) AND 0x7F)
                in case read_length rd len7 s of
                     (None, s) \<Rightarrow> ([], s)
                   | (Some len, s) \<Rightarrow>
                       if len > kMaxWsPayload then ([], s) else read_body rd opcode masked len s))"

subsection \<open>Encodings and their inverses\<close>

lemma length_xor_mask [simp]: "length (xor_mask m bs) = length bs"
  by (simp add: xor_mask_def)

lemma xor_mask_Nil [simp]: "xor_mask m [] = []" "string_of [] = []" "bytes_of [] = []"
  by (simp_all add: xor_mask_def string_of_def bytes_of_def)

lemma xor_mask_twice [simp]: "xor_mask m (xor_mask m bs) = bs"
proof (rule nth_equalityI)
  fix i assume "i < length (xor_mask m (xor_mask m bs))"
  then have "i < length bs" by simp
  then show "xor_mask m (xor_mask m bs) ! i = bs ! i"
    by (simp add: xor_mask_def xor.assoc)
qed simp

lemma small_masks:
  fixes n :: nat
  assumes "n < 128"
  shows "((0x80 OR of_nat n) AND 0x80 :: byte) \<noteq> 0" "unat ((0x80 OR of_nat n) AND 0x7F :: byte) = n"
proof -
  have "\<forall>n \<in> {..<128 :: nat}. ((0x80 OR of_nat n) AND 0x80 :: byte) \<noteq> 0 \<and>
      unat ((0x80 OR of_nat n) AND 0x7F :: byte) = n" by code_simp
  with assms show "((0x80 OR of_nat n) AND 0x80 :: byte) \<noteq> 0"
    "unat ((0x80 OR of_nat n) AND 0x7F :: byte) = n" by simp_all
qed

lemma unat_len_byte [simp]: "unat (len_byte i len) = len div 2 ^ (i * 8) mod 256"
  by (simp add: len_byte_def unat_of_nat)

lemma fold_len_bytes:
  "fold (\<lambda>b acc. acc * 256 + unat b) (map (\<lambda>i. len_byte i len) (rev [0..<n])) acc =
     acc * 256 ^ n + len mod 256 ^ n"
proof (induction n arbitrary: acc)
  case (Suc n)
  have "(2 :: nat) ^ (n * 8) = 256 ^ n" by (simp add: mult.commute [of n] power_mult)
  moreover have "len mod 256 ^ Suc n = 256 ^ n * (len div 256 ^ n mod 256) + len mod 256 ^ n"
    by (simp add: mod_mult2_eq mult.commute [of 256])
  moreover have "fold (\<lambda>b acc. acc * 256 + unat b) (map (\<lambda>i. len_byte i len) (rev [0..<Suc n])) acc =
      (acc * 256 + len div 2 ^ (n * 8) mod 256) * 256 ^ n + len mod 256 ^ n"
    by (simp add: Suc.IH)
  ultimately show ?case by (simp only: algebra_simps power_Suc)
qed simp

lemma big_endian_len_bytes:
  "len < 256 ^ n \<Longrightarrow> big_endian (map (\<lambda>i. len_byte i len) (rev [0..<n])) = len"
  by (simp add: big_endian_def fold_len_bytes)

lemma big_endian_2: "len \<le> 65535 \<Longrightarrow> big_endian [len_byte 1 len, len_byte 0 len] = len"
  using big_endian_len_bytes [of len 2] by (simp add: upt_rec)

context exact_reader
begin

lemma read_length_encoded:
  assumes "len \<le> kMaxWsPayload"
  obtains n ext where "length_bytes len = (0x80 OR of_nat n) # ext" "n < 128"
    "\<And>s r. avail s = ext @ r \<Longrightarrow> \<exists>s'. read_length rd n s = (Some len, s') \<and> avail s' = r"
proof -
  consider "len \<le> 125" | "125 < len" "len \<le> 65535" | "65535 < len" by linarith
  then show thesis
  proof cases
    case 1
    then show thesis
      by (intro that [of len "[]"]) (simp_all add: length_bytes_def read_length_def)
  next
    case 2
    then have e: "length_bytes len = (0x80 OR of_nat 126) # [len_byte 1 len, len_byte 0 len]"
      by (simp add: length_bytes_def)
    have r: "\<exists>s'. read_length rd 126 s = (Some len, s') \<and> avail s' = r"
      if "avail s = [len_byte 1 len, len_byte 0 len] @ r" for s r
      using rd_append [OF that, of 2] 2 big_endian_2 by (auto simp: read_length_def)
    show thesis by (rule that [OF e]) (simp, rule r)
  next
    case 3
    let ?ext = "map (\<lambda>i. len_byte i len) (rev [0..<8])"
    have e: "length_bytes len = (0x80 OR of_nat 127) # ?ext" using 3 by (simp add: length_bytes_def)
    have "len < 256 ^ 8" using assms by (simp add: kMaxWsPayload_def)
    then have b: "big_endian ?ext = len" by (rule big_endian_len_bytes)
    have r: "\<exists>s'. read_length rd 127 s = (Some len, s') \<and> avail s' = r" if "avail s = ?ext @ r" for s r
      using rd_append [OF that, of 8] b by (auto simp: read_length_def simp del: upt_rec_numeral)
    show thesis by (rule that [OF e]) (simp, rule r)
  qed
qed

lemma read_body_encoded:
  assumes "avail s = m @ xor_mask m (bytes_of p) @ r" "length m = 4" "opcode = 0x1"
  shows "\<exists>s'. read_body rd opcode True (length p) s = (p, s') \<and> avail s' = r"
proof -
  obtain s1 where s1: "rd 4 s = (Some m, s1)" "avail s1 = xor_mask m (bytes_of p) @ r"
    using rd_append [OF assms(1) assms(2)] by blast
  show ?thesis
  proof (cases "p = []")
    case True
    then show ?thesis using s1 assms(3) by (simp add: read_body_def read_payload_def)
  next
    case False
    obtain s2 where "rd (length p) s1 = (Some (xor_mask m (bytes_of p)), s2)" "avail s2 = r"
      using rd_append [OF s1(2), of "length p"] by auto
    then show ?thesis using False s1 assms(3) by (simp add: read_body_def read_payload_def)
  qed
qed

lemma read_frame_encoded:
  assumes "avail s = encode_frame m p @ r" "length m = 4" "length p \<le> kMaxWsPayload"
  shows "\<exists>s'. read_frame rd s = (p, s') \<and> avail s' = r"
proof -
  obtain n ext where len: "length_bytes (length p) = (0x80 OR of_nat n) # ext" "n < 128"
    and rl: "\<And>s r. avail s = ext @ r \<Longrightarrow> \<exists>s'. read_length rd n s = (Some (length p), s') \<and> avail s' = r"
    using read_length_encoded [OF assms(3)] by metis
  have "avail s = [0x81, 0x80 OR of_nat n] @ ext @ m @ xor_mask m (bytes_of p) @ r"
    using assms(1) len(1) by (simp add: encode_frame_def)
  then obtain s1 where s1: "rd 2 s = (Some [0x81, 0x80 OR of_nat n], s1)"
      "avail s1 = ext @ m @ xor_mask m (bytes_of p) @ r"
    using rd_append [of s "[0x81, 0x80 OR of_nat n]" "ext @ m @ xor_mask m (bytes_of p) @ r" 2] by auto
  obtain s2 where s2: "read_length rd n s1 = (Some (length p), s2)"
      "avail s2 = m @ xor_mask m (bytes_of p) @ r"
    using rl [OF s1(2)] by blast
  have op: "(0x81 AND 0x0F :: byte) = 0x1" by simp
  show ?thesis
    using read_body_encoded [OF s2(2) assms(2) op] assms(3) s1(1) s2(1) small_masks [OF len(2)]
    by (simp add: read_frame_def)
qed

lemma read_body_bounded: "length (fst (read_body rd opcode masked len s)) \<le> len"
proof -
  have bounded: "length bs \<le> n" if "rd n t = (Some bs, t')" for n t bs t'
    using that by (cases rule: rd_cases [of n t]) auto
  show ?thesis
    by (auto simp: read_body_def read_payload_def Let_def dest!: bounded split: prod.split option.split)
qed

lemma read_frame_bounded: "length (fst (read_frame rd s)) \<le> kMaxWsPayload"
  by (auto simp: read_frame_def Let_def split: prod.split option.split
      intro: le_trans [OF read_body_bounded])

end

subsection \<open>Pieces do not matter\<close>

text \<open>Two exact readers at the same point of the same stream read the same frame.\<close>

lemma same_length_read:
  assumes "exact_reader rd av" "exact_reader rd' av'" "av s = av' s'"
  shows "(fst (read_length rd n s) = None \<and> fst (read_length rd' n s') = None) \<or>
    (\<exists>len t t'. read_length rd n s = (Some len, t) \<and> read_length rd' n s' = (Some len, t') \<and> av t = av' t')"
proof -
  have two: "(fst (rd k s) = None \<and> fst (rd' k s') = None) \<or>
    (\<exists>bs t t'. rd k s = (Some bs, t) \<and> rd' k s' = (Some bs, t') \<and> av t = av' t')" for k
    using exact_reader.rd_cases [OF assms(1), of k s] exact_reader.rd_cases [OF assms(2), of k s'] assms(3)
    by (metis fst_conv not_less)
  show ?thesis
    using two [of 2] two [of 8] assms(3) by (auto simp: read_length_def split: prod.splits option.splits)
qed

lemma same_read:
  assumes "exact_reader rd av" "exact_reader rd' av'" "av s = av' s'"
  shows "(fst (rd n s) = None \<and> fst (rd' n s') = None) \<or>
    (\<exists>bs t t'. rd n s = (Some bs, t) \<and> rd' n s' = (Some bs, t') \<and> av t = av' t')"
  using exact_reader.rd_cases [OF assms(1), of n s] exact_reader.rd_cases [OF assms(2), of n s'] assms(3)
  by (metis fst_conv not_less)

lemma same_payload_read:
  assumes r: "exact_reader rd av" "exact_reader rd' av'" and eq: "av s = av' s'"
  shows "fst (read_payload rd opcode masked key len s) = fst (read_payload rd' opcode masked key len s')"
  using same_read [OF r eq, of len]
  by (cases "len = 0") (auto simp: read_payload_def split: prod.split option.split)

lemma same_body_read:
  assumes r: "exact_reader rd av" "exact_reader rd' av'" and eq: "av s = av' s'"
  shows "fst (read_body rd opcode masked len s) = fst (read_body rd' opcode masked len s')"
  using same_read [OF r eq, of 4] same_payload_read [OF r eq]
  by (cases masked)
    (auto simp: read_body_def intro: same_payload_read [OF r] split: prod.split option.split)

lemma same_frame_read:
  assumes r: "exact_reader rd av" "exact_reader rd' av'" and eq: "av s = av' s'"
  shows "fst (read_frame rd s) = fst (read_frame rd' s')"
proof (cases "fst (rd 2 s)")
  case None
  then have "fst (rd' 2 s') = None" using same_read [OF r eq, of 2] by auto
  with None show ?thesis by (auto simp: read_frame_def split: prod.split option.split)
next
  case (Some hd)
  then obtain t t' where t: "rd 2 s = (Some hd, t)" "rd' 2 s' = (Some hd, t')" "av t = av' t'"
    using same_read [OF r eq, of 2] by auto
  show ?thesis
    using same_length_read [OF r t(3), of "unat (hd ! 1 AND 0x7F)"]
    by (auto simp: read_frame_def t(1, 2) Let_def intro: same_body_read [OF r]
        split: prod.split option.split)
qed

subsection \<open>Properties\<close>

fun read_frames :: "nat \<Rightarrow> sock \<Rightarrow> string list" where
  "read_frames 0 s = []"
| "read_frames (Suc n) s = (let (p, s) = read_frame recv_all s in p # read_frames n s)"

lemma read_frames_encoded:
  assumes "\<And>m p. (m, p) \<in> set fs \<Longrightarrow> length m = 4 \<and> length p \<le> kMaxWsPayload"
    "arriving s = concat (map (\<lambda>(m, p). encode_frame m p) fs)"
  shows "read_frames (length fs) s = map snd fs"
  using assms
proof (induction fs arbitrary: s)
  case (Cons f fs)
  obtain m p where f: "f = (m, p)" by fastforce
  obtain s' where s': "read_frame recv_all s = (p, s')"
      "arriving s' = concat (map (\<lambda>(m, p). encode_frame m p) fs)"
    using sock_reader.read_frame_encoded [of s m p "concat (map (\<lambda>(m, p). encode_frame m p) fs)"]
      Cons.prems f by auto
  moreover have "read_frames (length fs) s' = map snd fs"
    by (rule Cons.IH) (use Cons.prems(1) s' in auto)
  ultimately show ?case using f by (simp add: Let_def)
qed simp

text \<open>
  C7 (roundtrip): frames survive the wire. A sequence of frames written by \<open>SendFrame\<close>, with any
  masking keys and payloads of up to 1 MB, arriving in pieces of any sizes, is read back by
  \<open>ReadFrame\<close> as the sequence of the payloads.
\<close>

theorem frames_round_trip:
  assumes "\<And>m p. (m, p) \<in> set fs \<Longrightarrow> length m = 4 \<and> length p \<le> kMaxWsPayload"
    "concat (sk_in s) = concat (map (\<lambda>(m, p). encode_frame m p) fs)" "[] \<notin> set (sk_in s)"
  shows "read_frames (length fs) s = map snd fs"
proof -
  have "takeWhile (\<lambda>c. c \<noteq> []) (sk_in s) = sk_in s"
    using assms(3) by (auto simp: takeWhile_eq_all_conv)
  then have "arriving s = concat (map (\<lambda>(m, p). encode_frame m p) fs)"
    unfolding arriving_def using assms(2) by (simp only:)
  with assms(1) show ?thesis by (rule read_frames_encoded)
qed

theorem frames_round_trip_witness:
  "let fs = [([1, 2, 3, 4], ''{id:1}''), ([9, 9, 0, 255], [])];
       bs = concat (map (\<lambda>(m, p). encode_frame m p) fs) in
   read_frames (length fs)
     \<lparr>sk_fd = 3, sk_in = [take 1 bs, take 5 (drop 1 bs), drop 6 bs], sk_accept = [], sk_out = []\<rparr> =
   map snd fs"
proof -
  let ?fs = "[([1, 2, 3, 4], ''{id:1}''), ([9, 9, 0, 255], [])] :: (byte list \<times> string) list"
  let ?bs = "concat (map (\<lambda>(m, p). encode_frame m p) ?fs)"
  let ?s = "\<lparr>sk_fd = 3, sk_in = [take 1 ?bs, take 5 (drop 1 ?bs), drop 6 ?bs], sk_accept = [], sk_out = []\<rparr>"
  have "take 1 b @ take 5 (drop 1 b) @ drop 6 b = b" for b :: "byte list"
    using append_take_drop_id [of 5 "drop 1 b"] append_take_drop_id [of 1 b] by simp
  then have "concat (sk_in ?s) = ?bs" by (simp only: sock.simps concat.simps append_Nil2)
  moreover have "length ?bs > 6" by (simp add: encode_frame_def length_bytes_def)
  then have "[] \<notin> set (sk_in ?s)" by auto
  moreover have "length m = 4 \<and> length p \<le> kMaxWsPayload" if "(m, p) \<in> set ?fs" for m p
    using that by (auto simp: kMaxWsPayload_def)
  ultimately have "read_frames (length ?fs) ?s = map snd ?fs" by (intro frames_round_trip)
  then show ?thesis unfolding Let_def .
qed

text \<open>
  C33 (equivalence): what a read of a frame returns, on every path (short reads, close, ping, pong,
  frames over the limit included), depends only on the bytes that arrive before the next failing
  call, not on how they are cut into pieces: it is what the reader over the plain list returns.
  It is never longer than 1 MB.
\<close>

theorem frame_read_ignores_pieces:
  "fst (read_frame recv_all s) = fst (read_frame list_read (arriving s)) \<and>
   length (fst (read_frame recv_all s)) \<le> kMaxWsPayload"
  by (intro conjI sock_reader.read_frame_bounded
      same_frame_read [OF sock_reader.exact_reader_axioms list_reader.exact_reader_axioms] refl)

end
