(* ===== verification/Cdp_Client.thy ===== *)
theory Cdp_Client
  imports Ws_Frame Json_Value
begin

text \<open>
  The rest of \<open>content/cdp_websocket_client.cc\<close>: connecting, HTTP requests, the handshake, the
  discovery of a page and the sending of a batch of commands. The network's answers (does a
  connection succeed, what arrives on it) are the state \<open>net\<close>; the set of open descriptors is
  part of it, so that the descriptors' ownership can be stated. A failed \<open>CHECK\<close> of the base
  library ends the process: the result \<open>None\<close>.
\<close>

subsection \<open>The network\<close>

record net =
  nt_conns :: "sock option list"
  nt_open :: "int list"

definition tcp_connect :: "net \<Rightarrow> sock option \<times> net" where
  "tcp_connect nt =
     (case nt_conns nt of
        [] \<Rightarrow> (None, nt)
      | None # cs \<Rightarrow> (None, nt\<lparr>nt_conns := cs\<rparr>)
      | Some s # cs \<Rightarrow> (Some s, nt\<lparr>nt_conns := cs, nt_open := sk_fd s # nt_open nt\<rparr>))"

definition close_fd :: "int \<Rightarrow> net \<Rightarrow> net" where
  "close_fd fd nt = nt\<lparr>nt_open := remove1 fd (nt_open nt)\<rparr>"

subsection \<open>HTTP\<close>

definition kMaxHttpResponse :: nat where "kMaxHttpResponse = 262144"

definition crlf :: string where "crlf = [CHR 0x0D, CHR 0x0A]"

definition http_request :: "string \<Rightarrow> int \<Rightarrow> string" where
  "http_request path port =
     ''GET '' @ takeWhile (\<lambda>c. c \<noteq> CHR 0x00) path @ '' HTTP/1.1'' @ crlf @
     ''Host: 127.0.0.1:'' @ show_int port @ crlf @
     ''Connection: close'' @ crlf @ crlf"

definition in_size :: "sock \<Rightarrow> nat" where
  "in_size s = length (sk_in s) + length (concat (sk_in s))"

lemma in_size_recv: "(got, s') = sock_recv n s \<Longrightarrow> got \<noteq> [] \<Longrightarrow> in_size s' < in_size s"
  by (auto simp: sock_recv_def in_size_def split: list.splits if_splits)

function read_response :: "string \<Rightarrow> sock \<Rightarrow> string \<times> sock" where
  "read_response response s =
     (let (got, s') = sock_recv 4096 s in
      if got = [] then (response, s')
      else let response = response @ string_of got in
        if length response > kMaxHttpResponse then (response, s') else read_response response s')"
  by pat_completeness auto
termination by (relation "measure (\<lambda>(r, s). in_size s)") (auto intro: in_size_recv)

declare read_response.simps [simp del]

definition body_of :: "string \<Rightarrow> string" where
  "body_of response =
     (case str_find (crlf @ crlf) response of
        None \<Rightarrow> []
      | Some header_end \<Rightarrow> drop (header_end + 4) response)"

definition http_get :: "int \<Rightarrow> string \<Rightarrow> net \<Rightarrow> string \<times> net" where
  "http_get port path nt =
     (case tcp_connect nt of
        (None, nt) \<Rightarrow> ([], nt)
      | (Some s, nt) \<Rightarrow>
          (let (ok, s) = send_all (bytes_of (http_request path port)) s in
           if \<not> ok then ([], close_fd (sk_fd s) nt)
           else let (response, s) = read_response [] s;
                    nt = close_fd (sk_fd s) nt
                in (body_of response, nt)))"

subsection \<open>Handshake\<close>

text \<open>\<open>base64\<close> is the encoder of the base library and \<open>raw\<close> the sixteen random bytes.\<close>

definition handshake_request :: "(string \<Rightarrow> string) \<Rightarrow> string \<Rightarrow> int \<Rightarrow> string \<Rightarrow> string" where
  "handshake_request base64 raw port path =
     ''GET '' @ takeWhile (\<lambda>c. c \<noteq> CHR 0x00) path @ '' HTTP/1.1'' @ crlf @
     ''Host: 127.0.0.1:'' @ show_int port @ crlf @
     ''Upgrade: websocket'' @ crlf @
     ''Connection: Upgrade'' @ crlf @
     ''Sec-WebSocket-Key: '' @ takeWhile (\<lambda>c. c \<noteq> CHR 0x00) (base64 raw) @ crlf @
     ''Sec-WebSocket-Version: 13'' @ crlf @ crlf"

function read_handshake :: "string \<Rightarrow> sock \<Rightarrow> string option \<times> sock" where
  "read_handshake response s =
     (if str_find (crlf @ crlf) response \<noteq> None then (Some response, s)
      else let (got, s') = sock_recv 1024 s in
        if got = [] then (None, s')
        else let response = response @ string_of got in
          if length response > 8192 then (None, s') else read_handshake response s')"
  by pat_completeness auto
termination by (relation "measure (\<lambda>(r, s). in_size s)") (auto intro: in_size_recv)

declare read_handshake.simps [simp del]

definition websocket_handshake ::
  "(string \<Rightarrow> string) \<Rightarrow> string \<Rightarrow> int \<Rightarrow> string \<Rightarrow> sock \<Rightarrow> bool \<times> sock" where
  "websocket_handshake base64 raw port path s =
     (let (ok, s) = send_all (bytes_of (handshake_request base64 raw port path)) s in
      if \<not> ok then (False, s)
      else case read_handshake [] s of
             (None, s) \<Rightarrow> (False, s)
           | (Some response, s) \<Rightarrow>
               (str_find ''101'' response \<noteq> None \<and> str_find ''Upgrade'' response \<noteq> None, s))"

subsection \<open>Discovery\<close>

definition is_cdp_available :: "int \<Rightarrow> net \<Rightarrow> bool \<times> net" where
  "is_cdp_available port nt =
     (let (body, nt) = http_get port ''/json/version'' nt
      in (body \<noteq> [] \<and> str_find ''Browser'' body \<noteq> None, nt))"

text \<open>
  The two loops over the targets. \<open>GetDict\<close> of a value that is no dictionary fails a \<open>CHECK\<close>.
\<close>

fun first_page :: "jval list \<Rightarrow> string option option" where
  "first_page [] = Some None"
| "first_page (t # ts) =
     (case as_dict t of
        None \<Rightarrow> None
      | Some d \<Rightarrow>
          (if find_string d ''type'' = Some ''page'' then
             (case find_string d ''webSocketDebuggerUrl'' of
                Some u \<Rightarrow> if u \<noteq> [] then Some (Some u) else first_page ts
              | None \<Rightarrow> first_page ts)
           else first_page ts))"

fun first_url :: "jval list \<Rightarrow> string option option" where
  "first_url [] = Some None"
| "first_url (t # ts) =
     (case as_dict t of
        None \<Rightarrow> None
      | Some d \<Rightarrow>
          (case find_string d ''webSocketDebuggerUrl'' of
             Some u \<Rightarrow> if u \<noteq> [] then Some (Some u) else first_url ts
           | None \<Rightarrow> first_url ts))"

definition choose_target :: "jval list \<Rightarrow> string option" where
  "choose_target targets =
     (case first_page targets of
        None \<Rightarrow> None
      | Some (Some u) \<Rightarrow> Some u
      | Some None \<Rightarrow>
          (case first_url targets of
             None \<Rightarrow> None
           | Some (Some u) \<Rightarrow> Some u
           | Some None \<Rightarrow> Some []))"

definition get_page_websocket_url :: "json_lib \<Rightarrow> int \<Rightarrow> net \<Rightarrow> string option \<times> net" where
  "get_page_websocket_url jl port nt =
     (let (body, nt) = http_get port ''/json'' nt in
      if body = [] then (Some [], nt)
      else case json_read jl body of
             None \<Rightarrow> (Some [], nt)
           | Some v \<Rightarrow> (case as_list v of
                          None \<Rightarrow> (Some [], nt)
                        | Some targets \<Rightarrow> (choose_target targets, nt)))"

definition url_path :: "string \<Rightarrow> string" where
  "url_path ws_url =
     (case str_find ''://'' ws_url of
        None \<Rightarrow> ''/''
      | Some scheme_end \<Rightarrow>
          (let after_scheme = drop (scheme_end + 3) ws_url in
           case str_find ''/'' after_scheme of
             None \<Rightarrow> ''/''
           | Some path_start \<Rightarrow> drop path_start after_scheme))"

subsection \<open>Sending commands\<close>

definition message_id :: "json_lib \<Rightarrow> string \<Rightarrow> int" where
  "message_id jl json =
     (case json_read jl json of
        None \<Rightarrow> -1
      | Some v \<Rightarrow> (case as_dict v of None \<Rightarrow> -1 | Some d \<Rightarrow> value_or (find_int d ''id'') (-1)))"

text \<open>
  Waiting for the reply to one command: at most \<open>retries\<close> frames, of which empty and malformed
  ones, events and replies to other commands are skipped. The boolean is \<open>got_response\<close>.
\<close>

fun await_reply :: "json_lib \<Rightarrow> int \<Rightarrow> nat \<Rightarrow> sock \<Rightarrow> bool \<times> sock" where
  "await_reply jl expected_id 0 s = (False, s)"
| "await_reply jl expected_id (Suc retries) s =
     (let (response, s) = read_frame recv_all s in
      if response = [] then await_reply jl expected_id retries s
      else case json_read jl response of
             None \<Rightarrow> await_reply jl expected_id retries s
           | Some v \<Rightarrow>
               (case as_dict v of
                  None \<Rightarrow> await_reply jl expected_id retries s
                | Some d \<Rightarrow>
                    if value_or (find_int d ''id'') (-1) = expected_id then (True, s)
                    else await_reply jl expected_id retries s))"

fun send_each :: "json_lib \<Rightarrow> (nat \<Rightarrow> byte list) \<Rightarrow> nat \<Rightarrow> string list \<Rightarrow> sock \<Rightarrow> bool \<times> sock" where
  "send_each jl keys i [] s = (True, s)"
| "send_each jl keys i (json # jsons) s =
     (let (ok, s) = send_frame (keys i) json s in
      if \<not> ok then (False, s)
      else let (got_response, s) = await_reply jl (message_id jl json) 20 s
           in send_each jl keys (Suc i) jsons s)"

text \<open>The result comes with the socket behind the descriptor, to speak about what was sent on it.\<close>

definition send_commands ::
  "json_lib \<Rightarrow> (string \<Rightarrow> string) \<Rightarrow> string \<Rightarrow> (nat \<Rightarrow> byte list) \<Rightarrow> int \<Rightarrow> string list \<Rightarrow> net \<Rightarrow>
     (int \<times> sock option) option \<times> net" where
  "send_commands jl base64 raw keys port command_jsons nt =
     (if command_jsons = [] then (Some (-1, None), nt)
      else case get_page_websocket_url jl port nt of
        (None, nt) \<Rightarrow> (None, nt)
      | (Some ws_url, nt) \<Rightarrow>
          if ws_url = [] then (Some (-1, None), nt)
          else (case tcp_connect nt of
                  (None, nt) \<Rightarrow> (Some (-1, None), nt)
                | (Some s, nt) \<Rightarrow>
                    (let (ok, s) = websocket_handshake base64 raw port (url_path ws_url) s in
                     if \<not> ok then (Some (-1, None), close_fd (sk_fd s) nt)
                     else let (all_success, s) = send_each jl keys 0 command_jsons s in
                       if all_success then (Some (sk_fd s, Some s), nt)
                       else (Some (-1, None), close_fd (sk_fd s) nt))))"

subsection \<open>Frame lemmas\<close>

text \<open>Reading changes neither what was sent, nor what sends will be accepted, nor the descriptor.\<close>

definition only_read :: "sock \<Rightarrow> sock \<Rightarrow> bool" where
  "only_read s t = (sk_out t = sk_out s \<and> sk_fd t = sk_fd s \<and> sk_accept t = sk_accept s)"

lemma only_read_refl [simp]: "only_read s s"
  by (simp add: only_read_def)

lemma only_read_trans: "only_read s t \<Longrightarrow> only_read t u \<Longrightarrow> only_read s u"
  by (simp add: only_read_def)

lemma only_read_recv: "recv_all n s = (x, t) \<Longrightarrow> only_read s t"
  using recv_all_fields [of n s] by (simp add: only_read_def)

lemma only_read_length: "read_length recv_all n s = (x, t) \<Longrightarrow> only_read s t"
  by (auto simp: read_length_def split: if_splits prod.splits option.splits dest: only_read_recv)

lemma only_read_payload: "read_payload recv_all opc m k n s = (x, t) \<Longrightarrow> only_read s t"
  by (cases "n = 0")
    (auto simp: read_payload_def Let_def split: if_splits prod.splits option.splits dest: only_read_recv)

lemma only_read_body: "read_body recv_all opc m n s = (x, t) \<Longrightarrow> only_read s t"
  by (cases m) (auto simp: read_body_def split: prod.splits option.splits
      dest: only_read_recv only_read_payload intro: only_read_trans)

lemma only_read_frame: "read_frame recv_all s = (x, t) \<Longrightarrow> only_read s t"
proof -
  assume r: "read_frame recv_all s = (x, t)"
  obtain h u where u: "recv_all 2 s = (h, u)" by fastforce
  note su = only_read_recv [OF u]
  show ?thesis
  proof (cases h)
    case None
    then show ?thesis using r u su by (simp add: read_frame_def)
  next
    case (Some hd)
    obtain l v where v: "read_length recv_all (unat (hd ! 1 AND 0x7F)) u = (l, v)" by fastforce
    note sv = only_read_trans [OF su only_read_length [OF v]]
    show ?thesis
      using r u v su sv Some
      by (auto simp: read_frame_def Let_def split: if_splits option.splits
          dest: only_read_body intro: only_read_trans)
  qed
qed

lemma frame_fields:
  "sk_out (snd (read_frame recv_all s)) = sk_out s \<and> sk_fd (snd (read_frame recv_all s)) = sk_fd s \<and>
   sk_accept (snd (read_frame recv_all s)) = sk_accept s"
  using only_read_frame [of s] by (cases "read_frame recv_all s") (auto simp: only_read_def)

lemma read_response_fields: "sk_fd (snd (read_response r s)) = sk_fd s"
proof (induction r s rule: read_response.induct)
  case (1 r s)
  obtain got s' where g: "sock_recv 4096 s = (got, s')" by fastforce
  show ?case
    using 1 [OF g [symmetric] refl] recv_fields(2) [of 4096 s] g
    by (subst read_response.simps) (auto simp: Let_def)
qed

lemma read_handshake_fields:
  "sk_fd (snd (read_handshake r s)) = sk_fd s \<and> sk_out (snd (read_handshake r s)) = sk_out s"
proof (induction r s rule: read_handshake.induct)
  case (1 r s)
  obtain got s' where g: "sock_recv 1024 s = (got, s')" by fastforce
  show ?case
    using 1 [OF _ g [symmetric] refl] recv_fields [of 1024 s] g
    by (subst (1 2) read_handshake.simps) (auto simp: Let_def)
qed

lemma websocket_handshake_fields:
  "sk_fd (snd (websocket_handshake base64 raw port path s)) = sk_fd s"
  "fst (websocket_handshake base64 raw port path s) \<Longrightarrow>
   sk_out (snd (websocket_handshake base64 raw port path s)) =
     sk_out s @ bytes_of (handshake_request base64 raw port path)"
proof -
  let ?req = "bytes_of (handshake_request base64 raw port path)"
  obtain ok t where t: "send_all ?req s = (ok, t)" by fastforce
  obtain r u where u: "read_handshake [] t = (r, u)" by fastforce
  have f: "sk_fd t = sk_fd s" "sk_fd u = sk_fd t" "sk_out u = sk_out t" "ok \<Longrightarrow> sk_out t = sk_out s @ ?req"
    using send_all_fields [of ?req s] t read_handshake_fields [of "[]" t] u by simp_all
  show "sk_fd (snd (websocket_handshake base64 raw port path s)) = sk_fd s"
    "fst (websocket_handshake base64 raw port path s) \<Longrightarrow>
     sk_out (snd (websocket_handshake base64 raw port path s)) = sk_out s @ ?req"
    using f t u by (auto simp: websocket_handshake_def split: if_splits option.splits)
qed

lemma await_reply_fields:
  "sk_out (snd (await_reply jl i n s)) = sk_out s \<and> sk_fd (snd (await_reply jl i n s)) = sk_fd s \<and>
   sk_accept (snd (await_reply jl i n s)) = sk_accept s"
proof (induction n arbitrary: s)
  case (Suc n)
  obtain r t where t: "read_frame recv_all s = (r, t)" by fastforce
  then have "sk_out t = sk_out s" "sk_fd t = sk_fd s" "sk_accept t = sk_accept s"
    using frame_fields [of s] by simp_all
  then show ?case using Suc.IH [of t] by (auto simp: t split: option.split)
qed simp

lemma send_each_fields:
  "sk_fd (snd (send_each jl keys i jsons s)) = sk_fd s \<and>
   (fst (send_each jl keys i jsons s) \<longrightarrow>
     sk_out (snd (send_each jl keys i jsons s)) =
       sk_out s @ concat (map (\<lambda>(k, json). encode_frame (keys k) json) (enumerate i jsons)))"
proof (induction jsons arbitrary: i s)
  case (Cons json jsons)
  obtain ok t where t: "send_frame (keys i) json s = (ok, t)" by fastforce
  obtain g u where u: "await_reply jl (message_id jl json) 20 t = (g, u)" by fastforce
  have f: "sk_fd t = sk_fd s" "ok \<Longrightarrow> sk_out t = sk_out s @ encode_frame (keys i) json"
    "sk_fd u = sk_fd t" "sk_out u = sk_out t"
    using send_all_fields [of "encode_frame (keys i) json" s] t
      await_reply_fields [of jl "message_id jl json" 20 t] u
    by (simp_all add: send_frame_def)
  show ?case using Cons.IH [of "Suc i" u] f by (auto simp: t u)
qed simp

lemma close_own [simp]: "close_fd fd (nt\<lparr>nt_conns := cs, nt_open := fd # os\<rparr>) = nt\<lparr>nt_conns := cs, nt_open := os\<rparr>"
  by (simp add: close_fd_def)

lemma http_get_open: "nt_open (snd (http_get port path nt)) = nt_open nt"
proof (cases "nt_conns nt")
  case (Cons c cs)
  show ?thesis
  proof (cases c)
    case (Some s)
    obtain ok t where t: "send_all (bytes_of (http_request path port)) s = (ok, t)" by fastforce
    obtain r u where u: "read_response [] t = (r, u)" by fastforce
    have "sk_fd t = sk_fd s" "sk_fd u = sk_fd t"
      using send_all_fields [of "bytes_of (http_request path port)" s] t
        read_response_fields [of "[]" t] u by simp_all
    then show ?thesis using Cons Some t u by (simp add: http_get_def tcp_connect_def Let_def)
  qed (simp add: Cons http_get_def tcp_connect_def)
qed (simp add: http_get_def tcp_connect_def)

lemma http_get_conns: "set (nt_conns (snd (http_get port path nt))) \<subseteq> set (nt_conns nt)"
  by (auto simp: http_get_def tcp_connect_def close_fd_def Let_def split: list.splits option.splits prod.splits)

lemma get_url_open:
  "nt_open (snd (get_page_websocket_url jl port nt)) = nt_open nt"
  "set (nt_conns (snd (get_page_websocket_url jl port nt))) \<subseteq> set (nt_conns nt)"
  using http_get_open [of port "''/json''" nt] http_get_conns [of port "''/json''" nt]
  by (auto simp: get_page_websocket_url_def Let_def split: prod.split option.split)

lemma send_all_accept:
  "sk_accept s = sk_accept s' \<Longrightarrow>
   fst (send_all bs s) = fst (send_all bs s') \<and>
   sk_accept (snd (send_all bs s)) = sk_accept (snd (send_all bs s'))"
proof (induction bs s arbitrary: s' rule: send_all.induct)
  case (1 bs s)
  obtain n t where t: "sock_send bs s = (n, t)" by fastforce
  obtain n' t' where t': "sock_send bs s' = (n', t')" by fastforce
  have same: "n = n'" "sk_accept t = sk_accept t'"
    using 1(2) t t' by (auto simp: sock_send_def Let_def split: list.splits)
  show ?case
  proof (cases "bs = [] \<or> n = 0")
    case True
    then show ?thesis using 1(2) same by (subst (1 2 3 4) send_all.simps) (auto simp: t t')
  next
    case False
    have "send_all bs s = send_all (drop n bs) t" using False by (subst send_all.simps) (simp add: t)
    moreover have "send_all bs s' = send_all (drop n bs) t'"
      using False same(1) by (subst send_all.simps) (simp add: t')
    moreover have "fst (send_all (drop n bs) t) = fst (send_all (drop n bs) t') \<and>
        sk_accept (snd (send_all (drop n bs) t)) = sk_accept (snd (send_all (drop n bs) t'))"
      using 1(1) [OF _ t [symmetric] refl _ same(2)] False by blast
    ultimately show ?thesis by simp
  qed
qed

lemma send_each_accept:
  "sk_accept s = sk_accept s' \<Longrightarrow>
   fst (send_each jl keys i jsons s) = fst (send_each jl' keys i jsons s')"
proof (induction jsons arbitrary: i s s')
  case (Cons json jsons)
  obtain ok t where t: "send_frame (keys i) json s = (ok, t)" by fastforce
  obtain ok' t' where t': "send_frame (keys i) json s' = (ok', t')" by fastforce
  obtain g u where u: "await_reply jl (message_id jl json) 20 t = (g, u)" by fastforce
  obtain g' u' where u': "await_reply jl' (message_id jl' json) 20 t' = (g', u')" by fastforce
  have "ok = ok'" "sk_accept t = sk_accept t'"
    using send_all_accept [OF Cons.prems, of "encode_frame (keys i) json"] t t'
    by (simp_all add: send_frame_def)
  moreover have "sk_accept u = sk_accept t" "sk_accept u' = sk_accept t'"
    using await_reply_fields [of jl "message_id jl json" 20 t] u
      await_reply_fields [of jl' "message_id jl' json" 20 t'] u' by simp_all
  ultimately show ?case using Cons.IH [of u u' "Suc i"] by (simp add: t t' u u')
qed simp

lemma send_commands_success:
  assumes "send_commands jl base64 raw keys port cmds nt = (Some (fd, Some s), nt')"
  obtains url s0 where "fst (get_page_websocket_url jl port nt) = Some url"
    "Some s0 \<in> set (nt_conns nt)" "fd = sk_fd s0" "nt_open nt' = fd # nt_open nt"
    "sk_out s = sk_out s0 @ bytes_of (handshake_request base64 raw port (url_path url)) @
       concat (map (\<lambda>(k, json). encode_frame (keys k) json) (enumerate 0 cmds))"
proof -
  obtain x nt1 where nt1: "get_page_websocket_url jl port nt = (x, nt1)" by fastforce
  have open1: "nt_open nt1 = nt_open nt" "set (nt_conns nt1) \<subseteq> set (nt_conns nt)"
    using get_url_open [of jl port nt] nt1 by simp_all
  from assms nt1 obtain url where url: "x = Some url" "url \<noteq> []" "cmds \<noteq> []"
    by (auto simp: send_commands_def split: if_splits option.splits)
  from assms nt1 url obtain s0 cs where conn: "nt_conns nt1 = Some s0 # cs"
    by (auto simp: send_commands_def tcp_connect_def split: list.splits option.splits)
  obtain ok s1 where s1: "websocket_handshake base64 raw port (url_path url) s0 = (ok, s1)" by fastforce
  obtain ok2 s2 where s2: "send_each jl keys 0 cmds s1 = (ok2, s2)" by fastforce
  from assms nt1 url conn s1 s2 have ok: "ok" "ok2" "s = s2" "fd = sk_fd s2"
    "nt_open nt' = sk_fd s0 # nt_open nt1"
    by (auto simp: send_commands_def tcp_connect_def Let_def split: if_splits)
  have "sk_fd s1 = sk_fd s0" "sk_out s1 = sk_out s0 @ bytes_of (handshake_request base64 raw port (url_path url))"
    using websocket_handshake_fields [of base64 raw port "url_path url" s0] s1 ok(1) by simp_all
  moreover have "sk_fd s2 = sk_fd s1" "sk_out s2 = sk_out s1 @
      concat (map (\<lambda>(k, json). encode_frame (keys k) json) (enumerate 0 cmds))"
    using send_each_fields [of jl keys 0 cmds s1] s2 ok(2) by simp_all
  moreover have "Some s0 \<in> set (nt_conns nt)" using conn open1(2) by auto
  ultimately show thesis using that [of url s0] nt1 url ok open1(1) by simp
qed

lemma send_commands_failure:
  assumes "send_commands jl base64 raw keys port cmds nt = (r, nt')" "\<And>fd s. r \<noteq> Some (fd, Some s)"
  shows "nt_open nt' = nt_open nt \<and> (r = None \<or> r = Some (-1, None))"
proof -
  obtain x nt1 where nt1: "get_page_websocket_url jl port nt = (x, nt1)" by fastforce
  have open1: "nt_open nt1 = nt_open nt" using get_url_open [of jl port nt] nt1 by simp
  have fd: "sk_fd t = sk_fd u" if "websocket_handshake base64 raw port p u = (ok, t)" for p u ok t
    using websocket_handshake_fields(1) [of base64 raw port p u] that by simp
  have fd2: "sk_fd t = sk_fd u" if "send_each jl keys i js u = (ok, t)" for i js u ok t
    using send_each_fields [of jl keys i js u] that by simp
  show ?thesis
    using assms nt1 open1
    by (auto simp: send_commands_def tcp_connect_def Let_def dest: fd fd2
        split: if_splits option.splits list.splits prod.splits)
      (auto simp: close_fd_def dest!: fd fd2)
qed

text \<open>An endpoint that receives the frames of a batch reads the commands from them.\<close>

lemma numbered_frames_read:
  assumes "\<And>k. length (keys k) = 4" "\<And>c. c \<in> set cmds \<Longrightarrow> length c \<le> kMaxWsPayload"
    "arriving srv = concat (map (\<lambda>(k, json). encode_frame (keys k) json) (enumerate 0 cmds))"
  shows "read_frames (length cmds) srv = cmds"
proof -
  let ?fs = "map (\<lambda>(k, json). (keys k, json)) (enumerate 0 cmds)"
  have "arriving srv = concat (map (\<lambda>(m, p). encode_frame m p) ?fs)"
    using assms(3) by (simp add: comp_def case_prod_unfold)
  moreover have "length m = 4 \<and> length p \<le> kMaxWsPayload" if "(m, p) \<in> set ?fs" for m p
    using that assms(1, 2) by (auto simp: in_set_enumerate_eq)
  ultimately have "read_frames (length ?fs) srv = map snd ?fs" by (intro read_frames_encoded)
  then show ?thesis by (simp add: comp_def case_prod_unfold)
qed

text \<open>What a successful batch leaves on the socket.\<close>

lemma send_commands_fd:
  assumes "send_commands jl base64 raw keys port cmds nt = (Some (fd, Some s), nt')"
  shows "fd = sk_fd s"
  using assms by (auto simp: send_commands_def Let_def split: if_splits option.splits prod.splits)

lemma commands_on_socket:
  assumes "send_commands jl base64 raw keys port cmds nt = (Some (fd, Some s), nt')"
    "\<And>c. Some c \<in> set (nt_conns nt) \<Longrightarrow> sk_out c = []"
    "\<And>k. length (keys k) = 4" "\<And>c. c \<in> set cmds \<Longrightarrow> length c \<le> kMaxWsPayload"
  shows "\<exists>path frames. sk_out s = bytes_of (handshake_request base64 raw port path) @ frames \<and>
           (\<forall>srv. arriving srv = frames \<longrightarrow> read_frames (length cmds) srv = cmds)"
proof -
  obtain url s0 where u: "Some s0 \<in> set (nt_conns nt)"
    "sk_out s = sk_out s0 @ bytes_of (handshake_request base64 raw port (url_path url)) @
       concat (map (\<lambda>(k, json). encode_frame (keys k) json) (enumerate 0 cmds))"
    using send_commands_success [OF assms(1)] by metis
  have "\<forall>srv. arriving srv = concat (map (\<lambda>(k, json). encode_frame (keys k) json) (enumerate 0 cmds)) \<longrightarrow>
      read_frames (length cmds) srv = cmds"
    using assms(3, 4) by (auto intro: numbered_frames_read)
  then show ?thesis using u(2) assms(2) [OF u(1)] by auto
qed

text \<open>The connections that are still to come only become fewer.\<close>

lemma send_commands_conns:
  "set (nt_conns (snd (send_commands jl base64 raw keys port cmds nt))) \<subseteq> set (nt_conns nt)"
proof -
  obtain x nt1 where nt1: "get_page_websocket_url jl port nt = (x, nt1)" by fastforce
  then have "set (nt_conns nt1) \<subseteq> set (nt_conns nt)" using get_url_open(2) [of jl port nt] by simp
  moreover have "set (nt_conns (snd (tcp_connect nt1))) \<subseteq> set (nt_conns nt1)"
    by (auto simp: tcp_connect_def split: list.splits option.splits)
  moreover have "nt_conns (snd (send_commands jl base64 raw keys port cmds nt))
      \<in> {nt_conns nt, nt_conns nt1, nt_conns (snd (tcp_connect nt1))}"
    using nt1 by (auto simp: send_commands_def close_fd_def Let_def split: option.splits prod.splits)
  ultimately show ?thesis by auto
qed

lemma read_response_whole:
  "length r + length (arriving s) \<le> kMaxHttpResponse \<Longrightarrow>
   fst (read_response r s) = r @ string_of (arriving s)"
proof (induction r s rule: read_response.induct)
  case (1 r s)
  obtain got s' where g: "sock_recv 4096 s = (got, s')" by fastforce
  show ?case
  proof (cases "got = []")
    case True
    then show ?thesis using sock_recv_empty [of 4096 s] g by (subst read_response.simps) simp
  next
    case False
    note got = sock_recv_some [OF g False]
    have fits: "length (r @ string_of got) + length (arriving s') \<le> kMaxHttpResponse"
      using 1(2) got(1) by simp
    have "fst (read_response (r @ string_of got) s') = (r @ string_of got) @ string_of (arriving s')"
      by (rule 1(1) [OF g [symmetric] refl False refl _ fits]) (use fits in simp)
    then show ?thesis using fits got(1) False by (subst read_response.simps) (simp add: g Let_def)
  qed
qed

lemma read_response_bound:
  "length r \<le> kMaxHttpResponse \<Longrightarrow> length (fst (read_response r s)) \<le> kMaxHttpResponse + 4096"
proof (induction r s rule: read_response.induct)
  case (1 r s)
  obtain got s' where g: "sock_recv 4096 s = (got, s')" by fastforce
  show ?case
  proof (cases "got = []")
    case False
    then have "length got \<le> 4096" using sock_recv_some [OF g] by simp
    then show ?thesis
      using 1(1) [OF g [symmetric] refl False refl] 1(2) False
      by (subst read_response.simps) (simp add: g Let_def)
  qed (use 1(2) in \<open>subst read_response.simps, simp add: g\<close>)
qed

subsection \<open>Properties\<close>

text \<open>A network that serves the witnesses: a page list on one connection, a browser on the next.\<close>

definition sample_targets :: jval where
  "sample_targets = JList [JDict (dict_set ''type'' (JString ''page'')
     (dict_set ''webSocketDebuggerUrl'' (JString ''ws://h/p'') []))]"

definition sample_cdp_json :: json_lib where
  "sample_cdp_json = \<lparr>json_write = (\<lambda>v. Some ''{}''), json_read = (\<lambda>s. Some sample_targets)\<rparr>"

definition page_sock :: sock where
  "page_sock = \<lparr>sk_fd = 4, sk_in = [bytes_of (''OK'' @ crlf), bytes_of (crlf @ ''[]'')],
     sk_accept = [500], sk_out = []\<rparr>"

definition browser_sock :: sock where
  "browser_sock = \<lparr>sk_fd = 5, sk_in = [bytes_of (''101 Upgrade'' @ crlf @ crlf)],
     sk_accept = [500, 500, 500], sk_out = []\<rparr>"

definition sample_net :: net where
  "sample_net = \<lparr>nt_conns = [Some page_sock, Some browser_sock], nt_open = [3]\<rparr>"

definition sample_keys :: "nat \<Rightarrow> byte list" where
  "sample_keys k = [1, 2, 3, of_nat k]"

lemma send_all_once:
  assumes "bs \<noteq> []" "sk_accept s = k # ks" "length bs \<le> k"
  shows "send_all bs s = (True, s\<lparr>sk_accept := ks, sk_out := sk_out s @ bs\<rparr>)"
  using assms by (subst send_all.simps) (simp add: sock_send_def)

lemma await_nothing: "sk_in s = [] \<Longrightarrow> await_reply jl i n s = (False, s)"
  by (induction n) (simp_all add: read_frame_def recv_all.simps sock_recv_def)

definition http_sock :: "int \<Rightarrow> string \<Rightarrow> sock" where
  "http_sock fd body = \<lparr>sk_fd = fd, sk_in = [bytes_of (''OK'' @ crlf), bytes_of (crlf @ body)],
     sk_accept = [500], sk_out = []\<rparr>"

lemma http_served:
  assumes "length (http_request path 9333) \<le> 500" "length body \<le> 1000"
    "body_of (''OK'' @ crlf @ crlf @ body) = body"
  shows "http_get 9333 path \<lparr>nt_conns = Some (http_sock fd body) # cs, nt_open = os\<rparr> =
     (body, \<lparr>nt_conns = cs, nt_open = os\<rparr>)"
proof -
  let ?req = "bytes_of (http_request path 9333)" and ?s = "http_sock fd body"
  have req: "?req \<noteq> []" "length ?req \<le> 500"
    using assms(1) by (simp_all add: http_request_def bytes_of_def)
  obtain t where t: "send_all ?req ?s = (True, t)" "sk_in t = sk_in ?s" "sk_fd t = fd"
    using send_all_once [OF req(1), of ?s 500 "[]"] req(2) by (simp add: http_sock_def)
  obtain r u where u: "read_response [] t = (r, u)" by fastforce
  have a: "arriving t = bytes_of (''OK'' @ crlf @ crlf @ body)"
    using t(2) by (simp add: arriving_def http_sock_def crlf_def bytes_of_def)
  moreover have "length (arriving t) \<le> kMaxHttpResponse"
    unfolding a using assms(2) by (simp add: kMaxHttpResponse_def crlf_def)
  ultimately have "r = ''OK'' @ crlf @ crlf @ body"
    using read_response_whole [of "[]" t] u by simp
  moreover have "sk_fd u = fd" using read_response_fields [of "[]" t] u t(3) by simp
  ultimately show ?thesis
    using t(1) u assms(3) by (simp add: http_get_def tcp_connect_def close_fd_def Let_def)
      (simp add: http_sock_def)
qed

lemma page_served:
  "http_get 9333 ''/json'' \<lparr>nt_conns = Some page_sock # cs, nt_open = os\<rparr> =
     (''[]'', \<lparr>nt_conns = cs, nt_open = os\<rparr>)"
  using http_served [of "''/json''" "''[]''" 4 cs os]
  by (simp add: http_sock_def page_sock_def http_request_def crlf_def body_of_def show_int_def show_nat.simps)

lemma page_found:
  "get_page_websocket_url sample_cdp_json 9333 \<lparr>nt_conns = Some page_sock # cs, nt_open = os\<rparr> =
     (Some ''ws://h/p'', \<lparr>nt_conns = cs, nt_open = os\<rparr>)"
  by (simp add: get_page_websocket_url_def page_served sample_cdp_json_def sample_targets_def
      choose_target_def)

lemma browser_shakes:
  obtains t where
    "websocket_handshake (\<lambda>s. s) ''raw'' 9333 ''/p'' (browser_sock\<lparr>sk_accept := 500 # ks\<rparr>) = (True, t)"
    "sk_in t = []" "sk_accept t = ks" "sk_fd t = 5"
proof -
  let ?req = "bytes_of (handshake_request (\<lambda>s. s) ''raw'' 9333 ''/p'')"
  let ?s = "browser_sock\<lparr>sk_accept := 500 # ks\<rparr>"
  have req: "?req \<noteq> []" "length ?req \<le> 500"
    by (simp_all add: handshake_request_def crlf_def bytes_of_def show_int_def show_nat.simps)
  obtain u where u: "send_all ?req ?s = (True, u)" "sk_in u = sk_in browser_sock"
      "sk_accept u = ks" "sk_fd u = 5"
    using send_all_once [OF req(1), of ?s 500 ks] req(2) by (simp add: browser_sock_def)
  have "read_handshake [] u = (Some (''101 Upgrade'' @ crlf @ crlf), u\<lparr>sk_in := []\<rparr>)"
    using u(2) by (subst read_handshake.simps, subst read_handshake.simps)
      (simp add: sock_recv_def browser_sock_def crlf_def bytes_of_def string_of_def Let_def)
  then show thesis
    using that [of "u\<lparr>sk_in := []\<rparr>"] u by (simp add: websocket_handshake_def crlf_def)
qed

lemma empty_commands_sent:
  assumes "set cmds \<subseteq> {''{}''}" "sk_in t = []" "sk_accept t = replicate (length cmds) 500"
  shows "fst (send_each sample_cdp_json sample_keys i cmds t)"
  using assms
proof (induction cmds arbitrary: i t)
  case (Cons c cmds)
  let ?f = "encode_frame (sample_keys i) ''{}''"
  have "?f \<noteq> []" "length ?f \<le> 500"
    by (simp_all add: encode_frame_def length_bytes_def sample_keys_def)
  then have "send_all ?f t =
      (True, t\<lparr>sk_accept := replicate (length cmds) 500, sk_out := sk_out t @ ?f\<rparr>)"
    using Cons.prems(3) by (simp add: send_all_once)
  then show ?case using Cons by (simp add: send_frame_def await_nothing)
qed simp

text \<open>The network for a batch, and what becomes of it.\<close>

definition batch_net :: "nat \<Rightarrow> int list \<Rightarrow> net" where
  "batch_net n os =
     \<lparr>nt_conns = [Some page_sock, Some (browser_sock\<lparr>sk_accept := 500 # replicate n 500\<rparr>)], nt_open = os\<rparr>"

lemma batch_sent:
  assumes "cmds \<noteq> []" "set cmds \<subseteq> {''{}''}"
  obtains s where "send_commands sample_cdp_json (\<lambda>s. s) ''raw'' sample_keys 9333 cmds
    (batch_net (length cmds) os) = (Some (5, Some s), \<lparr>nt_conns = [], nt_open = 5 # os\<rparr>)"
proof -
  let ?b = "browser_sock\<lparr>sk_accept := 500 # replicate (length cmds) 500\<rparr>"
  obtain t where t: "websocket_handshake (\<lambda>s. s) ''raw'' 9333 ''/p'' ?b = (True, t)"
    "sk_in t = []" "sk_accept t = replicate (length cmds) 500" "sk_fd t = 5" by (rule browser_shakes)
  have path: "url_path ''ws://h/p'' = ''/p''" by (simp add: url_path_def)
  obtain v where v: "send_each sample_cdp_json sample_keys 0 cmds t = (True, v)"
    using empty_commands_sent [OF assms(2) t(2, 3), of 0] by (cases "send_each sample_cdp_json sample_keys 0 cmds t") auto
  then have "sk_fd v = 5" using send_each_fields [of sample_cdp_json sample_keys 0 cmds t] t(4) by simp
  then show thesis
    using that t(1) v path assms(1)
    by (simp add: send_commands_def batch_net_def page_found tcp_connect_def browser_sock_def)
qed

lemma sample_sent:
  obtains s nt where "send_commands sample_cdp_json (\<lambda>s. s) ''raw'' sample_keys 9333 [''{}'', ''{}''] sample_net =
    (Some (5, Some s), nt)"
proof -
  have "sample_net = batch_net (length [''{}'', ''{}'']) [3]"
    by (simp add: sample_net_def batch_net_def browser_sock_def)
  then have net: "batch_net (length [''{}'', ''{}'']) [3] = sample_net" ..
  show thesis
    by (rule batch_sent [of "[''{}'', ''{}'']" "[3]"]) (use that net in auto)
qed

text \<open>
  C15 (safety): descriptors are neither leaked nor closed twice. Whatever the network does,
  \<open>SendCommands\<close> returns either a descriptor it has opened and leaves open for the caller, or -1
  (or crashes) with exactly the descriptors open that were open before.
\<close>

theorem descriptors_owned:
  assumes "send_commands jl base64 raw keys port cmds nt = (r, nt')"
  shows "(case r of Some (fd, Some s) \<Rightarrow> fd = sk_fd s \<and> nt_open nt' = fd # nt_open nt
          | _ \<Rightarrow> nt_open nt' = nt_open nt \<and> (r = None \<or> r = Some (-1, None)))"
proof (cases "\<exists>fd s. r = Some (fd, Some s)")
  case True
  then obtain fd s where r: "r = Some (fd, Some s)" by blast
  then have "nt_open nt' = fd # nt_open nt" using send_commands_success assms by metis
  moreover have "fd = sk_fd s" using send_commands_fd assms r by metis
  ultimately show ?thesis using r by simp
next
  case False
  then show ?thesis using send_commands_failure [OF assms] by (auto split: option.splits)
qed

theorem descriptors_owned_witness:
  "\<exists>s nt'. send_commands sample_cdp_json (\<lambda>s. s) ''raw'' sample_keys 9333 [''{}'', ''{}''] sample_net =
     (Some (5, Some s), nt') \<and> nt_open nt' = [5, 3]"
proof -
  obtain s nt where s: "send_commands sample_cdp_json (\<lambda>s. s) ''raw'' sample_keys 9333 [''{}'', ''{}''] sample_net =
    (Some (5, Some s), nt)" by (rule sample_sent)
  with descriptors_owned [OF s] show ?thesis by (auto simp: sample_net_def)
qed

text \<open>
  The commands arrive. When \<open>SendCommands\<close> succeeds on fresh connections, what it has
  sent is the handshake request followed by frames, and any endpoint that receives those frames,
  in pieces of any sizes, reads from them the list of the commands, in order.
\<close>

theorem commands_arrive:
  assumes "send_commands jl base64 raw keys port cmds nt = (Some (fd, Some s), nt')"
    "\<And>c. Some c \<in> set (nt_conns nt) \<Longrightarrow> sk_out c = []"
    "\<And>k. length (keys k) = 4" "\<And>c. c \<in> set cmds \<Longrightarrow> length c \<le> kMaxWsPayload"
  shows "\<exists>path frames. sk_out s = bytes_of (handshake_request base64 raw port path) @ frames \<and>
           (\<forall>srv. arriving srv = frames \<longrightarrow> read_frames (length cmds) srv = cmds)"
  by (rule commands_on_socket [OF assms])

theorem commands_arrive_witness:
  "\<exists>s nt' path frames.
     send_commands sample_cdp_json (\<lambda>s. s) ''raw'' sample_keys 9333 [''{}'', ''{}''] sample_net =
       (Some (5, Some s), nt') \<and>
     sk_out s = bytes_of (handshake_request (\<lambda>s. s) ''raw'' 9333 path) @ frames"
proof -
  obtain s nt where s: "send_commands sample_cdp_json (\<lambda>s. s) ''raw'' sample_keys 9333 [''{}'', ''{}''] sample_net =
    (Some (5, Some s), nt)" by (rule sample_sent)
  have "\<exists>path frames. sk_out s = bytes_of (handshake_request (\<lambda>s. s) ''raw'' 9333 path) @ frames \<and>
      (\<forall>srv. arriving srv = frames \<longrightarrow> read_frames (length [''{}'', ''{}'']) srv = [''{}'', ''{}''])"
    by (rule commands_arrive [OF s])
      (auto simp: sample_net_def page_sock_def browser_sock_def sample_keys_def kMaxWsPayload_def)
  with s show ?thesis by blast
qed

text \<open>
  Success says nothing about the replies. Whether the batch counts as sent
  depends only on how the socket takes the bytes: it is the same for every series of incoming
  bytes and every way of reading JSON, also when no command was ever answered.
\<close>

theorem success_ignores_replies:
  "fst (send_each jl keys i jsons s) = fst (send_each jl' keys i jsons (s\<lparr>sk_in := replies\<rparr>))"
  by (rule send_each_accept) simp

text \<open>
  A response over HTTP is read whole, however it is cut into pieces, as long as it
  has at most 256 KB; a longer one is cut off, at most 4 KB later.
\<close>

theorem http_response_read:
  assumes "length (arriving s) \<le> kMaxHttpResponse"
  shows "body_of (fst (read_response [] s)) = body_of (string_of (arriving s)) \<and>
         (\<forall>s'. length (fst (read_response [] s')) \<le> kMaxHttpResponse + 4096)"
  using read_response_whole [of "[]" s] read_response_bound [of "[]"] assms by simp

theorem http_response_read_witness:
  "body_of (fst (read_response [] page_sock)) = ''[]''"
proof -
  have a: "arriving page_sock = bytes_of (''OK'' @ crlf @ crlf @ ''[]'')"
    by (simp add: arriving_def page_sock_def crlf_def bytes_of_def)
  have "length (arriving page_sock) \<le> kMaxHttpResponse"
    unfolding a by (simp add: kMaxHttpResponse_def crlf_def)
  from http_response_read [OF this] show ?thesis by (simp add: a body_of_def crlf_def)
qed

lemma first_page_crash:
  "first_page ts = None \<longleftrightarrow>
     (\<exists>pre x post. ts = pre @ x # post \<and> as_dict x = None \<and> first_page pre = Some None)"
proof (induction ts)
  case (Cons t ts)
  show ?case
  proof (cases "as_dict t")
    case None
    have "\<exists>pre x post. t # ts = pre @ x # post \<and> as_dict x = None \<and> first_page pre = Some None"
      by (intro exI [of _ "[]"] exI [of _ t] exI [of _ ts]) (simp add: None)
    then show ?thesis using None by simp
  next
    case (Some d)
    show ?thesis
    proof (cases "first_page [t] = Some None")
      case True
      then have skip: "first_page (t # us) = first_page us" for us
        using Some by (auto split: if_splits option.splits)
      show ?thesis
        unfolding skip Cons.IH
      proof
        assume "\<exists>pre x post. ts = pre @ x # post \<and> as_dict x = None \<and> first_page pre = Some None"
        then obtain pre x post where p: "ts = pre @ x # post" "as_dict x = None" "first_page pre = Some None"
          by blast
        show "\<exists>pre x post. t # ts = pre @ x # post \<and> as_dict x = None \<and> first_page pre = Some None"
          by (intro exI [of _ "t # pre"] exI [of _ x] exI [of _ post]) (use p skip [of pre] in simp)
      next
        assume "\<exists>pre x post. t # ts = pre @ x # post \<and> as_dict x = None \<and> first_page pre = Some None"
        then obtain pre x post where p: "t # ts = pre @ x # post" "as_dict x = None" "first_page pre = Some None"
          by blast
        obtain pre' where pre': "pre = t # pre'" "ts = pre' @ x # post"
          using p(1, 2) Some by (cases pre) auto
        then have "first_page pre' = Some None" using p(3) skip [of pre'] by simp
        with pre'(2) p(2) show "\<exists>pre x post. ts = pre @ x # post \<and> as_dict x = None \<and> first_page pre = Some None"
          by blast
      qed
    next
      case False
      then have stop: "first_page (t # us) \<noteq> Some None \<and> first_page (t # us) \<noteq> None" for us
        using Some by (auto split: if_splits option.splits)
      have "\<not> (t # ts = pre @ x # post \<and> as_dict x = None \<and> first_page pre = Some None)" for pre x post
      proof (cases pre)
        case (Cons a pre')
        then show ?thesis using stop [of pre'] by auto
      qed (use Some in auto)
      then show ?thesis using stop [of ts] by blast
    qed
  qed
qed simp

lemma first_url_no_crash: "first_page ts \<noteq> None \<Longrightarrow> first_page ts = Some None \<Longrightarrow> first_url ts \<noteq> None"
  by (induction ts) (auto split: option.splits if_splits)

text \<open>
  When looking for a page crashes: exactly when the list of targets has a value that
  is not an object before the first page with a URL.
\<close>

theorem discovery_crash:
  "choose_target ts = None \<longleftrightarrow>
     (\<exists>pre x post. ts = pre @ x # post \<and> as_dict x = None \<and> first_page pre = Some None)"
proof -
  have "choose_target ts = None \<longleftrightarrow> first_page ts = None"
    using first_url_no_crash [of ts] by (auto simp: choose_target_def split: option.splits)
  then show ?thesis using first_page_crash by simp
qed

end
