(* ===== verification/Cdp_Proxy.thy ===== *)
theory Cdp_Proxy
  imports Launcher Cdp_Client
begin

text \<open>
  The WebSocket relay between API clients and running workspaces, \<open>browser/api/cdp_proxy_handler.cc\<close>.
  A session per client connection goes through connecting, the WebSocket handshake with the
  target and relaying. The workspace is looked up by a task on the UI thread that posts the next
  step back, so lookups and posted steps are queues of the state. Socket operations answer at
  once or later: an answer at once is an argument of the operation (a list of them for reads,
  which may follow each other; when it is used up the next read is in flight), a later one an
  event of its own.
\<close>

subsection \<open>State\<close>

record session =
  ss_client :: int
  ss_socket :: bool
  ss_subpath :: string
  ss_handshake_complete :: bool
  ss_connecting :: bool
  ss_reading :: bool

datatype proxy_task = DisconnectTask int | ConnectTask int int

datatype proxy_effect =
    SentToClient int string
  | ClosedClient int
  | ConnectedTo int int
  | WroteToTarget int string

text \<open>
  \<open>px_server\<close> is whether \<open>server_\<close> is set. \<open>px_violated\<close> records a read through a session that is
  gone or that has a read in flight already, both undefined for the socket.
\<close>

record proxy =
  px_server :: bool
  px_sessions :: "(int, session) omap"
  px_lookups :: "(int \<times> string) list"
  px_tasks :: "proxy_task list"
  px_log :: "proxy_effect list"
  px_violated :: bool

definition new_proxy :: proxy where
  "new_proxy = \<lparr>px_server = False, px_sessions = [], px_lookups = [], px_tasks = [], px_log = [],
                px_violated = False\<rparr>"

definition set_server :: "proxy \<Rightarrow> proxy" where
  "set_server px = px\<lparr>px_server := True\<rparr>"

definition emit :: "proxy_effect \<Rightarrow> proxy \<Rightarrow> proxy" where
  "emit e px = px\<lparr>px_log := px_log px @ [e]\<rparr>"

subsection \<open>Sessions\<close>

definition create_session :: "int \<Rightarrow> proxy \<Rightarrow> proxy" where
  "create_session c px = px\<lparr>px_sessions := om_put c
     \<lparr>ss_client = c, ss_socket = False, ss_subpath = [], ss_handshake_complete = False,
      ss_connecting = False, ss_reading = False\<rparr> (px_sessions px)\<rparr>"

definition get_session :: "proxy \<Rightarrow> int \<Rightarrow> session option" where
  "get_session px c = map_of (px_sessions px) c"

definition put_session :: "int \<Rightarrow> session \<Rightarrow> proxy \<Rightarrow> proxy" where
  "put_session c s px = px\<lparr>px_sessions := om_put c s (px_sessions px)\<rparr>"

definition destroy_session :: "int \<Rightarrow> proxy \<Rightarrow> proxy" where
  "destroy_session c px =
     (case get_session px c of
        None \<Rightarrow> px
      | Some s \<Rightarrow>
          let px = (if px_server px then emit (ClosedClient c) px else px)
          in px\<lparr>px_sessions := om_del c (px_sessions px)\<rparr>)"

subsection \<open>Reading from the target\<close>

text \<open>
  \<open>ReadBytes\<close> with no bytes is a closed connection, \<open>ReadError\<close> a negative result.
\<close>

datatype read_answer = ReadBytes string | ReadError

function (sequential) start_target_read :: "read_answer list \<Rightarrow> int \<Rightarrow> proxy \<Rightarrow> proxy"
  and on_target_read :: "read_answer list \<Rightarrow> int \<Rightarrow> read_answer \<Rightarrow> proxy \<Rightarrow> proxy"
  and forward_to_client :: "read_answer list \<Rightarrow> int \<Rightarrow> string \<Rightarrow> proxy \<Rightarrow> proxy" where
  "start_target_read answers c px =
     (case get_session px c of
        None \<Rightarrow> px\<lparr>px_violated := True\<rparr>
      | Some s \<Rightarrow>
          if ss_reading s then px\<lparr>px_violated := True\<rparr>
          else (case answers of
                  [] \<Rightarrow> put_session c (s\<lparr>ss_reading := True\<rparr>) px
                | a # later \<Rightarrow> on_target_read later c a px))"
| "on_target_read answers c ReadError px =
     (case get_session px c of None \<Rightarrow> px | Some s \<Rightarrow> destroy_session c px)"
| "on_target_read answers c (ReadBytes data) px =
     (case get_session px c of
        None \<Rightarrow> px
      | Some s \<Rightarrow>
          if data = [] then destroy_session c px
          else if \<not> ss_handshake_complete s then
            if str_find ''101 Switching Protocols'' data \<noteq> None then
              let px = put_session c (s\<lparr>ss_handshake_complete := True\<rparr>) px;
                  left = (case str_find (crlf @ crlf) data of
                            Some header_end \<Rightarrow> drop (header_end + 4) data
                          | None \<Rightarrow> [])
              in if left \<noteq> []
                 then if px_server px
                      then start_target_read [] c (forward_to_client answers c left px)
                      else start_target_read answers c (forward_to_client [] c left px)
                 else start_target_read answers c px
            else if str_find ''HTTP/1.1'' data \<noteq> None \<and> str_find ''101'' data = None
            then destroy_session c px
            else start_target_read answers c px
          else forward_to_client answers c data px)"
| "forward_to_client answers c data px =
     (if \<not> px_server px then px
      else let px = emit (SentToClient c data) px in
        case get_session px c of
          None \<Rightarrow> px
        | Some s \<Rightarrow> start_target_read answers c px)"
  by pat_completeness auto
termination
  by (relation "measure (\<lambda>x. case x of
       Inl (answers, c, px) \<Rightarrow> 3 * length answers
     | Inr (Inl (answers, c, a, px)) \<Rightarrow> 3 * length answers + 2
     | Inr (Inr (answers, c, data, px)) \<Rightarrow> 3 * length answers + 1)")
    auto

declare start_target_read.simps [simp del] on_target_read.simps [simp del] forward_to_client.simps [simp del]

text \<open>
  With a server set, the forwarding of what is left after the headers has started a read of its
  own when the code starts the next one, so no answer is left for it.
\<close>

subsection \<open>Connecting\<close>

datatype write_answer = Wrote nat | WriteFailed
datatype connect_answer = ConnectPending | ConnectDone bool

definition kWebSocketKey :: string where "kWebSocketKey = ''dGhlIHNhbXBsZSBub25jZQ==''"

definition proxy_handshake :: "string \<Rightarrow> string" where
  "proxy_handshake subpath =
     ''GET '' @ (if subpath = [] then ''/devtools/browser''
                 else takeWhile (\<lambda>ch. ch \<noteq> CHR 0x00) subpath) @ '' HTTP/1.1'' @ crlf @
     ''Host: 127.0.0.1:'' @ crlf @
     ''Upgrade: websocket'' @ crlf @
     ''Connection: Upgrade'' @ crlf @
     ''Sec-WebSocket-Key: '' @ kWebSocketKey @ crlf @
     ''Sec-WebSocket-Version: 13'' @ crlf @ crlf"

definition send_handshake :: "write_answer \<Rightarrow> read_answer list \<Rightarrow> int \<Rightarrow> session \<Rightarrow> proxy \<Rightarrow> proxy" where
  "send_handshake w answers c s px =
     (let handshake = proxy_handshake (ss_subpath s) in
      case w of
        WriteFailed \<Rightarrow> destroy_session c px
      | Wrote n \<Rightarrow> start_target_read answers c (emit (WroteToTarget c (take n handshake)) px))"

definition on_target_connected ::
  "write_answer \<Rightarrow> read_answer list \<Rightarrow> int \<Rightarrow> bool \<Rightarrow> proxy \<Rightarrow> proxy" where
  "on_target_connected w answers c ok px =
     (case get_session px c of
        None \<Rightarrow> px
      | Some s \<Rightarrow> if \<not> ok then destroy_session c px else send_handshake w answers c s px)"

text \<open>The new socket replaces, and so cancels, whatever the session had in flight.\<close>

definition connect_to_target ::
  "connect_answer \<Rightarrow> write_answer \<Rightarrow> read_answer list \<Rightarrow> int \<Rightarrow> int \<Rightarrow> proxy \<Rightarrow> proxy" where
  "connect_to_target ca w answers c port px =
     (case get_session px c of
        None \<Rightarrow> px
      | Some s \<Rightarrow>
          let s = s\<lparr>ss_socket := True, ss_reading := False, ss_connecting := False\<rparr>;
              px = emit (ConnectedTo c port) px
          in case ca of
               ConnectPending \<Rightarrow> put_session c (s\<lparr>ss_connecting := True\<rparr>) px
             | ConnectDone ok \<Rightarrow> on_target_connected w answers c ok (put_session c s px))"

definition handle_websocket_upgrade :: "int \<Rightarrow> string \<Rightarrow> string \<Rightarrow> proxy \<Rightarrow> proxy" where
  "handle_websocket_upgrade c wid subpath px =
     (let px = create_session c px in
      case get_session px c of
        None \<Rightarrow> px
      | Some s \<Rightarrow>
          let px = put_session c (s\<lparr>ss_subpath := subpath\<rparr>) px
          in px\<lparr>px_lookups := px_lookups px @ [(c, wid)]\<rparr>)"

definition proxy_lookup :: "manager \<Rightarrow> proxy \<Rightarrow> proxy" where
  "proxy_lookup mg px =
     (case px_lookups px of
        [] \<Rightarrow> px
      | (c, wid) # rest \<Rightarrow>
          let task = (case get_running mg wid of
                        None \<Rightarrow> DisconnectTask c
                      | Some r \<Rightarrow> if rw_status r \<noteq> SRunning then DisconnectTask c
                                  else ConnectTask c (rw_port r))
          in px\<lparr>px_lookups := rest, px_tasks := px_tasks px @ [task]\<rparr>)"

definition on_client_disconnect :: "int \<Rightarrow> proxy \<Rightarrow> proxy" where
  "on_client_disconnect c px = destroy_session c px"

definition proxy_run_task ::
  "connect_answer \<Rightarrow> write_answer \<Rightarrow> read_answer list \<Rightarrow> proxy \<Rightarrow> proxy" where
  "proxy_run_task ca w answers px =
     (case px_tasks px of
        [] \<Rightarrow> px
      | DisconnectTask c # rest \<Rightarrow> on_client_disconnect c (px\<lparr>px_tasks := rest\<rparr>)
      | ConnectTask c port # rest \<Rightarrow> connect_to_target ca w answers c port (px\<lparr>px_tasks := rest\<rparr>))"

subsection \<open>Messages of the client\<close>

definition forward_to_target :: "write_answer \<Rightarrow> int \<Rightarrow> string \<Rightarrow> proxy \<Rightarrow> proxy" where
  "forward_to_target w c data px =
     (case get_session px c of
        None \<Rightarrow> px
      | Some s \<Rightarrow>
          if \<not> ss_socket s then px
          else (case w of
                  WriteFailed \<Rightarrow> destroy_session c px
                | Wrote n \<Rightarrow> emit (WroteToTarget c (take n data)) px))"

definition on_websocket_message :: "write_answer \<Rightarrow> int \<Rightarrow> string \<Rightarrow> proxy \<Rightarrow> proxy" where
  "on_websocket_message w c data px =
     (case get_session px c of
        None \<Rightarrow> px
      | Some s \<Rightarrow> if \<not> ss_handshake_complete s then px else forward_to_target w c data px)"

subsection \<open>The relay as a transition system\<close>

datatype proxy_event =
    PUpgrade int string string
  | PLookup manager
  | PTask connect_answer write_answer "read_answer list"
  | PConnected write_answer "read_answer list" int bool
  | PRead "read_answer list" int read_answer
  | PMessage write_answer int string
  | PClosed int

fun proxy_step :: "proxy_event \<Rightarrow> proxy \<Rightarrow> proxy" where
  "proxy_step (PUpgrade c wid subpath) px = handle_websocket_upgrade c wid subpath px"
| "proxy_step (PLookup mg) px = proxy_lookup mg px"
| "proxy_step (PTask ca w answers) px = proxy_run_task ca w answers px"
| "proxy_step (PConnected w answers c ok) px =
     (case get_session px c of
        None \<Rightarrow> px
      | Some s \<Rightarrow>
          if \<not> ss_connecting s then px
          else on_target_connected w answers c ok (put_session c (s\<lparr>ss_connecting := False\<rparr>) px))"
| "proxy_step (PRead answers c a) px =
     (case get_session px c of
        None \<Rightarrow> px
      | Some s \<Rightarrow>
          if \<not> ss_reading s then px
          else on_target_read answers c a (put_session c (s\<lparr>ss_reading := False\<rparr>) px))"
| "proxy_step (PMessage w c data) px = on_websocket_message w c data px"
| "proxy_step (PClosed c) px = on_client_disconnect c px"

subsection \<open>The invariant\<close>

text \<open>
  Each session is filed under its connection; a session that is reading, connecting or has shaken
  hands has its socket, and no session is connecting and reading at once.
\<close>

definition session_ok :: "int \<Rightarrow> session \<Rightarrow> bool" where
  "session_ok c s = (ss_client s = c \<and>
     (ss_reading s \<or> ss_connecting s \<or> ss_handshake_complete s \<longrightarrow> ss_socket s) \<and>
     \<not> (ss_connecting s \<and> ss_reading s))"

definition proxy_inv :: "proxy \<Rightarrow> bool" where
  "proxy_inv px = (om_ok (px_sessions px) \<and>
     (\<forall>c s. get_session px c = Some s \<longrightarrow> session_ok c s) \<and> \<not> px_server px \<and> \<not> px_violated px)"

named_theorems px_simps "effects of the relay's helpers on its fields"

lemma emit_fields [simp, px_simps]:
  "px_server (emit e px) = px_server px" "px_sessions (emit e px) = px_sessions px"
  "px_violated (emit e px) = px_violated px" "px_log (emit e px) = px_log px @ [e]"
  "px_lookups (emit e px) = px_lookups px" "px_tasks (emit e px) = px_tasks px"
  "get_session (emit e px) c = get_session px c"
  by (simp_all add: emit_def get_session_def)

lemma put_session_fields [simp, px_simps]:
  "px_server (put_session c s px) = px_server px"
  "px_violated (put_session c s px) = px_violated px" "px_log (put_session c s px) = px_log px"
  "px_lookups (put_session c s px) = px_lookups px" "px_tasks (put_session c s px) = px_tasks px"
  "get_session (put_session c s px) = (get_session px)(c \<mapsto> s)"
  by (auto simp: put_session_def get_session_def)

lemma queue_fields [simp, px_simps]:
  "get_session (px\<lparr>px_lookups := ls\<rparr>) = get_session px"
  "get_session (px\<lparr>px_tasks := ts\<rparr>) = get_session px"
  by (auto simp: get_session_def)

lemma destroy_fields [simp, px_simps]:
  "px_server (destroy_session c px) = px_server px"
  "px_violated (destroy_session c px) = px_violated px"
  "px_lookups (destroy_session c px) = px_lookups px" "px_tasks (destroy_session c px) = px_tasks px"
  "get_session (destroy_session c px) = (get_session px)(c := None)"
  by (auto simp: destroy_session_def Let_def get_session_def emit_def split: option.split)

lemma proxy_invI:
  "\<lbrakk>om_ok (px_sessions px); \<And>c s. get_session px c = Some s \<Longrightarrow> session_ok c s; \<not> px_server px;
    \<not> px_violated px\<rbrakk> \<Longrightarrow> proxy_inv px"
  by (simp add: proxy_inv_def)

lemma proxy_invD:
  assumes "proxy_inv px"
  shows "om_ok (px_sessions px)" "get_session px c = Some s \<Longrightarrow> session_ok c s" "\<not> px_server px" "\<not> px_violated px"
  using assms by (auto simp: proxy_inv_def)

lemma put_session_inv [inv_intros]: "proxy_inv px \<Longrightarrow> session_ok c s \<Longrightarrow> proxy_inv (put_session c s px)"
  by (auto simp: proxy_inv_def put_session_def get_session_def split: if_splits)

lemma emit_inv [inv_intros]: "proxy_inv px \<Longrightarrow> proxy_inv (emit e px)"
  by (simp add: proxy_inv_def)

lemma queue_inv [inv_intros]:
  "proxy_inv px \<Longrightarrow> proxy_inv (px\<lparr>px_lookups := ls\<rparr>)" "proxy_inv px \<Longrightarrow> proxy_inv (px\<lparr>px_tasks := ts\<rparr>)"
  "proxy_inv px \<Longrightarrow> proxy_inv (px\<lparr>px_lookups := ls, px_tasks := ts\<rparr>)"
  by (auto simp: proxy_inv_def get_session_def)

lemma destroy_inv [inv_intros]: "proxy_inv px \<Longrightarrow> proxy_inv (destroy_session c px)"
  by (auto simp: proxy_inv_def destroy_session_def get_session_def Let_def split: option.split if_splits)

lemma forward_off: "\<not> px_server px \<Longrightarrow> forward_to_client answers c data px = px"
  by (simp add: forward_to_client.simps)

lemma read_inv:
  "\<lbrakk>proxy_inv px; get_session px c = Some s; ss_socket s; \<not> ss_reading s; \<not> ss_connecting s\<rbrakk> \<Longrightarrow>
     proxy_inv (start_target_read answers c px)"
  "\<lbrakk>proxy_inv px; get_session px c = Some s; ss_socket s; \<not> ss_reading s; \<not> ss_connecting s\<rbrakk> \<Longrightarrow>
     proxy_inv (on_target_read answers c a px)"
  "proxy_inv px \<Longrightarrow> proxy_inv (forward_to_client answers c data px)"
proof (induction answers c px and answers c a px and answers c data px arbitrary: s and s
    rule: start_target_read_on_target_read_forward_to_client.induct)
  case (1 answers c px)
  have ok: "session_ok c (s\<lparr>ss_reading := True\<rparr>)"
    using proxy_invD(2) [OF 1(2, 3)] 1(4-6) by (simp add: session_ok_def)
  show ?case
  proof (cases answers)
    case Nil
    then show ?thesis using 1(2-6) ok by (simp add: start_target_read.simps inv_intros)
  next
    case (Cons a later)
    then show ?thesis using 1(1) [of s a later s] 1(2-6) by (simp add: start_target_read.simps)
  qed
next
  case (2 answers c px)
  then show ?case by (simp add: on_target_read.simps inv_intros)
next
  case (3 answers c data px)
  have ok: "session_ok c (s\<lparr>ss_handshake_complete := True\<rparr>)"
    using proxy_invD(2) [OF 3(8, 9)] 3(10-12) by (simp add: session_ok_def)
  have off: "\<not> px_server px" using proxy_invD(3) [OF 3(8)] .
  show ?case
    using 3(8-12) ok off 3(1-6)
    by (auto simp: on_target_read.simps forward_off Let_def inv_intros split: option.split)
next
  case (4 answers c data px)
  then show ?case using proxy_invD(3) [OF 4(2)] by (simp add: forward_to_client.simps)
qed

lemma connected_inv [inv_intros]:
  "\<lbrakk>proxy_inv px; \<And>s. get_session px c = Some s \<Longrightarrow> ss_socket s \<and> \<not> ss_reading s \<and> \<not> ss_connecting s\<rbrakk> \<Longrightarrow>
   proxy_inv (on_target_connected w answers c ok px)"
  by (auto simp: on_target_connected_def send_handshake_def Let_def inv_intros
      intro: read_inv(1) split: option.split write_answer.split)

lemma connect_inv [inv_intros]: "proxy_inv px \<Longrightarrow> proxy_inv (connect_to_target ca w answers c port px)"
  by (auto simp: connect_to_target_def Let_def session_ok_def dest: proxy_invD(2)
      intro!: inv_intros split: option.split connect_answer.split)

lemma lookup_inv [inv_intros]: "proxy_inv px \<Longrightarrow> proxy_inv (proxy_lookup mg px)"
  by (auto simp: proxy_lookup_def Let_def inv_intros split: list.split)

lemma task_inv [inv_intros]: "proxy_inv px \<Longrightarrow> proxy_inv (proxy_run_task ca w answers px)"
  by (auto simp: proxy_run_task_def on_client_disconnect_def intro!: inv_intros
      split: list.split proxy_task.split)

lemma create_fields [simp, px_simps]:
  "px_server (create_session c px) = px_server px"
  "px_violated (create_session c px) = px_violated px" "px_log (create_session c px) = px_log px"
  "get_session (create_session c px) = (get_session px)(c \<mapsto>
     \<lparr>ss_client = c, ss_socket = False, ss_subpath = [], ss_handshake_complete = False,
      ss_connecting = False, ss_reading = False\<rparr>)"
  by (auto simp: create_session_def get_session_def)

lemma create_inv [inv_intros]: "proxy_inv px \<Longrightarrow> proxy_inv (create_session c px)"
  by (auto simp: proxy_inv_def create_session_def get_session_def session_ok_def split: if_splits)

lemma upgrade_inv [inv_intros]: "proxy_inv px \<Longrightarrow> proxy_inv (handle_websocket_upgrade c wid subpath px)"
  by (auto simp: handle_websocket_upgrade_def Let_def session_ok_def intro!: inv_intros)

lemma message_inv [inv_intros]: "proxy_inv px \<Longrightarrow> proxy_inv (on_websocket_message w c data px)"
  by (auto simp: on_websocket_message_def forward_to_target_def inv_intros
      split: option.split write_answer.split)

lemma session_facts:
  assumes "proxy_inv px" "get_session px c = Some s"
  shows "ss_client s = c" "ss_connecting s \<Longrightarrow> ss_socket s \<and> \<not> ss_reading s"
    "ss_reading s \<Longrightarrow> ss_socket s \<and> \<not> ss_connecting s" "ss_handshake_complete s \<Longrightarrow> ss_socket s"
  using proxy_invD(2) [OF assms] by (auto simp: session_ok_def)

lemma read_event_inv [inv_intros]:
  assumes "proxy_inv px" "get_session px c = Some s" "ss_reading s"
  shows "proxy_inv (on_target_read answers c a (put_session c (s\<lparr>ss_reading := False\<rparr>) px))"
proof (rule read_inv(2) [where s = "s\<lparr>ss_reading := False\<rparr>"])
  show "proxy_inv (put_session c (s\<lparr>ss_reading := False\<rparr>) px)"
    using assms session_facts [OF assms(1, 2)] by (simp add: inv_intros session_ok_def)
qed (use session_facts(3) [OF assms] in simp_all)

lemma connected_event_inv [inv_intros]:
  assumes "proxy_inv px" "get_session px c = Some s" "ss_connecting s"
  shows "proxy_inv (on_target_connected w answers c ok (put_session c (s\<lparr>ss_connecting := False\<rparr>) px))"
proof (rule connected_inv)
  show "proxy_inv (put_session c (s\<lparr>ss_connecting := False\<rparr>) px)"
    using assms session_facts [OF assms(1, 2)] by (simp add: inv_intros session_ok_def)
qed (use session_facts(2) [OF assms] in auto)

lemma proxy_step_inv [inv_intros]: "proxy_inv px \<Longrightarrow> proxy_inv (proxy_step e px)"
  by (cases e) (simp_all add: on_client_disconnect_def inv_intros split: option.split)

lemma new_proxy_inv: "proxy_inv new_proxy"
  by (simp add: proxy_inv_def new_proxy_def get_session_def)

interpretation proxy_system: invariant_system new_proxy proxy_step proxy_inv
  by unfold_locales (rule new_proxy_inv, rule proxy_step_inv)

text \<open>
  C30 (invariant): in every reachable state of the relay that the API handler creates (it never sets
  the server of the relay) each session is filed under its connection and has a socket as soon as
  it connects, reads or has shaken hands; it never connects and reads at once, and no read is ever
  started twice or through a session that is gone.
\<close>

theorem proxy_inv_reachable: "proxy_inv (run proxy_step es new_proxy)"
  by (rule proxy_system.inv_run)

subsection \<open>Nothing reaches the client\<close>

definition silent :: "proxy \<Rightarrow> bool" where
  "silent px = (\<not> px_server px \<and>
     list_all (\<lambda>e. case e of SentToClient c d \<Rightarrow> False | ClosedClient c \<Rightarrow> False | _ \<Rightarrow> True) (px_log px))"

lemma silent_simps [simp]:
  "silent (put_session c s px) = silent px" "silent (px\<lparr>px_lookups := ls\<rparr>) = silent px"
  "silent (px\<lparr>px_tasks := ts\<rparr>) = silent px" "silent (px\<lparr>px_violated := b\<rparr>) = silent px"
  "silent (px\<lparr>px_lookups := ls, px_tasks := ts\<rparr>) = silent px"
  "silent (emit (ConnectedTo c p) px) = silent px" "silent (emit (WroteToTarget c d) px) = silent px"
  "silent (create_session c px) = silent px"
  by (auto simp: silent_def emit_def put_session_def create_session_def)

lemma silent_destroy [simp]: "silent px \<Longrightarrow> silent (destroy_session c px)"
  by (auto simp: silent_def destroy_session_def Let_def emit_def split: option.split)

lemma silent_read:
  "silent px \<Longrightarrow> silent (start_target_read answers c px)"
  "silent px \<Longrightarrow> silent (on_target_read answers c a px)"
  "silent px \<Longrightarrow> silent (forward_to_client answers c data px)"
proof (induction answers c px and answers c a px and answers c data px
    rule: start_target_read_on_target_read_forward_to_client.induct)
  case (1 answers c px)
  then show ?case by (auto simp: start_target_read.simps split: option.split list.split)
next
  case (3 answers c data px)
  have off: "\<not> px_server px" using 3(8) by (simp add: silent_def)
  show ?case using 3(8) off 3(1-6)
    by (auto simp: on_target_read.simps forward_off Let_def split: option.split)
next
  case (4 answers c data px)
  then show ?case by (simp add: forward_to_client.simps silent_def)
qed (simp add: on_target_read.simps split: option.split)

lemma silent_step: "silent px \<Longrightarrow> silent (proxy_step e px)"
  by (cases e) (auto simp: on_client_disconnect_def handle_websocket_upgrade_def proxy_lookup_def
      proxy_run_task_def connect_to_target_def on_target_connected_def send_handshake_def
      on_websocket_message_def forward_to_target_def Let_def silent_read
      split: option.split list.split proxy_task.split connect_answer.split write_answer.split)

interpretation silent_relay: invariant_system new_proxy proxy_step silent
  by unfold_locales (simp_all add: silent_step, simp add: silent_def new_proxy_def)

text \<open>
  The relay never relays anything back. Whatever targets send and however sessions
  end, no message is sent to any client and no client connection is closed.
\<close>

theorem relay_stays_silent:
  "set (px_log (run proxy_step es new_proxy)) \<inter>
     (range (\<lambda>(c, d). SentToClient c d) \<union> range ClosedClient) = {}"
  using silent_relay.inv_run [of es] by (auto simp: silent_def list_all_iff)

subsection \<open>What the target gets\<close>

text \<open>Reading a frame off a list takes two bytes of header at least.\<close>

lemma list_read_length: "list_read n bs = (Some xs, ys) \<Longrightarrow> length xs = n \<and> length ys \<le> length bs - n \<and> n \<le> length bs"
  by (auto simp: list_read_def split: if_splits)

lemma list_read_shrinks: "list_read n bs = (r, ys) \<Longrightarrow> length ys \<le> length bs"
  by (auto simp: list_read_def split: if_splits)

lemma read_payload_length:
  "length (fst (read_payload list_read opcode masked key len bs)) \<le> length bs"
  by (auto simp: read_payload_def list_read_def Let_def string_of_def split: option.split)

lemma read_body_length: "length (fst (read_body list_read opcode masked len bs)) \<le> length bs"
proof (cases "if masked then list_read 4 bs else (Some [0, 0, 0, 0], bs)")
  case (Pair r ys)
  then have "length ys \<le> length bs" by (auto split: if_splits dest: list_read_shrinks)
  then show ?thesis
    using Pair read_payload_length [of opcode masked _ len ys]
    by (auto simp: read_body_def split: option.split intro: order_trans)
qed

lemma read_length_shrinks: "read_length list_read n bs = (r, ys) \<Longrightarrow> length ys \<le> length bs"
  by (auto simp: read_length_def split: if_splits option.splits prod.splits dest: list_read_shrinks)

lemma read_frame_shorter:
  assumes "bs \<noteq> []"
  shows "length (fst (read_frame list_read bs)) < length bs"
proof (cases "list_read 2 bs")
  case (Pair r ys)
  show ?thesis
  proof (cases r)
    case None
    then show ?thesis using Pair assms by (simp add: read_frame_def)
  next
    case (Some header)
    then have ys: "length ys < length bs" using list_read_length [of 2 bs header ys] Pair by fastforce
    obtain l zs where l: "read_length list_read (unat ((header ! 1) AND 0x7F)) ys = (l, zs)" by fastforce
    have "length zs \<le> length ys" using read_length_shrinks [OF l] .
    then have "length (fst (read_body list_read opcode masked len zs)) < length bs" for opcode masked len
      using read_body_length [of opcode masked len zs] ys by linarith
    then show ?thesis using Pair Some l assms
      by (auto simp: read_frame_def Let_def split: option.split)
  qed
qed

text \<open>
  What a client sends reaches the target without its frame. Once the handshake is done a
  message is written to the target as it is, and the reader of frames, on the target's side of that
  socket, does not read it back.
\<close>

theorem messages_lose_their_frames:
  assumes "get_session px c = Some s" "ss_handshake_complete s" "ss_socket s" "data \<noteq> []"
  shows "px_log (on_websocket_message (Wrote (length data)) c data px) = px_log px @ [WroteToTarget c data] \<and>
         fst (read_frame list_read (bytes_of data)) \<noteq> data"
  using assms read_frame_shorter [of "bytes_of data"]
  by (auto simp: on_websocket_message_def forward_to_target_def bytes_of_def)

definition relaying :: proxy where
  "relaying = put_session 4 \<lparr>ss_client = 4, ss_socket = True, ss_subpath = [], ss_handshake_complete = True,
     ss_connecting = False, ss_reading = True\<rparr> new_proxy"

theorem messages_lose_their_frames_witness:
  "px_log (on_websocket_message (Wrote (length ''{}'')) 4 ''{}'' relaying) = [WroteToTarget 4 ''{}''] \<and>
   fst (read_frame list_read (bytes_of ''{}'')) \<noteq> ''{}''"
proof -
  have log: "px_log relaying = []" by (simp add: relaying_def new_proxy_def)
  have s: "get_session relaying 4 = Some \<lparr>ss_client = 4, ss_socket = True, ss_subpath = [],
     ss_handshake_complete = True, ss_connecting = False, ss_reading = True\<rparr>"
    by (simp add: relaying_def)
  show ?thesis
    using messages_lose_their_frames [OF s _ _, of "''{}''"] unfolding log append_Nil by (simp only: session.simps list.distinct(2) not_False_eq_True True_implies_equals)
qed

subsection \<open>With a server\<close>

lemma read_busy:
  "px_server px \<Longrightarrow> get_session px c = Some s \<Longrightarrow> \<not> ss_reading s \<Longrightarrow>
     (let px = start_target_read answers c px in
        px_violated px \<or> get_session px c = None \<or> (\<exists>s. get_session px c = Some s \<and> ss_reading s))"
  "px_server px \<Longrightarrow> get_session px c = Some s \<Longrightarrow> \<not> ss_reading s \<Longrightarrow>
     (let px = on_target_read answers c a px in
        px_violated px \<or> get_session px c = None \<or> (\<exists>s. get_session px c = Some s \<and> ss_reading s))"
  "px_server px \<Longrightarrow> get_session px c = Some s \<Longrightarrow> \<not> ss_reading s \<Longrightarrow>
     (let px = forward_to_client answers c data px in
        px_violated px \<or> get_session px c = None \<or> (\<exists>s. get_session px c = Some s \<and> ss_reading s))"
proof (induction answers c px and answers c a px and answers c data px arbitrary: s and s and s
    rule: start_target_read_on_target_read_forward_to_client.induct)
  case (1 answers c px)
  then show ?case by (auto simp: start_target_read.simps Let_def split: list.split)
next
  case (3 answers c data px)
  show ?case
  proof (cases "data = [] \<or> \<not> ss_handshake_complete s \<and> str_find ''101 Switching Protocols'' data = None")
    case True
    then show ?thesis using 3(8-10) 3(6)
      by (auto simp: on_target_read.simps Let_def)
  next
    case False
    note now = False
    let ?left = "case str_find (crlf @ crlf) data of Some header_end \<Rightarrow> drop (header_end + 4) data | None \<Rightarrow> []"
    show ?thesis
    proof (cases "ss_handshake_complete s \<or> ?left = []")
      case True
      then show ?thesis using 3(8-10) 3(5, 7) now
        by (auto simp: on_target_read.simps Let_def)
    next
      case False
      then show ?thesis using 3(8-10) now
        by (auto simp: on_target_read.simps Let_def start_target_read.simps split: option.split)
    qed
  qed
qed (auto simp: on_target_read.simps forward_to_client.simps Let_def)

text \<open>
  Were the server of the relay set, the first bytes after the handshake would break it. When
  the piece that completes the handshake carries more than the headers, forwarding the rest starts
  a read, and the code then starts another one, on a session that is reading already or is gone.
\<close>

theorem leftover_reads_twice:
  assumes "px_server px" "get_session px c = Some s" "\<not> ss_handshake_complete s" "\<not> ss_reading s"
    "str_find ''101 Switching Protocols'' data \<noteq> None"
    "str_find (crlf @ crlf) data = Some header_end" "drop (header_end + 4) data \<noteq> []"
  shows "px_violated (on_target_read answers c (ReadBytes data) px)"
proof -
  have ne: "data \<noteq> []" using assms(7) by auto
  let ?px = "put_session c (s\<lparr>ss_handshake_complete := True\<rparr>) px"
  let ?p = "forward_to_client answers c (drop (header_end + 4) data) ?px"
  have eq: "on_target_read answers c (ReadBytes data) px = start_target_read [] c ?p"
    using assms ne by (simp add: on_target_read.simps)
  have busy: "px_violated ?p \<or> get_session ?p c = None \<or> (\<exists>s. get_session ?p c = Some s \<and> ss_reading s)"
    using read_busy(3) [of ?px c] assms(1, 4) by (simp add: Let_def)
  have keep: "px_violated q \<Longrightarrow> px_violated (start_target_read [] c q)" for q
    by (auto simp: start_target_read.simps split: option.split)
  from busy show ?thesis
  proof (elim disjE)
    assume "px_violated ?p"
    then show ?thesis unfolding eq by (rule keep)
  qed (auto simp: eq start_target_read.simps)
qed

theorem leftover_reads_twice_witness:
  "px_violated (on_target_read [] 4 (ReadBytes (''101 Switching Protocols'' @ crlf @ crlf @ ''x''))
     (put_session 4 \<lparr>ss_client = 4, ss_socket = True, ss_subpath = [], ss_handshake_complete = False,
        ss_connecting = False, ss_reading = False\<rparr> (set_server new_proxy)))"
  by (rule leftover_reads_twice [where header_end = 23 and s = "\<lparr>ss_client = 4, ss_socket = True,
        ss_subpath = [], ss_handshake_complete = False, ss_connecting = False, ss_reading = False\<rparr>"])
    (simp_all add: set_server_def new_proxy_def crlf_def)

end
