(* ===== verification/Api_Handler.thy ===== *)
theory Api_Handler
  imports Cdp_Proxy Workspace_Store "HOL-Library.Multiset"
begin

text \<open>
  The REST API, \<open>browser/api/workspace_api_handler.{h,cc}\<close>. Requests arrive on the API thread, where
  they are dispatched; the store and the launcher live on the UI thread, so a handler posts a task
  there, which posts the answer back. Both queues are part of the state. Tasks of the UI queue may
  be run in any order (some are posted with a delay), tasks of the API queue in the order they were
  posted. What the generators, the clock and the operating system answer are arguments of the
  tasks that ask. A response is kept as the connection, the status and the text that are sent.
\<close>

subsection \<open>Requests and parameters\<close>

record request =
  rq_method :: string
  rq_path :: string
  rq_data :: string
  rq_headers :: "(string, string) omap"

text \<open>
  The functions of the base library the handler uses: JSON text, calendar, script escapes,
  \<open>SplitString\<close> at slashes and \<open>StringToInt\<close> (its result when it succeeds).
\<close>

record lib =
  lb_js :: js_lib
  lb_json :: json_lib
  lb_time :: time_lib
  lb_split :: "string \<Rightarrow> string list"
  lb_to_int :: "string \<Rightarrow> int option"

definition parse_path :: "(string \<Rightarrow> string list) \<Rightarrow> string \<Rightarrow> string list" where
  "parse_path split path =
     (let p = (case path of [] \<Rightarrow> [] | ch # rest \<Rightarrow> if ch = CHR ''/'' then rest else path)
      in if p = [] then [] else split p)"

definition parse_json_body :: "json_lib \<Rightarrow> string \<Rightarrow> dict" where
  "parse_json_body jl body =
     (if body = [] then []
      else case json_read jl body of
             None \<Rightarrow> []
           | Some v \<Rightarrow> (case as_dict v of None \<Rightarrow> [] | Some d \<Rightarrow> d))"

definition apply_field :: "'a option \<Rightarrow> ('a \<Rightarrow> workspace \<Rightarrow> workspace) \<Rightarrow> workspace \<Rightarrow> workspace" where
  "apply_field v f w = (case v of Some x \<Rightarrow> f x w | None \<Rightarrow> w)"

definition apply_body :: "dict \<Rightarrow> workspace \<Rightarrow> workspace" where
  "apply_body body w =
     (let w = apply_field (find_string body ''name'') (\<lambda>v w. w\<lparr>ws_name := v\<rparr>) w;
          w = apply_field (find_string body ''user_agent'') (\<lambda>v w. w\<lparr>ws_user_agent := v\<rparr>) w;
          w = apply_field (find_int body ''screen_width'') (\<lambda>v w. w\<lparr>ws_screen_width := v\<rparr>) w;
          w = apply_field (find_int body ''screen_height'') (\<lambda>v w. w\<lparr>ws_screen_height := v\<rparr>) w;
          w = apply_field (find_string body ''gpu_vendor'') (\<lambda>v w. w\<lparr>ws_gpu_vendor := v\<rparr>) w;
          w = apply_field (find_string body ''gpu_renderer'') (\<lambda>v w. w\<lparr>ws_gpu_renderer := v\<rparr>) w;
          w = apply_field (find_int body ''hardware_concurrency'') (\<lambda>v w. w\<lparr>ws_hardware_concurrency := v\<rparr>) w;
          w = apply_field (find_string body ''platform'') (\<lambda>v w. w\<lparr>ws_platform := v\<rparr>) w;
          w = apply_field (find_string body ''color_scheme'') (\<lambda>v w. w\<lparr>ws_color_scheme := v\<rparr>) w;
          w = apply_field (find_string body ''proxy'') (\<lambda>v w. w\<lparr>ws_proxy := v\<rparr>) w;
          w = apply_field (find_string body ''timezone'') (\<lambda>v w. w\<lparr>ws_timezone := v\<rparr>) w;
          w = apply_field (find_string body ''locale'') (\<lambda>v w. w\<lparr>ws_locale := v\<rparr>) w;
          w = apply_field (find_bool body ''geoip'') (\<lambda>v w. w\<lparr>ws_geoip := v\<rparr>) w;
          w = apply_field (find_string body ''default_tab_title'') (\<lambda>v w. w\<lparr>ws_default_tab_title := v\<rparr>) w;
          w = apply_field (find_string body ''notes'') (\<lambda>v w. w\<lparr>ws_notes := v\<rparr>) w;
          w = apply_field (find_bool body ''humanize'') (\<lambda>v w. w\<lparr>ws_humanize := v\<rparr>) w;
          w = apply_field (find_string body ''human_preset'') (\<lambda>v w. w\<lparr>ws_human_preset := v\<rparr>) w;
          w = apply_field (find_bool body ''headless'') (\<lambda>v w. w\<lparr>ws_headless := v\<rparr>) w;
          w = apply_field (find_bool body ''clipboard_sync'') (\<lambda>v w. w\<lparr>ws_clipboard_sync := v\<rparr>) w;
          w = apply_field (find_bool body ''auto_launch'') (\<lambda>v w. w\<lparr>ws_auto_launch := v\<rparr>) w;
          w = apply_field (find_int body ''color'') (\<lambda>v w. w\<lparr>ws_color := word_of_int v\<rparr>) w
      in w)"

subsection \<open>State\<close>

datatype ui_task =
    GetAllTask int
  | CreateTask int string wtype dict
  | GetTask int string
  | UpdateTask int string dict
  | DeleteTask int string
  | LaunchTask int string
  | StopTask int string
  | StatusTask int string
  | SystemTask int
  | CdpTask int string string string
  | CdpRetryTask int string string string
  | ExportTask int
  | ImportTask int "jval list"

datatype api_task =
    RespondList int "dict list"
  | RespondWorkspace int "dict option"
  | RespondStatus int bool dict
  | RespondData int jval
  | RetryCdp int string string string
  | NotRunning int
  | ForwardCdp bool int int string

datatype response = Response (rs_connection: int) (rs_status: int) (rs_text: string)

record api =
  ap_token :: string
  ap_server :: bool
  ap_store :: store
  ap_manager :: manager
  ap_proxy :: proxy
  ap_launches :: "int list"
  ap_ui :: "ui_task list"
  ap_tasks :: "api_task list"
  ap_out :: "response list"
  ap_accepted :: "int list"

text \<open>The constructor, followed by \<open>set_server\<close> as the API server calls it.\<close>

definition new_api :: "store \<Rightarrow> manager \<Rightarrow> string \<Rightarrow> api" where
  "new_api st mg token = \<lparr>ap_token = token, ap_server = True, ap_store = st, ap_manager = mg,
     ap_proxy = new_proxy, ap_launches = [], ap_ui = [], ap_tasks = [], ap_out = [], ap_accepted = []\<rparr>"

definition post_ui :: "ui_task \<Rightarrow> api \<Rightarrow> api" where
  "post_ui t api = api\<lparr>ap_ui := ap_ui api @ [t]\<rparr>"

definition post_api :: "api_task \<Rightarrow> api \<Rightarrow> api" where
  "post_api t api = api\<lparr>ap_tasks := ap_tasks api @ [t]\<rparr>"

subsection \<open>Responses\<close>

abbreviation (input) "HTTP_OK \<equiv> 200"
abbreviation (input) "HTTP_BAD_REQUEST \<equiv> 400"
abbreviation (input) "HTTP_UNAUTHORIZED \<equiv> 401"
abbreviation (input) "HTTP_NOT_FOUND \<equiv> 404"
abbreviation (input) "HTTP_INTERNAL_SERVER_ERROR \<equiv> 500"
abbreviation (input) "HTTP_BAD_GATEWAY \<equiv> 502"

definition send_json :: "lib \<Rightarrow> int \<Rightarrow> int \<Rightarrow> jval \<Rightarrow> api \<Rightarrow> api" where
  "send_json lib c status response api =
     (if \<not> ap_server api then api
      else api\<lparr>ap_out := ap_out api @
             [Response c status (value_or (json_write (lb_json lib) response) [])]\<rparr>)"

definition error_value :: "string \<Rightarrow> string \<Rightarrow> jval" where
  "error_value code message =
     (let error_detail = dict_set ''message'' (JString message) (dict_set ''code'' (JString code) []);
          error = dict_set ''error'' (JDict error_detail) (dict_set ''success'' (JBool False) [])
      in JDict error)"

definition send_error :: "lib \<Rightarrow> int \<Rightarrow> int \<Rightarrow> string \<Rightarrow> string \<Rightarrow> api \<Rightarrow> api" where
  "send_error lib c status code message api = send_json lib c status (error_value code message) api"

text \<open>\<open>{"success": true, "data": ...}\<close>, as several handlers build it.\<close>

definition data_value :: "jval \<Rightarrow> jval" where
  "data_value data = JDict (dict_set ''data'' data (dict_set ''success'' (JBool True) []))"

definition send_success :: "lib \<Rightarrow> int \<Rightarrow> jval \<Rightarrow> int \<Rightarrow> api \<Rightarrow> api" where
  "send_success lib c data status api = send_json lib c status (data_value data) api"

definition respond_with_workspace_list :: "lib \<Rightarrow> int \<Rightarrow> dict list \<Rightarrow> api \<Rightarrow> api" where
  "respond_with_workspace_list lib c workspaces api =
     send_json lib c HTTP_OK (data_value (JList (map JDict workspaces))) api"

definition respond_with_workspace :: "lib \<Rightarrow> int \<Rightarrow> dict option \<Rightarrow> api \<Rightarrow> api" where
  "respond_with_workspace lib c ws api =
     (case ws of
        None \<Rightarrow> send_error lib c HTTP_NOT_FOUND ''NOT_FOUND'' ''Workspace not found'' api
      | Some d \<Rightarrow> send_json lib c HTTP_OK (data_value (JDict d)) api)"

definition respond_with_status :: "lib \<Rightarrow> int \<Rightarrow> bool \<Rightarrow> dict \<Rightarrow> api \<Rightarrow> api" where
  "respond_with_status lib c success data api =
     send_json lib c (if success then HTTP_OK else HTTP_BAD_REQUEST)
       (JDict (dict_set ''success'' (JBool success) data)) api"

subsection \<open>Handlers, on the API thread\<close>

definition handle_create_workspace :: "lib \<Rightarrow> int \<Rightarrow> dict \<Rightarrow> api \<Rightarrow> api" where
  "handle_create_workspace lib c body api =
     (case find_string body ''name'' of
        None \<Rightarrow> send_error lib c HTTP_BAD_REQUEST ''INVALID_REQUEST'' ''Missing required field: name'' api
      | Some name \<Rightarrow>
          if name = []
          then send_error lib c HTTP_BAD_REQUEST ''INVALID_REQUEST'' ''Missing required field: name'' api
          else let type_str = value_or (find_string body ''type'') ''normal''
               in post_ui (CreateTask c name (string_to_type type_str) body) api)"

definition handle_import_workspaces :: "lib \<Rightarrow> int \<Rightarrow> string \<Rightarrow> api \<Rightarrow> api" where
  "handle_import_workspaces lib c body api =
     (case Option.bind (json_read (lb_json lib) body) as_list of
        None \<Rightarrow> send_json lib c HTTP_BAD_REQUEST
                 (error_value ''INVALID_REQUEST'' ''Request body must be a JSON array of workspaces'') api
      | Some items \<Rightarrow> post_ui (ImportTask c items) api)"

definition subpath_of :: "string list \<Rightarrow> string" where
  "subpath_of segments = concat (map (\<lambda>s. ''/'' @ s) (drop 4 segments))"

definition authorized :: "string \<Rightarrow> request \<Rightarrow> bool" where
  "authorized token info =
     (token = [] \<or> map_of (rq_headers info) ''Authorization'' = Some (''Bearer '' @ token))"

subsection \<open>Dispatch\<close>

definition dispatch_workspace :: "lib \<Rightarrow> int \<Rightarrow> request \<Rightarrow> string list \<Rightarrow> string \<Rightarrow> api \<Rightarrow> api" where
  "dispatch_workspace lib c info segments i api =
     (if length segments = 3 \<and> rq_method info = ''GET'' then post_ui (GetTask c i) api
      else if length segments = 3 \<and> rq_method info = ''PUT''
      then post_ui (UpdateTask c i (parse_json_body (lb_json lib) (rq_data info))) api
      else if length segments = 3 \<and> rq_method info = ''DELETE'' then post_ui (DeleteTask c i) api
      else if length segments = 4 \<and> segments ! 3 = ''launch'' \<and> rq_method info = ''POST''
      then post_ui (LaunchTask c i) api
      else if length segments = 4 \<and> segments ! 3 = ''stop'' \<and> rq_method info = ''POST''
      then post_ui (StopTask c i) api
      else if length segments = 4 \<and> segments ! 3 = ''status'' \<and> rq_method info = ''GET''
      then post_ui (StatusTask c i) api
      else if length segments = 3 \<and> segments ! 2 = ''export'' \<and> rq_method info = ''GET''
      then post_ui (ExportTask c) api
      else if length segments = 3 \<and> segments ! 2 = ''import'' \<and> rq_method info = ''POST''
      then handle_import_workspaces lib c (rq_data info) api
      else if length segments \<ge> 4 \<and> segments ! 3 = ''cdp''
      then post_ui (CdpTask c i (subpath_of segments) (rq_method info)) api
      else send_error lib c HTTP_NOT_FOUND ''NOT_FOUND'' (''No route matches '' @ rq_path info) api)"

definition dispatch_segments :: "lib \<Rightarrow> int \<Rightarrow> request \<Rightarrow> string list \<Rightarrow> api \<Rightarrow> api" where
  "dispatch_segments lib c info segments api =
     (if segments = [] then send_error lib c HTTP_NOT_FOUND ''NOT_FOUND'' ''No route matches'' api
      else if segments ! 0 \<noteq> ''api''
      then send_error lib c HTTP_NOT_FOUND ''NOT_FOUND'' ''Unknown API endpoint'' api
      else if length segments = 2 \<and> segments ! 1 = ''status'' \<and> rq_method info = ''GET''
      then post_ui (SystemTask c) api
      else if length segments \<ge> 2 \<and> segments ! 1 = ''workspaces'' then
        (if length segments = 2 \<and> rq_method info = ''GET'' then post_ui (GetAllTask c) api
         else if length segments = 2 \<and> rq_method info = ''POST''
         then handle_create_workspace lib c (parse_json_body (lb_json lib) (rq_data info)) api
         else if length segments \<ge> 3 then dispatch_workspace lib c info segments (segments ! 2) api
         else send_error lib c HTTP_NOT_FOUND ''NOT_FOUND'' (''No route matches '' @ rq_path info) api)
      else send_error lib c HTTP_NOT_FOUND ''NOT_FOUND'' (''No route matches '' @ rq_path info) api)"

definition dispatch_request :: "lib \<Rightarrow> int \<Rightarrow> request \<Rightarrow> api \<Rightarrow> api" where
  "dispatch_request lib c info api =
     (if \<not> authorized (ap_token api) info
      then send_error lib c HTTP_UNAUTHORIZED ''UNAUTHORIZED''
             ''Missing or invalid Authorization: Bearer token'' api
      else dispatch_segments lib c info (parse_path (lb_split lib) (rq_path info)) api)"

definition on_http_request :: "lib \<Rightarrow> int \<Rightarrow> request \<Rightarrow> api \<Rightarrow> api" where
  "on_http_request lib c info api = dispatch_request lib c info api"

text \<open>WebSocket upgrades are accepted before the relay is asked.\<close>

definition cdp_route :: "string list \<Rightarrow> bool" where
  "cdp_route segments = (length segments \<ge> 4 \<and> segments ! 0 = ''api'' \<and>
     segments ! 1 = ''workspaces'' \<and> segments ! 3 = ''cdp'')"

definition on_websocket_request :: "lib \<Rightarrow> int \<Rightarrow> request \<Rightarrow> api \<Rightarrow> api" where
  "on_websocket_request lib c info api =
     (let segments = parse_path (lb_split lib) (rq_path info) in
      if cdp_route segments
      then let api = (if ap_server api then api\<lparr>ap_accepted := ap_accepted api @ [c]\<rparr> else api)
           in api\<lparr>ap_proxy := handle_websocket_upgrade c (segments ! 2) (subpath_of segments) (ap_proxy api)\<rparr>
      else send_error lib c HTTP_NOT_FOUND ''NOT_FOUND'' ''WebSocket endpoint not found'' api)"

subsection \<open>Tasks, on the UI thread\<close>

text \<open>
  What the generators and the clock answer while one task runs (the ids, one after the other), and
  the temporary directory and free ports for a launch.
\<close>

record ui_env =
  ev_ids :: "nat \<Rightarrow> string"
  ev_seeds :: "nat \<Rightarrow> int"
  ev_now :: int
  ev_temp :: "string option"
  ev_can_bind :: "int \<Rightarrow> bool"

definition ui_get_all :: "lib \<Rightarrow> int \<Rightarrow> api \<Rightarrow> api" where
  "ui_get_all lib c api =
     post_api (RespondList c (map (workspace_to_dict (lb_time lib)) (get_all_workspaces (ap_store api)))) api"

definition ui_create :: "lib \<Rightarrow> ui_env \<Rightarrow> int \<Rightarrow> string \<Rightarrow> wtype \<Rightarrow> dict \<Rightarrow> api \<Rightarrow> api" where
  "ui_create lib ev c name type body api =
     (let ws = create_basic (ev_ids ev 0) (ev_seeds ev 0) (ev_now ev) name type;
          ws = apply_body body ws;
          (ws, st) = create_workspace (lb_time lib) (ev_ids ev 1) (ev_seeds ev 1) (ev_now ev) ws (ap_store api)
      in post_api (RespondWorkspace c (Some (workspace_to_dict (lb_time lib) ws))) (api\<lparr>ap_store := st\<rparr>))"

definition ui_get :: "lib \<Rightarrow> int \<Rightarrow> string \<Rightarrow> api \<Rightarrow> api" where
  "ui_get lib c i api =
     post_api (RespondWorkspace c
       (map_option (workspace_to_dict (lb_time lib)) (get_workspace (ap_store api) i))) api"

definition ui_update :: "lib \<Rightarrow> ui_env \<Rightarrow> int \<Rightarrow> string \<Rightarrow> dict \<Rightarrow> api \<Rightarrow> api" where
  "ui_update lib ev c i body api =
     (case get_workspace (ap_store api) i of
        None \<Rightarrow> post_api (RespondWorkspace c None) api
      | Some existing \<Rightarrow>
          let ws = apply_body body existing;
              (success, st) = update_workspace (lb_time lib) (ev_now ev) ws (ap_store api);
              result = (if success then Some (workspace_to_dict (lb_time lib) ws) else None)
          in post_api (RespondWorkspace c result) (api\<lparr>ap_store := st\<rparr>))"

definition ui_delete :: "lib \<Rightarrow> int \<Rightarrow> string \<Rightarrow> api \<Rightarrow> api" where
  "ui_delete lib c i api =
     (let (success, st) = delete_workspace (lb_time lib) i (ap_store api)
      in post_api (RespondStatus c success []) (api\<lparr>ap_store := st\<rparr>))"

text \<open>
  Operations of the launcher answer starts through their callbacks. The callback of the \<open>k\<close>-th start
  the API asked for answers the connection that is the \<open>k\<close>-th of \<open>ap_launches\<close>.
\<close>

fun start_answer :: "int list \<Rightarrow> launch_effect \<Rightarrow> api_task option" where
  "start_answer launches (StartReplied k success result) = Some (RespondStatus (launches ! k) success result)"
| "start_answer launches _ = None"

definition with_manager :: "(manager \<Rightarrow> manager) \<Rightarrow> api \<Rightarrow> api" where
  "with_manager f api =
     (let mg = f (ap_manager api);
          effects = drop (length (mg_log (ap_manager api))) (mg_log mg)
      in api\<lparr>ap_manager := mg,
             ap_tasks := ap_tasks api @ List.map_filter (start_answer (ap_launches api)) effects\<rparr>)"

definition ui_launch :: "ui_env \<Rightarrow> int \<Rightarrow> string \<Rightarrow> api \<Rightarrow> api" where
  "ui_launch ev c i api =
     (case get_workspace (ap_store api) i of
        None \<Rightarrow> post_api (RespondStatus c False []) api
      | Some ws \<Rightarrow>
          with_manager (start_workspace (ev_temp ev) (ev_can_bind ev) (ev_now ev) ws (length (ap_launches api)))
            (api\<lparr>ap_launches := ap_launches api @ [c]\<rparr>))"

definition ui_stop :: "int \<Rightarrow> string \<Rightarrow> api \<Rightarrow> api" where
  "ui_stop c i api =
     (let api = with_manager (stop_workspace i) api;
          result = dict_set ''status'' (JString ''stopped'') (dict_set ''workspace_id'' (JString i) [])
      in post_api (RespondStatus c True result) api)"

definition ui_status :: "ui_env \<Rightarrow> int \<Rightarrow> string \<Rightarrow> api \<Rightarrow> api" where
  "ui_status ev c i api =
     post_api (RespondStatus c True (get_status_dict (ev_now ev) (ap_manager api) i)) api"

definition ui_system_status :: "int \<Rightarrow> api \<Rightarrow> api" where
  "ui_system_status c api =
     (let count = running_count (ap_manager api);
          total = length (get_all_running (ap_manager api));
          data = dict_set ''status'' (JString ''running'') [];
          data = dict_set ''version'' (JString ''1.0.0'') data;
          data = dict_set ''running_workspaces'' (JInt (int count)) data;
          data = dict_set ''total_workspaces'' (JInt (int total)) data
      in post_api (RespondStatus c True data) api)"

definition forward_request :: "string \<Rightarrow> string \<Rightarrow> int \<Rightarrow> string" where
  "forward_request method subpath cdp_port =
     method @ '' '' @ subpath @ '' HTTP/1.1'' @ crlf @
     ''Host: 127.0.0.1:'' @ show_int cdp_port @ crlf @
     ''Connection: close'' @ crlf @ crlf"

definition running_port :: "manager \<Rightarrow> string \<Rightarrow> int option" where
  "running_port mg i =
     (case get_running mg i of
        None \<Rightarrow> None
      | Some r \<Rightarrow> if rw_status r \<noteq> SRunning then None else Some (rw_port r))"

definition ui_cdp :: "int \<Rightarrow> string \<Rightarrow> string \<Rightarrow> string \<Rightarrow> api \<Rightarrow> api" where
  "ui_cdp c i subpath method api =
     (case running_port (ap_manager api) i of
        None \<Rightarrow> post_api (RetryCdp c i subpath method) api
      | Some cdp_port \<Rightarrow>
          post_api (ForwardCdp False c cdp_port (forward_request method subpath cdp_port)) api)"

definition ui_cdp_retry :: "int \<Rightarrow> string \<Rightarrow> string \<Rightarrow> string \<Rightarrow> api \<Rightarrow> api" where
  "ui_cdp_retry c i subpath method api =
     (case running_port (ap_manager api) i of
        None \<Rightarrow> post_api (NotRunning c) api
      | Some cdp_port \<Rightarrow>
          post_api (ForwardCdp True c cdp_port (forward_request method subpath cdp_port)) api)"

definition ui_export :: "lib \<Rightarrow> int \<Rightarrow> api \<Rightarrow> api" where
  "ui_export lib c api =
     post_api (RespondData c (JList (map (\<lambda>w. JDict (workspace_to_dict (lb_time lib) w))
       (get_all_workspaces (ap_store api))))) api"

text \<open>The import loop: the next id, the counters and the store.\<close>

fun import_items :: "lib \<Rightarrow> ui_env \<Rightarrow> nat \<Rightarrow> jval list \<Rightarrow> int \<times> int \<times> store \<Rightarrow> int \<times> int \<times> store" where
  "import_items lib ev k [] acc = acc"
| "import_items lib ev k (item # items) (imported, skipped, st) =
     (case as_dict item of
        None \<Rightarrow> import_items lib ev k items (imported, skipped + 1, st)
      | Some dict \<Rightarrow>
          (case find_string dict ''name'' of
             None \<Rightarrow> import_items lib ev k items (imported, skipped + 1, st)
           | Some name \<Rightarrow>
               if name = [] then import_items lib ev k items (imported, skipped + 1, st)
               else let ws = (workspace_from_dict (lb_time lib) dict)\<lparr>ws_id := ev_ids ev k\<rparr>;
                        (ws, st) = create_workspace (lb_time lib) (ev_ids ev k) (ev_seeds ev k) (ev_now ev) ws st
                    in import_items lib ev (Suc k) items (imported + 1, skipped, st)))"

definition ui_import :: "lib \<Rightarrow> ui_env \<Rightarrow> int \<Rightarrow> jval list \<Rightarrow> api \<Rightarrow> api" where
  "ui_import lib ev c items api =
     (let (imported, skipped, st) = import_items lib ev 0 items (0, 0, ap_store api);
          data = dict_set ''skipped'' (JInt skipped) (dict_set ''imported'' (JInt imported) [])
      in post_api (RespondData c (JDict data)) (api\<lparr>ap_store := st\<rparr>))"

fun run_ui_task :: "lib \<Rightarrow> ui_env \<Rightarrow> ui_task \<Rightarrow> api \<Rightarrow> api" where
  "run_ui_task lib ev (GetAllTask c) api = ui_get_all lib c api"
| "run_ui_task lib ev (CreateTask c name type body) api = ui_create lib ev c name type body api"
| "run_ui_task lib ev (GetTask c i) api = ui_get lib c i api"
| "run_ui_task lib ev (UpdateTask c i body) api = ui_update lib ev c i body api"
| "run_ui_task lib ev (DeleteTask c i) api = ui_delete lib c i api"
| "run_ui_task lib ev (LaunchTask c i) api = ui_launch ev c i api"
| "run_ui_task lib ev (StopTask c i) api = ui_stop c i api"
| "run_ui_task lib ev (StatusTask c i) api = ui_status ev c i api"
| "run_ui_task lib ev (SystemTask c) api = ui_system_status c api"
| "run_ui_task lib ev (CdpTask c i subpath method) api = ui_cdp c i subpath method api"
| "run_ui_task lib ev (CdpRetryTask c i subpath method) api = ui_cdp_retry c i subpath method api"
| "run_ui_task lib ev (ExportTask c) api = ui_export lib c api"
| "run_ui_task lib ev (ImportTask c items) api = ui_import lib ev c items api"

subsection \<open>Answers, on the API thread\<close>

text \<open>
  The connection to the debugging port of the child: no socket, no connection, or a socket. The
  request is sent once, whatever part of it is accepted, and the answer read to its end.
\<close>

datatype child_answer = NoSocket | NoConnection | ChildSocket sock

function read_child :: "string \<Rightarrow> sock \<Rightarrow> string" where
  "read_child response s =
     (let (got, s') = sock_recv 4096 s in
      if got = [] then response else read_child (response @ string_of got) s')"
  by pat_completeness auto
termination by (relation "measure (\<lambda>(r, s). in_size s)") (auto intro: in_size_recv)

declare read_child.simps [simp del]

definition child_status :: "lib \<Rightarrow> string \<Rightarrow> int" where
  "child_status lib response =
     (case str_find '' '' response of
        None \<Rightarrow> HTTP_OK
      | Some space1 \<Rightarrow>
          (let after = drop (space1 + 1) response in
           case str_find '' '' after of
             None \<Rightarrow> HTTP_OK
           | Some len \<Rightarrow> value_or (lb_to_int lib (take len after)) HTTP_OK))"

definition child_body :: "string \<Rightarrow> string" where
  "child_body response =
     (case str_find (crlf @ crlf) response of
        None \<Rightarrow> response
      | Some header_end \<Rightarrow> drop (header_end + 4) response)"

definition child_value :: "json_lib \<Rightarrow> string \<Rightarrow> jval" where
  "child_value jl body =
     (let raw = JDict (dict_set ''raw'' (JString body) (dict_set ''success'' (JBool True) [])) in
      case json_read jl body of
        None \<Rightarrow> raw
      | Some v \<Rightarrow> if as_dict v \<noteq> None then data_value v
                  else if as_list v \<noteq> None then data_value v
                  else raw)"

definition retry_text :: "bool \<Rightarrow> string \<Rightarrow> string" where
  "retry_text retry msg = (if retry then msg @ '' (retry)'' else msg)"

definition forward_cdp :: "lib \<Rightarrow> bool \<Rightarrow> int \<Rightarrow> string \<Rightarrow> child_answer \<Rightarrow> api \<Rightarrow> api" where
  "forward_cdp lib retry c request answer api =
     (case answer of
        NoSocket \<Rightarrow> send_error lib c HTTP_INTERNAL_SERVER_ERROR ''PROXY_ERROR'' ''Failed to create socket'' api
      | NoConnection \<Rightarrow>
          send_error lib c HTTP_BAD_GATEWAY ''PROXY_ERROR'' (retry_text retry ''Failed to connect to child CDP'') api
      | ChildSocket s \<Rightarrow>
          let (n, s) = sock_send (bytes_of request) s;
              response = read_child [] s
          in if response = []
             then send_error lib c HTTP_BAD_GATEWAY ''PROXY_ERROR''
                    (retry_text retry ''Empty response from child CDP'') api
             else send_json lib c (child_status lib response)
                    (child_value (lb_json lib) (child_body response)) api)"

fun run_task :: "lib \<Rightarrow> child_answer \<Rightarrow> api_task \<Rightarrow> api \<Rightarrow> api" where
  "run_task lib answer (RespondList c workspaces) api = respond_with_workspace_list lib c workspaces api"
| "run_task lib answer (RespondWorkspace c ws) api = respond_with_workspace lib c ws api"
| "run_task lib answer (RespondStatus c success data) api = respond_with_status lib c success data api"
| "run_task lib answer (RespondData c data) api = send_json lib c HTTP_OK (data_value data) api"
| "run_task lib answer (RetryCdp c i subpath method) api = post_ui (CdpRetryTask c i subpath method) api"
| "run_task lib answer (NotRunning c) api =
     send_error lib c HTTP_BAD_REQUEST ''NOT_RUNNING'' ''Workspace is not running after retry'' api"
| "run_task lib answer (ForwardCdp retry c cdp_port request) api = forward_cdp lib retry c request answer api"

subsection \<open>The API as a transition system\<close>

text \<open>
  Besides requests and the two queues: the directory of the \<open>k\<close>-th start in flight is ready, the
  watchdog polls, and the relay goes on by itself (its lookups read the manager).
\<close>

datatype api_event =
    HttpRequest int request
  | WebSocketRequest int request
  | WebSocketMessage write_answer int string
  | ConnectionClosed int
  | RunUi nat ui_env
  | RunApi child_answer
  | StartReady nat "int option" int
  | WatchdogPoll "int \<Rightarrow> bool" int
  | RelayLookup
  | RelayTask connect_answer write_answer "read_answer list"
  | RelayConnected write_answer "read_answer list" int bool
  | RelayRead "read_answer list" int read_answer

definition with_proxy :: "proxy_event \<Rightarrow> api \<Rightarrow> api" where
  "with_proxy e api = api\<lparr>ap_proxy := proxy_step e (ap_proxy api)\<rparr>"

fun api_step :: "lib \<Rightarrow> api_event \<Rightarrow> api \<Rightarrow> api" where
  "api_step lib (HttpRequest c info) api = on_http_request lib c info api"
| "api_step lib (WebSocketRequest c info) api = on_websocket_request lib c info api"
| "api_step lib (WebSocketMessage w c data) api = with_proxy (PMessage w c data) api"
| "api_step lib (ConnectionClosed c) api = with_proxy (PClosed c) api"
| "api_step lib (RunUi k ev) api =
     (if k < length (ap_ui api)
      then run_ui_task lib ev (ap_ui api ! k) (api\<lparr>ap_ui := drop_nth k (ap_ui api)\<rparr>)
      else api)"
| "api_step lib (RunApi answer) api =
     (case ap_tasks api of
        [] \<Rightarrow> api
      | t # ts \<Rightarrow> run_task lib answer t (api\<lparr>ap_tasks := ts\<rparr>))"
| "api_step lib (StartReady k pid now) api =
     with_manager (start_reply (lb_js lib) (lb_json lib) k pid now) api"
| "api_step lib (WatchdogPoll exited now) api =
     with_manager (launcher_step (lb_js lib) (lb_json lib) (LPoll exited now)) api"
| "api_step lib RelayLookup api = with_proxy (PLookup (ap_manager api)) api"
| "api_step lib (RelayTask ca w answers) api = with_proxy (PTask ca w answers) api"
| "api_step lib (RelayConnected w answers c ok) api = with_proxy (PConnected w answers c ok) api"
| "api_step lib (RelayRead answers c a) api = with_proxy (PRead answers c a) api"

end
