(* ===== verification/Launch_Replies.thy ===== *)
theory Launch_Replies
  imports Launcher "HOL-Library.Multiset"
begin

text \<open>
  What the launcher promises to those who start workspaces: each start is answered once. \<open>owed\<close> are
  the callbacks of the starts in flight, \<open>replied\<close> those run by some effects. An operation that
  takes in the callbacks \<open>extra\<close> runs or still owes each callback exactly once.
\<close>

definition owed :: "manager \<Rightarrow> nat multiset" where
  "owed mg = mset (map ps_callback (mg_pending mg))"

fun reply_of :: "launch_effect \<Rightarrow> nat option" where
  "reply_of (StartReplied k success result) = Some k"
| "reply_of _ = None"

definition replied :: "launch_effect list \<Rightarrow> nat list" where
  "replied es = List.map_filter reply_of es"

lemma replied_simps [simp]:
  "replied [] = []" "replied (es @ fs) = replied es @ replied fs"
  "replied [StartReplied k b d] = [k]" "replied [Spawned p cmd] = []" "replied [Terminated p] = []"
  "replied [DeleteDir dir] = []" "replied [PrefsWritten dir txt] = []"
  by (simp_all add: replied_def List.map_filter_def)

lemma replied_map_none [simp]: "(\<And>x. reply_of (f x) = None) \<Longrightarrow> replied (map f xs) = []"
  by (induction xs) (simp_all add: replied_def List.map_filter_simps)

definition keeps :: "nat multiset \<Rightarrow> manager \<Rightarrow> manager \<Rightarrow> bool" where
  "keeps extra mg mg' =
     (\<exists>new. mg_log mg' = mg_log mg @ new \<and> owed mg' + mset (replied new) = owed mg + extra)"

named_theorems keeping "operations that keep the callbacks of the launcher"

lemma keeps_refl [keeping]: "keeps {#} mg mg"
  by (simp add: keeps_def)

lemma keeps_trans: "keeps a x y \<Longrightarrow> keeps b y z \<Longrightarrow> keeps (a + b) x z"
proof -
  assume "keeps a x y" "keeps b y z"
  then obtain n m where
    "mg_log y = mg_log x @ n" "owed y + mset (replied n) = owed x + a"
    "mg_log z = mg_log y @ m" "owed z + mset (replied m) = owed y + b"
    unfolding keeps_def by blast
  then have "mg_log z = mg_log x @ (n @ m)"
      "owed z + mset (replied (n @ m)) = owed x + (a + b)"
    by (simp_all, metis (no_types, opaque_lifting) add.assoc add.commute)
  then show ?thesis unfolding keeps_def by blast
qed

lemma keeps_then: "keeps a x y \<Longrightarrow> keeps {#} y z \<Longrightarrow> keeps a x z"
  using keeps_trans [of a x y "{#}" z] by simp

lemma keeps_log [keeping]:
  "keeps {#} mg mg' \<Longrightarrow> reply_of e = None \<Longrightarrow> keeps {#} mg (log_effect e mg')"
  by (rule keeps_then) (auto simp: keeps_def log_effect_def owed_def replied_def List.map_filter_def)

lemma keeps_notify [keeping]:
  "keeps a mg mg' \<Longrightarrow> (\<And>ob. reply_of (f ob) = None) \<Longrightarrow> keeps a mg (notify_all f mg')"
  by (rule keeps_then) (auto simp: keeps_def notify_all_def owed_def)

lemma keeps_fields [keeping]:
  "keeps a mg mg' \<Longrightarrow> keeps a mg (mg'\<lparr>mg_workspaces := x\<rparr>)"
  "keeps a mg mg' \<Longrightarrow> keeps a mg (mg'\<lparr>mg_appliers := y\<rparr>)"
  "keeps a mg mg' \<Longrightarrow> keeps a mg (mg'\<lparr>mg_watched := w\<rparr>)"
  "keeps a mg mg' \<Longrightarrow> keeps a mg (mg'\<lparr>mg_timer := b\<rparr>)"
  "keeps a mg mg' \<Longrightarrow> keeps a mg (mg'\<lparr>mg_live := l\<rparr>)"
  by (simp_all add: keeps_def owed_def)

lemma keeps_reply [keeping]: "keeps {#} mg mg' \<Longrightarrow> keeps {#k#} mg (log_effect (StartReplied k b d) mg')"
  using keeps_trans [of "{#}" mg mg' "{#k#}"]
  by (auto simp: keeps_def log_effect_def owed_def)

lemma keeps_watching [keeping]:
  "keeps a mg mg' \<Longrightarrow> keeps a mg (start_watching i mg')"
  "keeps a mg mg' \<Longrightarrow> keeps a mg (stop_watching i mg')"
  by (simp_all add: start_watching_def stop_watching_def Let_def keeping)

lemma keeps_terminate [keeping]:
  "keeps {#} mg mg' \<Longrightarrow> keeps {#} mg (terminate r mg')"
  "keeps {#} mg mg' \<Longrightarrow> keeps {#} mg (delete_dir r mg')"
  by (simp_all add: terminate_def delete_dir_def keeping split: option.split)

lemma keeps_start: "keeps {#cb#} mg (start_workspace temp can_bind now w cb mg)"
proof -
  have "keeps {#cb#} mg (start_fresh temp can_bind w cb mg)"
    by (auto simp: start_fresh_def Let_def keeping) (simp add: keeps_def owed_def)
  then show ?thesis by (auto simp: start_workspace_def keeping split: option.split)
qed

lemma keeps_continue: "keeps {#} mg mg' \<Longrightarrow> keeps {#cb#} mg (continue_start js jl pid now w dir port cb mg')"
  by (auto simp: continue_start_def Let_def intro!: keeping split: option.split)

lemma mset_drop_nth: "k < length xs \<Longrightarrow> add_mset (xs ! k) (mset (drop_nth k xs)) = mset xs"
  by (metis drop_nth_def id_take_nth_drop mset.simps(2) mset_append union_mset_add_mset_right)

lemma keeps_start_reply: "keeps {#} mg (start_reply js jl k pid now mg)"
proof (cases "k < length (mg_pending mg)")
  case True
  let ?ps = "mg_pending mg ! k"
  let ?mg = "mg\<lparr>mg_pending := drop_nth k (mg_pending mg)\<rparr>"
  let ?mg' = "start_reply js jl k pid now mg"
  have "owed ?mg + {#ps_callback ?ps#} = owed mg"
    using arg_cong [OF mset_drop_nth [OF True], of "image_mset ps_callback"] by (simp add: owed_def)
  moreover have "keeps {#ps_callback ?ps#} ?mg ?mg'"
    using True by (auto simp: start_reply_def Let_def intro!: keeps_continue keeping)
  ultimately show ?thesis by (auto simp: keeps_def)
qed (simp add: start_reply_def keeping)

lemma keeps_stop: "keeps {#} mg (stop_workspace i mg)"
  by (auto simp: stop_workspace_def Let_def intro!: keeping split: option.split)

lemma keeps_status [keeping]: "keeps {#} mg mg' \<Longrightarrow> keeps {#} mg (notify_status_changed now i s mg')"
  by (auto simp: notify_status_changed_def Let_def intro!: keeping split: option.split)

lemma keeps_check [keeping]: "keeps {#} mg mg' \<Longrightarrow> keeps {#} mg (check_process exited now i mg')"
  by (auto simp: check_process_def Let_def intro!: keeping split: option.split)

lemma keeps_poll: "keeps {#} mg (on_poll exited now mg)"
proof -
  have "keeps {#} mg mg' \<Longrightarrow> keeps {#} mg (fold (\<lambda>(i, active) mg.
      if active then check_process exited now i mg else mg) ws mg')" for ws mg'
    by (induction ws arbitrary: mg') (simp_all add: keeps_check split: prod.split)
  then show ?thesis by (simp add: on_poll_def keeps_refl)
qed

lemma keeps_poll_step: "keeps {#} mg (launcher_step js jl (LPoll exited now) mg)"
  by (simp add: keeps_poll keeps_refl)

text \<open>The same for what the callbacks stand for at the client.\<close>

lemma keeps_image:
  assumes "keeps extra mg mg'"
  obtains new where "mg_log mg' = mg_log mg @ new"
    "image_mset g (owed mg') + mset (map g (replied new)) = image_mset g (owed mg) + image_mset g extra"
    "set_mset (owed mg') \<subseteq> set_mset (owed mg) \<union> set_mset extra"
    "set (replied new) \<subseteq> set_mset (owed mg) \<union> set_mset extra"
proof -
  obtain new where log: "mg_log mg' = mg_log mg @ new"
    and cb: "owed mg' + mset (replied new) = owed mg + extra"
    using assms unfolding keeps_def by blast
  show thesis
    using arg_cong [OF cb, of "image_mset g"] arg_cong [OF cb, of set_mset] by (intro that [OF log]) auto
qed

end
