(* ===== verification/Api_Conservation.thy ===== *)
theory Api_Conservation
  imports Api_Handler Launch_Replies
begin

text \<open>
  Every request to the API is answered once. Requests are counted by connection, as multisets:
  what has been answered and what is still in flight (posted tasks, and starts whose callback
  answers a connection) is at any time what was asked. A weight of the tasks in flight bounds how
  many steps they can still take.
\<close>

subsection \<open>What is in flight\<close>

fun ui_conn :: "ui_task \<Rightarrow> int" where
  "ui_conn (GetAllTask c) = c" | "ui_conn (CreateTask c name type body) = c" | "ui_conn (GetTask c i) = c"
| "ui_conn (UpdateTask c i body) = c" | "ui_conn (DeleteTask c i) = c" | "ui_conn (LaunchTask c i) = c"
| "ui_conn (StopTask c i) = c" | "ui_conn (StatusTask c i) = c" | "ui_conn (SystemTask c) = c"
| "ui_conn (CdpTask c i subpath method) = c" | "ui_conn (CdpRetryTask c i subpath method) = c"
| "ui_conn (ExportTask c) = c" | "ui_conn (ImportTask c items) = c"

fun api_conn :: "api_task \<Rightarrow> int" where
  "api_conn (RespondList c ds) = c" | "api_conn (RespondWorkspace c d) = c"
| "api_conn (RespondStatus c b d) = c" | "api_conn (RespondData c v) = c"
| "api_conn (RetryCdp c i subpath method) = c" | "api_conn (NotRunning c) = c"
| "api_conn (ForwardCdp retry c p r) = c"

definition responded :: "api \<Rightarrow> int multiset" where
  "responded api = mset (map rs_connection (ap_out api))"

definition in_flight :: "api \<Rightarrow> int multiset" where
  "in_flight api = mset (map ui_conn (ap_ui api)) + mset (map api_conn (ap_tasks api)) +
     image_mset (nth (ap_launches api)) (owed (ap_manager api))"

definition settled :: "api \<Rightarrow> int multiset" where
  "settled api = responded api + in_flight api"

text \<open>The connections an event asks an answer for.\<close>

fun asks :: "lib \<Rightarrow> api_event \<Rightarrow> int multiset" where
  "asks lib (HttpRequest c info) = {#c#}"
| "asks lib (WebSocketRequest c info) =
     (if cdp_route (parse_path (lb_split lib) (rq_path info)) then {#} else {#c#})"
| "asks lib _ = {#}"

text \<open>Callbacks of the launcher are ones the API gave it, and the server is set.\<close>

definition api_ok :: "api \<Rightarrow> bool" where
  "api_ok api = (ap_server api \<and> (\<forall>k\<in>#owed (ap_manager api). k < length (ap_launches api)))"

named_theorems settling "how operations move requests towards their answers"

lemma send_json_settles [settling]:
  assumes "api_ok api"
  shows "settled (send_json lib c status v api) = add_mset c (settled api)" "api_ok (send_json lib c status v api)"
  using assms by (auto simp: send_json_def api_ok_def settled_def responded_def in_flight_def)

lemma post_settles [settling]:
  "settled (post_ui t api) = add_mset (ui_conn t) (settled api)" "api_ok (post_ui t api) = api_ok api"
  "settled (post_api u api) = add_mset (api_conn u) (settled api)" "api_ok (post_api u api) = api_ok api"
  by (auto simp: post_ui_def post_api_def api_ok_def settled_def responded_def in_flight_def)

lemma store_settles [settling]:
  "settled (api\<lparr>ap_store := st\<rparr>) = settled api" "api_ok (api\<lparr>ap_store := st\<rparr>) = api_ok api"
  "settled (api\<lparr>ap_proxy := px\<rparr>) = settled api" "api_ok (api\<lparr>ap_proxy := px\<rparr>) = api_ok api"
  "settled (api\<lparr>ap_accepted := cs\<rparr>) = settled api" "api_ok (api\<lparr>ap_accepted := cs\<rparr>) = api_ok api"
  by (auto simp: api_ok_def settled_def responded_def in_flight_def)

lemma send_error_settles [settling]:
  assumes "api_ok api"
  shows "settled (send_error lib c status code msg api) = add_mset c (settled api)"
    "api_ok (send_error lib c status code msg api)"
  using send_json_settles [OF assms] by (simp_all add: send_error_def)

lemma map_start_answers:
  "map api_conn (List.map_filter (start_answer launches) es) = map (nth launches) (replied es)"
proof (induction es)
  case (Cons e es)
  then show ?case by (cases e) (simp_all add: replied_def List.map_filter_simps)
qed (simp add: replied_def List.map_filter_simps)

lemma with_manager_settles:
  assumes keep: "keeps extra (ap_manager api) (f (ap_manager api))"
    and ok: "api_ok api" "\<forall>k\<in>#extra. k < length (ap_launches api)"
  shows "settled (with_manager f api) = settled api + image_mset (nth (ap_launches api)) extra"
    "api_ok (with_manager f api)"
proof -
  let ?mg = "ap_manager api" and ?L = "ap_launches api"
  obtain new where log: "mg_log (f ?mg) = mg_log ?mg @ new"
    and img: "image_mset (nth ?L) (owed (f ?mg)) + mset (map (nth ?L) (replied new)) =
      image_mset (nth ?L) (owed ?mg) + image_mset (nth ?L) extra"
    and sub: "set_mset (owed (f ?mg)) \<subseteq> set_mset (owed ?mg) \<union> set_mset extra"
    using keeps_image [OF keep] by metis
  have tasks: "ap_tasks (with_manager f api) = ap_tasks api @ List.map_filter (start_answer ?L) new"
    by (simp add: with_manager_def log Let_def)
  from img have "in_flight (with_manager f api) = in_flight api + image_mset (nth ?L) extra"
    unfolding in_flight_def tasks map_append map_start_answers mset_append
    by (simp add: with_manager_def Let_def add.assoc) (simp add: add.commute)
  then show "settled (with_manager f api) = settled api + image_mset (nth ?L) extra"
    by (simp add: settled_def responded_def with_manager_def Let_def)
  show "api_ok (with_manager f api)"
    using ok sub by (auto simp: api_ok_def with_manager_def Let_def)
qed

lemma launch_settles:
  assumes "api_ok api"
  shows "settled (ui_launch ev c i api) = add_mset c (settled api)" "api_ok (ui_launch ev c i api)"
proof -
  let ?k = "length (ap_launches api)"
  let ?api = "api\<lparr>ap_launches := ap_launches api @ [c]\<rparr>"
  have img: "image_mset (nth (ap_launches api @ [c])) (owed (ap_manager api)) =
      image_mset (nth (ap_launches api)) (owed (ap_manager api))"
    using assms by (intro image_mset_cong) (auto simp: api_ok_def nth_append)
  have ok: "api_ok ?api" using assms by (auto simp: api_ok_def intro: less_SucI)
  have same: "settled ?api = settled api"
    using img by (simp add: settled_def responded_def in_flight_def)
  note go = with_manager_settles [where extra = "{#?k#}" and api = ?api, OF _ ok]
  have "settled (with_manager (start_workspace t b n ws ?k) ?api) = add_mset c (settled api)"
    "api_ok (with_manager (start_workspace t b n ws ?k) ?api)" for t b n ws
    using go [of "start_workspace t b n ws ?k"] by (simp_all add: keeps_start same)
  then show "settled (ui_launch ev c i api) = add_mset c (settled api)" "api_ok (ui_launch ev c i api)"
    using assms by (auto simp: ui_launch_def settling split: option.split)
qed

lemma manager_settles:
  assumes "\<And>mg. keeps {#} mg (f mg)" "api_ok api"
  shows "settled (with_manager f api) = settled api" "api_ok (with_manager f api)"
  using with_manager_settles [where extra = "{#}" and api = api and f = f] assms by simp_all

lemma ui_task_settles:
  assumes "api_ok api"
  shows "settled (run_ui_task lib ev t api) = add_mset (ui_conn t) (settled api)" "api_ok (run_ui_task lib ev t api)"
  using assms
  by (cases t; auto simp: ui_get_all_def ui_create_def ui_get_def ui_update_def ui_delete_def ui_stop_def
      ui_status_def ui_system_status_def ui_cdp_def ui_cdp_retry_def ui_export_def ui_import_def Let_def
      settling launch_settles manager_settles keeps_stop split: option.split prod.split)+

lemma task_settles:
  assumes "api_ok api"
  shows "settled (run_task lib answer t api) = add_mset (api_conn t) (settled api)" "api_ok (run_task lib answer t api)"
  using assms
  by (cases t; auto simp: respond_with_workspace_list_def respond_with_workspace_def respond_with_status_def
      forward_cdp_def Let_def settling split: option.split child_answer.split prod.split)+

lemma dispatch_settles:
  assumes "api_ok api"
  shows "settled (dispatch_request lib c info api) = add_mset c (settled api)" "api_ok (dispatch_request lib c info api)"
  using assms
  by (auto simp: dispatch_request_def dispatch_segments_def dispatch_workspace_def handle_create_workspace_def
      handle_import_workspaces_def Let_def settling split: option.split)

lemma queue_settles:
  assumes "api_ok api"
  shows "k < length (ap_ui api) \<Longrightarrow>
      add_mset (ui_conn (ap_ui api ! k)) (settled (api\<lparr>ap_ui := drop_nth k (ap_ui api)\<rparr>)) = settled api"
    "api_ok (api\<lparr>ap_ui := drop_nth k (ap_ui api)\<rparr>)"
    "ap_tasks api = t # ts \<Longrightarrow> add_mset (api_conn t) (settled (api\<lparr>ap_tasks := ts\<rparr>)) = settled api"
    "api_ok (api\<lparr>ap_tasks := ts\<rparr>)"
proof -
  assume "k < length (ap_ui api)"
  from arg_cong [OF mset_drop_nth [OF this], of "image_mset ui_conn"]
  show "add_mset (ui_conn (ap_ui api ! k)) (settled (api\<lparr>ap_ui := drop_nth k (ap_ui api)\<rparr>)) = settled api"
    by (simp add: settled_def responded_def in_flight_def)
qed (use assms in \<open>auto simp: settled_def responded_def in_flight_def api_ok_def\<close>)

lemma websocket_settles:
  assumes "api_ok api"
  shows "settled (on_websocket_request lib c info api) = asks lib (WebSocketRequest c info) + settled api"
    "api_ok (on_websocket_request lib c info api)"
  using assms by (auto simp: on_websocket_request_def Let_def settling)

lemma step_settles:
  assumes "api_ok api"
  shows "settled (api_step lib e api) = asks lib e + settled api \<and> api_ok (api_step lib e api)"
proof (cases e)
  case (RunUi k ev)
  then show ?thesis
    using assms queue_settles [OF assms] ui_task_settles [OF queue_settles(2) [OF assms]] by simp
next
  case (RunApi a)
  then show ?thesis
    using assms queue_settles [OF assms] task_settles [OF queue_settles(4) [OF assms]]
    by (simp split: list.split)
next
  case (WatchdogPoll exited now)
  have "keeps {#} mg (launcher_step (lb_js lib) (lb_json lib) (LPoll exited now) mg)" for mg
    by (rule keeps_poll_step)
  then show ?thesis using manager_settles [OF _ assms] WatchdogPoll by simp
qed (use assms dispatch_settles websocket_settles manager_settles [OF keeps_start_reply] in
    \<open>simp_all add: on_http_request_def with_proxy_def settling\<close>)

lemma run_settles:
  "api_ok api \<Longrightarrow> settled (run (api_step lib) es api) = sum_list (map (asks lib) es) + settled api \<and>
     api_ok (run (api_step lib) es api)"
proof (induction es arbitrary: api)
  case (Cons e es)
  show ?case using Cons.IH [of "api_step lib e api"] step_settles [OF Cons.prems, of lib e]
    by (simp add: add.assoc add.left_commute)
qed simp

text \<open>
  C3 (invariant): every request is answered exactly once or still in flight, at every moment of every
  run and for every connection: the connections answered so far and those with a task posted or a
  start in flight are together, counted with multiplicity, the connections that asked.
\<close>

theorem answered_or_in_flight:
  "let api = run (api_step lib) es (new_api st new_manager token) in
     responded api + in_flight api = sum_list (map (asks lib) es)"
proof -
  have "settled (new_api st new_manager token) = {#}" "api_ok (new_api st new_manager token)"
    by (simp_all add: settled_def responded_def in_flight_def new_api_def owed_def new_manager_def api_ok_def)
  then show ?thesis
    using run_settles [of "new_api st new_manager token" lib es] by (simp add: settled_def Let_def)
qed

subsection \<open>The steps end\<close>

fun ui_weight :: "ui_task \<Rightarrow> nat" where
  "ui_weight (CdpTask c i subpath method) = 4"
| "ui_weight (LaunchTask c i) = 3"
| "ui_weight _ = 2"

fun api_weight :: "api_task \<Rightarrow> nat" where
  "api_weight (RetryCdp c i subpath method) = 3"
| "api_weight _ = 1"

definition work :: "api \<Rightarrow> nat" where
  "work api = sum_list (map ui_weight (ap_ui api)) + sum_list (map api_weight (ap_tasks api)) +
     2 * length (mg_pending (ap_manager api))"

text \<open>The steps that move what is in flight: a queued task runs, or a directory is ready.\<close>

fun enabled :: "api_event \<Rightarrow> api \<Rightarrow> bool" where
  "enabled (RunUi k ev) api = (k < length (ap_ui api))"
| "enabled (RunApi answer) api = (ap_tasks api \<noteq> [])"
| "enabled (StartReady k pid now) api = (k < length (mg_pending (ap_manager api)))"
| "enabled _ api = False"

fun effective :: "lib \<Rightarrow> api_event list \<Rightarrow> api \<Rightarrow> bool" where
  "effective lib [] api = True"
| "effective lib (e # es) api = (enabled e api \<and> effective lib es (api_step lib e api))"

lemma work_simps [simp]:
  "work (post_ui t api) = ui_weight t + work api" "work (post_api u api) = api_weight u + work api"
  "work (api\<lparr>ap_store := st\<rparr>) = work api"
  "work (api\<lparr>ap_launches := cs\<rparr>) = work api"
  by (simp_all add: work_def post_ui_def post_api_def)

lemma work_send [simp]: "work (send_json lib c status v api) = work api" "work (send_error lib c status code msg api) = work api"
  by (simp_all add: work_def send_json_def send_error_def)

lemma weight_start_answers:
  "sum_list (map api_weight (List.map_filter (start_answer launches) es)) = length (replied es)"
proof (induction es)
  case (Cons e es)
  then show ?case by (cases e) (simp_all add: replied_def List.map_filter_simps)
qed (simp add: replied_def List.map_filter_simps)

lemma work_manager:
  assumes "keeps extra (ap_manager api) (f (ap_manager api))"
  shows "work (with_manager f api) + length (mg_pending (ap_manager api)) =
     work api + size extra + length (mg_pending (f (ap_manager api)))"
    "length (mg_pending (f (ap_manager api))) \<le> length (mg_pending (ap_manager api)) + size extra"
proof -
  let ?mg = "ap_manager api"
  obtain new where log: "mg_log (f ?mg) = mg_log ?mg @ new"
    and cb: "owed (f ?mg) + mset (replied new) = owed ?mg + extra"
    using assms unfolding keeps_def by blast
  have n: "length (mg_pending (f ?mg)) + length (replied new) = length (mg_pending ?mg) + size extra"
    using arg_cong [OF cb, of size] by (simp add: owed_def)
  have tasks: "ap_tasks (with_manager f api) = ap_tasks api @ List.map_filter (start_answer (ap_launches api)) new"
    by (simp add: with_manager_def log Let_def)
  then have "work (with_manager f api) + 2 * length (mg_pending ?mg) =
      work api + length (replied new) + 2 * length (mg_pending (f ?mg))"
    unfolding work_def tasks map_append weight_start_answers sum_list_append
    by (simp add: with_manager_def Let_def)
  then show "work (with_manager f api) + length (mg_pending ?mg) = work api + size extra + length (mg_pending (f ?mg))"
    "length (mg_pending (f ?mg)) \<le> length (mg_pending ?mg) + size extra"
    using n by simp_all
qed

lemma work_launch: "work (ui_launch ev c i api) \<le> work api + 2"
proof -
  have "work (with_manager (start_workspace t b n ws k) (api\<lparr>ap_launches := L\<rparr>)) \<le> work api + 2" for t b n ws k L
    using work_manager [of "{#k#}" "api\<lparr>ap_launches := L\<rparr>" "start_workspace t b n ws k"]
    by (simp add: keeps_start)
  then show ?thesis by (auto simp: ui_launch_def split: option.split)
qed

lemma work_stop: "work (with_manager (stop_workspace i) api) \<le> work api"
  using work_manager [of "{#}" api "stop_workspace i"] by (simp add: keeps_stop)

lemma work_ui_task: "work (run_ui_task lib ev t api) < ui_weight t + work api"
  using work_launch [of ev _ _ api] work_stop [of _ api]
  by (cases t) (auto simp: ui_get_all_def ui_create_def ui_get_def ui_update_def ui_delete_def ui_stop_def
      ui_status_def ui_system_status_def ui_cdp_def ui_cdp_retry_def ui_export_def ui_import_def Let_def
      less_Suc_eq_le numeral_3_eq_3 split: option.split prod.split)

lemma work_task: "work (run_task lib answer t api) < api_weight t + work api"
  by (cases t) (auto simp: respond_with_workspace_list_def respond_with_workspace_def respond_with_status_def
      forward_cdp_def Let_def split: option.split child_answer.split prod.split)

lemma sum_drop_nth: "k < length xs \<Longrightarrow> f (xs ! k) + sum_list (map f (drop_nth k xs)) = (sum_list (map f xs) :: nat)"
  by (subst (3) id_take_nth_drop [of k xs]) (simp_all add: drop_nth_def)

lemma pending_continue [simp]: "mg_pending (continue_start js jl pid now w dir port cb mg) = mg_pending mg"
  by (auto simp: continue_start_def Let_def split: option.split)

lemma pending_start_reply:
  "k < length (mg_pending mg) \<Longrightarrow> length (mg_pending (start_reply js jl k pid now mg)) < length (mg_pending mg)"
  by (simp add: start_reply_def Let_def drop_nth_def)

lemma work_decreases: "enabled e api \<Longrightarrow> work (api_step lib e api) < work api"
proof (cases e)
  case (RunUi k ev)
  assume "enabled e api"
  then have k: "k < length (ap_ui api)" using RunUi by simp
  have "ui_weight (ap_ui api ! k) + work (api\<lparr>ap_ui := drop_nth k (ap_ui api)\<rparr>) = work api"
    using sum_drop_nth [OF k, of ui_weight] by (simp add: work_def)
  then show ?thesis using work_ui_task [of lib ev "ap_ui api ! k" "api\<lparr>ap_ui := drop_nth k (ap_ui api)\<rparr>"] RunUi k
    by simp
next
  case (RunApi answer)
  assume "enabled e api"
  then obtain t ts where t: "ap_tasks api = t # ts" using RunApi by (auto simp: neq_Nil_conv)
  then have "api_weight t + work (api\<lparr>ap_tasks := ts\<rparr>) = work api" by (simp add: work_def)
  then show ?thesis using work_task [of lib answer t "api\<lparr>ap_tasks := ts\<rparr>"] RunApi t by simp
next
  case (StartReady k pid now)
  assume "enabled e api"
  then show ?thesis
    using StartReady pending_start_reply [of k "ap_manager api" "lb_js lib" "lb_json lib" pid now]
      work_manager(1) [of "{#}" api "start_reply (lb_js lib) (lb_json lib) k pid now"]
    by (simp add: keeps_start_reply)
qed simp_all

lemma effective_work: "effective lib es api \<Longrightarrow> length es + work (run (api_step lib) es api) \<le> work api"
proof (induction es arbitrary: api)
  case (Cons e es)
  then have "work (api_step lib e api) < work api"
    "length es + work (run (api_step lib) es (api_step lib e api)) \<le> work (api_step lib e api)"
    using work_decreases [of e api lib] by simp_all
  then show ?case by simp
qed simp

lemma effective_asks: "effective lib es api \<Longrightarrow> sum_list (map (asks lib) es) = {#}"
proof (induction es arbitrary: api)
  case (Cons e es)
  then show ?case by (cases e) auto
qed simp

lemma nothing_enabled:
  assumes "\<And>e. \<not> enabled e api"
  shows "in_flight api = {#}"
proof -
  have "ap_ui api = []" using assms [of "RunUi 0 undefined"] by simp
  moreover have "ap_tasks api = []" using assms [of "RunApi NoSocket"] by simp
  moreover have "mg_pending (ap_manager api) = []" using assms [of "StartReady 0 None 0"] by simp
  ultimately show ?thesis by (simp add: in_flight_def owed_def)
qed

lemma idle_enables_nothing:
  "ap_ui api = [] \<Longrightarrow> ap_tasks api = [] \<Longrightarrow> mg_pending (ap_manager api) = [] \<Longrightarrow> \<not> enabled e api"
  by (cases e) simp_all

text \<open>Steps can be taken until none is left.\<close>

lemma effective_append:
  "effective lib (es @ es') api \<longleftrightarrow> effective lib es api \<and> effective lib es' (run (api_step lib) es api)"
  by (induction es arbitrary: api) auto

lemma runs_out: "\<exists>es. effective lib es api \<and> (\<forall>e. \<not> enabled e (run (api_step lib) es api))"
proof (induction "work api" arbitrary: api rule: less_induct)
  case less
  show ?case
  proof (cases "\<exists>e. enabled e api")
    case True
    then obtain e where e: "enabled e api" by blast
    obtain es where "effective lib es (api_step lib e api)"
      "\<forall>f. \<not> enabled f (run (api_step lib) es (api_step lib e api))"
      using less [OF work_decreases [OF e]] by blast
    then show ?thesis using e by (intro exI [of _ "e # es"]) simp
  next
    case False
    then show ?thesis by (intro exI [of _ "[]"]) simp
  qed
qed

text \<open>
  C4 (liveness): every request is answered. From any reachable state, the steps that move what is in
  flight (a queued task of either thread runs, or a directory that a start waits for is ready) can be
  taken at most \<open>work\<close> times, in whatever order; when none is left to take, every request has been
  answered exactly once, and from every point on the way there are steps that lead there.
\<close>

theorem requests_get_answered:
  assumes "effective lib es' (run (api_step lib) es (new_api st new_manager token))"
  shows "let api = run (api_step lib) es (new_api st new_manager token);
             api' = run (api_step lib) es' api;
             answered = (\<lambda>x. responded x = sum_list (map (asks lib) es)) in
         length es' \<le> work api \<and> ((\<forall>e. \<not> enabled e api') \<longrightarrow> answered api') \<and>
         (\<exists>es''. effective lib (es' @ es'') api \<and> answered (run (api_step lib) es'' api'))"
proof -
  let ?new = "new_api st new_manager token"
  let ?api = "run (api_step lib) es ?new"
  have "api_ok ?new" "settled ?new = {#}"
    by (simp_all add: settled_def responded_def in_flight_def new_api_def owed_def new_manager_def api_ok_def)
  then have settled: "settled (run (api_step lib) l ?api) = sum_list (map (asks lib) es)"
    if "effective lib l ?api" for l
    using run_settles [of ?new lib "es @ l"] effective_asks [OF that] by simp
  have quiet: "responded (run (api_step lib) l ?api) = sum_list (map (asks lib) es)"
    if "effective lib l ?api" "\<forall>e. \<not> enabled e (run (api_step lib) l ?api)" for l
    using settled [OF that(1)] nothing_enabled that(2) by (auto simp: settled_def)
  obtain es'' where r: "effective lib es'' (run (api_step lib) es' ?api)"
    "\<forall>e. \<not> enabled e (run (api_step lib) es'' (run (api_step lib) es' ?api))"
    using runs_out by blast
  have "effective lib (es' @ es'') ?api" using assms r(1) by (simp add: effective_append)
  then show ?thesis
    using effective_work [OF assms] quiet [OF assms] quiet [of "es' @ es''"] r(2)
    by (auto simp: Let_def intro!: exI [of _ es''])
qed

text \<open>A concrete library and request for the witnesses.\<close>

fun split_slash :: "string \<Rightarrow> string list" where
  "split_slash [] = [[]]"
| "split_slash (c # s) =
     (if c = CHR ''/'' then [] # split_slash s
      else case split_slash s of w # ws \<Rightarrow> (c # w) # ws | [] \<Rightarrow> [[c]])"

definition sample_lib :: lib where
  "sample_lib = \<lparr>lb_js = sample_js, lb_json = fixed_json,
     lb_time = iso_times,
     lb_split = split_slash, lb_to_int = (\<lambda>s. None)\<rparr>"

definition sample_env :: ui_env where
  "sample_env = \<lparr>ev_ids = (\<lambda>n. replicate n CHR ''i''), ev_seeds = (\<lambda>n. 7), ev_now = 5, ev_temp = None,
     ev_can_bind = (\<lambda>p. True)\<rparr>"

definition status_request :: request where
  "status_request = \<lparr>rq_method = ''GET'', rq_path = ''/api/status'', rq_data = [], rq_headers = []\<rparr>"

lemma sample_route: "parse_path (lb_split sample_lib) (rq_path status_request) = [''api'', ''status'']"
  by (simp add: parse_path_def sample_lib_def status_request_def)

lemma sample_dispatch: "on_http_request sample_lib 3 status_request (new_api st mg []) =
    (new_api st mg [])\<lparr>ap_ui := [SystemTask 3]\<rparr>"
  by (simp add: on_http_request_def dispatch_request_def authorized_def dispatch_segments_def sample_route
      post_ui_def) (simp add: new_api_def status_request_def)

theorem requests_get_answered_witness:
  "responded (run (api_step sample_lib) [HttpRequest 3 status_request, RunUi 0 sample_env, RunApi NoSocket]
     (new_api new_store new_manager [])) = {#3#}"
proof -
  let ?api = "run (api_step sample_lib) [HttpRequest 3 status_request] (new_api new_store new_manager [])"
  let ?es = "[RunUi 0 sample_env, RunApi NoSocket]"
  have e: "effective sample_lib ?es ?api"
    by (simp add: sample_dispatch ui_system_status_def Let_def post_api_def drop_nth_def)
  have new: "ap_ui (new_api st mg t) = []" "ap_tasks (new_api st mg t) = []" "ap_manager (new_api st mg t) = mg" for st mg t
    by (simp_all add: new_api_def)
  have "mg_pending new_manager = []" by (simp add: new_manager_def)
  then have "ap_ui (run (api_step sample_lib) ?es ?api) = [] \<and> ap_tasks (run (api_step sample_lib) ?es ?api) = [] \<and>
      mg_pending (ap_manager (run (api_step sample_lib) ?es ?api)) = []"
    by (simp add: sample_dispatch ui_system_status_def Let_def post_api_def drop_nth_def send_json_def respond_with_status_def new)
  then have none: "\<forall>x. \<not> enabled x (run (api_step sample_lib) ?es ?api)"
    by (intro allI idle_enables_nothing) blast+
  show ?thesis
    using requests_get_answered [OF e, unfolded Let_def, THEN conjunct2, THEN conjunct1, THEN mp, OF none]
    by (simp only: run_def fold_simps list.map asks.simps sum_list.Cons sum_list.Nil add_0_right)
qed

end
