(* ===== verification/Api_Rest.thy ===== *)
theory Api_Rest
  imports Api_Conservation
begin

text \<open>
  What the REST API does to the store and the launcher: who is let in, which request reaches which
  operation, what an update keeps, what an import copies, and where requests for the debugging
  port of a workspace go.
\<close>

subsection \<open>The token\<close>

text \<open>
  The HTTP server of the net library hands over header names in lower case, which its header file
  documents; the handler asks for \<open>Authorization\<close>.
\<close>

definition lower_case :: "string \<Rightarrow> bool" where
  "lower_case s = list_all (\<lambda>ch. ch \<notin> set ''ABCDEFGHIJKLMNOPQRSTUVWXYZ'') s"

fun lower_case_names :: "api_event \<Rightarrow> bool" where
  "lower_case_names (HttpRequest c info) = list_all (\<lambda>(k, v). lower_case k) (rq_headers info)"
| "lower_case_names _ = True"

lemma lower_case_unauthorized:
  assumes "token \<noteq> []" "list_all (\<lambda>(k, v). lower_case k) (rq_headers info)"
  shows "\<not> authorized token info"
proof
  assume "authorized token info"
  then have "map_of (rq_headers info) ''Authorization'' = Some (''Bearer '' @ token)"
    using assms(1) by (simp add: authorized_def)
  then have "lower_case ''Authorization''"
    using assms(2) map_of_SomeD by (fastforce simp: list_all_iff)
  then show False by (simp add: lower_case_def)
qed

definition refused :: "store \<Rightarrow> string \<Rightarrow> api \<Rightarrow> bool" where
  "refused st token api = (ap_token api = token \<and> ap_store api = st \<and> ap_manager api = new_manager \<and>
     ap_ui api = [] \<and> ap_tasks api = [] \<and>
     list_all (\<lambda>r. rs_status r = HTTP_UNAUTHORIZED \<or> rs_status r = HTTP_NOT_FOUND) (ap_out api))"

lemma refused_error:
  "refused st token api \<Longrightarrow> status = HTTP_UNAUTHORIZED \<or> status = HTTP_NOT_FOUND \<Longrightarrow>
   refused st token (send_error lib c status code msg api)"
  by (auto simp: refused_def send_error_def send_json_def)

lemma refused_manager: "refused st token api \<Longrightarrow> f new_manager = new_manager \<Longrightarrow> refused st token (with_manager f api)"
  by (simp add: refused_def with_manager_def List.map_filter_simps new_manager_def)

lemma refused_frame [simp]:
  "refused st token (with_proxy e api) = refused st token api"
  "refused st token (api\<lparr>ap_proxy := px\<rparr>) = refused st token api"
  "refused st token (api\<lparr>ap_accepted := cs\<rparr>) = refused st token api"
  by (simp_all add: refused_def with_proxy_def)

lemma refused_step:
  assumes "token \<noteq> []" "lower_case_names e" "refused st token api"
  shows "refused st token (api_step lib e api)"
proof (cases e)
  case (HttpRequest c info)
  have "ap_token api = token" using assms(3) by (simp add: refused_def)
  then have "\<not> authorized (ap_token api) info"
    using lower_case_unauthorized [of token info] assms(1, 2) HttpRequest by simp
  then show ?thesis using HttpRequest assms(3)
    by (simp add: on_http_request_def dispatch_request_def refused_error)
next
  case (WebSocketRequest c info)
  then show ?thesis using assms(3) by (simp add: on_websocket_request_def Let_def refused_error)
next
  case (RunUi k ev)
  then show ?thesis using assms(3) by (simp add: refused_def)
next
  case (RunApi answer)
  then show ?thesis using assms(3) by (simp add: refused_def)
next
  case (StartReady k pid now)
  then show ?thesis using assms(3) by (simp add: refused_manager start_reply_def new_manager_def)
next
  case (WatchdogPoll exited now)
  then show ?thesis using assms(3) by (simp add: refused_manager new_manager_def)
qed (use assms(3) in simp_all)

text \<open>
  C40 (safety): with a token, nobody gets in. As long as header names arrive in lower case every
  request is refused, whatever its headers, and nothing is done to the store or the launcher.
\<close>

theorem token_locks_everyone_out:
  assumes "token \<noteq> []" "list_all lower_case_names es"
  shows "let api = run (api_step lib) es (new_api st new_manager token) in
         ap_store api = st \<and> ap_manager api = new_manager \<and>
         rs_status ` set (ap_out api) \<subseteq> {HTTP_UNAUTHORIZED, HTTP_NOT_FOUND}"
proof -
  have "refused st token api \<Longrightarrow> refused st token (run (api_step lib) es api)" for api
    using assms(2) by (induction es arbitrary: api) (simp_all add: refused_step assms(1))
  moreover have "refused st token (new_api st new_manager token)"
    by (simp add: refused_def new_api_def)
  ultimately show ?thesis by (fastforce simp: refused_def Let_def list_all_iff)
qed

theorem token_locks_everyone_out_witness:
  "ap_store (run (api_step sample_lib)
     [HttpRequest 3 (status_request\<lparr>rq_headers := [(''authorization'', ''Bearer secret'')]\<rparr>)]
     (new_api new_store new_manager ''secret'')) = new_store"
  using token_locks_everyone_out [of "''secret''"
      "[HttpRequest 3 (status_request\<lparr>rq_headers := [(''authorization'', ''Bearer secret'')]\<rparr>)]" sample_lib new_store]
  by (simp add: lower_case_def Let_def)

lemma destroy_log: "e \<in> set (px_log px) \<Longrightarrow> e \<in> set (px_log (destroy_session c px))"
  by (simp add: destroy_session_def Let_def split: option.split)

lemma read_log:
  "e \<in> set (px_log px) \<Longrightarrow> e \<in> set (px_log (start_target_read answers c px))"
  "e \<in> set (px_log px) \<Longrightarrow> e \<in> set (px_log (on_target_read answers c a px))"
  "e \<in> set (px_log px) \<Longrightarrow> e \<in> set (px_log (forward_to_client answers c data px))"
proof (induction answers c px and answers c a px and answers c data px
    rule: start_target_read_on_target_read_forward_to_client.induct)
  case (1 answers c px)
  then show ?case by (auto simp: start_target_read.simps split: option.split list.split)
next
  case (3 answers c data px)
  show ?case using 3(8) 3(1-7)
    by (auto simp: on_target_read.simps Let_def destroy_log split: option.split)
next
  case (4 answers c data px)
  then show ?case by (auto simp: forward_to_client.simps Let_def split: option.split)
qed (auto simp: on_target_read.simps destroy_log split: option.split)

lemma connect_logs:
  "get_session px c \<noteq> None \<Longrightarrow> ConnectedTo c port \<in> set (px_log (connect_to_target ca w answers c port px))"
  by (auto simp: connect_to_target_def on_target_connected_def send_handshake_def Let_def
      intro!: read_log destroy_log split: connect_answer.split write_answer.split)

text \<open>
  The WebSocket endpoint asks for no token. Whatever the token and the headers, an upgrade
  for a running workspace is accepted and the relay connects to the debugging port of that workspace.
\<close>

theorem websocket_needs_no_token:
  assumes "cdp_route (parse_path (lb_split lib) (rq_path info))"
    "running_port mg (parse_path (lb_split lib) (rq_path info) ! 2) = Some port"
  shows "let api = run (api_step lib) [WebSocketRequest c info, RelayLookup, RelayTask ca w answers]
                     (new_api st mg token) in
         ap_accepted api = [c] \<and> ConnectedTo c port \<in> set (px_log (ap_proxy api))"
proof -
  let ?s = "parse_path (lb_split lib) (rq_path info)"
  let ?px = "handle_websocket_upgrade c (?s ! 2) (subpath_of ?s) new_proxy"
  have look: "px_lookups ?px = [(c, ?s ! 2)]" "px_tasks ?px = []" "get_session ?px c \<noteq> None"
    by (simp_all add: handle_websocket_upgrade_def Let_def create_session_def put_session_def new_proxy_def
        get_session_def)
  have task: "proxy_lookup mg ?px = ?px\<lparr>px_lookups := [], px_tasks := [ConnectTask c port]\<rparr>"
    using assms(2) by (auto simp: proxy_lookup_def look running_port_def Let_def split: option.splits if_splits)
  have run: "run (api_step lib) [WebSocketRequest c info, RelayLookup, RelayTask ca w answers] (new_api st mg token) =
      (new_api st mg token)\<lparr>ap_accepted := [c],
         ap_proxy := proxy_run_task ca w answers (?px\<lparr>px_lookups := [], px_tasks := [ConnectTask c port]\<rparr>)\<rparr>"
    by (simp add: on_websocket_request_def assms(1) with_proxy_def new_api_def task [symmetric] Let_def)
  have "ConnectedTo c port \<in> set (px_log (proxy_run_task ca w answers
      (?px\<lparr>px_lookups := [], px_tasks := [ConnectTask c port]\<rparr>)))"
    using look(3) by (simp add: proxy_run_task_def connect_logs)
  then show ?thesis unfolding run by (simp add: Let_def)
qed

definition cdp_request :: request where
  "cdp_request = \<lparr>rq_method = ''GET'', rq_path = ''/api/workspaces/w/cdp'', rq_data = [], rq_headers = []\<rparr>"

definition one_running :: manager where
  "one_running = new_manager\<lparr>mg_workspaces := [(''w'', (new_running 41 0 (workspace_default\<lparr>ws_id := ''w''\<rparr>)
     ''/tmp/w'' 9333)\<lparr>rw_status := SRunning\<rparr>)]\<rparr>"

lemma cdp_request_route:
  "parse_path (lb_split sample_lib) (rq_path cdp_request) = [''api'', ''workspaces'', ''w'', ''cdp'']"
  by (simp add: parse_path_def sample_lib_def cdp_request_def)

lemma one_running_port: "running_port one_running ''w'' = Some 9333"
  by (simp add: running_port_def one_running_def get_running_def new_running_def)

theorem websocket_needs_no_token_witness:
  "ap_accepted (run (api_step sample_lib) [WebSocketRequest 3 cdp_request, RelayLookup, RelayTask ConnectPending WriteFailed []]
     (new_api new_store one_running ''secret'')) = [3]"
proof -
  have "cdp_route (parse_path (lb_split sample_lib) (rq_path cdp_request))"
    "running_port one_running (parse_path (lb_split sample_lib) (rq_path cdp_request) ! 2) = Some 9333"
    unfolding cdp_request_route by (simp_all add: cdp_route_def one_running_port)
  from websocket_needs_no_token [OF this] show ?thesis by (simp add: Let_def)
qed

subsection \<open>Routes\<close>

definition exports :: "ui_task \<Rightarrow> bool" where
  "exports t = (case t of ExportTask c \<Rightarrow> True | _ \<Rightarrow> False)"

definition no_export :: "api \<Rightarrow> bool" where
  "no_export api = list_all (\<lambda>t. \<not> exports t) (ap_ui api)"

lemma no_export_frame [simp]:
  "no_export (post_ui t api) = (no_export api \<and> \<not> exports t)" "no_export (post_api u api) = no_export api"
  "no_export (send_json lib c status v api) = no_export api"
  "no_export (send_error lib c status code msg api) = no_export api"
  "no_export (with_manager f api) = no_export api" "no_export (with_proxy e api) = no_export api"
  "no_export (api\<lparr>ap_store := st\<rparr>) = no_export api" "no_export (api\<lparr>ap_launches := cs\<rparr>) = no_export api"
  "no_export (api\<lparr>ap_tasks := ts\<rparr>) = no_export api"
  "no_export (api\<lparr>ap_proxy := px\<rparr>) = no_export api" "no_export (api\<lparr>ap_accepted := cs\<rparr>) = no_export api"
  by (auto simp: no_export_def post_ui_def post_api_def send_json_def send_error_def with_manager_def Let_def
      with_proxy_def)

lemma exports_simps [simp]: "exports (ExportTask c)"
  "\<not> exports (GetAllTask c)" "\<not> exports (CreateTask c n t b)" "\<not> exports (GetTask c i)"
  "\<not> exports (UpdateTask c i b)" "\<not> exports (DeleteTask c i)" "\<not> exports (LaunchTask c i)"
  "\<not> exports (StopTask c i)" "\<not> exports (StatusTask c i)" "\<not> exports (SystemTask c)"
  "\<not> exports (CdpTask c i s m)" "\<not> exports (CdpRetryTask c i s m)" "\<not> exports (ImportTask c items)"
  by (simp_all add: exports_def)

lemma no_export_dispatch: "no_export (dispatch_request lib c info api) = no_export api"
  by (simp add: dispatch_request_def dispatch_segments_def dispatch_workspace_def handle_create_workspace_def
      handle_import_workspaces_def Let_def split: option.split)

lemma no_export_ui: "no_export (run_ui_task lib ev t api) = no_export api"
  by (cases t) (auto simp: ui_get_all_def ui_create_def ui_get_def ui_update_def ui_delete_def ui_stop_def
      ui_status_def ui_system_status_def ui_cdp_def ui_cdp_retry_def ui_export_def ui_import_def ui_launch_def
      Let_def split: option.split prod.split)

lemma no_export_task: "no_export (run_task lib answer t api) = no_export api"
  by (cases t) (auto simp: respond_with_workspace_list_def respond_with_workspace_def respond_with_status_def
      forward_cdp_def Let_def split: option.split child_answer.split prod.split)

lemma no_export_step: "no_export api \<Longrightarrow> no_export (api_step lib e api)"
proof (cases e)
  case (RunUi k ev)
  assume "no_export api"
  then have "no_export (api\<lparr>ap_ui := drop_nth k (ap_ui api)\<rparr>)"
    by (auto simp: no_export_def drop_nth_def list_all_iff dest: in_set_takeD in_set_dropD)
  then show ?thesis using RunUi \<open>no_export api\<close> by (simp add: no_export_ui)
next
  case (RunApi answer)
  assume "no_export api"
  then show ?thesis using RunApi by (simp add: no_export_task split: list.split)
qed (simp_all add: on_http_request_def no_export_dispatch on_websocket_request_def Let_def)

interpretation export_routes: invariant_system "new_api st mg token" "api_step lib" no_export
  by unfold_locales (simp add: no_export_def new_api_def, rule no_export_step)

text \<open>
  Exporting cannot be asked for. A request for the export route asks for the
  workspace called export instead, and no run of the API ever posts an export.
\<close>

theorem export_unreachable:
  "list_all (\<lambda>t. \<not> exports t) (ap_ui (run (api_step lib) es (new_api st mg token))) \<and>
   dispatch_segments lib c (info\<lparr>rq_method := ''GET''\<rparr>) [''api'', ''workspaces'', ''export''] api =
     post_ui (GetTask c ''export'') api"
  using export_routes.inv_run [of lib es st mg token]
  by (simp add: no_export_def dispatch_segments_def dispatch_workspace_def)

subsection \<open>Updating\<close>

lemma apply_field_simps [simp]: "apply_field None f w = w" "apply_field (Some x) f w = f x w"
  by (simp_all add: apply_field_def)

text \<open>What no body can change.\<close>

lemma apply_field_keeps: "(\<And>x w. g (f x w) = g w) \<Longrightarrow> g (apply_field v f w) = g w"
  by (cases v) simp_all

lemma apply_body_keeps:
  "ws_id (apply_body body w) = ws_id w" "ws_type (apply_body body w) = ws_type w"
  "ws_fingerprint_seed (apply_body body w) = ws_fingerprint_seed w"
  "ws_tags (apply_body body w) = ws_tags w" "ws_launch_args (apply_body body w) = ws_launch_args w"
  "ws_created_at (apply_body body w) = ws_created_at w"
  unfolding apply_body_def Let_def
  by ((subst apply_field_keeps [where g = ws_id], simp)+, rule refl)
    ((subst apply_field_keeps [where g = ws_type], simp)+, rule refl,
     (subst apply_field_keeps [where g = ws_fingerprint_seed], simp)+, rule refl,
     (subst apply_field_keeps [where g = ws_tags], simp)+, rule refl,
     (subst apply_field_keeps [where g = ws_launch_args], simp)+, rule refl,
     (subst apply_field_keeps [where g = ws_created_at], simp)+, rule refl)

lemma apply_field_same:
  "v = None \<or> v = Some (ws_name w) \<Longrightarrow> apply_field v (\<lambda>v w. w\<lparr>ws_name := v\<rparr>) w = w"
  "v = None \<or> v = Some (ws_user_agent w) \<Longrightarrow> apply_field v (\<lambda>v w. w\<lparr>ws_user_agent := v\<rparr>) w = w"
  "u = None \<or> u = Some (ws_screen_width w) \<Longrightarrow> apply_field u (\<lambda>v w. w\<lparr>ws_screen_width := v\<rparr>) w = w"
  "u = None \<or> u = Some (ws_screen_height w) \<Longrightarrow> apply_field u (\<lambda>v w. w\<lparr>ws_screen_height := v\<rparr>) w = w"
  "v = None \<or> v = Some (ws_gpu_vendor w) \<Longrightarrow> apply_field v (\<lambda>v w. w\<lparr>ws_gpu_vendor := v\<rparr>) w = w"
  "v = None \<or> v = Some (ws_gpu_renderer w) \<Longrightarrow> apply_field v (\<lambda>v w. w\<lparr>ws_gpu_renderer := v\<rparr>) w = w"
  "u = None \<or> u = Some (ws_hardware_concurrency w) \<Longrightarrow> apply_field u (\<lambda>v w. w\<lparr>ws_hardware_concurrency := v\<rparr>) w = w"
  "v = None \<or> v = Some (ws_platform w) \<Longrightarrow> apply_field v (\<lambda>v w. w\<lparr>ws_platform := v\<rparr>) w = w"
  "v = None \<or> v = Some (ws_color_scheme w) \<Longrightarrow> apply_field v (\<lambda>v w. w\<lparr>ws_color_scheme := v\<rparr>) w = w"
  "v = None \<or> v = Some (ws_proxy w) \<Longrightarrow> apply_field v (\<lambda>v w. w\<lparr>ws_proxy := v\<rparr>) w = w"
  "v = None \<or> v = Some (ws_timezone w) \<Longrightarrow> apply_field v (\<lambda>v w. w\<lparr>ws_timezone := v\<rparr>) w = w"
  "v = None \<or> v = Some (ws_locale w) \<Longrightarrow> apply_field v (\<lambda>v w. w\<lparr>ws_locale := v\<rparr>) w = w"
  "b = None \<or> b = Some (ws_geoip w) \<Longrightarrow> apply_field b (\<lambda>v w. w\<lparr>ws_geoip := v\<rparr>) w = w"
  "v = None \<or> v = Some (ws_default_tab_title w) \<Longrightarrow> apply_field v (\<lambda>v w. w\<lparr>ws_default_tab_title := v\<rparr>) w = w"
  "v = None \<or> v = Some (ws_notes w) \<Longrightarrow> apply_field v (\<lambda>v w. w\<lparr>ws_notes := v\<rparr>) w = w"
  "b = None \<or> b = Some (ws_humanize w) \<Longrightarrow> apply_field b (\<lambda>v w. w\<lparr>ws_humanize := v\<rparr>) w = w"
  "v = None \<or> v = Some (ws_human_preset w) \<Longrightarrow> apply_field v (\<lambda>v w. w\<lparr>ws_human_preset := v\<rparr>) w = w"
  "b = None \<or> b = Some (ws_headless w) \<Longrightarrow> apply_field b (\<lambda>v w. w\<lparr>ws_headless := v\<rparr>) w = w"
  "b = None \<or> b = Some (ws_clipboard_sync w) \<Longrightarrow> apply_field b (\<lambda>v w. w\<lparr>ws_clipboard_sync := v\<rparr>) w = w"
  "b = None \<or> b = Some (ws_auto_launch w) \<Longrightarrow> apply_field b (\<lambda>v w. w\<lparr>ws_auto_launch := v\<rparr>) w = w"
  "u = None \<or> u = Some (sint (ws_color w)) \<Longrightarrow> apply_field u (\<lambda>v w. w\<lparr>ws_color := word_of_int v\<rparr>) w = w"
  by (cases w; auto)+

lemma same_or_absent:
  "((if b then Some x else None) = None \<or> (if b then Some x else None) = Some x) = True"
  "(Some x = None \<or> Some x = Some x) = True"
  by simp_all

lemma apply_own_dict: "apply_body (workspace_to_dict tlib w) w = w"
  unfolding apply_body_def Let_def
  by (simp only: apply_field_same same_or_absent find_string_to_dict find_other_to_dict)

lemma update_task:
  assumes "store_inv (ap_store api)" "get_workspace (ap_store api) i = Some w"
  shows "get_workspace (ap_store (run_ui_task lib ev (UpdateTask c i body) api)) =
      (get_workspace (ap_store api))(i \<mapsto> revised (ev_now ev) w (apply_body body w))"
    "ap_tasks (run_ui_task lib ev (UpdateTask c i body) api) = ap_tasks api @
      [RespondWorkspace c (Some (workspace_to_dict (lb_time lib) (apply_body body w)))]"
proof -
  let ?v = "apply_body body w"
  have id: "ws_id ?v = i" using store_inv_id [of "ap_store api" i w] assms
    by (simp add: apply_body_keeps get_workspace_def)
  obtain ok st where u: "update_workspace (lb_time lib) (ev_now ev) ?v (ap_store api) = (ok, st)" by fastforce
  have "ok" using ok_crud(2) [of "lb_time lib" "ev_now ev" ?v "ap_store api"] u id assms(2) by simp
  moreover have "get_workspace st = (get_workspace (ap_store api))(i \<mapsto> revised (ev_now ev) w ?v)"
    using look_crud(3) [of "lb_time lib" "ev_now ev" ?v "ap_store api"] u id assms(2) by simp
  ultimately show "get_workspace (ap_store (run_ui_task lib ev (UpdateTask c i body) api)) =
      (get_workspace (ap_store api))(i \<mapsto> revised (ev_now ev) w ?v)"
    "ap_tasks (run_ui_task lib ev (UpdateTask c i body) api) = ap_tasks api @
      [RespondWorkspace c (Some (workspace_to_dict (lb_time lib) ?v))]"
    using assms(2) u by (simp_all add: ui_update_def Let_def post_api_def)
qed

text \<open>
  C27 (roundtrip): putting back what was got changes nothing but the time of the update: the body of the
  answer to a GET, sent in a PUT, stores the same workspace, touches no other, and is answered with
  the workspace as it was before, its old time of update included.
\<close>

theorem put_what_get_returned:
  assumes "store_inv (ap_store api)" "get_workspace (ap_store api) i = Some w"
  shows "let api' = run_ui_task lib ev (UpdateTask c i (workspace_to_dict (lb_time lib) w)) api in
         get_workspace (ap_store api') = (get_workspace (ap_store api))(i \<mapsto> w\<lparr>ws_updated_at := ev_now ev\<rparr>) \<and>
         ap_tasks api' = ap_tasks api @ [RespondWorkspace c (Some (workspace_to_dict (lb_time lib) w))]"
proof -
  have "revised (ev_now ev) w w = w\<lparr>ws_updated_at := ev_now ev\<rparr>" by (cases w) (simp add: revised_def)
  then show ?thesis using update_task [OF assms, of lib ev c "workspace_to_dict (lb_time lib) w"]
    by (simp add: apply_own_dict Let_def)
qed

definition one_stored :: store where
  "one_stored = new_store\<lparr>st_workspaces := [(''w'', workspace_default\<lparr>ws_id := ''w''\<rparr>)]\<rparr>"

lemma one_stored_facts:
  "store_inv one_stored" "get_workspace one_stored ''w'' = Some (workspace_default\<lparr>ws_id := ''w''\<rparr>)"
  by (auto simp: store_inv_def one_stored_def get_workspace_def split: if_splits)

theorem put_what_get_returned_witness:
  "get_workspace (ap_store (run_ui_task sample_lib sample_env
     (UpdateTask 3 ''w'' (workspace_to_dict (lb_time sample_lib) (workspace_default\<lparr>ws_id := ''w''\<rparr>)))
     (new_api one_stored new_manager []))) ''w'' \<noteq> None"
proof -
  let ?api = "new_api one_stored new_manager []"
  have "ap_store ?api = one_stored" by (simp add: new_api_def)
  then have "store_inv (ap_store ?api)" "get_workspace (ap_store ?api) ''w'' = Some (workspace_default\<lparr>ws_id := ''w''\<rparr>)"
    using one_stored_facts by simp_all
  from put_what_get_returned [OF this, of sample_lib sample_env 3] show ?thesis by (simp only: Let_def) simp
qed

text \<open>
  An update over REST cannot change what a workspace is. Whatever the body, the id,
  type, fingerprint seed, tags, launch arguments and time of creation stay.
\<close>

theorem put_keeps_identity:
  assumes "store_inv (ap_store api)" "get_workspace (ap_store api) i = Some w"
  shows "\<exists>w'. get_workspace (ap_store (run_ui_task lib ev (UpdateTask c i body) api)) i = Some w' \<and>
     (ws_id w', ws_type w', ws_fingerprint_seed w', ws_tags w', ws_launch_args w', ws_created_at w') =
     (ws_id w, ws_type w, ws_fingerprint_seed w, ws_tags w, ws_launch_args w, ws_created_at w)"
  using update_task(1) [OF assms, of lib ev c body] by (simp add: revised_def apply_body_keeps)

theorem put_keeps_identity_witness:
  "\<exists>w'. get_workspace (ap_store (run_ui_task sample_lib sample_env
     (UpdateTask 3 ''w'' (dict_set ''fingerprint_seed'' (JInt 9) [])) (new_api one_stored new_manager []))) ''w'' = Some w' \<and>
     ws_fingerprint_seed w' = 0"
proof -
  let ?api = "new_api one_stored new_manager []"
  have "ap_store ?api = one_stored" by (simp add: new_api_def)
  then have "store_inv (ap_store ?api)" "get_workspace (ap_store ?api) ''w'' = Some (workspace_default\<lparr>ws_id := ''w''\<rparr>)"
    using one_stored_facts by simp_all
  from put_keeps_identity [OF this, of sample_lib sample_env 3 "dict_set ''fingerprint_seed'' (JInt 9) []"]
  show ?thesis by (auto simp: workspace_default_def)
qed

subsection \<open>Importing\<close>

text \<open>The copy of a workspace under the \<open>n\<close>-th generated id.\<close>

definition copied :: "lib \<Rightarrow> ui_env \<Rightarrow> nat \<Rightarrow> workspace \<Rightarrow> workspace" where
  "copied lib ev n w = completed (ev_ids ev n) (ev_seeds ev n) (ev_now ev)
     ((persisted (lb_time lib) w)\<lparr>ws_id := ev_ids ev n\<rparr>)"

text \<open>The workspaces of a document that an import takes: those that have a name.\<close>

abbreviation named :: "workspace list \<Rightarrow> workspace list" where
  "named ws \<equiv> filter (\<lambda>w. ws_name w \<noteq> []) ws"

lemma import_one:
  assumes "[] \<notin> range (ev_ids ev)" "ws_name w \<noteq> []"
  obtains st1 where
    "import_items lib ev k (JDict (workspace_to_dict (lb_time lib) w) # items) (m, n, st) =
       import_items lib ev (Suc k) items (m + 1, n, st1)"
    "get_workspace st1 = (get_workspace st)(ev_ids ev k \<mapsto> copied lib ev k w)"
proof -
  let ?v = "(persisted (lb_time lib) w)\<lparr>ws_id := ev_ids ev k\<rparr>"
  obtain v st1 where c: "create_workspace (lb_time lib) (ev_ids ev k) (ev_seeds ev k) (ev_now ev) ?v st = (v, st1)"
    by fastforce
  have "ev_ids ev k \<noteq> []" using assms(1) by (metis rangeI)
  then have "get_workspace st1 = (get_workspace st)(ev_ids ev k \<mapsto> copied lib ev k w)"
    using look_crud(1) [of "lb_time lib" "ev_ids ev k" "ev_seeds ev k" "ev_now ev" ?v st] c
    by (simp add: copied_def)
  moreover have "import_items lib ev k (JDict (workspace_to_dict (lb_time lib) w) # items) (m, n, st) =
      import_items lib ev (Suc k) items (m + 1, n, st1)"
    using assms(2) c by (simp add: from_to_dict Let_def)
  ultimately show thesis by (rule that [rotated])
qed

lemma import_copies_from:
  assumes "[] \<notin> range (ev_ids ev)" "inj (ev_ids ev)"
  shows "\<exists>st'. import_items lib ev k (map (\<lambda>w. JDict (workspace_to_dict (lb_time lib) w)) ws) (m, n, st) =
       (m + int (length (named ws)), n + int (length ws) - int (length (named ws)), st') \<and>
     (\<forall>j<length (named ws). get_workspace st' (ev_ids ev (k + j)) = Some (copied lib ev (k + j) (named ws ! j))) \<and>
     (\<forall>i. i \<notin> ev_ids ev ` {k..<k + length (named ws)} \<longrightarrow> get_workspace st' i = get_workspace st i)"
proof (induction ws arbitrary: k m n st)
  case (Cons w ws)
  let ?items = "map (\<lambda>w. JDict (workspace_to_dict (lb_time lib) w)) ws"
  show ?case
  proof (cases "ws_name w = []")
    case True
    then have "import_items lib ev k (JDict (workspace_to_dict (lb_time lib) w) # ?items) (m, n, st) =
        import_items lib ev k ?items (m, n + 1, st)" by simp
    then show ?thesis using Cons.IH [of k m "n + 1" st] True by (simp add: algebra_simps)
  next
    case False
    obtain st1 where
      s0: "import_items lib ev k (JDict (workspace_to_dict (lb_time lib) w) # ?items) (m, n, st) =
        import_items lib ev (Suc k) ?items (m + 1, n, st1)" and
      st1: "get_workspace st1 = (get_workspace st)(ev_ids ev k \<mapsto> copied lib ev k w)"
      by (rule import_one [OF assms(1) False])
    obtain st' where
      s1: "import_items lib ev (Suc k) ?items (m + 1, n, st1) =
          (m + 1 + int (length (named ws)), n + int (length ws) - int (length (named ws)), st')" and
      s2: "\<forall>j<length (named ws). get_workspace st' (ev_ids ev (Suc k + j)) = Some (copied lib ev (Suc k + j) (named ws ! j))" and
      s3: "\<forall>i. i \<notin> ev_ids ev ` {Suc k..<Suc k + length (named ws)} \<longrightarrow> get_workspace st' i = get_workspace st1 i"
      using Cons.IH by blast
    have names: "named (w # ws) = w # named ws" using False by simp
    have "ev_ids ev k \<notin> ev_ids ev ` {Suc k..<Suc k + length (named ws)}" using assms(2) by (auto simp: inj_eq)
    then have "get_workspace st' (ev_ids ev k) = Some (copied lib ev k w)" using s3 st1 by simp
    then have "\<forall>j<length (named (w # ws)).
        get_workspace st' (ev_ids ev (k + j)) = Some (copied lib ev (k + j) (named (w # ws) ! j))"
      unfolding names using s2 by (auto simp: nth_Cons split: nat.split)
    moreover have "get_workspace st' i = get_workspace st i"
      if i: "i \<notin> ev_ids ev ` {k..<k + length (named (w # ws))}" for i
    proof -
      have "i \<notin> ev_ids ev ` {Suc k..<Suc k + length (named ws)}" "i \<noteq> ev_ids ev k"
        using i unfolding names by (auto intro: imageI)
      then show ?thesis using s3 st1 by simp
    qed
    moreover have "import_items lib ev k (JDict (workspace_to_dict (lb_time lib) w) # ?items) (m, n, st) =
        (m + int (length (named (w # ws))), n + int (length (w # ws)) - int (length (named (w # ws))), st')"
      unfolding s0 s1 names by simp
    ultimately show ?thesis by auto
  qed
qed simp

text \<open>
  C26 (roundtrip): importing what a GET of all workspaces returned copies every workspace that has a
  name: each is counted as imported and stored under a fresh id with all its persisted fields, the
  times set and a missing seed generated; those whose name is empty are counted as skipped, and no
  other workspace is touched. The generator must give new ids that are not empty.
\<close>

theorem import_copies:
  assumes "[] \<notin> range (ev_ids ev)" "inj (ev_ids ev)"
  shows "let api' = run_ui_task lib ev (ImportTask c
                      (map (\<lambda>w. JDict (workspace_to_dict (lb_time lib) w)) ws)) api;
             taken = filter (\<lambda>w. ws_name w \<noteq> []) ws in
     ap_tasks api' = ap_tasks api @ [RespondData c (JDict
       (dict_set ''skipped'' (JInt (int (length ws) - int (length taken)))
       (dict_set ''imported'' (JInt (int (length taken))) [])))] \<and>
     (\<forall>j<length taken. get_workspace (ap_store api') (ev_ids ev j) = Some (copied lib ev j (taken ! j))) \<and>
     (\<forall>i. i \<notin> ev_ids ev ` {..<length taken} \<longrightarrow>
        get_workspace (ap_store api') i = get_workspace (ap_store api) i)"
proof -
  obtain st' where
    "import_items lib ev 0 (map (\<lambda>w. JDict (workspace_to_dict (lb_time lib) w)) ws) (0, 0, ap_store api) =
       (int (length (named ws)), int (length ws) - int (length (named ws)), st')"
    "\<forall>j<length (named ws). get_workspace st' (ev_ids ev j) = Some (copied lib ev j (named ws ! j))"
    "\<forall>i. i \<notin> ev_ids ev ` {..<length (named ws)} \<longrightarrow> get_workspace st' i = get_workspace (ap_store api) i"
    using import_copies_from [OF assms, of lib 0 ws 0 0 "ap_store api"] by (auto simp: atLeast0LessThan)
  then show ?thesis by (simp add: ui_import_def post_api_def Let_def)
qed

definition fresh_env :: ui_env where
  "fresh_env = sample_env\<lparr>ev_ids := (\<lambda>n. replicate (Suc n) CHR ''i'')\<rparr>"

theorem import_copies_witness:
  "get_workspace (ap_store (run_ui_task sample_lib fresh_env (ImportTask 3
     (map (\<lambda>w. JDict (workspace_to_dict (lb_time sample_lib) w))
       [workspace_default, workspace_default\<lparr>ws_name := ''n''\<rparr>]))
     (new_api one_stored new_manager []))) ''i'' =
   Some (copied sample_lib fresh_env 0 (workspace_default\<lparr>ws_name := ''n''\<rparr>))"
proof -
  have ids: "[] \<notin> range (ev_ids fresh_env)" "inj (ev_ids fresh_env)" "ev_ids fresh_env 0 = ''i''"
    by (auto simp: fresh_env_def inj_def simp del: replicate_Suc dest: arg_cong [of _ _ length]) simp
  have n: "filter (\<lambda>w. ws_name w \<noteq> []) [workspace_default, workspace_default\<lparr>ws_name := ''n''\<rparr>] =
      [workspace_default\<lparr>ws_name := ''n''\<rparr>]" by (simp add: workspace_default_def)
  show ?thesis
    using import_copies [OF ids(1, 2), of sample_lib 3
        "[workspace_default, workspace_default\<lparr>ws_name := ''n''\<rparr>]" "new_api one_stored new_manager []"] ids(3)
    unfolding n Let_def by (simp only: length_Cons list.size) force
qed

subsection \<open>Debugging ports\<close>

fun join_slash :: "string list \<Rightarrow> string" where
  "join_slash [] = []"
| "join_slash [w] = w"
| "join_slash (w # ws) = w @ ''/'' @ join_slash ws"

text \<open>What the handler relies on of \<open>SplitString\<close>: it undoes joining with slashes.\<close>

definition splits :: "(string \<Rightarrow> string list) \<Rightarrow> bool" where
  "splits split = (\<forall>ws. ws \<noteq> [] \<longrightarrow> list_all (\<lambda>w. CHR ''/'' \<notin> set w) ws \<longrightarrow> split (join_slash ws) = ws)"

lemma split_slash_plain: "CHR ''/'' \<notin> set w \<Longrightarrow> split_slash w = [w]"
  by (induction w) auto

lemma split_slash_append: "CHR ''/'' \<notin> set w \<Longrightarrow> split_slash (w @ CHR ''/'' # s) = w # split_slash s"
  by (induction w) auto

lemma splits_slash: "splits split_slash"
proof -
  have "ws \<noteq> [] \<Longrightarrow> list_all (\<lambda>w. CHR ''/'' \<notin> set w) ws \<Longrightarrow> split_slash (join_slash ws) = ws" for ws
    by (induction ws rule: join_slash.induct) (simp_all add: split_slash_plain split_slash_append)
  then show ?thesis by (simp add: splits_def)
qed

lemma join_slash_tail: "ws \<noteq> [] \<Longrightarrow> join_slash (ws @ vs) = join_slash ws @ concat (map (\<lambda>s. ''/'' @ s) vs)"
proof (induction ws rule: join_slash.induct)
  case (2 w)
  show ?case by (induction vs arbitrary: w) simp_all
qed simp_all

text \<open>
  C28 (roundtrip): a request under a workspace's debugging path goes to that workspace's debugging port
  with the rest of the path. The path is taken apart and put together again without change, for every
  method and every way the workspace id and the rest are written without slashes.
\<close>

theorem cdp_path_forwarded:
  assumes "splits (lb_split lib)" "list_all (\<lambda>w. CHR ''/'' \<notin> set w) (i # parts)"
    "rq_path info = ''/api/workspaces/'' @ i @ ''/cdp'' @ concat (map (\<lambda>s. ''/'' @ s) parts)"
    "authorized token info" "running_port mg i = Some port"
  shows "ap_tasks (run (api_step lib) [HttpRequest c info, RunUi 0 ev] (new_api st mg token)) =
    [ForwardCdp False c port
       (forward_request (rq_method info) (concat (map (\<lambda>s. ''/'' @ s) parts)) port)]"
proof -
  let ?segs = "[''api'', ''workspaces'', i, ''cdp''] @ parts"
  have "rq_path info = ''/'' @ join_slash ?segs"
    unfolding assms(3) by (subst join_slash_tail) simp_all
  moreover have "lb_split lib (join_slash ?segs) = ?segs"
  proof -
    have "list_all (\<lambda>w. CHR ''/'' \<notin> set w) ?segs" using assms(2) by simp
    then show ?thesis using assms(1) unfolding splits_def by blast
  qed
  moreover have "join_slash ?segs \<noteq> []" by (subst join_slash_tail) simp_all
  ultimately have segs: "parse_path (lb_split lib) (rq_path info) = ?segs" by (simp add: parse_path_def)
  have "on_http_request lib c info (new_api st mg token) =
      post_ui (CdpTask c i (concat (map (\<lambda>s. ''/'' @ s) parts)) (rq_method info)) (new_api st mg token)"
    using assms(4) unfolding on_http_request_def dispatch_request_def segs
    by (simp add: dispatch_segments_def dispatch_workspace_def subpath_of_def) (simp add: new_api_def)
  then show ?thesis using assms(5)
    by (simp add: post_ui_def ui_cdp_def drop_nth_def post_api_def new_api_def)
qed

theorem cdp_path_forwarded_witness:
  "ap_tasks (run (api_step sample_lib) [HttpRequest 3 cdp_request, RunUi 0 sample_env]
     (new_api new_store one_running [])) = [ForwardCdp False 3 9333 (forward_request ''GET'' [] 9333)]"
  using cdp_path_forwarded [of sample_lib "''w''" "[]" cdp_request "[]" one_running 9333 3 sample_env new_store]
    splits_slash one_running_port
  by (simp add: sample_lib_def cdp_request_def authorized_def)

end
