(* ===== verification/Webui_Handler.thy ===== *)
theory Webui_Handler
  imports Api_Handler Launch_Replies "HOL-Library.Monad_Syntax"
begin

text \<open>
  The handler behind the page of the extension, \<open>browser/ui/webui/purecloak_handler.{h,cc}\<close>. The page
  sends named messages with a list of values, the first of which is the callback its answer is
  for. Reading an argument that is not there or is of another type is a failed \<open>CHECK\<close> that ends the
  browser, as is answering while JavaScript is not allowed: operations return no state then, and none
  in the one case that C++ leaves undefined, a number of a type that no type has. The handler observes the launcher, so it also pushes status changes to the page.
\<close>

subsection \<open>State\<close>

datatype js_call = Resolve jval jval | CallFunction string "jval list"

text \<open>\<open>wu_manager\<close> is the launcher, which may be missing; \<open>wu_launches\<close> the callback of each start.\<close>

record webui =
  wu_store :: store
  wu_manager :: "manager option"
  wu_observer :: nat
  wu_alive :: bool
  wu_allowed :: bool
  wu_launches :: "string list"
  wu_out :: "js_call list"

definition new_webui :: "nat \<Rightarrow> store \<Rightarrow> manager option \<Rightarrow> webui" where
  "new_webui ob st mg = \<lparr>wu_store = st, wu_manager = map_option (add_running_observer ob) mg,
     wu_observer = ob, wu_alive = True, wu_allowed = False, wu_launches = [], wu_out = []\<rparr>"

definition destroy_webui :: "webui \<Rightarrow> webui" where
  "destroy_webui wu = wu\<lparr>wu_alive := False,
     wu_manager := map_option (remove_running_observer (wu_observer wu)) (wu_manager wu)\<rparr>"

definition allow_javascript :: "webui \<Rightarrow> webui" where
  "allow_javascript wu = wu\<lparr>wu_allowed := True\<rparr>"

definition resolve :: "jval \<Rightarrow> jval \<Rightarrow> webui \<Rightarrow> webui option" where
  "resolve callback response wu =
     (if wu_allowed wu then Some (wu\<lparr>wu_out := wu_out wu @ [Resolve callback response]\<rparr>) else None)"

subsection \<open>Arguments\<close>

definition arg :: "jval list \<Rightarrow> nat \<Rightarrow> jval option" where
  "arg args n = (if n < length args then Some (args ! n) else None)"

definition arg_string :: "jval list \<Rightarrow> nat \<Rightarrow> string option" where
  "arg_string args n = arg args n \<bind> as_string"

definition arg_list :: "jval list \<Rightarrow> nat \<Rightarrow> jval list option" where
  "arg_list args n = arg args n \<bind> as_list"

definition arg_dict :: "jval list \<Rightarrow> nat \<Rightarrow> dict option" where
  "arg_dict args n = arg args n \<bind> as_dict"

definition arg_int :: "jval list \<Rightarrow> nat \<Rightarrow> int option" where
  "arg_int args n = arg args n \<bind> (\<lambda>v. case v of JInt i \<Rightarrow> Some i | _ \<Rightarrow> None)"

text \<open>
  The cast of a number to the type of a workspace. Another number is cast as well, but the first use
  of the value, the conversion of the new workspace for its file and its answer, has no case for it:
  \<open>TypeToString\<close> runs off its end, which is undefined behaviour, so there is no next state to give.
\<close>

definition type_of_int :: "int \<Rightarrow> wtype option" where
  "type_of_int n = (if n = 0 then Some KNormal else if n = 1 then Some KFingerprint else None)"

subsection \<open>What the launcher reports\<close>

definition status_change :: "string \<Rightarrow> string \<Rightarrow> dict \<Rightarrow> webui \<Rightarrow> webui" where
  "status_change i status details wu =
     (if \<not> wu_allowed wu then wu
      else wu\<lparr>wu_out := wu_out wu @
             [CallFunction ''onWorkspaceStatusChange'' [JString i, JString status, JDict details]]\<rparr>)"

definition on_workspace_status_changed :: "string \<Rightarrow> rw_status \<Rightarrow> dict \<Rightarrow> webui \<Rightarrow> webui" where
  "on_workspace_status_changed i status details wu =
     status_change i (status_to_string status) details wu"

definition on_workspace_launched :: "int \<Rightarrow> running \<Rightarrow> webui \<Rightarrow> webui" where
  "on_workspace_launched now r wu =
     status_change (rw_id r) (status_to_string (rw_status r)) (running_to_dict now r) wu"

definition on_workspace_stopped :: "string \<Rightarrow> webui \<Rightarrow> webui" where
  "on_workspace_stopped i wu =
     status_change i ''stopped'' (dict_set ''status'' (JString ''stopped'') []) wu"

text \<open>
  An effect of the launcher as the handler sees it. The callback of the \<open>k\<close>-th start the handler
  asked for answers the \<open>k\<close>-th of \<open>wu_launches\<close>, unless the handler is gone.
\<close>

fun deliver :: "int \<Rightarrow> launch_effect \<Rightarrow> webui \<Rightarrow> webui option" where
  "deliver now (StartReplied k success result) wu =
     (if \<not> wu_alive wu then Some wu
      else resolve (JString (wu_launches wu ! k)) (JDict result) wu)"
| "deliver now (ObserverStatus ob i status details) wu =
     Some (if ob = wu_observer wu then on_workspace_status_changed i status details wu else wu)"
| "deliver now (ObserverLaunched ob r) wu =
     Some (if ob = wu_observer wu then on_workspace_launched now r wu else wu)"
| "deliver now (ObserverStopped ob i) wu =
     Some (if ob = wu_observer wu then on_workspace_stopped i wu else wu)"
| "deliver now _ wu = Some wu"

fun deliver_all :: "int \<Rightarrow> launch_effect list \<Rightarrow> webui \<Rightarrow> webui option" where
  "deliver_all now [] wu = Some wu"
| "deliver_all now (e # es) wu = do { wu \<leftarrow> deliver now e wu; deliver_all now es wu }"

definition with_launcher :: "int \<Rightarrow> (manager \<Rightarrow> manager) \<Rightarrow> webui \<Rightarrow> webui option" where
  "with_launcher now f wu =
     (case wu_manager wu of
        None \<Rightarrow> Some wu
      | Some mg \<Rightarrow> deliver_all now (drop (length (mg_log mg)) (mg_log (f mg)))
                   (wu\<lparr>wu_manager := Some (f mg)\<rparr>))"

subsection \<open>Workspaces\<close>

definition web_get_all :: "lib \<Rightarrow> jval list \<Rightarrow> webui \<Rightarrow> webui option" where
  "web_get_all lib args wu = do {
     let wu = allow_javascript wu;
     let result = map (\<lambda>w. JDict (workspace_to_dict (lb_time lib) w)) (get_all_workspaces (wu_store wu));
     callback \<leftarrow> arg args 0;
     resolve callback (JList result) wu }"

text \<open>The workspace a message asks to create: name and type, or a dictionary.\<close>

definition created_workspace :: "lib \<Rightarrow> ui_env \<Rightarrow> jval list \<Rightarrow> workspace option" where
  "created_workspace lib ev args = do {
     v \<leftarrow> arg args 1;
     (case as_string v of
        Some name \<Rightarrow> do {
          type_int \<leftarrow> arg_int args 2;
          type \<leftarrow> type_of_int type_int;
          Some (create_basic (ev_ids ev 0) (ev_seeds ev 0) (ev_now ev) name type) }
      | None \<Rightarrow> do {
          d \<leftarrow> arg_dict args 1;
          let ws = workspace_from_dict (lb_time lib) d;
          let ws = (if ws_id ws = [] then ws\<lparr>ws_id := ev_ids ev 0\<rparr> else ws);
          let ws = (if ws_fingerprint_seed ws = 0 then ws\<lparr>ws_fingerprint_seed := ev_seeds ev 0\<rparr> else ws);
          Some (ws\<lparr>ws_created_at := ev_now ev, ws_updated_at := ev_now ev\<rparr>) }) }"

definition web_create :: "lib \<Rightarrow> ui_env \<Rightarrow> jval list \<Rightarrow> webui \<Rightarrow> webui option" where
  "web_create lib ev args wu = do {
     let wu = allow_javascript wu;
     ws \<leftarrow> created_workspace lib ev args;
     let (created, st) = create_workspace (lb_time lib) (ev_ids ev 1) (ev_seeds ev 1) (ev_now ev) ws (wu_store wu);
     callback \<leftarrow> arg args 0;
     resolve callback (JDict (workspace_to_dict (lb_time lib) created)) (wu\<lparr>wu_store := st\<rparr>) }"

definition web_update :: "lib \<Rightarrow> ui_env \<Rightarrow> jval list \<Rightarrow> webui \<Rightarrow> webui option" where
  "web_update lib ev args wu = do {
     let wu = allow_javascript wu;
     v \<leftarrow> arg args 1;
     (case as_string v of
        Some i \<Rightarrow> do {
          new_name \<leftarrow> arg_string args 2;
          let (success, st) = rename_workspace (lb_time lib) (ev_now ev) i new_name (wu_store wu);
          callback \<leftarrow> arg args 0;
          resolve callback (JBool success) (wu\<lparr>wu_store := st\<rparr>) }
      | None \<Rightarrow> do {
          d \<leftarrow> arg_dict args 1;
          let ws = (workspace_from_dict (lb_time lib) d)\<lparr>ws_updated_at := ev_now ev\<rparr>;
          let (success, st) = update_workspace (lb_time lib) (ev_now ev) ws (wu_store wu);
          callback \<leftarrow> arg args 0;
          resolve callback (JBool success) (wu\<lparr>wu_store := st\<rparr>) }) }"

definition web_delete :: "lib \<Rightarrow> jval list \<Rightarrow> webui \<Rightarrow> webui option" where
  "web_delete lib args wu = do {
     let wu = allow_javascript wu;
     i \<leftarrow> arg_string args 1;
     let (success, st) = delete_workspace (lb_time lib) i (wu_store wu);
     callback \<leftarrow> arg args 0;
     resolve callback (JBool success) (wu\<lparr>wu_store := st\<rparr>) }"

subsection \<open>Running workspaces\<close>

definition web_launch :: "ui_env \<Rightarrow> jval list \<Rightarrow> webui \<Rightarrow> webui option" where
  "web_launch ev args wu = do {
     let wu = allow_javascript wu;
     i \<leftarrow> arg_string args 1;
     (case get_workspace (wu_store wu) i of
        None \<Rightarrow> do { callback \<leftarrow> arg args 0; resolve callback (JDict (error_dict ''Workspace not found'')) wu }
      | Some ws \<Rightarrow>
          (case wu_manager wu of
             None \<Rightarrow> do {
               callback \<leftarrow> arg args 0;
               resolve callback (JDict (error_dict ''Workspace manager not available'')) wu }
           | Some mg \<Rightarrow> do {
               callback_id \<leftarrow> arg_string args 0;
               with_launcher (ev_now ev)
                 (start_workspace (ev_temp ev) (ev_can_bind ev) (ev_now ev) ws (length (wu_launches wu)))
                 (wu\<lparr>wu_launches := wu_launches wu @ [callback_id]\<rparr>) })) }"

definition web_stop :: "ui_env \<Rightarrow> jval list \<Rightarrow> webui \<Rightarrow> webui option" where
  "web_stop ev args wu = do {
     let wu = allow_javascript wu;
     i \<leftarrow> arg_string args 1;
     wu \<leftarrow> with_launcher (ev_now ev) (stop_workspace i) wu;
     callback \<leftarrow> arg args 0;
     resolve callback (JDict (dict_set ''status'' (JString ''stopped'') [])) wu }"

definition web_status :: "ui_env \<Rightarrow> jval list \<Rightarrow> webui \<Rightarrow> webui option" where
  "web_status ev args wu = do {
     let wu = allow_javascript wu;
     i \<leftarrow> arg_string args 1;
     let status = (case wu_manager wu of
        Some mg \<Rightarrow> get_status_dict (ev_now ev) mg i
      | None \<Rightarrow> dict_set ''status'' (JString ''stopped'') []);
     callback \<leftarrow> arg args 0;
     resolve callback (JDict status) wu }"

subsection \<open>Searches and batches\<close>

text \<open>\<open>lower\<close> is \<open>base::ToLowerASCII\<close>.\<close>

definition search_matches :: "(string \<Rightarrow> string) \<Rightarrow> string \<Rightarrow> workspace \<Rightarrow> bool" where
  "search_matches lower query w = (query = [] \<or> str_find (lower query) (lower (ws_name w)) \<noteq> None)"

definition web_search :: "(string \<Rightarrow> string) \<Rightarrow> lib \<Rightarrow> jval list \<Rightarrow> webui \<Rightarrow> webui option" where
  "web_search lower lib args wu = do {
     let wu = allow_javascript wu;
     query \<leftarrow> arg_string args 1;
     let result = map (\<lambda>w. JDict (workspace_to_dict (lb_time lib) w))
                    (filter (search_matches lower query) (get_all_workspaces (wu_store wu)));
     callback \<leftarrow> arg args 0;
     resolve callback (JList result) wu }"

fun delete_each :: "lib \<Rightarrow> jval list \<Rightarrow> int \<times> store \<Rightarrow> int \<times> store" where
  "delete_each lib [] acc = acc"
| "delete_each lib (id_val # ids) (deleted, st) =
     (case as_string id_val of
        None \<Rightarrow> delete_each lib ids (deleted, st)
      | Some i \<Rightarrow>
          (let (success, st) = delete_workspace (lb_time lib) i st
           in delete_each lib ids (if success then deleted + 1 else deleted, st)))"

definition web_batch_delete :: "lib \<Rightarrow> jval list \<Rightarrow> webui \<Rightarrow> webui option" where
  "web_batch_delete lib args wu = do {
     let wu = allow_javascript wu;
     ids \<leftarrow> arg_list args 1;
     let (deleted, st) = delete_each lib ids (0, wu_store wu);
     callback \<leftarrow> arg args 0;
     resolve callback (JDict (dict_set ''deleted'' (JInt deleted) [])) (wu\<lparr>wu_store := st\<rparr>) }"

definition launched_entry :: "string \<Rightarrow> jval" where
  "launched_entry i = JDict (dict_set ''launched'' (JBool True) (dict_set ''id'' (JString i) []))"

definition web_batch_launch :: "jval list \<Rightarrow> webui \<Rightarrow> webui option" where
  "web_batch_launch args wu = do {
     let wu = allow_javascript wu;
     ids \<leftarrow> arg_list args 1;
     let known = filter (\<lambda>i. get_workspace (wu_store wu) i \<noteq> None \<and> wu_manager wu \<noteq> None)
                   (List.map_filter as_string ids);
     callback \<leftarrow> arg args 0;
     resolve callback (JList (map launched_entry known)) wu }"

fun stop_each :: "int \<Rightarrow> jval list \<Rightarrow> int \<Rightarrow> webui \<Rightarrow> (int \<times> webui) option" where
  "stop_each now [] stopped wu = Some (stopped, wu)"
| "stop_each now (id_val # ids) stopped wu =
     (case as_string id_val of
        None \<Rightarrow> stop_each now ids stopped wu
      | Some i \<Rightarrow>
          if wu_manager wu = None then stop_each now ids stopped wu
          else do {
            wu \<leftarrow> with_launcher now (stop_workspace i) wu;
            stop_each now ids (stopped + 1) wu })"

definition web_batch_stop :: "ui_env \<Rightarrow> jval list \<Rightarrow> webui \<Rightarrow> webui option" where
  "web_batch_stop ev args wu = do {
     let wu = allow_javascript wu;
     ids \<leftarrow> arg_list args 1;
     (stopped, wu) \<leftarrow> stop_each (ev_now ev) ids 0 wu;
     callback \<leftarrow> arg args 0;
     resolve callback (JDict (dict_set ''stopped'' (JInt stopped) [])) wu }"

text \<open>The tags, in a set ordered by bytes.\<close>

definition all_tags :: "store \<Rightarrow> string list" where
  "all_tags st = fold insort_insert (concat (map (\<lambda>w. map pt_tag (ws_tags w)) (get_all_workspaces st))) []"

definition web_get_all_tags :: "jval list \<Rightarrow> webui \<Rightarrow> webui option" where
  "web_get_all_tags args wu = do {
     let wu = allow_javascript wu;
     callback \<leftarrow> arg args 0;
     resolve callback (JList (map JString (all_tags (wu_store wu)))) wu }"

subsection \<open>Proxy test, templates, dashboard\<close>

definition web_proxy_test :: "jval list \<Rightarrow> webui \<Rightarrow> webui option" where
  "web_proxy_test args wu = do {
     let wu = allow_javascript wu;
     proxy_url \<leftarrow> arg_string args 1;
     let result = dict_set ''latency_ms'' (JInt 0) (dict_set ''success'' (JBool True)
                    (dict_set ''proxy'' (JString proxy_url) []));
     callback \<leftarrow> arg args 0;
     resolve callback (JDict result) wu }"

definition web_get_templates :: "jval list \<Rightarrow> webui \<Rightarrow> webui option" where
  "web_get_templates args wu = do {
     let wu = allow_javascript wu;
     callback \<leftarrow> arg args 0;
     resolve callback (JList []) wu }"

definition web_save_template :: "jval list \<Rightarrow> webui \<Rightarrow> webui option" where
  "web_save_template args wu = do {
     let wu = allow_javascript wu;
     let result = dict_set ''template_id'' (JString ''template_1'') (dict_set ''success'' (JBool True) []);
     callback \<leftarrow> arg args 0;
     resolve callback (JDict result) wu }"

definition web_delete_template :: "jval list \<Rightarrow> webui \<Rightarrow> webui option" where
  "web_delete_template args wu = do {
     let wu = allow_javascript wu;
     template_id \<leftarrow> arg_string args 1;
     let result = dict_set ''success'' (JBool True) (dict_set ''template_id'' (JString template_id) []);
     callback \<leftarrow> arg args 0;
     resolve callback (JDict result) wu }"

definition dashboard_stats :: "store \<Rightarrow> dict" where
  "dashboard_stats st =
     (let all = get_all_workspaces st;
          normal = int (length (filter (\<lambda>w. ws_type w = KNormal) all));
          fingerprint = int (length (filter (\<lambda>w. ws_type w \<noteq> KNormal) all));
          running = int (length (filter (\<lambda>w. ws_status w = ''running'') all));
          d = dict_set ''total'' (JInt (int (length all))) [];
          d = dict_set ''normal'' (JInt normal) d;
          d = dict_set ''fingerprint'' (JInt fingerprint) d;
          d = dict_set ''running'' (JInt running) d;
          d = dict_set ''stopped'' (JInt (int (length all) - running)) d
      in d)"

definition web_dashboard :: "jval list \<Rightarrow> webui \<Rightarrow> webui option" where
  "web_dashboard args wu = do {
     let wu = allow_javascript wu;
     callback \<leftarrow> arg args 0;
     resolve callback (JDict (dashboard_stats (wu_store wu))) wu }"

subsection \<open>Messages\<close>

datatype message =
    GetAllWorkspaces | CreateWorkspace | UpdateWorkspace | DeleteWorkspace | LaunchWorkspace
  | StopWorkspace | GetWorkspaceStatus | SearchWorkspaces | BatchDeleteWorkspaces
  | BatchLaunchWorkspaces | BatchStopWorkspaces | GetAllTags | ProxyTest | GetTemplates
  | SaveTemplate | DeleteTemplate | GetDashboardStats

text \<open>The names the page knows them by.\<close>

fun message_name :: "message \<Rightarrow> string" where
  "message_name GetAllWorkspaces = ''getAllWorkspaces''"
| "message_name CreateWorkspace = ''createWorkspace''"
| "message_name UpdateWorkspace = ''updateWorkspace''"
| "message_name DeleteWorkspace = ''deleteWorkspace''"
| "message_name LaunchWorkspace = ''launchWorkspace''"
| "message_name StopWorkspace = ''stopWorkspace''"
| "message_name GetWorkspaceStatus = ''getWorkspaceStatus''"
| "message_name SearchWorkspaces = ''searchWorkspaces''"
| "message_name BatchDeleteWorkspaces = ''batchDeleteWorkspaces''"
| "message_name BatchLaunchWorkspaces = ''batchLaunchWorkspaces''"
| "message_name BatchStopWorkspaces = ''batchStopWorkspaces''"
| "message_name GetAllTags = ''getAllTags''"
| "message_name ProxyTest = ''proxyTest''"
| "message_name GetTemplates = ''getTemplates''"
| "message_name SaveTemplate = ''saveTemplate''"
| "message_name DeleteTemplate = ''deleteTemplate''"
| "message_name GetDashboardStats = ''getDashboardStats''"

fun handle_message :: "(string \<Rightarrow> string) \<Rightarrow> lib \<Rightarrow> ui_env \<Rightarrow> message \<Rightarrow> jval list \<Rightarrow> webui \<Rightarrow> webui option" where
  "handle_message lower lib ev GetAllWorkspaces args wu = web_get_all lib args wu"
| "handle_message lower lib ev CreateWorkspace args wu = web_create lib ev args wu"
| "handle_message lower lib ev UpdateWorkspace args wu = web_update lib ev args wu"
| "handle_message lower lib ev DeleteWorkspace args wu = web_delete lib args wu"
| "handle_message lower lib ev LaunchWorkspace args wu = web_launch ev args wu"
| "handle_message lower lib ev StopWorkspace args wu = web_stop ev args wu"
| "handle_message lower lib ev GetWorkspaceStatus args wu = web_status ev args wu"
| "handle_message lower lib ev SearchWorkspaces args wu = web_search lower lib args wu"
| "handle_message lower lib ev BatchDeleteWorkspaces args wu = web_batch_delete lib args wu"
| "handle_message lower lib ev BatchLaunchWorkspaces args wu = web_batch_launch args wu"
| "handle_message lower lib ev BatchStopWorkspaces args wu = web_batch_stop ev args wu"
| "handle_message lower lib ev GetAllTags args wu = web_get_all_tags args wu"
| "handle_message lower lib ev ProxyTest args wu = web_proxy_test args wu"
| "handle_message lower lib ev GetTemplates args wu = web_get_templates args wu"
| "handle_message lower lib ev SaveTemplate args wu = web_save_template args wu"
| "handle_message lower lib ev DeleteTemplate args wu = web_delete_template args wu"
| "handle_message lower lib ev GetDashboardStats args wu = web_dashboard args wu"

text \<open>
  What happens to the handler: a message of the page, an answer to a start, a poll of the watchdog,
  the page going away (the framework disallows JavaScript) and the end of the handler. Messages
  come only from a page, so to a handler that is alive.
\<close>

datatype webui_event =
    PageMessage ui_env message "jval list"
  | PageStartReady nat "int option" int
  | PagePoll "int \<Rightarrow> bool" int
  | PageGone
  | HandlerGone

fun webui_step :: "(string \<Rightarrow> string) \<Rightarrow> lib \<Rightarrow> webui_event \<Rightarrow> webui \<Rightarrow> webui option" where
  "webui_step lower lib (PageMessage ev m args) wu =
     (if wu_alive wu then handle_message lower lib ev m args wu else Some wu)"
| "webui_step lower lib (PageStartReady k pid now) wu =
     with_launcher now (start_reply (lb_js lib) (lb_json lib) k pid now) wu"
| "webui_step lower lib (PagePoll exited now) wu =
     with_launcher now (launcher_step (lb_js lib) (lb_json lib) (LPoll exited now)) wu"
| "webui_step lower lib PageGone wu = Some (wu\<lparr>wu_allowed := False\<rparr>)"
| "webui_step lower lib HandlerGone wu = Some (destroy_webui wu)"

fun webui_run :: "(string \<Rightarrow> string) \<Rightarrow> lib \<Rightarrow> webui_event list \<Rightarrow> webui \<Rightarrow> webui option" where
  "webui_run lower lib [] wu = Some wu"
| "webui_run lower lib (e # es) wu = do { wu \<leftarrow> webui_step lower lib e wu; webui_run lower lib es wu }"

end
