(* ===== verification/Webui_Safety.thy ===== *)
theory Webui_Safety
  imports Webui_Handler Api_Conservation
begin

text \<open>
  What the page can rely on, and what it cannot: which messages end the browser or have no defined
  result, that every other one is answered once, what an update does to the fields it leaves out, and what the dashboard counts.
\<close>

subsection \<open>Reports of the launcher\<close>

named_theorems wu_simps "effects of the handler's helpers on its fields"

lemma allow_fields [simp, wu_simps]:
  "wu_store (allow_javascript wu) = wu_store wu" "wu_manager (allow_javascript wu) = wu_manager wu"
  "wu_observer (allow_javascript wu) = wu_observer wu" "wu_alive (allow_javascript wu) = wu_alive wu"
  "wu_allowed (allow_javascript wu)" "wu_launches (allow_javascript wu) = wu_launches wu"
  "wu_out (allow_javascript wu) = wu_out wu"
  by (simp_all add: allow_javascript_def)

text \<open>Everything of the handler but what it has sent to the page.\<close>

definition same_but_out :: "webui \<Rightarrow> webui \<Rightarrow> bool" where
  "same_but_out wu wu' = (wu'\<lparr>wu_out := wu_out wu\<rparr> = wu)"

lemma same_but_outD:
  assumes "same_but_out wu wu'"
  shows "wu_store wu' = wu_store wu" "wu_manager wu' = wu_manager wu" "wu_alive wu' = wu_alive wu"
    "wu_allowed wu' = wu_allowed wu" "wu_launches wu' = wu_launches wu" "wu_observer wu' = wu_observer wu"
  using assms unfolding same_but_out_def by (cases wu; cases wu'; simp)+

lemma same_but_out_refl [simp]: "same_but_out wu wu" "same_but_out wu (wu\<lparr>wu_out := out\<rparr>)"
  by (simp_all add: same_but_out_def)

lemma same_but_out_trans: "same_but_out a b \<Longrightarrow> same_but_out b c \<Longrightarrow> same_but_out a c"
  unfolding same_but_out_def by (cases a; cases b; cases c) simp

text \<open>The callbacks answered by some calls.\<close>

fun answer_of :: "js_call \<Rightarrow> jval option" where
  "answer_of (Resolve callback response) = Some callback"
| "answer_of (CallFunction name args) = None"

definition answers :: "js_call list \<Rightarrow> jval list" where
  "answers calls = List.map_filter answer_of calls"

lemma answers_simps [simp]:
  "answers [] = []" "answers (xs @ ys) = answers xs @ answers ys"
  "answers [Resolve callback response] = [callback]" "answers [CallFunction name args] = []"
  by (simp_all add: answers_def List.map_filter_def)

lemma status_change_answers [simp]:
  "answers (wu_out (status_change i s d wu)) = answers (wu_out wu)" "same_but_out wu (status_change i s d wu)"
  by (simp_all add: status_change_def)

lemmas report_defs = on_workspace_status_changed_def on_workspace_launched_def on_workspace_stopped_def

text \<open>
  Delivering effects fails only when it has to answer a start while JavaScript is not allowed;
  otherwise the callbacks of the starts are answered in order.
\<close>

lemma deliver_cases:
  assumes "wu_alive wu"
  shows "(case reply_of e of
     None \<Rightarrow> \<exists>wu'. deliver now e wu = Some wu' \<and> same_but_out wu wu' \<and> answers (wu_out wu') = answers (wu_out wu)
   | Some k \<Rightarrow> if wu_allowed wu
               then \<exists>wu'. deliver now e wu = Some wu' \<and> same_but_out wu wu' \<and>
                      answers (wu_out wu') = answers (wu_out wu) @ [JString (wu_launches wu ! k)]
               else deliver now e wu = None)"
  using assms by (cases e) (auto simp: resolve_def report_defs)

lemma deliver_all_allowed:
  assumes "wu_alive wu" "wu_allowed wu"
  shows "\<exists>wu'. deliver_all now es wu = Some wu' \<and> same_but_out wu wu' \<and>
     answers (wu_out wu') = answers (wu_out wu) @ map (\<lambda>k. JString (wu_launches wu ! k)) (replied es)"
  using assms
proof (induction es arbitrary: wu)
  case (Cons e es)
  have "\<exists>wu1. deliver now e wu = Some wu1 \<and> same_but_out wu wu1 \<and>
      answers (wu_out wu1) = answers (wu_out wu) @ map (\<lambda>k. JString (wu_launches wu ! k)) (replied [e])"
    using deliver_cases [OF Cons.prems(1), where e = e and now = now] Cons.prems(2)
    by (auto simp: replied_def List.map_filter_simps split: option.splits)
  then obtain wu1 where d: "deliver now e wu = Some wu1" and s: "same_but_out wu wu1" and
    a: "answers (wu_out wu1) = answers (wu_out wu) @ map (\<lambda>k. JString (wu_launches wu ! k)) (replied [e])"
    by blast
  have "wu_alive wu1" "wu_allowed wu1" using Cons.prems same_but_outD [OF s] by simp_all
  from Cons.IH [OF this] obtain wu' where "deliver_all now es wu1 = Some wu'" "same_but_out wu1 wu'"
    "answers (wu_out wu') = answers (wu_out wu1) @ map (\<lambda>k. JString (wu_launches wu1 ! k)) (replied es)"
    by blast
  moreover have "replied (e # es) = replied [e] @ replied es" using replied_simps(2) [of "[e]" es] by simp
  ultimately show ?case using d a s same_but_outD [OF s] same_but_out_trans by (auto simp del: replied_simps)
qed (simp add: replied_def List.map_filter_def)

lemma deliver_all_disallowed:
  assumes "wu_alive wu" "\<not> wu_allowed wu"
  shows "deliver_all now es wu \<noteq> None \<longleftrightarrow> replied es = []"
  using assms
proof (induction es arbitrary: wu)
  case (Cons e es)
  show ?case
  proof (cases "reply_of e")
    case None
    then obtain wu1 where d: "deliver now e wu = Some wu1" and s: "same_but_out wu wu1"
      using deliver_cases [OF Cons.prems(1), where e = e and now = now] by auto
    have "wu_alive wu1" "\<not> wu_allowed wu1" using Cons.prems same_but_outD [OF s] by simp_all
    from Cons.IH [OF this] None d show ?thesis by (simp add: replied_def List.map_filter_simps)
  next
    case (Some k)
    then show ?thesis
      using deliver_cases [OF Cons.prems(1), where e = e and now = now] Cons.prems(2)
      by (simp add: replied_def List.map_filter_simps)
  qed
qed (simp add: replied_def List.map_filter_simps)

lemma deliver_all_disallowed_same:
  assumes "wu_alive wu" "\<not> wu_allowed wu" "deliver_all now es wu = Some wu'" 
  shows "same_but_out wu wu' \<and> answers (wu_out wu') = answers (wu_out wu)"
  using assms
proof (induction es arbitrary: wu)
  case (Cons e es)
  then obtain wu1 where d: "deliver now e wu = Some wu1" and r: "deliver_all now es wu1 = Some wu'"
    by (auto split: Option.bind_splits)
  have e: "same_but_out wu wu1" "answers (wu_out wu1) = answers (wu_out wu)"
    using deliver_cases [OF Cons.prems(1), where e = e and now = now] d Cons.prems(2) by (auto split: option.splits)
  have "wu_alive wu1" "\<not> wu_allowed wu1" using Cons.prems same_but_outD [OF e(1)] by simp_all
  from Cons.IH [OF this r] e same_but_out_trans show ?case by metis
qed simp

text \<open>An operation of the launcher on behalf of a page that is there.\<close>

lemma with_launcher_allowed:
  assumes "wu_alive wu" "wu_allowed wu"
  obtains wu' where "with_launcher now f wu = Some wu'" "same_but_out (wu\<lparr>wu_manager := wu_manager wu'\<rparr>) wu'"
    "wu_manager wu' = map_option f (wu_manager wu)"
proof (cases "wu_manager wu")
  case None
  then show ?thesis by (intro that [of wu]) (simp_all add: with_launcher_def same_but_out_def)
next
  case (Some mg)
  let ?wu = "wu\<lparr>wu_manager := Some (f mg)\<rparr>"
  obtain wu' where d: "deliver_all now (drop (length (mg_log mg)) (mg_log (f mg))) ?wu = Some wu'"
    and s: "same_but_out ?wu wu'"
    using deliver_all_allowed [of ?wu now] assms by auto
  then have "with_launcher now f wu = Some wu'" using Some by (simp add: with_launcher_def)
  with s Some same_but_outD [OF s] show ?thesis by (intro that) simp_all
qed

subsection \<open>Messages without a defined result\<close>

text \<open>The arguments a message must come with.\<close>

fun readable :: "message \<Rightarrow> jval list \<Rightarrow> webui \<Rightarrow> bool" where
  "readable CreateWorkspace args wu =
     (if arg_string args 1 \<noteq> None then arg_int args 2 \<noteq> None else arg_dict args 1 \<noteq> None)"
| "readable UpdateWorkspace args wu =
     (if arg_string args 1 \<noteq> None then arg_string args 2 \<noteq> None else arg_dict args 1 \<noteq> None)"
| "readable LaunchWorkspace args wu =
     (case arg_string args 1 of
        None \<Rightarrow> False
      | Some i \<Rightarrow> get_workspace (wu_store wu) i \<noteq> None \<and> wu_manager wu \<noteq> None \<longrightarrow> arg_string args 0 \<noteq> None)"
| "readable DeleteWorkspace args wu = (arg_string args 1 \<noteq> None)"
| "readable StopWorkspace args wu = (arg_string args 1 \<noteq> None)"
| "readable GetWorkspaceStatus args wu = (arg_string args 1 \<noteq> None)"
| "readable SearchWorkspaces args wu = (arg_string args 1 \<noteq> None)"
| "readable ProxyTest args wu = (arg_string args 1 \<noteq> None)"
| "readable DeleteTemplate args wu = (arg_string args 1 \<noteq> None)"
| "readable BatchDeleteWorkspaces args wu = (arg_list args 1 \<noteq> None)"
| "readable BatchLaunchWorkspaces args wu = (arg_list args 1 \<noteq> None)"
| "readable BatchStopWorkspaces args wu = (arg_list args 1 \<noteq> None)"
| "readable _ args wu = (args \<noteq> [])"

text \<open>The message that has a workspace created with a number that is no type's.\<close>

definition unnamed_type :: "message \<Rightarrow> jval list \<Rightarrow> bool" where
  "unnamed_type m args \<longleftrightarrow>
     m = CreateWorkspace \<and> arg_string args 1 \<noteq> None \<and> (\<exists>n. arg_int args 2 = Some n \<and> n \<notin> {0, 1})"

lemma arg_first:
  "arg args 1 = Some v \<Longrightarrow> arg args 0 = Some (args ! 0)" "args \<noteq> [] \<Longrightarrow> arg args 0 = Some (args ! 0)"
  "arg_string args 1 = Some x \<Longrightarrow> arg args 0 = Some (args ! 0)"
  "arg_dict args 1 = Some d \<Longrightarrow> arg args 0 = Some (args ! 0)"
  "arg_list args 1 = Some l \<Longrightarrow> arg args 0 = Some (args ! 0)"
  by (auto simp: arg_def arg_string_def arg_dict_def arg_list_def split: if_splits)

lemma arg_zero: "arg args 0 = None \<longleftrightarrow> args = []" "arg [] n = None"
  by (simp_all add: arg_def)

lemma resolve_allowed [simp]:
  "wu_allowed wu \<Longrightarrow> resolve callback v wu = Some (wu\<lparr>wu_out := wu_out wu @ [Resolve callback v]\<rparr>)"
  by (simp add: resolve_def)

lemma stop_each_allowed:
  assumes "wu_alive wu" "wu_allowed wu"
  shows "\<exists>n wu'. stop_each now ids stopped wu = Some (n, wu') \<and> wu_allowed wu'"
  using assms
proof (induction ids arbitrary: stopped wu)
  case (Cons v ids)
  show ?case
  proof (cases "as_string v = None \<or> wu_manager wu = None")
    case True
    then show ?thesis using Cons.IH [OF Cons.prems] by (auto split: option.split)
  next
    case False
    then obtain i where i: "as_string v = Some i" by (cases "as_string v") auto
    obtain wu' where l: "with_launcher now (stop_workspace i) wu = Some wu'"
      and s: "same_but_out (wu\<lparr>wu_manager := wu_manager wu'\<rparr>) wu'"
      using with_launcher_allowed [OF Cons.prems] by metis
    have "wu_alive wu'" "wu_allowed wu'" using same_but_outD [OF s] Cons.prems by simp_all
    from Cons.IH [OF this] show ?thesis using False i l by auto
  qed
qed simp

lemma created_workspace_None:
  "created_workspace lib ev args = None \<longleftrightarrow>
     \<not> readable CreateWorkspace args wu \<or> unnamed_type CreateWorkspace args"
  by (auto simp: created_workspace_def arg_string_def arg_dict_def type_of_int_def unnamed_type_def Let_def
      split: option.splits Option.bind_splits)

text \<open>The messages that go through the launcher.\<close>

lemma with_launcher_total:
  assumes "wu_alive wu" "wu_allowed wu"
  shows "\<exists>wu'. with_launcher now f wu = Some wu' \<and> wu_allowed wu'"
  using with_launcher_allowed [OF assms, of now f] same_but_outD(4) assms(2) by fastforce

lemma launcher_messages_fail:
  assumes "wu_alive wu"
  shows "web_launch ev args wu = None \<longleftrightarrow> \<not> readable LaunchWorkspace args wu"
    "web_stop ev args wu = None \<longleftrightarrow> \<not> readable StopWorkspace args wu"
    "web_batch_stop ev args wu = None \<longleftrightarrow> \<not> readable BatchStopWorkspaces args wu"
proof -
  let ?wu = "allow_javascript wu"
  have "with_launcher now f (?wu\<lparr>wu_launches := l\<rparr>) \<noteq> None" for now f l
    using with_launcher_total [of "?wu\<lparr>wu_launches := l\<rparr>" now f] assms by auto
  then show "web_launch ev args wu = None \<longleftrightarrow> \<not> readable LaunchWorkspace args wu"
    by (auto simp: web_launch_def Let_def arg_first split: option.splits Option.bind_splits)
  show "web_stop ev args wu = None \<longleftrightarrow> \<not> readable StopWorkspace args wu"
  proof (cases "arg_string args 1")
    case (Some i)
    obtain wu' where "with_launcher (ev_now ev) (stop_workspace i) ?wu = Some wu'" "wu_allowed wu'"
      using with_launcher_total [of ?wu "ev_now ev" "stop_workspace i"] assms by auto
    then show ?thesis using Some by (simp add: web_stop_def Let_def arg_first)
  qed (simp add: web_stop_def Let_def)
  show "web_batch_stop ev args wu = None \<longleftrightarrow> \<not> readable BatchStopWorkspaces args wu"
  proof (cases "arg_list args 1")
    case (Some ids)
    obtain n wu' where "stop_each (ev_now ev) ids 0 ?wu = Some (n, wu')" "wu_allowed wu'"
      using stop_each_allowed [of ?wu "ev_now ev" ids 0] assms by auto
    then show ?thesis using Some by (simp add: web_batch_stop_def Let_def arg_first)
  qed (simp add: web_batch_stop_def Let_def)
qed

lemma create_fails:
  "web_create lib ev args wu = None \<longleftrightarrow>
     \<not> readable CreateWorkspace args wu \<or> unnamed_type CreateWorkspace args"
proof (cases "created_workspace lib ev args")
  case None
  then show ?thesis using created_workspace_None [of lib ev args wu] by (simp add: web_create_def Let_def)
next
  case (Some w)
  then have "arg args 1 \<noteq> None" by (cases "arg args 1") (simp_all add: created_workspace_def)
  then have "arg args 0 = Some (args ! 0)" using arg_first(1) by auto
  moreover have "readable CreateWorkspace args wu \<and> \<not> unnamed_type CreateWorkspace args"
    using Some created_workspace_None [of lib ev args wu] by (metis option.distinct(1))
  ultimately show ?thesis using Some by (simp add: web_create_def Let_def del: readable.simps split: prod.split)
qed

lemma update_fails: "web_update lib ev args wu = None \<longleftrightarrow> \<not> readable UpdateWorkspace args wu"
  by (auto simp: web_update_def Let_def arg_string_def arg_dict_def arg_first
      split: option.splits Option.bind_splits prod.splits)

lemmas small_messages = web_get_all_def web_delete_def web_status_def web_search_def web_batch_delete_def
  web_batch_launch_def web_get_all_tags_def web_proxy_test_def web_get_templates_def
  web_save_template_def web_delete_template_def web_dashboard_def

text \<open>
  C29 (type): a message has no defined result exactly when an argument its handler reads is missing or
  of another type, which is a failed \<open>CHECK\<close> and ends the browser, or when it has a workspace created
  with a number that is neither of the two types', which is undefined behaviour. Whatever the state of
  a handler that is alive, every other message is handled, and nothing the launcher reports on the
  way fails.
\<close>

theorem message_fails_iff:
  assumes "wu_alive wu"
  shows "handle_message lower lib ev m args wu = None \<longleftrightarrow> \<not> readable m args wu \<or> unnamed_type m args"
proof (cases m)
  case CreateWorkspace
  then show ?thesis by (simp only: handle_message.simps create_fails)
next
  case UpdateWorkspace
  then show ?thesis by (simp only: handle_message.simps update_fails unnamed_type_def message.distinct simp_thms)
next
  case LaunchWorkspace
  then show ?thesis by (simp only: handle_message.simps launcher_messages_fail [OF assms] unnamed_type_def message.distinct simp_thms)
next
  case StopWorkspace
  then show ?thesis by (simp only: handle_message.simps launcher_messages_fail [OF assms] unnamed_type_def message.distinct simp_thms)
next
  case BatchStopWorkspaces
  then show ?thesis by (simp only: handle_message.simps launcher_messages_fail [OF assms] unnamed_type_def message.distinct simp_thms)
qed (auto simp: small_messages unnamed_type_def Let_def arg_first arg_zero split: Option.bind_splits prod.splits)

theorem message_fails_iff_witness:
  "handle_message id sample_lib sample_env DeleteWorkspace [JString ''cb''] (new_webui 1 new_store None) = None \<and>
   handle_message id sample_lib sample_env CreateWorkspace [JString ''cb'', JString ''n'', JInt 2]
     (new_webui 1 new_store None) = None \<and>
   handle_message id sample_lib sample_env CreateWorkspace [JString ''cb'', JString ''n'', JInt 1]
     (new_webui 1 new_store None) \<noteq> None"
  using message_fails_iff [of "new_webui 1 new_store None" id sample_lib sample_env DeleteWorkspace "[JString ''cb'']"]
    message_fails_iff [of "new_webui 1 new_store None" id sample_lib sample_env CreateWorkspace "[JString ''cb'', JString ''n'', JInt 2]"]
    message_fails_iff [of "new_webui 1 new_store None" id sample_lib sample_env CreateWorkspace "[JString ''cb'', JString ''n'', JInt 1]"]
  by (simp add: new_webui_def arg_string_def arg_int_def arg_def unnamed_type_def)

subsection \<open>Every message is answered\<close>

text \<open>What the page has been answered and what it is still owed, by callback.\<close>

definition page_answered :: "webui \<Rightarrow> jval multiset" where
  "page_answered wu = mset (answers (wu_out wu))"

definition page_owed :: "webui \<Rightarrow> jval multiset" where
  "page_owed wu = (case wu_manager wu of
     None \<Rightarrow> {#} | Some mg \<Rightarrow> image_mset (\<lambda>k. JString (wu_launches wu ! k)) (owed mg))"

definition page_total :: "webui \<Rightarrow> jval multiset" where
  "page_total wu = page_answered wu + page_owed wu"

definition page_ok :: "webui \<Rightarrow> bool" where
  "page_ok wu = (\<forall>mg. wu_manager wu = Some mg \<longrightarrow> (\<forall>k\<in>#owed mg. k < length (wu_launches wu)))"

lemma page_allow [simp]: "page_total (allow_javascript wu) = page_total wu" "page_ok (allow_javascript wu) = page_ok wu"
  by (simp_all add: page_total_def page_answered_def page_owed_def page_ok_def cong: option.case_cong)

lemma page_store [simp]: "page_total (wu\<lparr>wu_store := st\<rparr>) = page_total wu" "page_ok (wu\<lparr>wu_store := st\<rparr>) = page_ok wu"
  by (simp_all add: page_total_def page_answered_def page_owed_def page_ok_def cong: option.case_cong)

lemma page_resolve:
  "resolve callback v wu = Some wu' \<Longrightarrow>
     page_total wu' = add_mset callback (page_total wu) \<and> (page_ok wu \<longrightarrow> page_ok wu') \<and> wu_alive wu' = wu_alive wu"
  by (auto simp: resolve_def page_total_def page_answered_def page_owed_def page_ok_def split: if_splits cong: option.case_cong)

text \<open>An operation of the launcher answers or owes what it was asked.\<close>

lemma with_launcher_page:
  assumes run: "with_launcher now f wu = Some wu'" and alive: "wu_alive wu" and ok: "page_ok wu"
    and keep: "\<And>mg. wu_manager wu = Some mg \<Longrightarrow> keeps extra mg (f mg)"
    and small: "\<And>k. wu_manager wu \<noteq> None \<Longrightarrow> k \<in># extra \<Longrightarrow> k < length (wu_launches wu)"
  shows "page_total wu' = page_total wu +
      (if wu_manager wu = None then {#} else image_mset (\<lambda>k. JString (wu_launches wu ! k)) extra)"
    "page_ok wu'" "wu_alive wu'"
proof -
  let ?g = "\<lambda>k. JString (wu_launches wu ! k)"
  have "page_total wu' = page_total wu + (if wu_manager wu = None then {#} else image_mset ?g extra) \<and>
      page_ok wu' \<and> wu_alive wu'"
  proof (cases "wu_manager wu")
    case None
    then show ?thesis using run alive ok by (simp add: with_launcher_def)
  next
    case (Some mg)
    let ?wu = "wu\<lparr>wu_manager := Some (f mg)\<rparr>"
    obtain new where log: "mg_log (f mg) = mg_log mg @ new"
      and img: "image_mset ?g (owed (f mg)) + mset (map ?g (replied new)) = image_mset ?g (owed mg) + image_mset ?g extra"
      and sub: "set_mset (owed (f mg)) \<subseteq> set_mset (owed mg) \<union> set_mset extra"
      using keeps_image [OF keep [OF Some], of ?g] by metis
    have d: "deliver_all now new ?wu = Some wu'" using run Some log by (simp add: with_launcher_def)
    have "same_but_out ?wu wu' \<and> answers (wu_out wu') = answers (wu_out wu) @ map ?g (replied new)"
    proof (cases "wu_allowed wu")
      case True
      then show ?thesis using deliver_all_allowed [of ?wu now new] alive d by simp
    next
      case False
      then have "replied new = []" using deliver_all_disallowed [of ?wu now new] alive d by simp
      with deliver_all_disallowed_same [of ?wu now new] False alive d show ?thesis by simp
    qed
    then have s: "same_but_out ?wu wu'" and a: "answers (wu_out wu') = answers (wu_out wu) @ map ?g (replied new)"
      by simp_all
    note f = same_but_outD [OF s]
    have "page_total wu' = mset (answers (wu_out wu)) + (image_mset ?g (owed (f mg)) + mset (map ?g (replied new)))"
      by (simp add: page_total_def page_answered_def page_owed_def a f)
    also have "\<dots> = page_total wu + image_mset ?g extra"
      unfolding img by (simp add: page_total_def page_answered_def page_owed_def Some)
    finally show ?thesis using f alive ok small sub Some by (auto simp: page_ok_def)
  qed
  then show "page_total wu' = page_total wu + (if wu_manager wu = None then {#} else image_mset ?g extra)"
    "page_ok wu'" "wu_alive wu'" by simp_all
qed

lemma deliver_all_dead: "\<not> wu_alive wu \<Longrightarrow> \<exists>wu'. deliver_all now es wu = Some wu' \<and> \<not> wu_alive wu'"
proof (induction es arbitrary: wu)
  case (Cons e es)
  have "\<exists>wu1. deliver now e wu = Some wu1 \<and> \<not> wu_alive wu1"
    using Cons.prems by (cases e) (auto simp: report_defs status_change_def)
  then show ?case using Cons.IH by auto
qed simp

lemma webui_step_dead: "\<not> wu_alive wu \<Longrightarrow> \<exists>wu'. webui_step lower lib e wu = Some wu' \<and> \<not> wu_alive wu'"
  by (cases e) (auto simp: with_launcher_def destroy_webui_def intro!: deliver_all_dead split: option.split)

lemma webui_run_dead: "\<not> wu_alive wu \<Longrightarrow> webui_run lower lib es wu = Some wu' \<Longrightarrow> \<not> wu_alive wu'"
proof (induction es arbitrary: wu)
  case (Cons e es)
  then show ?case using webui_step_dead [OF Cons.prems(1), of lower lib e] by auto
qed simp

text \<open>How a step moves the totals: by the callbacks \<open>new\<close>.\<close>

definition moves :: "jval multiset \<Rightarrow> webui \<Rightarrow> webui \<Rightarrow> bool" where
  "moves new wu wu' = (page_total wu' = page_total wu + new \<and> page_ok wu' \<and> wu_alive wu')"

lemma resolve_moves:
  assumes "resolve callback v wu = Some wu'" "moves new wu0 wu"
  shows "moves (add_mset callback new) wu0 wu'"
  using page_resolve [OF assms(1)] assms(2) by (auto simp: moves_def)

lemma launcher_moves:
  assumes "with_launcher now f wu = Some wu'" "\<And>mg. keeps {#} mg (f mg)" "moves new wu0 wu"
  shows "moves new wu0 wu'"
  using with_launcher_page [OF assms(1), where extra = "{#}"] assms(2,3) by (simp add: moves_def)

lemma moves_frame: "moves new wu0 (wu\<lparr>wu_store := st\<rparr>) = moves new wu0 wu"
  by (simp add: moves_def)

lemma stop_each_moves:
  "stop_each now ids stopped wu = Some (n, wu') \<Longrightarrow> moves new wu0 wu \<Longrightarrow> moves new wu0 wu'"
proof (induction ids arbitrary: stopped wu)
  case (Cons v ids)
  show ?case
  proof (cases "as_string v = None \<or> wu_manager wu = None")
    case True
    then show ?thesis using Cons.IH Cons.prems by (auto split: option.splits)
  next
    case False
    then obtain i wu1 where "with_launcher now (stop_workspace i) wu = Some wu1"
      and r: "stop_each now ids (stopped + 1) wu1 = Some (n, wu')"
      using Cons.prems(1) by (auto split: option.splits Option.bind_splits)
    from launcher_moves [OF this(1) keeps_stop Cons.prems(2)] show ?thesis by (rule Cons.IH [OF r])
  qed
qed simp

lemma launch_moves:
  assumes run: "with_launcher now (start_workspace t b n ws (length (wu_launches wu)))
      (wu\<lparr>wu_launches := wu_launches wu @ [i]\<rparr>) = Some wu'"
    and there: "wu_manager wu \<noteq> None" and m: "moves {#} wu0 wu"
  shows "moves {#JString i#} wu0 wu'"
proof -
  let ?wu = "wu\<lparr>wu_launches := wu_launches wu @ [i]\<rparr>"
  have ok: "page_ok wu" "wu_alive wu" and t: "page_total wu = page_total wu0" using m by (auto simp: moves_def)
  have "page_owed ?wu = page_owed wu"
    using ok(1) by (auto simp: page_owed_def page_ok_def nth_append split: option.split intro!: image_mset_cong)
  then have "page_total ?wu = page_total wu" by (simp add: page_total_def page_answered_def)
  moreover have "page_ok ?wu" using ok(1) by (auto simp: page_ok_def intro: less_SucI)
  ultimately show ?thesis
    using with_launcher_page [OF run, where extra = "{#length (wu_launches wu)#}"] keeps_start ok(2) there t
    by (simp add: moves_def)
qed

lemma message_moves:
  assumes "handle_message lower lib ev m args wu = Some wu'" "wu_alive wu" "page_ok wu"
  shows "moves {#args ! 0#} wu wu'"
proof -
  let ?wu = "allow_javascript wu"
  have m: "moves {#} wu ?wu" using assms by (simp add: moves_def)
  have first: "arg args 0 = Some c \<Longrightarrow> c = args ! 0" for c by (simp add: arg_def split: if_splits)
  note fin = resolve_moves [where new = "{#}"]
  show ?thesis
  proof (cases m)
    case LaunchWorkspace
    have "arg_string args 0 = Some i \<Longrightarrow> args ! 0 = JString i" for i
      by (auto simp: arg_string_def arg_def as_string_def split: if_splits jval.splits)
    then show ?thesis
      using assms(1) LaunchWorkspace fin [OF _ m] launch_moves [OF _ _ m]
      by (auto simp: web_launch_def Let_def dest: first split: option.splits Option.bind_splits)
  next
    case StopWorkspace
    then show ?thesis using assms(1) fin [OF _ launcher_moves [OF _ keeps_stop m]]
      by (auto simp: web_stop_def Let_def dest: first split: Option.bind_splits)
  next
    case BatchStopWorkspaces
    then show ?thesis using assms(1) fin [OF _ stop_each_moves [OF _ m]]
      by (auto simp: web_batch_stop_def Let_def split: Option.bind_splits) (frule first, blast)
  qed (use assms(1) fin [OF _ m] fin [OF _ moves_frame [THEN iffD2, OF m]] in
      \<open>auto simp: small_messages web_create_def web_update_def Let_def dest: first
        split: Option.bind_splits prod.splits option.splits\<close>)
qed

subsection \<open>Runs\<close>

lemma webui_step_moves:
  assumes "webui_step lower lib e wu = Some wu'" "wu_alive wu'" "page_ok wu"
  shows "moves (case e of PageMessage ev m args \<Rightarrow> {#args ! 0#} | _ \<Rightarrow> {#}) wu wu'"
proof (cases "wu_alive wu")
  case True
  then have m: "moves {#} wu wu" using assms(3) by (simp add: moves_def)
  show ?thesis
  proof (cases e)
    case (PageMessage ev m args)
    then show ?thesis using assms True by (simp add: message_moves)
  next
    case (PageStartReady k pid now)
    then show ?thesis using assms(1) launcher_moves [OF _ keeps_start_reply m] by simp
  next
    case (PagePoll exited now)
    then show ?thesis using assms(1) launcher_moves [OF _ keeps_poll_step m] by (simp del: launcher_step.simps)
  next
    case PageGone
    then have "wu' = wu\<lparr>wu_allowed := False\<rparr>" using assms(1) by simp
    then show ?thesis using m PageGone
      by (simp add: moves_def page_total_def page_answered_def page_owed_def page_ok_def cong: option.case_cong)
  next
    case HandlerGone
    then show ?thesis using assms by (auto simp: destroy_webui_def)
  qed
next
  case False
  then show ?thesis using assms webui_step_dead [of wu lower lib e] by auto
qed

text \<open>The callbacks the messages of a run ask to be answered.\<close>

fun asked :: "webui_event list \<Rightarrow> jval list" where
  "asked [] = []"
| "asked (PageMessage ev m args # es) = args ! 0 # asked es"
| "asked (e # es) = asked es"

lemma webui_run_moves:
  "webui_run lower lib es wu = Some wu' \<Longrightarrow> wu_alive wu' \<Longrightarrow> page_ok wu \<Longrightarrow> moves (mset (asked es)) wu wu'"
proof (induction es arbitrary: wu)
  case (Cons e es)
  then obtain wu1 where s: "webui_step lower lib e wu = Some wu1" and r: "webui_run lower lib es wu1 = Some wu'"
    by (auto split: Option.bind_splits)
  have "wu_alive wu1" using webui_run_dead [OF _ r] Cons.prems(2) by blast
  from webui_step_moves [OF s this Cons.prems(3)]
  have m: "moves (case e of PageMessage ev m args \<Rightarrow> {#args ! 0#} | _ \<Rightarrow> {#}) wu wu1" .
  then have "page_ok wu1" by (simp add: moves_def)
  from Cons.IH [OF r Cons.prems(2) this] m show ?case by (cases e) (auto simp: moves_def)
qed (simp add: moves_def)

text \<open>
  C10 (invariant): every message of the page is answered once. As long as the handler lives, after any
  run in which the browser did not end, the callbacks answered and those of the starts in flight are,
  counted with multiplicity, the callbacks the messages came with. Which messages end the browser
  is stated above.
\<close>

theorem page_answered_or_owed:
  assumes "webui_run lower lib es (new_webui ob st (if managed then Some new_manager else None)) = Some wu"
    "wu_alive wu"
  shows "page_answered wu + page_owed wu = mset (asked es)"
proof -
  let ?wu = "new_webui ob st (if managed then Some new_manager else None)"
  have "page_ok ?wu" "page_total ?wu = {#}"
    by (auto simp: page_ok_def page_total_def page_answered_def page_owed_def owed_def new_webui_def
        add_running_observer_def new_manager_def)
  with webui_run_moves [OF assms] show ?thesis by (simp add: moves_def page_total_def)
qed

theorem page_answered_or_owed_witness:
  "\<exists>wu. webui_run id sample_lib [PageMessage sample_env GetTemplates [JString ''cb'']]
      (new_webui 1 new_store None) = Some wu \<and> page_answered wu + page_owed wu = {#JString ''cb''#}"
proof -
  let ?es = "[PageMessage sample_env GetTemplates [JString ''cb'']]"
  obtain wu where wu: "webui_run id sample_lib ?es (new_webui 1 new_store (if False then Some new_manager else None)) = Some wu"
      "wu_alive wu"
    by (simp add: web_get_templates_def Let_def arg_def new_webui_def)
  from page_answered_or_owed [OF this] wu show ?thesis by simp
qed

text \<open>
  A page that goes away while a workspace starts takes the browser with it. As soon as
  the page has been closed or reloaded and has not sent a message since, the answer to any start in
  flight runs into the check that JavaScript is allowed.
\<close>

theorem closing_while_starting_crashes:
  assumes "wu_alive wu" "wu_manager wu = Some mg" "k < length (mg_pending mg)"
  shows "webui_run lower lib [PageGone, PageStartReady k pid now] wu = None"
proof -
  let ?wu = "wu\<lparr>wu_allowed := False\<rparr>" and ?f = "start_reply (lb_js lib) (lb_json lib) k pid now"
  obtain new where log: "mg_log (?f mg) = mg_log mg @ new"
    and cb: "owed (?f mg) + mset (replied new) = owed mg"
    using keeps_start_reply [of mg "lb_js lib" "lb_json lib" k pid now] unfolding keeps_def by auto
  have "mg_pending (?f mg) = drop_nth k (mg_pending mg)"
    using assms(3) by (simp add: start_reply_def Let_def pending_continue log_effect_def)
  then have "size (owed (?f mg)) < size (owed mg)" using assms(3) by (simp add: owed_def drop_nth_def)
  then have "replied new \<noteq> []" using cb by auto
  then show ?thesis
    using deliver_all_disallowed [of "?wu\<lparr>wu_manager := Some (?f mg)\<rparr>" now new] assms log
    by (simp add: with_launcher_def)
qed

theorem closing_while_starting_crashes_witness:
  "webui_run id sample_lib [PageGone, PageStartReady 0 (Some 77) 5]
     (new_webui 1 new_store (Some (new_manager\<lparr>mg_pending :=
        [\<lparr>ps_workspace = workspace_default, ps_dir = ''/tmp'', ps_port = 9333, ps_callback = 0\<rparr>]\<rparr>))) = None"
  by (rule closing_while_starting_crashes [where k = 0])
    (auto simp: new_webui_def add_running_observer_def new_manager_def)

subsection \<open>Updates\<close>

lemma arg_two:
  "arg [a, b] 0 = Some a" "arg [a, b] 1 = Some b" "arg_string [a, b] 1 = as_string b"
  "arg_dict [a, b] 1 = as_dict b" "arg_list [a, b] 1 = as_list b"
  by (simp_all add: arg_def arg_string_def arg_dict_def arg_list_def)

text \<open>
  An update from the page forgets what it does not mention. A dictionary with the id of a
  stored workspace is stored as a new workspace read from it, of which only the type and the creation
  time come from the old one: left out, the seed becomes 0, the proxy, the GPU and the launch
  arguments empty, humanising off.
\<close>

theorem page_update_resets:
  assumes "wu_alive wu" "get_workspace (wu_store wu) i = Some old" "find_string d ''id'' = Some i"
  shows "\<exists>wu' w. handle_message lower lib ev UpdateWorkspace [callback, JDict d] wu = Some wu' \<and>
     get_workspace (wu_store wu') = (get_workspace (wu_store wu))(i \<mapsto> w) \<and>
     w = (workspace_from_dict (lb_time lib) d)\<lparr>ws_type := ws_type old, ws_created_at := ws_created_at old,
           ws_updated_at := ev_now ev\<rparr> \<and>
     (find_int d ''fingerprint_seed'' = None \<longrightarrow> ws_fingerprint_seed w = 0) \<and>
     (find_string d ''proxy'' = None \<longrightarrow> ws_proxy w = []) \<and>
     (find_string d ''gpu_renderer'' = None \<longrightarrow> ws_gpu_renderer w = []) \<and>
     (find_list d ''launch_args'' = None \<longrightarrow> ws_launch_args w = []) \<and>
     (find_bool d ''humanize'' = None \<longrightarrow> \<not> ws_humanize w)"
proof -
  let ?w = "(workspace_from_dict (lb_time lib) d)\<lparr>ws_updated_at := ev_now ev\<rparr>"
  let ?v = "revised (ev_now ev) old ?w"
  have id: "ws_id ?w = i" using assms(3) by (simp add: workspace_from_dict_def Let_def)
  obtain ok st where u: "update_workspace (lb_time lib) (ev_now ev) ?w (wu_store wu) = (ok, st)" by fastforce
  have "get_workspace st = (get_workspace (wu_store wu))(i \<mapsto> ?v)"
    using look_crud(3) [of "lb_time lib" "ev_now ev" ?w "wu_store wu"] u id assms(2) by simp
  moreover have "handle_message lower lib ev UpdateWorkspace [callback, JDict d] wu =
      Some ((allow_javascript wu)\<lparr>wu_store := st, wu_out := wu_out wu @ [Resolve callback (JBool ok)]\<rparr>)"
    using u by (simp add: web_update_def Let_def arg_two del: One_nat_def)
  ultimately show ?thesis
    by (intro exI [of _ ?v] exI conjI) (auto simp: revised_def workspace_from_dict_def workspace_default_def Let_def)
qed

definition one_seeded :: store where
  "one_seeded = new_store\<lparr>st_workspaces :=
     [(''w'', workspace_default\<lparr>ws_id := ''w'', ws_fingerprint_seed := 4711, ws_humanize := True\<rparr>)]\<rparr>"

theorem page_update_resets_witness:
  "\<exists>wu' w. handle_message id sample_lib sample_env UpdateWorkspace
       [JString ''cb'', JDict (dict_set ''name'' (JString ''n'') (dict_set ''id'' (JString ''w'') []))]
       (new_webui 1 one_seeded None) = Some wu' \<and>
     get_workspace (wu_store wu') ''w'' = Some w \<and> ws_fingerprint_seed w = 0 \<and> \<not> ws_humanize w"
proof -
  let ?wu = "new_webui 1 one_seeded None" and ?d = "dict_set ''name'' (JString ''n'') (dict_set ''id'' (JString ''w'') [])"
  have "wu_alive ?wu" "get_workspace (wu_store ?wu) ''w'' =
      Some (workspace_default\<lparr>ws_id := ''w'', ws_fingerprint_seed := 4711, ws_humanize := True\<rparr>)"
    "find_string ?d ''id'' = Some ''w''"
    by (simp_all add: new_webui_def one_seeded_def get_workspace_def)
  from page_update_resets [OF this, of id sample_lib sample_env "JString ''cb''"] show ?thesis by auto
qed

subsection \<open>Batches and the dashboard\<close>

text \<open>The status of stored workspaces is never set: no stored workspace says it is running.\<close>

definition idle :: "store \<Rightarrow> bool" where
  "idle st = (\<forall>(i, w)\<in>set (st_workspaces st). ws_status w = [])"

lemma idle_put: "idle st \<Longrightarrow> ws_status w = [] \<Longrightarrow> idle (st\<lparr>st_workspaces := om_put i w (st_workspaces st)\<rparr>)"
  using set_om_put_subset [of i w "st_workspaces st"] by (auto simp: idle_def)

lemma idle_commit [simp]: "idle (commit tlib ev st) = idle st"
  by (simp add: idle_def)

lemma idle_get: "idle st \<Longrightarrow> get_workspace st i = Some w \<Longrightarrow> ws_status w = []"
  by (auto simp: idle_def get_workspace_def dest: map_of_SomeD)

lemma idle_crud:
  assumes "idle st"
  shows "ws_status w = [] \<Longrightarrow> idle (snd (create_workspace tlib gid gseed now w st))"
    "idle (snd (rename_workspace tlib now i n st))"
    "ws_status w = [] \<Longrightarrow> idle (snd (update_workspace tlib now w st))"
    "idle (snd (delete_workspace tlib i st))"
proof -
  show "ws_status w = [] \<Longrightarrow> idle (snd (create_workspace tlib gid gseed now w st))"
    using idle_put [OF assms, of "completed gid gseed now w"]
    by (simp add: create_workspace_eq Let_def put_workspace_def completed_def)
  show "idle (snd (rename_workspace tlib now i n st))"
    using idle_put [OF assms, of "renamed now n w" i for w] idle_get [OF assms, of i] assms
    by (simp add: rename_workspace_eq Let_def renamed_def split: option.split)
  show "ws_status w = [] \<Longrightarrow> idle (snd (update_workspace tlib now w st))"
    using idle_put [OF assms, of "revised now old w" "ws_id w" for old] assms
    by (simp add: update_workspace_eq Let_def revised_def split: option.split)
  show "idle (snd (delete_workspace tlib i st))"
    using assms set_om_del_subset [of i "st_workspaces st"]
    by (auto simp: delete_workspace_eq idle_def split: option.split)
qed

lemma idle_parts:
  assumes "idle st"
  shows "create_workspace tlib gid gseed now w st = (v, st') \<Longrightarrow> ws_status w = [] \<Longrightarrow> idle st'"
    "rename_workspace tlib now i n st = (b, st') \<Longrightarrow> idle st'"
    "update_workspace tlib now w st = (b, st') \<Longrightarrow> ws_status w = [] \<Longrightarrow> idle st'"
    "delete_workspace tlib i st = (b, st') \<Longrightarrow> idle st'"
  using idle_crud [OF assms] by (metis snd_conv)+

lemma idle_delete_each: "idle st \<Longrightarrow> delete_each lib ids (n, st) = (m, st') \<Longrightarrow> idle st'"
  by (induction ids arbitrary: n st) (auto split: option.splits prod.splits dest: idle_parts(4))

lemma deliver_store: "deliver now e wu = Some wu' \<Longrightarrow> wu_store wu' = wu_store wu"
  by (cases e) (auto simp: report_defs status_change_def resolve_def split: if_splits)

lemma deliver_all_store: "deliver_all now es wu = Some wu' \<Longrightarrow> wu_store wu' = wu_store wu"
  by (induction es arbitrary: wu) (auto split: Option.bind_splits dest: deliver_store)

lemma with_launcher_store: "with_launcher now f wu = Some wu' \<Longrightarrow> wu_store wu' = wu_store wu"
  by (auto simp: with_launcher_def split: option.splits dest: deliver_all_store)

lemma stop_each_store: "stop_each now ids n wu = Some (m, wu') \<Longrightarrow> wu_store wu' = wu_store wu"
  by (induction ids arbitrary: n wu)
    (auto split: option.splits if_splits Option.bind_splits dest: with_launcher_store)

lemma resolve_store: "resolve callback v wu = Some wu' \<Longrightarrow> wu_store wu' = wu_store wu"
  by (auto simp: resolve_def split: if_splits)

lemma created_idle: "created_workspace lib ev args = Some w \<Longrightarrow> ws_status w = []"
  by (auto simp: created_workspace_def create_basic_def workspace_from_dict_def workspace_default_def Let_def
      split: option.splits Option.bind_splits if_splits)

lemma from_dict_status [simp]: "ws_status (workspace_from_dict tlib d) = []"
  by (simp add: workspace_from_dict_def workspace_default_def Let_def)

lemmas store_frames = with_launcher_store stop_each_store resolve_store

lemma message_idle:
  assumes "handle_message lower lib ev m args wu = Some wu'" "idle (wu_store wu)"
  shows "idle (wu_store wu')"
proof -
  note parts = idle_parts [OF assms(2)] idle_delete_each [OF assms(2)]
  show ?thesis
  proof (cases m)
    case CreateWorkspace
    then show ?thesis using assms(1)
      by (auto simp: web_create_def Let_def split: Option.bind_splits prod.splits
          dest!: resolve_store dest: parts(1) created_idle)
  next
    case UpdateWorkspace
    then show ?thesis using assms(1)
      by (auto simp: web_update_def Let_def split: Option.bind_splits prod.splits option.splits
          dest!: resolve_store dest: parts(2) parts(3))
  next
    case DeleteWorkspace
    then show ?thesis using assms(1)
      by (auto simp: web_delete_def Let_def split: Option.bind_splits prod.splits
          dest!: resolve_store dest: parts(4))
  next
    case BatchDeleteWorkspaces
    then show ?thesis using assms(1)
      by (auto simp: web_batch_delete_def Let_def split: Option.bind_splits prod.splits
          dest!: resolve_store dest: parts(5))
  qed (use assms in \<open>auto simp: small_messages web_launch_def web_stop_def web_batch_stop_def Let_def
        split: Option.bind_splits prod.splits option.splits dest!: store_frames\<close>)
qed

lemma run_idle: "webui_run lower lib es wu = Some wu' \<Longrightarrow> idle (wu_store wu) \<Longrightarrow> idle (wu_store wu')"
proof (induction es arbitrary: wu)
  case (Cons e es)
  then obtain wu1 where s: "webui_step lower lib e wu = Some wu1" and r: "webui_run lower lib es wu1 = Some wu'"
    by (auto split: Option.bind_splits)
  have "idle (wu_store wu1)"
    using s Cons.prems(2)
    by (cases e) (auto simp: destroy_webui_def split: if_splits dest: message_idle with_launcher_store)
  then show ?case by (rule Cons.IH [OF r])
qed simp

text \<open>Loading keeps it too, so it holds of every store that comes from a file.\<close>

lemma idle_fold:
  assumes "list_all (\<lambda>w. ws_status w = []) ws" "\<And>w st. idle st \<Longrightarrow> ws_status w = [] \<Longrightarrow> idle (f w st)"
  shows "idle st \<Longrightarrow> idle (fold f ws st)"
  using assms by (induction ws arbitrary: st) simp_all

lemma loaded_idle: "idle st \<Longrightarrow> idle (on_init_data tlib data st)"
proof -
  assume i: "idle st"
  have ws: "list_all (\<lambda>w. ws_status w = []) (disk_workspaces tlib items)" for items
    by (simp add: disk_workspaces_def list_all_iff)
  have put: "idle st \<Longrightarrow> ws_status w = [] \<Longrightarrow> idle (put_workspace w st)" for w st
    by (simp add: put_workspace_def idle_put)
  have emplace: "idle st \<Longrightarrow> ws_status w = [] \<Longrightarrow> idle (emplace_workspace w st)" for w st
    using idle_put [of st w "ws_id w"] by (simp add: emplace_workspace_def om_emplace_def idle_def split: option.split)
  have "idle (st\<lparr>st_initialized := True\<rparr>)" using i by (simp add: idle_def)
  then show ?thesis
    using idle_fold [OF ws put] idle_fold [OF ws emplace]
    by (simp add: on_init_data_def Let_def split: option.split)
qed

text \<open>
  The dashboard never shows a running workspace. Whatever the page has launched, the
  statistics count every stored workspace as stopped: the field they read is never set. The other
  counts are right: normal and fingerprint workspaces add up to the total.
\<close>

theorem dashboard_never_running:
  assumes "webui_run lower lib es (new_webui ob (on_init_data tlib data new_store) mg) = Some wu"
  shows "let d = dashboard_stats (wu_store wu) in
     find_int d ''running'' = Some 0 \<and> find_int d ''stopped'' = find_int d ''total'' \<and>
     find_int d ''total'' = Some (int (length (st_workspaces (wu_store wu)))) \<and>
     (\<exists>n f. find_int d ''normal'' = Some n \<and> find_int d ''fingerprint'' = Some f \<and>
        find_int d ''total'' = Some (n + f))"
proof -
  let ?all = "get_all_workspaces (wu_store wu)"
  have "idle new_store" by (simp add: idle_def new_store_def)
  then have "idle (wu_store wu)"
    using run_idle [OF assms] loaded_idle by (simp add: new_webui_def)
  then have "filter (\<lambda>w. ws_status w = ''running'') ?all = []"
    by (auto simp: idle_def get_all_workspaces_def filter_empty_conv)
  moreover have "int (length (filter (\<lambda>w. ws_type w = KNormal) ?all)) +
      int (length (filter (\<lambda>w. ws_type w \<noteq> KNormal) ?all)) = int (length ?all)"
    using sum_length_filter_compl [of "\<lambda>w. ws_type w = KNormal" ?all] by linarith
  moreover have "length ?all = length (st_workspaces (wu_store wu))" by (simp add: get_all_workspaces_def)
  ultimately show ?thesis by (simp add: dashboard_stats_def Let_def)
qed

theorem dashboard_never_running_witness:
  "find_int (dashboard_stats (wu_store (new_webui 1 (on_init_data (lb_time sample_lib) None new_store) None)))
     ''running'' = Some 0"
  using dashboard_never_running [of id sample_lib "[]" 1 "lb_time sample_lib" None None] by (simp add: Let_def)

text \<open>
  Launching a selection launches nothing. The message reports every known workspace of the
  selection as launched, but the launcher is not asked: it and the store are as before.
\<close>

theorem batch_launch_starts_nothing:
  assumes "\<forall>i\<in>set ids. get_workspace (wu_store wu) i \<noteq> None" "wu_manager wu \<noteq> None"
  shows "\<exists>wu'. handle_message lower lib ev BatchLaunchWorkspaces [callback, JList (map JString ids)] wu = Some wu' \<and>
     wu_out wu' = wu_out wu @ [Resolve callback (JList (map launched_entry ids))] \<and>
     wu_manager wu' = wu_manager wu \<and> wu_store wu' = wu_store wu \<and> wu_launches wu' = wu_launches wu"
proof -
  have "List.map_filter as_string (map JString ids) = ids"
    by (induction ids) (simp_all add: List.map_filter_simps)
  moreover have "filter (\<lambda>i. get_workspace (wu_store wu) i \<noteq> None \<and> wu_manager wu \<noteq> None) ids = ids"
    using assms by (intro filter_True) auto
  ultimately show ?thesis
    by (auto simp: web_batch_launch_def Let_def arg_two simp del: One_nat_def)
qed

theorem batch_launch_starts_nothing_witness:
  "\<exists>wu. handle_message id sample_lib sample_env BatchLaunchWorkspaces [JString ''cb'', JList [JString ''w'']]
      (new_webui 1 one_seeded (Some new_manager)) = Some wu \<and>
    wu_out wu = [Resolve (JString ''cb'') (JList [launched_entry ''w''])]"
  using batch_launch_starts_nothing [of "[''w'']" "new_webui 1 one_seeded (Some new_manager)" id sample_lib
      sample_env "JString ''cb''"]
  by (auto simp: new_webui_def one_seeded_def get_workspace_def)

end
