(* ===== verification/Api_Server.thy ===== *)
theory Api_Server
  imports Api_Handler Fingerprint_Seed
begin

text \<open>
  How the parts are brought up: the stores, one per profile directory
  (\<open>browser/profiles/store_provider.{h,cc}\<close>), the launchers, one per browser context
  (\<open>RunningWorkspaceManager::GetOrCreate\<close>), the HTTP server of the API with its thread
  (\<open>browser/api/workspace_api_server.{h,cc}\<close>) and its start and stop with the browser
  (\<open>browser/purecloak_browser_main_parts.cc\<close>). Whether a thread starts and a port can be bound are
  answers of the operating system and arguments. Waiting for a task that no thread will run never
  returns: operations return no state then.
\<close>

subsection \<open>Paths\<close>

text \<open>\<open>base::FilePath\<close>, ordered by its text as the map of the stores orders it.\<close>

datatype file_path = FilePath (path_text: string)

instantiation file_path :: linorder
begin

definition less_eq_file_path :: "file_path \<Rightarrow> file_path \<Rightarrow> bool" where
  "p \<le> q \<longleftrightarrow> path_text p \<le> path_text q"

definition less_file_path :: "file_path \<Rightarrow> file_path \<Rightarrow> bool" where
  "p < q \<longleftrightarrow> path_text p < path_text q"

instance
  by intro_classes (auto simp: less_eq_file_path_def less_file_path_def file_path.expand)

end

subsection \<open>Stores and launchers\<close>

record profile =
  pf_context :: nat
  pf_path :: file_path

text \<open>\<open>append_ascii\<close> is \<open>FilePath::AppendASCII\<close>. The store is handed out as the key it is kept under.\<close>

definition get_workspace_store ::
  "(file_path \<Rightarrow> string \<Rightarrow> file_path) \<Rightarrow> profile \<Rightarrow> (file_path, store) omap \<Rightarrow> file_path \<times> (file_path, store) omap" where
  "get_workspace_store append_ascii profile stores =
     (let dir = append_ascii (pf_path profile) ''PureCloak'' in
      case map_of stores dir of
        Some st \<Rightarrow> (dir, stores)
      | None \<Rightarrow> (dir, om_put dir (store_init new_store) stores))"

definition get_or_create :: "nat option \<Rightarrow> (nat, manager) omap \<Rightarrow> nat option \<times> (nat, manager) omap" where
  "get_or_create context managers =
     (case context of
        None \<Rightarrow> (None, managers)
      | Some c \<Rightarrow> if map_of managers c = None then (Some c, om_put c new_manager managers)
                  else (Some c, managers))"

subsection \<open>The server\<close>

datatype thread_state = NoThread | DeadThread | LiveThread

text \<open>
  \<open>sv_server\<close> is whether \<open>server_\<close> and \<open>handler_\<close> are set (they always are together), \<open>sv_bound\<close> the port
  the socket was told to listen on.
\<close>

record server =
  sv_token :: string
  sv_server :: bool
  sv_bound :: "16 word"
  sv_thread :: thread_state
  sv_port :: int

definition new_server :: "string \<Rightarrow> server" where
  "new_server token = \<lparr>sv_token = token, sv_server = False, sv_bound = 0, sv_thread = NoThread, sv_port = 0\<rparr>"

text \<open>
  The socket takes the port as 16 bits. A thread that does not start leaves its object behind; a
  server on port 0 is up, but counts as failed.
\<close>

definition server_start :: "bool \<Rightarrow> (16 word \<Rightarrow> bool) \<Rightarrow> int \<Rightarrow> server \<Rightarrow> bool \<times> server" where
  "server_start thread_ok can_listen port sv =
     (if sv_server sv then (False, sv)
      else if \<not> thread_ok then (False, sv\<lparr>sv_thread := DeadThread\<rparr>)
      else let sv = sv\<lparr>sv_thread := LiveThread\<rparr>;
               sv = (if \<not> can_listen (word_of_int port) then sv\<lparr>sv_port := 0\<rparr>
                     else sv\<lparr>sv_server := True, sv_bound := word_of_int port, sv_port := port\<rparr>)
           in if sv_port sv = 0 then (False, sv\<lparr>sv_thread := NoThread\<rparr>) else (True, sv))"

definition server_stop :: "server \<Rightarrow> server option" where
  "server_stop sv =
     (case sv_thread sv of
        NoThread \<Rightarrow> Some sv
      | DeadThread \<Rightarrow> None
      | LiveThread \<Rightarrow> Some (sv\<lparr>sv_server := False, sv_thread := NoThread, sv_port := 0\<rparr>))"

subsection \<open>The browser\<close>

record browser =
  br_stores :: "(file_path, store) omap"
  br_managers :: "(nat, manager) omap"
  br_server :: "server option"

definition new_browser :: browser where
  "new_browser = \<lparr>br_stores = [], br_managers = [], br_server = None\<rparr>"

definition kDefaultApiPort :: int where "kDefaultApiPort = 9334"

text \<open>\<open>stoi\<close> is \<open>base::StringToInt\<close>: its result and what it leaves in its output.\<close>

definition api_port :: "(string \<Rightarrow> bool \<times> int) \<Rightarrow> command_line \<Rightarrow> int" where
  "api_port stoi cmd =
     (let port_str = switch_value cmd ''purecloak-api-port''
      in if port_str \<noteq> [] then snd (stoi port_str) else kDefaultApiPort)"

definition api_token :: "command_line \<Rightarrow> string" where
  "api_token cmd = switch_value cmd ''purecloak-api-token''"

definition start_api_server ::
  "(file_path \<Rightarrow> string \<Rightarrow> file_path) \<Rightarrow> (string \<Rightarrow> bool \<times> int) \<Rightarrow> command_line \<Rightarrow> bool \<Rightarrow>
     (16 word \<Rightarrow> bool) \<Rightarrow> profile option \<Rightarrow> browser \<Rightarrow> browser option" where
  "start_api_server append_ascii stoi cmd thread_ok can_listen profile br =
     (if br_server br \<noteq> None then Some br
      else case profile of
        None \<Rightarrow> Some br
      | Some pf \<Rightarrow>
          (let port = api_port stoi cmd;
               (dir, stores) = get_workspace_store append_ascii pf (br_stores br);
               (context, managers) = get_or_create (Some (pf_context pf)) (br_managers br);
               br = br\<lparr>br_stores := stores, br_managers := managers\<rparr>;
               (ok, sv) = server_start thread_ok can_listen port (new_server (api_token cmd))
           in if ok then Some (br\<lparr>br_server := Some sv\<rparr>)
              else (case server_stop sv of None \<Rightarrow> None | Some sv \<Rightarrow> Some br)))"

text \<open>Stopping stops the server twice, the second time as it is deleted.\<close>

definition stop_api_server :: "browser \<Rightarrow> browser option" where
  "stop_api_server br =
     (case br_server br of
        None \<Rightarrow> Some br
      | Some sv \<Rightarrow>
          (case server_stop sv of
             None \<Rightarrow> None
           | Some sv \<Rightarrow> (case server_stop sv of None \<Rightarrow> None | Some sv \<Rightarrow> Some (br\<lparr>br_server := None\<rparr>))))"

text \<open>Besides start and stop, the page and the side panel ask for stores and launchers of profiles.\<close>

datatype browser_event =
    StartApi bool "16 word \<Rightarrow> bool" "profile option"
  | StopApi
  | AskStore profile
  | AskManager "nat option"

fun browser_step ::
  "(file_path \<Rightarrow> string \<Rightarrow> file_path) \<Rightarrow> (string \<Rightarrow> bool \<times> int) \<Rightarrow> command_line \<Rightarrow> browser_event \<Rightarrow>
     browser \<Rightarrow> browser option" where
  "browser_step append_ascii stoi cmd (StartApi thread_ok can_listen profile) br =
     start_api_server append_ascii stoi cmd thread_ok can_listen profile br"
| "browser_step append_ascii stoi cmd StopApi br = stop_api_server br"
| "browser_step append_ascii stoi cmd (AskStore pf) br =
     Some (br\<lparr>br_stores := snd (get_workspace_store append_ascii pf (br_stores br))\<rparr>)"
| "browser_step append_ascii stoi cmd (AskManager context) br =
     Some (br\<lparr>br_managers := snd (get_or_create context (br_managers br))\<rparr>)"

fun browser_run ::
  "(file_path \<Rightarrow> string \<Rightarrow> file_path) \<Rightarrow> (string \<Rightarrow> bool \<times> int) \<Rightarrow> command_line \<Rightarrow> browser_event list \<Rightarrow>
     browser \<Rightarrow> browser option" where
  "browser_run append_ascii stoi cmd [] br = Some br"
| "browser_run append_ascii stoi cmd (e # es) br =
     Option.bind (browser_step append_ascii stoi cmd e br) (browser_run append_ascii stoi cmd es)"

subsection \<open>The server and its port\<close>

text \<open>A server the browser keeps: it listens, with its thread running, on the port of the command line.\<close>

definition server_up :: "(string \<Rightarrow> bool \<times> int) \<Rightarrow> command_line \<Rightarrow> server \<Rightarrow> bool" where
  "server_up stoi cmd sv =
     (sv = \<lparr>sv_token = api_token cmd, sv_server = True, sv_bound = word_of_int (api_port stoi cmd),
            sv_thread = LiveThread, sv_port = api_port stoi cmd\<rparr> \<and> api_port stoi cmd \<noteq> 0)"

lemma server_start_new:
  "server_start thread_ok can_listen port (new_server token) =
     (if thread_ok \<and> port \<noteq> 0 \<and> can_listen (word_of_int port)
      then (True, \<lparr>sv_token = token, sv_server = True, sv_bound = word_of_int port, sv_thread = LiveThread, sv_port = port\<rparr>)
      else (False, snd (server_start thread_ok can_listen port (new_server token))))"
  by (simp add: server_start_def new_server_def Let_def)

lemma failed_thread:
  "\<not> fst (server_start thread_ok can_listen port (new_server token)) \<Longrightarrow>
     sv_thread (snd (server_start thread_ok can_listen port (new_server token))) =
       (if thread_ok then NoThread else DeadThread)"
  by (simp add: server_start_def new_server_def Let_def split: if_splits)

text \<open>What a start does, case by case.\<close>

lemma start_api_server_cases:
  "start_api_server append_ascii stoi cmd thread_ok can_listen profile br =
     (if br_server br \<noteq> None \<or> profile = None then Some br
      else if \<not> thread_ok then None
      else Some (br\<lparr>br_stores := snd (get_workspace_store append_ascii (the profile) (br_stores br)),
               br_managers := snd (get_or_create (Some (pf_context (the profile))) (br_managers br)),
               br_server := (if api_port stoi cmd \<noteq> 0 \<and> can_listen (word_of_int (api_port stoi cmd))
                 then Some \<lparr>sv_token = api_token cmd, sv_server = True, sv_bound = word_of_int (api_port stoi cmd),
                    sv_thread = LiveThread, sv_port = api_port stoi cmd\<rparr> else None)\<rparr>))"
  by (cases br)
    (auto simp: start_api_server_def server_start_def new_server_def server_stop_def Let_def
      split: option.splits prod.splits)

lemma server_step_up:
  assumes "browser_step append_ascii stoi cmd e br = Some br'" "\<forall>sv. br_server br = Some sv \<longrightarrow> server_up stoi cmd sv"
  shows "\<forall>sv. br_server br' = Some sv \<longrightarrow> server_up stoi cmd sv"
  using assms
  by (cases e)
    (auto simp: start_api_server_cases stop_api_server_def server_up_def split: if_splits option.splits)

lemma browser_run_inv:
  assumes step: "\<And>e br br'. browser_step append_ascii stoi cmd e br = Some br' \<Longrightarrow> P br \<Longrightarrow> P br'"
  shows "browser_run append_ascii stoi cmd es br = Some br' \<Longrightarrow> P br \<Longrightarrow> P br'"
proof (induction es arbitrary: br)
  case (Cons e es)
  then obtain br1 where "browser_step append_ascii stoi cmd e br = Some br1"
    "browser_run append_ascii stoi cmd es br1 = Some br'"
    by (auto split: Option.bind_splits)
  then show ?case using Cons.IH step Cons.prems(2) by blast
qed simp

lemma kept_server_up:
  assumes "browser_run append_ascii stoi cmd es new_browser = Some br"
  shows "\<forall>sv. br_server br = Some sv \<longrightarrow> server_up stoi cmd sv"
proof (rule browser_run_inv [OF _ assms, where P = "\<lambda>br. \<forall>sv. br_server br = Some sv \<longrightarrow> server_up stoi cmd sv"])
  fix e and b b' :: browser
  assume "browser_step append_ascii stoi cmd e b = Some b'" "\<forall>sv. br_server b = Some sv \<longrightarrow> server_up stoi cmd sv"
  then show "\<forall>sv. br_server b' = Some sv \<longrightarrow> server_up stoi cmd sv" by (rule server_step_up)
qed (simp add: new_browser_def)

text \<open>
  C38 (bounds): the port the server reports. A server that is up reports the port of the command line and
  listens on its low 16 bits, so the two agree exactly for ports from 1 to 65535; whatever the
  numbers, it never is up on a reported port of 0, not even where 0 asks for any free port.
\<close>

theorem reported_port:
  assumes "browser_run append_ascii stoi cmd es new_browser = Some br" "br_server br = Some sv"
  shows "sv_port sv = api_port stoi cmd \<and> uint (sv_bound sv) = sv_port sv mod 65536 \<and> sv_port sv \<noteq> 0 \<and>
     (uint (sv_bound sv) = sv_port sv \<longleftrightarrow> 1 \<le> sv_port sv \<and> sv_port sv \<le> 65535)"
proof -
  have "\<forall>sv. br_server br = Some sv \<longrightarrow> server_up stoi cmd sv" by (rule kept_server_up [OF assms(1)])
  then have up: "sv_port sv = api_port stoi cmd" "sv_bound sv = word_of_int (sv_port sv)" "sv_port sv \<noteq> 0"
    using assms(2) by (auto simp: server_up_def)
  have b: "uint (sv_bound sv) = sv_port sv mod 65536"
    using arg_cong [OF up(2), of uint] by (simp only: uint_word_of_int len_num1 len_bit0) simp
  moreover have "sv_port sv mod 65536 = sv_port sv \<longleftrightarrow> 1 \<le> sv_port sv \<and> sv_port sv \<le> 65535"
    using up(3) pos_mod_bound [of 65536 "sv_port sv"] pos_mod_sign [of 65536 "sv_port sv"]
      mod_pos_pos_trivial [of "sv_port sv" 65536] by linarith
  ultimately show ?thesis using up by simp
qed

definition port_switch :: "string \<Rightarrow> command_line" where
  "port_switch value = \<lparr>has_switch = (\<lambda>s. s = ''purecloak-api-port''),
     switch_value = (\<lambda>s. if s = ''purecloak-api-port'' then value else [])\<rparr>"

definition sample_stoi :: "string \<Rightarrow> bool \<times> int" where
  "sample_stoi s = (if s = ''74870'' then (True, 74870) else (False, 0))"

theorem reported_port_witness:
  "\<exists>br sv. browser_run (\<lambda>d s. d) sample_stoi (port_switch ''74870'')
     [StartApi True (\<lambda>p. True) (Some \<lparr>pf_context = 1, pf_path = FilePath ''/p''\<rparr>)] new_browser = Some br \<and>
   br_server br = Some sv \<and> sv_port sv = 74870 \<and> uint (sv_bound sv) = 9334"
proof -
  let ?cmd = "port_switch ''74870''"
  let ?es = "[StartApi True (\<lambda>p. True) (Some \<lparr>pf_context = 1, pf_path = FilePath ''/p''\<rparr>)]"
  have port: "api_port sample_stoi ?cmd = 74870"
    by (simp add: api_port_def port_switch_def sample_stoi_def)
  then obtain br sv where r: "browser_run (\<lambda>d s. d) sample_stoi ?cmd ?es new_browser = Some br" "br_server br = Some sv"
    by (simp add: start_api_server_cases new_browser_def)
  from reported_port [OF this] port r show ?thesis by auto
qed

text \<open>
  C32 (termination): starting and stopping return, with one exception. In every state the browser can be
  in, stopping returns and leaves no server; starting returns unless the thread of the server cannot
  be started, in which case the failed server is deleted and waits for a task of that thread for ever.
\<close>

theorem server_operations_return:
  assumes "browser_run append_ascii stoi cmd es new_browser = Some br"
  shows "(\<exists>br'. stop_api_server br = Some br' \<and> br_server br' = None) \<and>
     (start_api_server append_ascii stoi cmd thread_ok can_listen profile br = None \<longleftrightarrow>
        br_server br = None \<and> profile \<noteq> None \<and> \<not> thread_ok)"
proof -
  have "\<forall>sv. br_server br = Some sv \<longrightarrow> server_up stoi cmd sv" by (rule kept_server_up [OF assms])
  then show ?thesis
    by (auto simp: start_api_server_cases stop_api_server_def server_stop_def server_up_def split: option.split)
qed

theorem server_operations_return_witness:
  "start_api_server (\<lambda>d s. d) sample_stoi (port_switch []) False (\<lambda>p. True)
     (Some \<lparr>pf_context = 1, pf_path = FilePath ''/p''\<rparr>) new_browser = None"
  using server_operations_return [of "\<lambda>d s. d" sample_stoi "port_switch []" "[]" new_browser False "\<lambda>p. True"
      "Some \<lparr>pf_context = 1, pf_path = FilePath ''/p''\<rparr>"]
  by (simp add: new_browser_def)

subsection \<open>One store per directory\<close>

text \<open>
  Stores are kept in the order of their paths and are each initialised once, when they are made; a
  profile is given the same store every time.
\<close>

definition stores_ok :: "(file_path, store) omap \<Rightarrow> bool" where
  "stores_ok stores = (om_ok stores \<and> (\<forall>dir st. map_of stores dir = Some st \<longrightarrow> st = store_init new_store))"

lemma get_workspace_store_ok:
  "stores_ok stores \<Longrightarrow> stores_ok (snd (get_workspace_store append_ascii pf stores))"
  by (auto simp: stores_ok_def get_workspace_store_def Let_def split: option.split)

lemma same_store:
  assumes "get_workspace_store append_ascii pf stores = (dir, stores')"
  shows "map_of stores' dir \<noteq> None" "get_workspace_store append_ascii pf stores' = (dir, stores')"
    "map_of stores d = Some st \<Longrightarrow> map_of stores' d = Some st"
  using assms by (auto simp: get_workspace_store_def Let_def split: option.splits if_splits)

lemma browser_stores_ok:
  assumes "browser_run append_ascii stoi cmd es new_browser = Some br"
  shows "stores_ok (br_stores br)"
proof (rule browser_run_inv [OF _ assms, where P = "\<lambda>br. stores_ok (br_stores br)"])
  fix e and b b' :: browser
  assume "browser_step append_ascii stoi cmd e b = Some b'" "stores_ok (br_stores b)"
  then show "stores_ok (br_stores b')"
    by (cases e) (auto simp: start_api_server_cases stop_api_server_def get_workspace_store_ok
        split: if_splits option.splits)
qed (simp add: stores_ok_def new_browser_def)

end
