(* ===== verification/Side_Panel.thy ===== *)
theory Side_Panel
  imports Workspace_Store
begin

text \<open>
  The side panel and its dialogs, \<open>browser/ui/views/side_panel/purecloak_side_panel_view.{h,cc}\<close> and
  \<open>browser/ui/views/side_panel/workspace_management_dialogs.{h,cc}\<close>: a list of cards, rebuilt from the
  store whenever the store says that its list changed, and dialogs that change the store when
  accepted. Fonts, colours and layout are left out, as are the conversions between UTF-8 and UTF-16.
  The store is shared with the other clients, whose operations are events. An accepted dialog
  calls back into the panel it was opened from: after the panel is gone that is a use of freed
  memory, and the step has no result.
\<close>

subsection \<open>Locale\<close>

text \<open>\<open>common/purecloak_i18n.h\<close>: texts come in pairs.\<close>

definition is_chinese_locale :: "string \<Rightarrow> bool" where
  "is_chinese_locale locale_name = (take 2 locale_name = ''zh'')"

definition i18n :: "string \<Rightarrow> 'a \<Rightarrow> 'a \<Rightarrow> 'a" where
  "i18n locale_name chinese english = (if is_chinese_locale locale_name then chinese else english)"

subsection \<open>State\<close>

record card =
  cd_id :: string
  cd_fingerprint :: bool
  cd_name :: string

datatype panel_view = NoWorkspaces | Cards "card list"

datatype dialog = CreateDialog | RenameDialog string string | DeleteDialog string string

record panel =
  pn_sys :: store_sys
  pn_observer :: nat
  pn_alive :: bool
  pn_view :: panel_view
  pn_dialogs :: "dialog list"

definition card_of :: "workspace \<Rightarrow> card" where
  "card_of w = \<lparr>cd_id = ws_id w, cd_fingerprint = (ws_type w = KFingerprint), cd_name = ws_name w\<rparr>"

definition view_of :: "store \<Rightarrow> panel_view" where
  "view_of st =
     (let workspaces = get_all_workspaces st
      in if workspaces = [] then NoWorkspaces else Cards (map card_of workspaces))"

definition rebuild_workspace_list :: "panel \<Rightarrow> panel" where
  "rebuild_workspace_list pn = pn\<lparr>pn_view := view_of (sy_store (pn_sys pn))\<rparr>"

definition open_panel :: "nat \<Rightarrow> store_sys \<Rightarrow> panel" where
  "open_panel ob sys =
     rebuild_workspace_list \<lparr>pn_sys = sys\<lparr>sy_store := add_observer ob (sy_store sys)\<rparr>, pn_observer = ob,
       pn_alive = True, pn_view = NoWorkspaces, pn_dialogs = []\<rparr>"

definition close_panel :: "panel \<Rightarrow> panel" where
  "close_panel pn = pn\<lparr>pn_alive := False,
     pn_sys := (pn_sys pn)\<lparr>sy_store := remove_observer (pn_observer pn) (sy_store (pn_sys pn))\<rparr>\<rparr>"

definition on_workspaces_changed :: "panel \<Rightarrow> panel" where
  "on_workspaces_changed pn = rebuild_workspace_list pn"

text \<open>An operation of the store: the panel hears of it if the store notifies its observer.\<close>

definition with_sys :: "store_sys \<Rightarrow> panel \<Rightarrow> panel" where
  "with_sys sys pn =
     (let news = drop (length (st_log (sy_store (pn_sys pn)))) (st_log (sy_store sys));
          pn = pn\<lparr>pn_sys := sys\<rparr>
      in if (pn_observer pn, WorkspacesChanged) \<in> set news then on_workspaces_changed pn else pn)"

subsection \<open>Dialogs\<close>

text \<open>\<open>widget\<close>: the panel is in a window. A dialog is not opened for a workspace that is gone.\<close>

definition on_create_workspace_clicked :: "bool \<Rightarrow> panel \<Rightarrow> panel" where
  "on_create_workspace_clicked widget pn =
     (if \<not> widget then pn else pn\<lparr>pn_dialogs := pn_dialogs pn @ [CreateDialog]\<rparr>)"

definition on_rename_workspace :: "bool \<Rightarrow> string \<Rightarrow> panel \<Rightarrow> panel" where
  "on_rename_workspace widget i pn =
     (case get_workspace (sy_store (pn_sys pn)) i of
        None \<Rightarrow> pn
      | Some w \<Rightarrow> if \<not> widget then pn
                  else pn\<lparr>pn_dialogs := pn_dialogs pn @ [RenameDialog i (ws_name w)]\<rparr>)"

definition on_delete_workspace :: "bool \<Rightarrow> string \<Rightarrow> panel \<Rightarrow> panel" where
  "on_delete_workspace widget i pn =
     (case get_workspace (sy_store (pn_sys pn)) i of
        None \<Rightarrow> pn
      | Some w \<Rightarrow> if \<not> widget then pn
                  else pn\<lparr>pn_dialogs := pn_dialogs pn @ [DeleteDialog i (ws_name w)]\<rparr>)"

text \<open>The type a selection in the combo box stands for.\<close>

definition selected_type :: "nat option \<Rightarrow> wtype" where
  "selected_type index = (if value_or index 0 = 1 then KFingerprint else KNormal)"

text \<open>
  What accepting a dialog does, with the text in its field and the selection in its combo box as
  they are then. \<open>ids\<close>, \<open>seeds\<close> and \<open>now\<close> are what the generators and the clock answer.
\<close>

fun accept_dialog ::
  "time_lib \<Rightarrow> (nat \<Rightarrow> string) \<Rightarrow> (nat \<Rightarrow> int) \<Rightarrow> int \<Rightarrow> string \<Rightarrow> nat option \<Rightarrow> dialog \<Rightarrow> panel \<Rightarrow> panel option" where
  "accept_dialog tlib ids seeds now entered index CreateDialog pn =
     (if entered = [] then Some pn
      else if \<not> pn_alive pn then None
      else let sys = pn_sys pn;
               ws = create_basic (ids 0) (seeds 0) now entered (selected_type index);
               st = snd (create_workspace tlib (ids 1) (seeds 1) now ws (sy_store sys))
           in Some (rebuild_workspace_list (with_sys (sys\<lparr>sy_store := st\<rparr>) pn)))"
| "accept_dialog tlib ids seeds now entered index (RenameDialog i shown) pn =
     (if entered = [] then Some pn
      else if \<not> pn_alive pn then None
      else let sys = pn_sys pn; st = snd (rename_workspace tlib now i entered (sy_store sys))
           in Some (with_sys (sys\<lparr>sy_store := st\<rparr>) pn))"
| "accept_dialog tlib ids seeds now entered index (DeleteDialog i shown) pn =
     (if \<not> pn_alive pn then None
      else let sys = pn_sys pn; st = snd (delete_workspace tlib i (sy_store sys))
           in Some (with_sys (sys\<lparr>sy_store := st\<rparr>) pn))"

subsection \<open>The panel as a transition system\<close>

datatype panel_event =
    Outside store_event
  | ClickCreate bool
  | ClickRename bool string
  | ClickDelete bool string
  | Accept nat "nat \<Rightarrow> string" "nat \<Rightarrow> int" int string "nat option"
  | Cancel nat
  | ClosePanel

text \<open>Clicks come from a panel that is there; dialogs outlive it.\<close>

fun panel_step :: "time_lib \<Rightarrow> json_lib \<Rightarrow> panel_event \<Rightarrow> panel \<Rightarrow> panel option" where
  "panel_step tlib jl (Outside e) pn = Some (with_sys (store_step tlib jl e (pn_sys pn)) pn)"
| "panel_step tlib jl (ClickCreate widget) pn =
     Some (if pn_alive pn then on_create_workspace_clicked widget pn else pn)"
| "panel_step tlib jl (ClickRename widget i) pn =
     Some (if pn_alive pn then on_rename_workspace widget i pn else pn)"
| "panel_step tlib jl (ClickDelete widget i) pn =
     Some (if pn_alive pn then on_delete_workspace widget i pn else pn)"
| "panel_step tlib jl (Accept k ids seeds now entered index) pn =
     (if k < length (pn_dialogs pn)
      then accept_dialog tlib ids seeds now entered index (pn_dialogs pn ! k)
             (pn\<lparr>pn_dialogs := drop_nth k (pn_dialogs pn)\<rparr>)
      else Some pn)"
| "panel_step tlib jl (Cancel k) pn = Some (pn\<lparr>pn_dialogs := drop_nth k (pn_dialogs pn)\<rparr>)"
| "panel_step tlib jl ClosePanel pn = Some (close_panel pn)"

text \<open>Runs, as a relation: the states a panel can get to while a list of events happens.\<close>

inductive panel_run :: "time_lib \<Rightarrow> json_lib \<Rightarrow> panel_event list \<Rightarrow> panel \<Rightarrow> panel \<Rightarrow> bool"
  for tlib jl where
  panel_stop: "panel_run tlib jl [] pn pn"
| panel_go: "panel_step tlib jl e pn = Some pn' \<Longrightarrow> panel_run tlib jl es pn' pn'' \<Longrightarrow> panel_run tlib jl (e # es) pn pn''"

inductive_cases panel_run_Cons: "panel_run tlib jl (e # es) pn pn'"
inductive_simps panel_run_Nil: "panel_run tlib jl [] pn pn'"

subsection \<open>What the panel shows\<close>

text \<open>The store tells its observers of every change, except for what loading brings in.\<close>

lemma crud_told:
  assumes "ob \<in> set (st_observers st)"
  shows "(ob, WorkspacesChanged) \<in> set (drop (length (st_log st)) (st_log (snd (create_workspace tlib gid gseed now w st))))"
    "st_workspaces (snd (rename_workspace tlib now i n st)) = st_workspaces st \<or>
       (ob, WorkspacesChanged) \<in> set (drop (length (st_log st)) (st_log (snd (rename_workspace tlib now i n st))))"
    "st_workspaces (snd (update_workspace tlib now w st)) = st_workspaces st \<or>
       (ob, WorkspacesChanged) \<in> set (drop (length (st_log st)) (st_log (snd (update_workspace tlib now w st))))"
    "st_workspaces (snd (delete_workspace tlib i st)) = st_workspaces st \<or>
       (ob, WorkspacesChanged) \<in> set (drop (length (st_log st)) (st_log (snd (delete_workspace tlib i st))))"
  using assms by (auto simp: crud_eqs Let_def split: option.split)

lemma crud_observers [simp]:
  "st_observers (snd (create_workspace tlib gid gseed now w st)) = st_observers st"
  "st_observers (snd (rename_workspace tlib now i n st)) = st_observers st"
  "st_observers (snd (update_workspace tlib now w st)) = st_observers st"
  "st_observers (snd (delete_workspace tlib i st)) = st_observers st"
  by (auto simp: crud_eqs Let_def split: option.split)

definition quiet :: "nat \<Rightarrow> store_event \<Rightarrow> bool" where
  "quiet ob e = (e \<noteq> EvReply \<and> e \<noteq> EvRemoveObserver ob)"

lemma store_step_told:
  assumes "ob \<in> set (st_observers (sy_store sys))" "quiet ob e"
  shows "st_workspaces (sy_store (store_step tlib jl e sys)) = st_workspaces (sy_store sys) \<or>
     (ob, WorkspacesChanged) \<in> set (drop (length (st_log (sy_store sys))) (st_log (sy_store (store_step tlib jl e sys))))"
    "ob \<in> set (st_observers (sy_store (store_step tlib jl e sys)))"
  using crud_told [OF assms(1)] assms
  by (cases e; auto simp: quiet_def store_init_def flush_def add_observer_def remove_observer_def run_file_task_def
      split: list.split file_task.split)+

text \<open>The panel is registered, and shows the store.\<close>

definition shows_store :: "panel \<Rightarrow> bool" where
  "shows_store pn = (pn_alive pn \<longrightarrow>
     pn_observer pn \<in> set (st_observers (sy_store (pn_sys pn))) \<and> pn_view pn = view_of (sy_store (pn_sys pn)))"

lemma view_of_cong: "st_workspaces s = st_workspaces t \<Longrightarrow> view_of s = view_of t"
  by (simp add: view_of_def get_all_workspaces_def)

lemma with_sys_fields [simp]:
  "pn_sys (with_sys sys pn) = sys" "pn_observer (with_sys sys pn) = pn_observer pn"
  "pn_alive (with_sys sys pn) = pn_alive pn" "pn_dialogs (with_sys sys pn) = pn_dialogs pn"
  by (simp_all add: with_sys_def on_workspaces_changed_def rebuild_workspace_list_def Let_def)

lemma with_sys_shows:
  assumes "shows_store pn"
    "pn_alive pn \<Longrightarrow> pn_observer pn \<in> set (st_observers (sy_store sys))"
    "pn_alive pn \<Longrightarrow> st_workspaces (sy_store sys) = st_workspaces (sy_store (pn_sys pn)) \<or>
       (pn_observer pn, WorkspacesChanged) \<in> set (drop (length (st_log (sy_store (pn_sys pn)))) (st_log (sy_store sys)))"
  shows "shows_store (with_sys sys pn)"
  using assms view_of_cong [of "sy_store sys" "sy_store (pn_sys pn)"]
  by (auto simp: shows_store_def with_sys_def on_workspaces_changed_def rebuild_workspace_list_def Let_def)

lemma rebuild_shows:
  "pn_observer pn \<in> set (st_observers (sy_store (pn_sys pn))) \<Longrightarrow> shows_store (rebuild_workspace_list pn)"
  by (simp add: shows_store_def rebuild_workspace_list_def)

lemma dialogs_shows [simp]: "shows_store (pn\<lparr>pn_dialogs := ds\<rparr>) = shows_store pn"
  by (simp add: shows_store_def)

lemma accept_shows:
  assumes "accept_dialog tlib ids seeds now entered index d pn = Some pn'" "shows_store pn"
  shows "shows_store pn'"
proof (cases "pn_alive pn")
  case False
  then show ?thesis using assms by (cases d) (auto split: if_splits)
next
  case True
  let ?st = "sy_store (pn_sys pn)"
  have ob: "pn_observer pn \<in> set (st_observers ?st)" using assms(2) True by (simp add: shows_store_def)
  note told = crud_told [OF ob]
  show ?thesis
  proof (cases d)
    case CreateDialog
    then show ?thesis using assms ob by (auto simp: Let_def intro: rebuild_shows split: if_splits)
  next
    case (RenameDialog i shown)
    then show ?thesis using assms ob told(2) [of tlib now i entered] True
      by (auto simp: Let_def intro!: with_sys_shows split: if_splits)
  next
    case (DeleteDialog i shown)
    then show ?thesis using assms ob told(4) [of tlib i] True
      by (auto simp: Let_def intro!: with_sys_shows split: if_splits)
  qed
qed

lemma panel_step_shows:
  assumes "panel_step tlib jl e pn = Some pn'" "shows_store pn"
    "\<forall>o'. e = Outside o' \<longrightarrow> quiet (pn_observer pn) o'"
  shows "shows_store pn'"
proof (cases e)
  case (Outside o')
  have "quiet (pn_observer pn) o'" using assms(3) Outside by blast
  then have "shows_store (with_sys (store_step tlib jl o' (pn_sys pn)) pn)"
    using assms(2) store_step_told [of "pn_observer pn" "pn_sys pn" o' tlib jl]
    by (intro with_sys_shows) (auto simp: shows_store_def)
  then show ?thesis using assms(1) Outside by simp
next
  case (Accept k ids seeds now entered index)
  have "shows_store (pn\<lparr>pn_dialogs := drop_nth k (pn_dialogs pn)\<rparr>)" using assms(2) by simp
  then show ?thesis using assms(1,2) Accept accept_shows by (auto split: if_splits)
next
  case ClosePanel
  then show ?thesis using assms by (auto simp: close_panel_def shows_store_def)
qed (use assms in \<open>auto simp: on_create_workspace_clicked_def on_rename_workspace_def on_delete_workspace_def
      split: option.splits if_splits\<close>)

lemma accept_observer:
  "accept_dialog tlib ids seeds now entered index d pn = Some pn' \<Longrightarrow> pn_observer pn' = pn_observer pn"
  by (cases d) (auto simp: Let_def rebuild_workspace_list_def split: if_splits)

lemma panel_step_observer: "panel_step tlib jl e pn = Some pn' \<Longrightarrow> pn_observer pn' = pn_observer pn"
  by (cases e) (auto simp: on_create_workspace_clicked_def on_rename_workspace_def on_delete_workspace_def
      close_panel_def split: option.splits if_splits dest: accept_observer)

lemma open_panel_shows: "shows_store (open_panel ob sys)" "pn_observer (open_panel ob sys) = ob"
  by (auto simp: open_panel_def shows_store_def rebuild_workspace_list_def add_observer_def)

lemma panel_run_shows:
  assumes "panel_run tlib jl es pn pn'" "shows_store pn" "\<forall>o'. Outside o' \<in> set es \<longrightarrow> quiet (pn_observer pn) o'"
  shows "shows_store pn'"
  using assms
proof (induction rule: panel_run.induct)
  case (panel_go e pn pn' es pn'')
  have "shows_store pn'" using panel_step_shows [OF panel_go.hyps(1) panel_go.prems(1)] panel_go.prems(2) by auto
  moreover have "pn_observer pn' = pn_observer pn" using panel_step_observer [OF panel_go.hyps(1)] .
  ultimately show ?case using panel_go.IH panel_go.prems(2) by simp
qed

text \<open>
  An open side panel shows the store. Whatever the panel, its dialogs and the other
  clients of the store do, in any order, as long as the initial load is over and nobody takes the
  panel's observer away, the cards are those of the stored workspaces, in their order.
\<close>

theorem panel_shows_store:
  assumes "panel_run tlib jl es (open_panel ob sys) pn" "pn_alive pn"
    "\<forall>e. Outside e \<in> set es \<longrightarrow> e \<noteq> EvReply \<and> e \<noteq> EvRemoveObserver ob"
  shows "pn_view pn = (if st_workspaces (sy_store (pn_sys pn)) = [] then NoWorkspaces
     else Cards (map (\<lambda>(i, w). card_of w) (st_workspaces (sy_store (pn_sys pn)))))"
proof -
  have "shows_store pn"
    using panel_run_shows [OF assms(1) open_panel_shows(1)] assms(3) by (simp add: open_panel_shows quiet_def)
  then show ?thesis using assms(2)
    by (simp add: shows_store_def view_of_def get_all_workspaces_def Let_def comp_def case_prod_beta)
qed

definition no_time :: time_lib where
  "no_time = \<lparr>utc_explode = (\<lambda>t. \<lparr>ex_year = 1601, ex_month = 1, ex_day_of_month = 1, ex_hour = 0, ex_minute = 0,
     ex_second = 0, ex_millisecond = 0\<rparr>), from_utc_string = (\<lambda>s. None)\<rparr>"

definition no_json :: json_lib where
  "no_json = \<lparr>json_write = (\<lambda>v. None), json_read = (\<lambda>s. None)\<rparr>"

definition no_disk :: disk where
  "no_disk = \<lparr>dk_dir_ok = True, dk_write_ok = True, dk_file = None, dk_torn = None\<rparr>"

theorem panel_shows_store_witness:
  "\<exists>pn. panel_run no_time no_json [ClickCreate True, Accept 0 (\<lambda>n. ''w'') (\<lambda>n. 7) 5 ''shop'' (Some 1)]
       (open_panel 3 (init_sys no_disk)) pn \<and>
     pn_view pn = Cards [\<lparr>cd_id = ''w'', cd_fingerprint = True, cd_name = ''shop''\<rparr>]"
proof -
  let ?es = "[ClickCreate True, Accept 0 (\<lambda>n. ''w'') (\<lambda>n. 7) 5 ''shop'' (Some 1)]"
  let ?pn0 = "open_panel 3 (init_sys no_disk)"
  obtain pn1 where s1: "panel_step no_time no_json (ClickCreate True) ?pn0 = Some pn1"
    "pn1 = ?pn0\<lparr>pn_dialogs := [CreateDialog]\<rparr>"
    by (simp add: open_panel_def rebuild_workspace_list_def on_create_workspace_clicked_def)
  obtain pn2 where s2: "panel_step no_time no_json (Accept 0 (\<lambda>n. ''w'') (\<lambda>n. 7) 5 ''shop'' (Some 1)) pn1 = Some pn2"
    "pn_alive pn2" "st_workspaces (sy_store (pn_sys pn2)) =
       [(''w'', completed ''w'' 7 5 (create_basic ''w'' 7 5 ''shop'' KFingerprint))]"
    by (simp add: s1(2) open_panel_def rebuild_workspace_list_def create_workspace_eq Let_def init_sys_def
        new_store_def selected_type_def add_observer_def create_basic_def workspace_default_def)
  have run: "panel_run no_time no_json ?es ?pn0 pn2"
    using s1(1) s2(1) by (blast intro: panel_run.intros)
  show ?thesis
    using panel_shows_store [OF run s2(2)] s2(3) run
    by (auto simp: card_of_def completed_def create_basic_def workspace_default_def)
qed

lemma put_all_log: "st_log (fold put_workspace ws st) = st_log st"
  by (induction ws arbitrary: st) simp_all

lemma put_all_nonempty: "ws \<noteq> [] \<Longrightarrow> st_workspaces (fold put_workspace ws st) \<noteq> []"
  by (cases ws rule: rev_cases) simp_all

text \<open>
  A panel opened before the load is over stays empty. The workspaces the load brings in
  are in the store, but the panel is not told and goes on saying that there are none.
\<close>

theorem load_goes_unseen:
  assumes "st_workspaces (sy_store sys) = []" "sy_replies sys = [Some d]" "find_list d ''workspaces'' = Some items"
    "as_dict item = Some wd" "item \<in> set items"
  shows "\<exists>pn. panel_run tlib jl [Outside EvReply] (open_panel ob sys) pn \<and>
     pn_view pn = NoWorkspaces \<and> get_all_workspaces (sy_store (pn_sys pn)) \<noteq> []"
proof -
  let ?sys = "sys\<lparr>sy_store := add_observer ob (sy_store sys)\<rparr>" and ?ws = "disk_workspaces tlib items"
  let ?st = "(sy_store ?sys)\<lparr>st_initialized := True\<rparr>"
  have data: "on_init_data tlib (Some d) (sy_store ?sys) = fold put_workspace ?ws ?st"
    using assms(1,3) by (simp add: on_init_data_def Let_def)
  have "wd \<in> set (List.map_filter as_dict items)" using assms(4,5) by (force simp: List.map_filter_def)
  then have "?ws \<noteq> []" by (auto simp: disk_workspaces_def)
  then have more: "get_all_workspaces (on_init_data tlib (Some d) (sy_store ?sys)) \<noteq> []"
    using put_all_nonempty [of ?ws ?st] unfolding data get_all_workspaces_def by blast
  have sys': "run_reply tlib ?sys = ?sys\<lparr>sy_store := on_init_data tlib (Some d) (sy_store ?sys), sy_replies := []\<rparr>"
    using assms(2) by (simp add: run_reply_def)
  have "st_log (on_init_data tlib (Some d) (sy_store ?sys)) = st_log (sy_store ?sys)"
    unfolding data by (simp add: put_all_log)
  then have step: "panel_step tlib jl (Outside EvReply) (open_panel ob sys) =
      Some ((open_panel ob sys)\<lparr>pn_sys := run_reply tlib ?sys\<rparr>)"
    by (simp add: with_sys_def open_panel_def rebuild_workspace_list_def Let_def sys')
  have "pn_view (open_panel ob sys) = NoWorkspaces"
    using assms(1) by (simp add: open_panel_def rebuild_workspace_list_def view_of_def get_all_workspaces_def)
  with step more show ?thesis by (auto simp: sys' intro!: exI panel_run.intros)
qed

theorem load_goes_unseen_witness:
  "\<exists>pn. panel_run no_time no_json [Outside EvReply] (open_panel 3
      ((init_sys no_disk)\<lparr>sy_replies := [Some (dict_set ''workspaces'' (JList [JDict (dict_set ''id'' (JString ''w'') [])]) [])]\<rparr>)) pn \<and>
    pn_view pn = NoWorkspaces \<and> get_all_workspaces (sy_store (pn_sys pn)) \<noteq> []"
  by (rule load_goes_unseen [where d = "dict_set ''workspaces'' (JList [JDict (dict_set ''id'' (JString ''w'') [])]) []"
        and items = "[JDict (dict_set ''id'' (JString ''w'') [])]" and item = "JDict (dict_set ''id'' (JString ''w'') [])"
        and wd = "dict_set ''id'' (JString ''w'') []"])
    (simp_all add: init_sys_def new_store_def)

text \<open>A dialog that outlives its panel uses it after it is gone, when it is accepted with a text.\<close>

lemma dialog_outlives_panel:
  assumes "k < length (pn_dialogs pn)" "entered \<noteq> []"
  shows "panel_step tlib jl (Accept k ids seeds now entered index) (close_panel pn) = None"
  using assms by (cases "pn_dialogs pn ! k") (simp_all add: close_panel_def)

end
