(* ===== verification/Whole_System.thy ===== *)
theory Whole_System
  imports Api_Conservation Webui_Safety Side_Panel
begin

text \<open>
  The product as a whole: the REST API, the page and the side panel over the one store of a profile
  (\<open>StoreProvider\<close> hands all three the same object), with its disk and its pending replies. A step of
  one client is the step of its own theory on the shared store, and the panel, which observes the
  store, hears of what any of them changes. The clients keep launchers of their own here: what they
  share in this theory is the store.
\<close>

subsection \<open>The state and its steps\<close>

record whole =
  wh_sys :: store_sys
  wh_api :: api
  wh_page :: webui
  wh_panel :: panel

datatype whole_event =
    ByApi api_event
  | ByPage webui_event
  | ByPanel panel_event
  | ByStore store_event

definition shared :: "store_sys \<Rightarrow> whole \<Rightarrow> whole" where
  "shared sys wh = wh\<lparr>wh_sys := sys, wh_panel := with_sys sys (wh_panel wh)\<rparr>"

fun whole_step :: "(string \<Rightarrow> string) \<Rightarrow> lib \<Rightarrow> whole_event \<Rightarrow> whole \<Rightarrow> whole option" where
  "whole_step lower lib (ByApi e) wh =
     (let api = api_step lib e ((wh_api wh)\<lparr>ap_store := sy_store (wh_sys wh)\<rparr>)
      in Some (shared ((wh_sys wh)\<lparr>sy_store := ap_store api\<rparr>) (wh\<lparr>wh_api := api\<rparr>)))"
| "whole_step lower lib (ByPage e) wh =
     map_option (\<lambda>wu. shared ((wh_sys wh)\<lparr>sy_store := wu_store wu\<rparr>) (wh\<lparr>wh_page := wu\<rparr>))
       (webui_step lower lib e ((wh_page wh)\<lparr>wu_store := sy_store (wh_sys wh)\<rparr>))"
| "whole_step lower lib (ByPanel e) wh =
     map_option (\<lambda>pn. wh\<lparr>wh_sys := pn_sys pn, wh_panel := pn\<rparr>)
       (panel_step (lb_time lib) (lb_json lib) e (wh_panel wh))"
| "whole_step lower lib (ByStore e) wh =
     Some (shared (store_step (lb_time lib) (lb_json lib) e (wh_sys wh)) wh)"

fun whole_run :: "(string \<Rightarrow> string) \<Rightarrow> lib \<Rightarrow> whole_event list \<Rightarrow> whole \<Rightarrow> whole option" where
  "whole_run lower lib [] wh = Some wh"
| "whole_run lower lib (x # xs) wh = Option.bind (whole_step lower lib x wh) (whole_run lower lib xs)"

definition new_whole :: "store_sys \<Rightarrow> manager \<Rightarrow> string \<Rightarrow> nat \<Rightarrow> manager option \<Rightarrow> nat \<Rightarrow> whole" where
  "new_whole sys mg token page_observer page_manager panel_observer =
     (let pn = open_panel panel_observer sys
      in \<lparr>wh_sys = pn_sys pn, wh_api = new_api (sy_store (pn_sys pn)) mg token,
          wh_page = new_webui page_observer (sy_store (pn_sys pn)) page_manager, wh_panel = pn\<rparr>)"

subsection \<open>What each client asks of the store\<close>

text \<open>The abstraction: the operations of the store that a step performs, in order.\<close>

fun import_events :: "lib \<Rightarrow> ui_env \<Rightarrow> nat \<Rightarrow> jval list \<Rightarrow> store_event list" where
  "import_events lib ev k [] = []"
| "import_events lib ev k (item # items) =
     (case as_dict item of
        None \<Rightarrow> import_events lib ev k items
      | Some dict \<Rightarrow>
          (case find_string dict ''name'' of
             None \<Rightarrow> import_events lib ev k items
           | Some name \<Rightarrow>
               if name = [] then import_events lib ev k items
               else EvCreate (ev_ids ev k) (ev_seeds ev k) (ev_now ev)
                      ((workspace_from_dict (lb_time lib) dict)\<lparr>ws_id := ev_ids ev k\<rparr>) #
                    import_events lib ev (Suc k) items))"

fun task_events :: "lib \<Rightarrow> ui_env \<Rightarrow> ui_task \<Rightarrow> store \<Rightarrow> store_event list" where
  "task_events lib ev (CreateTask c name type body) st =
     [EvCreate (ev_ids ev 1) (ev_seeds ev 1) (ev_now ev)
        (apply_body body (create_basic (ev_ids ev 0) (ev_seeds ev 0) (ev_now ev) name type))]"
| "task_events lib ev (UpdateTask c i body) st =
     (case get_workspace st i of None \<Rightarrow> [] | Some w \<Rightarrow> [EvUpdate (ev_now ev) (apply_body body w)])"
| "task_events lib ev (DeleteTask c i) st = [EvDelete i]"
| "task_events lib ev (ImportTask c items) st = import_events lib ev 0 items"
| "task_events lib ev _ st = []"

fun api_events :: "lib \<Rightarrow> api_event \<Rightarrow> api \<Rightarrow> store \<Rightarrow> store_event list" where
  "api_events lib (RunUi k ev) api st =
     (if k < length (ap_ui api) then task_events lib ev (ap_ui api ! k) st else [])"
| "api_events lib _ api st = []"

fun message_events :: "lib \<Rightarrow> ui_env \<Rightarrow> message \<Rightarrow> jval list \<Rightarrow> store_event list" where
  "message_events lib ev CreateWorkspace args =
     (case created_workspace lib ev args of
        None \<Rightarrow> [] | Some ws \<Rightarrow> [EvCreate (ev_ids ev 1) (ev_seeds ev 1) (ev_now ev) ws])"
| "message_events lib ev UpdateWorkspace args =
     (case arg_string args 1 of
        Some i \<Rightarrow> (case arg_string args 2 of None \<Rightarrow> [] | Some n \<Rightarrow> [EvRename (ev_now ev) i n])
      | None \<Rightarrow> (case arg_dict args 1 of
                   None \<Rightarrow> []
                 | Some d \<Rightarrow> [EvUpdate (ev_now ev)
                     ((workspace_from_dict (lb_time lib) d)\<lparr>ws_updated_at := ev_now ev\<rparr>)]))"
| "message_events lib ev DeleteWorkspace args =
     (case arg_string args 1 of None \<Rightarrow> [] | Some i \<Rightarrow> [EvDelete i])"
| "message_events lib ev BatchDeleteWorkspaces args =
     (case arg_list args 1 of None \<Rightarrow> [] | Some ids \<Rightarrow> map EvDelete (List.map_filter as_string ids))"
| "message_events lib ev _ args = []"

fun page_events :: "lib \<Rightarrow> webui_event \<Rightarrow> webui \<Rightarrow> store_event list" where
  "page_events lib (PageMessage ev m args) wu = (if wu_alive wu then message_events lib ev m args else [])"
| "page_events lib _ wu = []"

fun dialog_events ::
  "(nat \<Rightarrow> string) \<Rightarrow> (nat \<Rightarrow> int) \<Rightarrow> int \<Rightarrow> string \<Rightarrow> nat option \<Rightarrow> dialog \<Rightarrow> store_event list" where
  "dialog_events ids seeds now entered index CreateDialog =
     (if entered = [] then []
      else [EvCreate (ids 1) (seeds 1) now (create_basic (ids 0) (seeds 0) now entered (selected_type index))])"
| "dialog_events ids seeds now entered index (RenameDialog i shown) =
     (if entered = [] then [] else [EvRename now i entered])"
| "dialog_events ids seeds now entered index (DeleteDialog i shown) = [EvDelete i]"

fun panel_events :: "panel_event \<Rightarrow> panel \<Rightarrow> store_event list" where
  "panel_events (Outside e) pn = [e]"
| "panel_events (Accept k ids seeds now entered index) pn =
     (if k < length (pn_dialogs pn) then dialog_events ids seeds now entered index (pn_dialogs pn ! k) else [])"
| "panel_events ClosePanel pn = [EvRemoveObserver (pn_observer pn)]"
| "panel_events _ pn = []"

fun events_of :: "lib \<Rightarrow> whole_event \<Rightarrow> whole \<Rightarrow> store_event list" where
  "events_of lib (ByApi e) wh = api_events lib e (wh_api wh) (sy_store (wh_sys wh))"
| "events_of lib (ByPage e) wh = page_events lib e (wh_page wh)"
| "events_of lib (ByPanel e) wh = panel_events e (wh_panel wh)"
| "events_of lib (ByStore e) wh = [e]"

fun run_events :: "(string \<Rightarrow> string) \<Rightarrow> lib \<Rightarrow> whole_event list \<Rightarrow> whole \<Rightarrow> store_event list" where
  "run_events lower lib [] wh = []"
| "run_events lower lib (x # xs) wh =
     events_of lib x wh @
     (case whole_step lower lib x wh of None \<Rightarrow> [] | Some wh' \<Rightarrow> run_events lower lib xs wh')"

subsection \<open>The store is only changed through its operations\<close>

abbreviation store_run :: "lib \<Rightarrow> store_event list \<Rightarrow> store_sys \<Rightarrow> store_sys" where
  "store_run lib \<equiv> run (store_step (lb_time lib) (lb_json lib))"

lemma answers_keep_store:
  "ap_store (post_ui t api) = ap_store api" "ap_store (post_api u api) = ap_store api"
  "ap_store (send_json lib c status v api) = ap_store api"
  "ap_store (send_error lib c status code msg api) = ap_store api"
  "ap_store (with_manager f api) = ap_store api" "ap_store (with_proxy p api) = ap_store api"
  by (simp_all add: post_ui_def post_api_def send_json_def send_error_def with_manager_def with_proxy_def Let_def)

lemma dispatch_keeps_store:
  "ap_store (handle_create_workspace lib c d api) = ap_store api"
  "ap_store (handle_import_workspaces lib c body api) = ap_store api"
  "ap_store (dispatch_workspace lib c info segs i api) = ap_store api"
  "ap_store (dispatch_segments lib c info segs api) = ap_store api"
  by (simp_all add: handle_create_workspace_def handle_import_workspaces_def dispatch_workspace_def
      dispatch_segments_def answers_keep_store Let_def split: option.split)

lemma requests_keep_store:
  "ap_store (on_http_request lib c info api) = ap_store api"
  "ap_store (on_websocket_request lib c info api) = ap_store api"
  by (simp_all add: on_http_request_def dispatch_request_def on_websocket_request_def dispatch_keeps_store
      answers_keep_store Let_def)

lemma run_task_keeps_store: "ap_store (run_task lib answer t api) = ap_store api"
  by (cases t) (simp_all add: respond_with_workspace_list_def respond_with_workspace_def
      respond_with_status_def forward_cdp_def answers_keep_store Let_def
      split: option.split child_answer.split prod.split)

lemma import_simulates:
  "sys\<lparr>sy_store := snd (snd (import_items lib ev k items (m, n, sy_store sys)))\<rparr> =
    store_run lib (import_events lib ev k items) sys"
proof (induction items arbitrary: k m n sys)
  case (Cons item items)
  show ?case
  proof (cases "Option.bind (as_dict item) (\<lambda>d. find_string d ''name'')")
    case None
    then show ?thesis using Cons.IH by (auto split: option.split Option.bind_splits)
  next
    case (Some name)
    then obtain d where d: "as_dict item = Some d" "find_string d ''name'' = Some name"
      by (auto split: Option.bind_splits)
    let ?w = "(workspace_from_dict (lb_time lib) d)\<lparr>ws_id := ev_ids ev k\<rparr>"
    let ?c = "create_workspace (lb_time lib) (ev_ids ev k) (ev_seeds ev k) (ev_now ev) ?w (sy_store sys)"
    show ?thesis
      using Cons.IH [where sys = "sys\<lparr>sy_store := snd ?c\<rparr>" and k = "Suc k" and m = "m + 1" and n = n]
        Cons.IH [where sys = sys and k = k and m = m and n = "n + 1"]
      by (simp add: d Let_def case_prod_beta)
  qed
qed simp

lemma ui_task_simulates:
  assumes "ap_store api = sy_store sys"
  shows "sys\<lparr>sy_store := ap_store (run_ui_task lib ev t api)\<rparr> =
    store_run lib (task_events lib ev t (sy_store sys)) sys"
proof (cases t)
  case (ImportTask c items)
  then show ?thesis
    using import_simulates [where sys = sys and lib = lib and ev = ev and k = 0 and items = items and m = 0 and n = 0]
    by (simp add: assms ui_import_def answers_keep_store Let_def case_prod_beta)
qed (simp_all add: assms ui_get_all_def ui_create_def ui_get_def ui_update_def ui_delete_def ui_launch_def
    ui_stop_def ui_status_def ui_system_status_def ui_cdp_def ui_cdp_retry_def ui_export_def
    answers_keep_store Let_def case_prod_beta split: option.split)

lemma api_simulates:
  "sys\<lparr>sy_store := ap_store (api_step lib e (api\<lparr>ap_store := sy_store sys\<rparr>))\<rparr> =
    store_run lib (api_events lib e api (sy_store sys)) sys"
proof (cases e)
  case (RunUi k ev)
  then show ?thesis
    using ui_task_simulates [where sys = sys and lib = lib and ev = ev and t = "ap_ui api ! k"
        and api = "api\<lparr>ap_store := sy_store sys, ap_ui := drop_nth k (ap_ui api)\<rparr>"] by simp
qed (simp_all add: requests_keep_store answers_keep_store run_task_keeps_store split: list.split)

lemma delete_each_simulates:
  "sys\<lparr>sy_store := snd (delete_each lib ids (n, sy_store sys))\<rparr> =
    store_run lib (map EvDelete (List.map_filter as_string ids)) sys"
proof (induction ids arbitrary: n sys)
  case (Cons v ids)
  show ?case
  proof (cases "as_string v")
    case None
    then show ?thesis using Cons.IH by (simp add: List.map_filter_simps)
  next
    case (Some i)
    let ?d = "delete_workspace (lb_time lib) i (sy_store sys)"
    show ?thesis
      using Some Cons.IH [where sys = "sys\<lparr>sy_store := snd ?d\<rparr>" and n = "if fst ?d then n + 1 else n"]
      by (simp add: List.map_filter_simps Let_def case_prod_beta)
  qed
qed (simp add: List.map_filter_simps)

lemma arg_string_one: "arg_string args (Suc 0) = Option.bind (arg args (Suc 0)) as_string"
  by (simp add: arg_string_def)

lemma message_simulates:
  assumes "handle_message lower lib ev m args (wu\<lparr>wu_store := sy_store sys\<rparr>) = Some wu'"
  shows "sys\<lparr>sy_store := wu_store wu'\<rparr> = store_run lib (message_events lib ev m args) sys"
proof (cases m)
  case CreateWorkspace
  then show ?thesis using assms
    by (auto simp: web_create_def Let_def case_prod_beta split: Option.bind_splits dest!: resolve_store)
next
  case UpdateWorkspace
  then show ?thesis using assms
    by (auto simp: web_update_def arg_string_one Let_def case_prod_beta
        split: Option.bind_splits option.splits dest!: resolve_store)
next
  case DeleteWorkspace
  then show ?thesis using assms
    by (auto simp: web_delete_def Let_def case_prod_beta split: Option.bind_splits dest!: resolve_store)
next
  case BatchDeleteWorkspaces
  then show ?thesis using assms
    by (auto simp: web_batch_delete_def delete_each_simulates Let_def case_prod_beta
        split: Option.bind_splits dest!: resolve_store)
qed (use assms in \<open>auto simp: small_messages web_launch_def web_stop_def web_batch_stop_def Let_def
      split: Option.bind_splits prod.splits option.splits dest!: store_frames\<close>)

lemma page_simulates:
  assumes "webui_step lower lib e (wu\<lparr>wu_store := sy_store sys\<rparr>) = Some wu'"
  shows "sys\<lparr>sy_store := wu_store wu'\<rparr> = store_run lib (page_events lib e wu) sys"
  using assms by (cases e) (auto simp: destroy_webui_def message_simulates split: if_splits dest: with_launcher_store)

lemma dialog_simulates:
  assumes "accept_dialog (lb_time lib) ids seeds now entered index d pn = Some pn'"
  shows "pn_sys pn' = store_run lib (dialog_events ids seeds now entered index d) (pn_sys pn)"
  using assms by (cases d) (auto simp: Let_def rebuild_workspace_list_def split: if_splits)

lemma panel_simulates:
  assumes "panel_step (lb_time lib) (lb_json lib) e pn = Some pn'"
  shows "pn_sys pn' = store_run lib (panel_events e pn) (pn_sys pn)"
  using assms
  by (cases e) (auto simp: on_create_workspace_clicked_def on_rename_workspace_def on_delete_workspace_def
      close_panel_def split: option.splits if_splits dest!: dialog_simulates)

lemma shared_fields [simp]: "wh_sys (shared sys wh) = sys" "pn_sys (wh_panel (shared sys wh)) = sys"
  by (simp_all add: shared_def)

text \<open>The panel's view of the store is the one store.\<close>

definition one_store :: "whole \<Rightarrow> bool" where
  "one_store wh = (pn_sys (wh_panel wh) = wh_sys wh)"

lemma whole_step_simulates:
  assumes "whole_step lower lib e wh = Some wh'" "one_store wh"
  shows "wh_sys wh' = store_run lib (events_of lib e wh) (wh_sys wh)" "one_store wh'"
proof -
  show "one_store wh'" using assms by (cases e) (auto simp: one_store_def Let_def)
  show "wh_sys wh' = store_run lib (events_of lib e wh) (wh_sys wh)"
  proof (cases e)
    case (ByApi a)
    then show ?thesis using assms(1)
      api_simulates [where sys = "wh_sys wh" and lib = lib and e = a and api = "wh_api wh"] by (auto simp: Let_def)
  next
    case (ByPage p)
    then show ?thesis using assms(1) by (auto intro: page_simulates)
  next
    case (ByPanel q)
    then show ?thesis using assms by (auto simp: one_store_def dest: panel_simulates)
  next
    case (ByStore s)
    then show ?thesis using assms(1) by auto
  qed
qed

lemma whole_run_simulates:
  assumes "whole_run lower lib es wh = Some wh'" "one_store wh"
  shows "wh_sys wh' = store_run lib (run_events lower lib es wh) (wh_sys wh) \<and> one_store wh'"
  using assms
proof (induction es arbitrary: wh)
  case (Cons e es)
  then obtain wh1 where s: "whole_step lower lib e wh = Some wh1" "whole_run lower lib es wh1 = Some wh'"
    by (auto split: Option.bind_splits)
  from whole_step_simulates [OF s(1) Cons.prems(2)] Cons.IH [OF s(2)] s(1) show ?case by simp
qed simp

subsection \<open>What the panel shows of the others' changes\<close>

lemma load_log: "st_log (on_init_data tlib data st) = st_log st"
proof -
  have puts: "st_log (fold put_workspace ws s) = st_log s" "st_log (fold emplace_workspace ws s) = st_log s" for ws s
    by (induction ws arbitrary: s) (simp_all add: emplace_workspace_def)
  show ?thesis by (simp add: on_init_data_def puts Let_def split: option.split)
qed

lemma store_step_log: "\<exists>more. st_log (sy_store (store_step tlib jl e sys)) = st_log (sy_store sys) @ more"
  by (cases e) (auto simp: crud_eqs store_init_def flush_def add_observer_def remove_observer_def run_file_task_def
      run_reply_def load_log Let_def split: list.split file_task.split option.split)

lemma store_run_log:
  assumes "\<forall>e\<in>set es. quiet ob e" "ob \<in> set (st_observers (sy_store sys))"
  shows "(\<exists>more. st_log (sy_store (store_run lib es sys)) = st_log (sy_store sys) @ more \<and>
       (st_workspaces (sy_store (store_run lib es sys)) = st_workspaces (sy_store sys) \<or> (ob, WorkspacesChanged) \<in> set more)) \<and>
     ob \<in> set (st_observers (sy_store (store_run lib es sys)))"
  using assms
proof (induction es arbitrary: sys)
  case (Cons e es)
  let ?sys = "store_step (lb_time lib) (lb_json lib) e sys"
  have q: "quiet ob e" "\<forall>e\<in>set es. quiet ob e" using Cons.prems(1) by simp_all
  note told = store_step_told [OF Cons.prems(2) q(1), of "lb_time lib" "lb_json lib"]
  note rest = Cons.IH [OF q(2) told(2)]
  obtain first where first: "st_log (sy_store ?sys) = st_log (sy_store sys) @ first"
    using store_step_log by blast
  obtain more where more: "st_log (sy_store (store_run lib es ?sys)) = st_log (sy_store ?sys) @ more"
    "st_workspaces (sy_store (store_run lib es ?sys)) = st_workspaces (sy_store ?sys) \<or> (ob, WorkspacesChanged) \<in> set more"
    using rest(1) by blast
  show ?case using told(1) first more rest by (auto intro: exI [of _ "first @ more"])
qed simp

lemma shared_shows:
  assumes "shows_store (wh_panel wh)" "one_store wh" "sys = store_run lib es (wh_sys wh)"
    "\<forall>e\<in>set es. quiet (pn_observer (wh_panel wh)) e" "wh_panel wh' = wh_panel wh"
  shows "shows_store (wh_panel (shared sys wh'))"
proof -
  have "shows_store (with_sys sys (wh_panel wh))"
  proof (rule with_sys_shows [OF assms(1)])
    assume "pn_alive (wh_panel wh)"
    then have ob: "pn_observer (wh_panel wh) \<in> set (st_observers (sy_store (wh_sys wh)))"
      using assms(1,2) by (simp add: shows_store_def one_store_def)
    note run = store_run_log [OF assms(4) ob, of lib]
    show "pn_observer (wh_panel wh) \<in> set (st_observers (sy_store sys))" using run assms(3) by simp
    show "st_workspaces (sy_store sys) = st_workspaces (sy_store (pn_sys (wh_panel wh))) \<or>
      (pn_observer (wh_panel wh), WorkspacesChanged)
        \<in> set (drop (length (st_log (sy_store (pn_sys (wh_panel wh))))) (st_log (sy_store sys)))"
      using run assms(2,3) by (auto simp: one_store_def)
  qed
  then show ?thesis using assms(5) by (simp add: shared_def)
qed

lemma import_quiet: "e \<in> set (import_events lib ev k items) \<Longrightarrow> quiet ob e"
  by (induction items arbitrary: k) (auto simp: quiet_def split: option.splits if_splits)

lemma task_quiet: "e \<in> set (task_events lib ev t st) \<Longrightarrow> quiet ob e"
  using import_quiet [of e lib ev 0 _ ob] by (cases t) (auto simp: quiet_def split: option.splits)

lemma message_quiet: "e \<in> set (message_events lib ev m args) \<Longrightarrow> quiet ob e"
  by (cases m) (auto simp: quiet_def split: option.splits)

text \<open>The store's own steps that the panel is not told of: the end of the load, and losing its place among the observers.\<close>

definition heard :: "nat \<Rightarrow> whole_event \<Rightarrow> bool" where
  "heard ob e = (case e of
     ByStore s \<Rightarrow> quiet ob s | ByPanel (Outside s) \<Rightarrow> quiet ob s | _ \<Rightarrow> True)"

lemma client_heard:
  assumes "heard ob e" "\<forall>q. e \<noteq> ByPanel q" "s \<in> set (events_of lib e wh)"
  shows "quiet ob s"
proof (cases e)
  case (ByApi a)
  then show ?thesis using assms(3) task_quiet [of s lib] by (cases a) (auto split: if_splits)
next
  case (ByPage p)
  then show ?thesis using assms(3) message_quiet [of s lib] by (cases p) (auto split: if_splits)
qed (use assms in \<open>auto simp: heard_def\<close>)

lemma whole_step_shows:
  assumes "whole_step lower lib e wh = Some wh'" "one_store wh" "shows_store (wh_panel wh)"
    "heard (pn_observer (wh_panel wh)) e"
  shows "shows_store (wh_panel wh') \<and> pn_observer (wh_panel wh') = pn_observer (wh_panel wh)"
proof (cases "\<exists>q. e = ByPanel q")
  case True
  then obtain q where q: "e = ByPanel q" by blast
  with assms(1) obtain pn where pn: "panel_step (lb_time lib) (lb_json lib) q (wh_panel wh) = Some pn" "wh_panel wh' = pn"
    by auto
  have "\<forall>o'. q = Outside o' \<longrightarrow> quiet (pn_observer (wh_panel wh)) o'" using assms(4) q by (auto simp: heard_def)
  with panel_step_shows [OF pn(1) assms(3)] panel_step_observer [OF pn(1)] pn(2) show ?thesis by simp
next
  case False
  then obtain sys wh0 where wh': "wh' = shared sys wh0" "wh_panel wh0 = wh_panel wh"
    using assms(1) by (cases e) (auto simp: Let_def)
  have sys: "sys = store_run lib (events_of lib e wh) (wh_sys wh)"
    using whole_step_simulates(1) [OF assms(1,2)] wh'(1) by simp
  have "\<forall>s\<in>set (events_of lib e wh). quiet (pn_observer (wh_panel wh)) s"
    using client_heard [OF assms(4)] False by blast
  from shared_shows [OF assms(3,2) sys this wh'(2)] show ?thesis by (simp add: wh' shared_def)
qed

lemma whole_run_shows:
  assumes "whole_run lower lib es wh = Some wh'" "one_store wh" "shows_store (wh_panel wh)"
    "\<forall>e\<in>set es. heard (pn_observer (wh_panel wh)) e"
  shows "shows_store (wh_panel wh')"
  using assms
proof (induction es arbitrary: wh)
  case (Cons e es)
  then obtain wh1 where s: "whole_step lower lib e wh = Some wh1" "whole_run lower lib es wh1 = Some wh'"
    by (auto split: Option.bind_splits)
  have h: "heard (pn_observer (wh_panel wh)) e" using Cons.prems(4) by simp
  note step = whole_step_shows [OF s(1) Cons.prems(2,3) h]
  show ?case
    using Cons.IH [OF s(2) whole_step_simulates(2) [OF s(1) Cons.prems(2)]] step Cons.prems(4) by simp
qed simp

lemma new_whole_fields [simp]:
  "one_store (new_whole sys mg token po pm ob)"
  "wh_sys (new_whole sys mg token po pm ob) = sys\<lparr>sy_store := add_observer ob (sy_store sys)\<rparr>"
  "wh_panel (new_whole sys mg token po pm ob) = open_panel ob sys"
  by (simp_all add: new_whole_def one_store_def open_panel_def rebuild_workspace_list_def Let_def)

subsection \<open>Claims\<close>

text \<open>
  C1 (refinement): the three clients only use the store. Whatever requests, messages, clicks and
  replies come in, in any order, the store, the file on disk and the replies on their way are those
  that the store's own operations give, in the order in which the clients asked for them; and what
  the panel takes for the store is the store the API and the page work on.
\<close>

theorem clients_only_operate_the_store:
  assumes "whole_run lower lib es (new_whole sys mg token po pm ob) = Some wh"
  shows "wh_sys wh = run (store_step (lb_time lib) (lb_json lib))
      (run_events lower lib es (new_whole sys mg token po pm ob)) (sys\<lparr>sy_store := add_observer ob (sy_store sys)\<rparr>) \<and>
    pn_sys (wh_panel wh) = wh_sys wh"
  using whole_run_simulates [OF assms new_whole_fields(1)] by (simp add: one_store_def)

text \<open>
  C11 (invariant): the open panel follows the API and the page. Whatever the REST API, the page and
  the panel itself do, in any order, after the initial load the panel shows the workspaces of the
  shared store, in their order.
\<close>

theorem panel_follows_all_clients:
  assumes "whole_run lower lib es (new_whole sys mg token po pm ob) = Some wh" "pn_alive (wh_panel wh)"
    "\<forall>s. ByStore s \<in> set es \<or> ByPanel (Outside s) \<in> set es \<longrightarrow> s \<noteq> EvReply \<and> s \<noteq> EvRemoveObserver ob"
  shows "pn_view (wh_panel wh) = (if st_workspaces (sy_store (wh_sys wh)) = [] then NoWorkspaces
     else Cards (map (\<lambda>(i, w). card_of w) (st_workspaces (sy_store (wh_sys wh)))))"
proof -
  have "\<forall>e\<in>set es. heard ob e"
    using assms(3) by (fastforce simp: heard_def quiet_def split: whole_event.split panel_event.split)
  then have "shows_store (wh_panel wh)"
    using whole_run_shows [OF assms(1) new_whole_fields(1)] by (simp add: open_panel_shows)
  moreover have "pn_sys (wh_panel wh) = wh_sys wh"
    using whole_run_simulates [OF assms(1) new_whole_fields(1)] by (simp add: one_store_def)
  ultimately show ?thesis using assms(2)
    by (simp add: shows_store_def view_of_def get_all_workspaces_def Let_def comp_def case_prod_beta)
qed

text \<open>The page creates a workspace and the API is asked for the list.\<close>

definition sample_day :: "whole_event list" where
  "sample_day = [ByPage (PageMessage sample_env CreateWorkspace [JString ''cb'', JString ''shop'', JInt 1]),
     ByApi (HttpRequest 3 status_request), ByApi (RunUi 0 sample_env)]"

definition sample_start :: whole where
  "sample_start = new_whole (init_sys no_disk) new_manager [] 1 None 2"

text \<open>What the page's message leaves behind.\<close>

definition sample_shop :: workspace where
  "sample_shop = completed ''i'' 7 5 (create_basic [] 7 5 ''shop'' KFingerprint)"

lemma sample_message:
  "webui_step id sample_lib (PageMessage sample_env CreateWorkspace [JString ''cb'', JString ''shop'', JInt 1])
     (new_webui 1 (add_observer 2 new_store) None) =
   Some ((new_webui 1 (commit (lb_time sample_lib) (WorkspaceAdded sample_shop)
       (put_workspace sample_shop (add_observer 2 new_store))) None)
     \<lparr>wu_allowed := True, wu_out := [Resolve (JString ''cb'') (JDict (workspace_to_dict (lb_time sample_lib) sample_shop))]\<rparr>)"
  by (simp add: web_create_def created_workspace_def arg_def arg_int_def sample_env_def new_webui_def Let_def
      allow_javascript_def resolve_def create_workspace_eq sample_shop_def type_of_int_def)

lemma sample_day_runs:
  "\<exists>wh. whole_run id sample_lib sample_day sample_start = Some wh \<and> pn_alive (wh_panel wh) \<and>
     st_workspaces (sy_store (wh_sys wh)) = [(''i'', sample_shop)] \<and>
     run_events id sample_lib sample_day sample_start = [EvCreate ''i'' 7 5 (create_basic [] 7 5 ''shop'' KFingerprint)]"
proof -
  let ?st = "commit (lb_time sample_lib) (WorkspaceAdded sample_shop) (put_workspace sample_shop (add_observer 2 new_store))"
  let ?wu = "new_webui 1 (add_observer 2 new_store) None"
  have page: "wh_page sample_start\<lparr>wu_store := sy_store (wh_sys sample_start)\<rparr> = ?wu"
    by (simp add: sample_start_def new_whole_def Let_def init_sys_def open_panel_def rebuild_workspace_list_def new_webui_def)
  obtain wh1 where one: "whole_step id sample_lib (hd sample_day) sample_start = Some wh1"
      "sy_store (wh_sys wh1) = ?st" "pn_alive (wh_panel wh1)" "wh_api wh1 = wh_api sample_start"
    using sample_message page
    by (simp add: sample_day_def shared_def new_webui_def sample_start_def open_panel_def rebuild_workspace_list_def
        del: webui_step.simps)
  have api: "(wh_api wh1)\<lparr>ap_store := st\<rparr> = new_api st new_manager []" for st
    by (simp add: one(4) sample_start_def new_whole_def Let_def new_api_def)
  obtain wh2 where two: "whole_run id sample_lib (tl sample_day) wh1 = Some wh2"
      "sy_store (wh_sys wh2) = ?st" "pn_alive (wh_panel wh2)" "run_events id sample_lib (tl sample_day) wh1 = []"
    by (simp add: sample_day_def api one(2) sample_dispatch shared_def one(3) ui_system_status_def Let_def post_api_def)
      (simp add: new_api_def)
  have day: "sample_day = hd sample_day # tl sample_day" by (simp add: sample_day_def)
  have "events_of sample_lib (hd sample_day) sample_start = [EvCreate ''i'' 7 5 (create_basic [] 7 5 ''shop'' KFingerprint)]"
    by (simp add: sample_day_def sample_start_def new_whole_def new_webui_def created_workspace_def arg_def arg_int_def
        sample_env_def type_of_int_def Let_def)
  then have events: "run_events id sample_lib sample_day sample_start = [EvCreate ''i'' 7 5 (create_basic [] 7 5 ''shop'' KFingerprint)]"
    using one(1) two(4) by (subst day) simp
  have "whole_run id sample_lib sample_day sample_start = Some wh2"
    using one(1) two(1) by (subst day) simp
  moreover have "ws_id sample_shop = ''i''"
    by (simp add: sample_shop_def completed_def create_basic_def)
  ultimately show ?thesis using two events by (auto simp: new_store_def add_observer_def)
qed

theorem clients_only_operate_the_store_witness:
  "\<exists>wh. whole_run id sample_lib sample_day sample_start = Some wh \<and>
     wh_sys wh = run (store_step (lb_time sample_lib) (lb_json sample_lib))
       [EvCreate ''i'' 7 5 (create_basic [] 7 5 ''shop'' KFingerprint)] ((init_sys no_disk)\<lparr>sy_store := add_observer 2 new_store\<rparr>)"
proof -
  obtain wh where wh: "whole_run id sample_lib sample_day sample_start = Some wh"
      "run_events id sample_lib sample_day sample_start = [EvCreate ''i'' 7 5 (create_basic [] 7 5 ''shop'' KFingerprint)]"
    using sample_day_runs by blast
  show ?thesis
    using wh clients_only_operate_the_store [OF wh(1) [unfolded sample_start_def]]
    by (simp add: sample_start_def init_sys_def)
qed

theorem panel_follows_all_clients_witness:
  "\<exists>wh. whole_run id sample_lib sample_day sample_start = Some wh \<and>
     pn_view (wh_panel wh) = Cards [\<lparr>cd_id = ''i'', cd_fingerprint = True, cd_name = ''shop''\<rparr>]"
proof -
  obtain wh where wh: "whole_run id sample_lib sample_day sample_start = Some wh" "pn_alive (wh_panel wh)"
      "st_workspaces (sy_store (wh_sys wh)) = [(''i'', sample_shop)]" using sample_day_runs by blast
  show ?thesis
    using wh panel_follows_all_clients [OF wh(1) [unfolded sample_start_def] wh(2)]
    by (auto simp: sample_day_def card_of_def sample_shop_def completed_def create_basic_def workspace_default_def)
qed

end
