(* ===== verification/Chrome_Startup.thy ===== *)
theory Chrome_Startup
  imports Api_Server
begin

text \<open>
  Where Chromium's startup calls into the product: \<open>chrome/browser/chrome_browser_main.cc\<close>, the manager that
  initialises profiles one by one, the initial profile first, and the hooks that start the API server
  with the first profile that is initialised and stop it at the end. What else is done for a profile
  is left out.
\<close>

subsection \<open>Profiles and the main parts\<close>

record chrome_profile =
  cp_profile :: profile
  cp_system :: bool
  cp_guest :: bool
  cp_user :: bool

text \<open>\<open>mp_starts\<close> is the profiles with which the server was asked to start, in order.\<close>

record main_parts =
  mp_initialized :: bool
  mp_observing :: bool
  mp_browser :: browser
  mp_starts :: "chrome_profile list"

definition new_main_parts :: main_parts where
  "new_main_parts =
     \<lparr>mp_initialized = False, mp_observing = False, mp_browser = new_browser, mp_starts = []\<rparr>"

text \<open>What starting the server needs, but for the profile: the interface the main parts rely on.\<close>

type_synonym starter = "profile option \<Rightarrow> browser \<Rightarrow> browser option"

definition post_profile_init ::
  "starter \<Rightarrow> chrome_profile \<Rightarrow> bool \<Rightarrow> main_parts \<Rightarrow> main_parts option" where
  "post_profile_init start p is_initial_profile mp =
     (if is_initial_profile
      then map_option (\<lambda>br. mp\<lparr>mp_browser := br, mp_starts := mp_starts mp @ [p]\<rparr>)
             (start (Some (cp_profile p)) (mp_browser mp))
      else Some mp)"

definition call_post_profile_init :: "starter \<Rightarrow> chrome_profile \<Rightarrow> main_parts \<Rightarrow> main_parts option" where
  "call_post_profile_init start p mp =
     (let is_initial_profile = (\<not> mp_initialized mp);
          mp = mp\<lparr>mp_initialized := True\<rparr>
      in post_profile_init start p is_initial_profile mp)"

text \<open>The profiles used for browsing; on ChromeOS only those of users.\<close>

definition browsing :: "bool \<Rightarrow> chrome_profile \<Rightarrow> bool" where
  "browsing is_chromeos p =
     (if cp_system p \<or> cp_guest p then False else if is_chromeos \<and> \<not> cp_user p then False else True)"

definition on_profile_added ::
  "starter \<Rightarrow> bool \<Rightarrow> chrome_profile \<Rightarrow> main_parts \<Rightarrow> main_parts option" where
  "on_profile_added start is_chromeos p mp =
     (if \<not> browsing is_chromeos p then Some mp else call_post_profile_init start p mp)"

fun add_profiles ::
  "starter \<Rightarrow> bool \<Rightarrow> chrome_profile list \<Rightarrow> main_parts \<Rightarrow> main_parts option" where
  "add_profiles start is_chromeos [] mp = Some mp"
| "add_profiles start is_chromeos (p # ps) mp =
     Option.bind (on_profile_added start is_chromeos p mp) (add_profiles start is_chromeos ps)"

text \<open>The initial profile is null when the profile picker is shown.\<close>

definition same_profile :: "chrome_profile option \<Rightarrow> chrome_profile \<Rightarrow> bool" where
  "same_profile initial p =
     (case initial of None \<Rightarrow> False | Some q \<Rightarrow> pf_context (cp_profile q) = pf_context (cp_profile p))"

definition profile_init_manager ::
  "starter \<Rightarrow> bool \<Rightarrow> chrome_profile option \<Rightarrow> chrome_profile list \<Rightarrow> main_parts \<Rightarrow> main_parts option" where
  "profile_init_manager start is_chromeos initial loaded mp =
     Option.bind
       (case initial of None \<Rightarrow> Some mp | Some p \<Rightarrow> call_post_profile_init start p mp)
       (\<lambda>mp. add_profiles start is_chromeos (List.filter (\<lambda>p. \<not> same_profile initial p) loaded)
              (mp\<lparr>mp_observing := True\<rparr>))"

datatype main_event = ProfileAdded chrome_profile | ProfileManagerDestroying

fun main_step :: "starter \<Rightarrow> bool \<Rightarrow> main_event \<Rightarrow> main_parts \<Rightarrow> main_parts option" where
  "main_step start is_chromeos (ProfileAdded p) mp =
     (if mp_observing mp then on_profile_added start is_chromeos p mp else Some mp)"
| "main_step start is_chromeos ProfileManagerDestroying mp = Some (mp\<lparr>mp_observing := False\<rparr>)"

fun main_run :: "starter \<Rightarrow> bool \<Rightarrow> main_event list \<Rightarrow> main_parts \<Rightarrow> main_parts option" where
  "main_run start is_chromeos [] mp = Some mp"
| "main_run start is_chromeos (x # xs) mp =
     Option.bind (main_step start is_chromeos x mp) (main_run start is_chromeos xs)"

text \<open>The last hook: the server is stopped once the browser process is gone.\<close>

definition post_destroy_threads :: "main_parts \<Rightarrow> main_parts option" where
  "post_destroy_threads mp =
     map_option (\<lambda>br. mp\<lparr>mp_browser := br\<rparr>) (stop_api_server (mp_browser mp))"

text \<open>
  Before it, \<open>browser_process_.reset()\<close> destroys the profiles, and with each its user data, of which its
  launcher is one.
\<close>

definition browser_process_reset :: "main_parts \<Rightarrow> main_parts" where
  "browser_process_reset mp = mp\<lparr>mp_browser := (mp_browser mp)\<lparr>br_managers := []\<rparr>\<rparr>"

definition whole_life ::
  "starter \<Rightarrow> bool \<Rightarrow> chrome_profile option \<Rightarrow> chrome_profile list \<Rightarrow> main_event list \<Rightarrow> main_parts option" where
  "whole_life start is_chromeos initial loaded xs =
     Option.bind (profile_init_manager start is_chromeos initial loaded new_main_parts)
       (main_run start is_chromeos xs)"

subsection \<open>The server starts once\<close>

text \<open>The profiles that are initialised, in order: the specification of the manager.\<close>

fun added :: "bool \<Rightarrow> main_event list \<Rightarrow> chrome_profile list" where
  "added is_chromeos [] = []"
| "added is_chromeos (ProfileAdded p # xs) =
     (if browsing is_chromeos p then p # added is_chromeos xs else added is_chromeos xs)"
| "added is_chromeos (ProfileManagerDestroying # xs) = []"

definition initialised ::
  "bool \<Rightarrow> chrome_profile option \<Rightarrow> chrome_profile list \<Rightarrow> main_event list \<Rightarrow> chrome_profile list" where
  "initialised is_chromeos initial loaded xs =
     (case initial of None \<Rightarrow> [] | Some p \<Rightarrow> [p]) @
     List.filter (\<lambda>p. browsing is_chromeos p \<and> \<not> same_profile initial p) loaded @ added is_chromeos xs"

text \<open>A state that has been through the profiles \<open>ps\<close>.\<close>

definition been_through :: "starter \<Rightarrow> chrome_profile list \<Rightarrow> main_parts \<Rightarrow> bool" where
  "been_through start ps mp \<longleftrightarrow>
     (mp_initialized mp \<longleftrightarrow> ps \<noteq> []) \<and> mp_starts mp = take 1 ps \<and>
     (case ps of [] \<Rightarrow> mp_browser mp = new_browser
      | p # _ \<Rightarrow> start (Some (cp_profile p)) new_browser = Some (mp_browser mp))"

lemma been_through_observing [simp]:
  "been_through start ps (mp\<lparr>mp_observing := x\<rparr>) = been_through start ps mp"
  by (cases ps) (simp_all add: been_through_def)

lemma been_through_call:
  assumes "been_through start ps mp" "call_post_profile_init start p mp = Some mp'"
  shows "been_through start (ps @ [p]) mp' \<and> mp_observing mp' = mp_observing mp"
  using assms
  by (cases ps) (auto simp: been_through_def call_post_profile_init_def post_profile_init_def Let_def)

lemma been_through_added:
  assumes "been_through start ps mp" "on_profile_added start c p mp = Some mp'"
  shows "been_through start (ps @ (if browsing c p then [p] else [])) mp' \<and> mp_observing mp' = mp_observing mp"
  using assms been_through_call [OF assms(1)] by (auto simp: on_profile_added_def split: if_splits)

lemma been_through_adds:
  assumes "been_through start ps mp" "add_profiles start c qs mp = Some mp'"
  shows "been_through start (ps @ List.filter (browsing c) qs) mp' \<and> mp_observing mp' = mp_observing mp"
  using assms
proof (induction qs arbitrary: ps mp)
  case (Cons q qs)
  then obtain u where u: "on_profile_added start c q mp = Some u" "add_profiles start c qs u = Some mp'"
    by (auto split: Option.bind_splits)
  show ?case
    using Cons.IH [OF _ u(2)] been_through_added [OF Cons.prems(1) u(1)] by (fastforce split: if_splits)
qed simp

lemma been_through_run:
  assumes "been_through start ps mp" "main_run start c xs mp = Some mp'"
  shows "been_through start (ps @ (if mp_observing mp then added c xs else [])) mp'"
  using assms
proof (induction xs arbitrary: ps mp)
  case (Cons x xs)
  then obtain u where u: "main_step start c x mp = Some u" "main_run start c xs u = Some mp'"
    by (auto split: Option.bind_splits)
  show ?case
  proof (cases x)
    case (ProfileAdded p)
    then show ?thesis
      using Cons.IH [OF _ u(2)] u(1) Cons.prems(1) been_through_added [OF Cons.prems(1)]
      by (fastforce split: if_splits)
  next
    case ProfileManagerDestroying
    then show ?thesis
      using Cons.IH [OF _ u(2), of ps] u(1) Cons.prems(1) by auto
  qed
qed simp

lemma whole_life_through:
  assumes "whole_life start c initial loaded xs = Some mp"
  shows "been_through start (initialised c initial loaded xs) mp"
proof -
  have new: "been_through start [] new_main_parts" by (simp add: been_through_def new_main_parts_def)
  obtain u v w where u: "(case initial of None \<Rightarrow> Some new_main_parts
      | Some p \<Rightarrow> call_post_profile_init start p new_main_parts) = Some u"
    and v: "add_profiles start c (List.filter (\<lambda>p. \<not> same_profile initial p) loaded)
      (u\<lparr>mp_observing := True\<rparr>) = Some v"
    and w: "main_run start c xs v = Some mp"
    using assms by (auto simp: whole_life_def profile_init_manager_def split: Option.bind_splits)
  have "been_through start (case initial of None \<Rightarrow> [] | Some p \<Rightarrow> [p]) u"
    using u new been_through_call [OF new] by (cases initial) auto
  then have "been_through start (case initial of None \<Rightarrow> [] | Some p \<Rightarrow> [p]) (u\<lparr>mp_observing := True\<rparr>)"
    by simp
  from been_through_adds [OF this v] have "been_through start ((case initial of None \<Rightarrow> [] | Some p \<Rightarrow> [p]) @
      List.filter (browsing c) (List.filter (\<lambda>p. \<not> same_profile initial p) loaded)) v" "mp_observing v"
    by simp_all
  from been_through_run [OF this(1) w] this(2) show ?thesis
    by (simp add: initialised_def conj_commute)
qed

text \<open>
  Over the life of the browser the API server is asked to start exactly once, with the
  first profile that is initialised: the initial one, whatever its kind, or, when the profile picker
  is shown, the first profile for browsing that is loaded or added later; the browser is in the state
  that this one start leaves. Without such a profile it is not started at all.
\<close>

theorem server_starts_with_first_profile:
  assumes "whole_life start is_chromeos initial loaded xs = Some mp"
  shows "mp_starts mp = take 1 (initialised is_chromeos initial loaded xs) \<and>
    (case initialised is_chromeos initial loaded xs of
       [] \<Rightarrow> mp_browser mp = new_browser
     | p # _ \<Rightarrow> start (Some (cp_profile p)) new_browser = Some (mp_browser mp))"
  using whole_life_through [OF assms] by (simp add: been_through_def)

definition sample_profile :: "nat \<Rightarrow> chrome_profile" where
  "sample_profile n = \<lparr>cp_profile = \<lparr>pf_context = n, pf_path = FilePath ''/p''\<rparr>, cp_system = (n = 0),
     cp_guest = False, cp_user = True\<rparr>"

abbreviation sample_starter :: starter where
  "sample_starter \<equiv> start_api_server (\<lambda>d s. d) sample_stoi (port_switch ''74870'') True (\<lambda>p. True)"

theorem server_starts_with_first_profile_witness:
  "\<exists>mp. whole_life sample_starter False None [sample_profile 0]
      [ProfileAdded (sample_profile 1), ProfileAdded (sample_profile 2)] = Some mp \<and>
    mp_starts mp = [sample_profile 1]"
proof -
  have "whole_life sample_starter False None [sample_profile 0]
      [ProfileAdded (sample_profile 1), ProfileAdded (sample_profile 2)] \<noteq> None"
    by (simp add: whole_life_def profile_init_manager_def same_profile_def on_profile_added_def browsing_def
        sample_profile_def call_post_profile_init_def post_profile_init_def new_main_parts_def Let_def
        start_api_server_cases new_browser_def)
  then obtain mp where m: "whole_life sample_starter False None [sample_profile 0]
      [ProfileAdded (sample_profile 1), ProfileAdded (sample_profile 2)] = Some mp" by blast
  show ?thesis
    using server_starts_with_first_profile [OF m] m
    by (simp add: initialised_def same_profile_def browsing_def sample_profile_def)
qed

lemma started_server:
  assumes "start_api_server append_ascii stoi cmd thread_ok can_listen (Some pf) new_browser = Some br"
    and "br_server br = Some sv"
  shows "map_of (br_managers br) (pf_context pf) \<noteq> None" "sv_thread sv = LiveThread"
  using assms by (auto simp: start_api_server_cases new_browser_def get_or_create_def split: if_splits)

text \<open>
  At the end of the browser's life the server outlives the launcher its handler points to:
  when the profiles are destroyed the launcher goes with the first of them, while the server still
  runs, its thread alive; only then is it stopped, and gone.
\<close>

theorem server_outlives_launcher:
  assumes "whole_life (start_api_server append_ascii stoi cmd thread_ok can_listen) is_chromeos initial loaded xs = Some mp"
    and "initialised is_chromeos initial loaded xs = p # ps" "br_server (mp_browser mp) = Some sv"
  shows "map_of (br_managers (mp_browser mp)) (pf_context (cp_profile p)) \<noteq> None \<and>
    (let mp' = browser_process_reset mp
     in br_server (mp_browser mp') = Some sv \<and> sv_thread sv = LiveThread \<and>
        map_of (br_managers (mp_browser mp')) (pf_context (cp_profile p)) = None \<and>
        (\<exists>mp''. post_destroy_threads mp' = Some mp'' \<and> br_server (mp_browser mp'') = None))"
proof -
  have start: "start_api_server append_ascii stoi cmd thread_ok can_listen (Some (cp_profile p)) new_browser =
      Some (mp_browser mp)"
    using whole_life_through [OF assms(1)] assms(2) by (simp add: been_through_def)
  have "map_of (br_managers (mp_browser mp)) (pf_context (cp_profile p)) \<noteq> None" "sv_thread sv = LiveThread"
    using started_server [OF start assms(3)] by simp_all
  then show ?thesis
    using assms(3) by (simp add: browser_process_reset_def post_destroy_threads_def stop_api_server_def
        server_stop_def Let_def)
qed

theorem server_outlives_launcher_witness:
  "\<exists>mp sv. whole_life sample_starter False (Some (sample_profile 1)) [] [] = Some mp \<and>
    br_server (mp_browser (browser_process_reset mp)) = Some sv \<and> sv_thread sv = LiveThread \<and>
    map_of (br_managers (mp_browser (browser_process_reset mp))) 1 = None"
proof -
  obtain mp sv where m: "whole_life sample_starter False (Some (sample_profile 1)) [] [] = Some mp"
    "br_server (mp_browser mp) = Some sv"
    by (simp add: whole_life_def profile_init_manager_def call_post_profile_init_def post_profile_init_def
        new_main_parts_def Let_def start_api_server_cases new_browser_def port_switch_def sample_stoi_def
        api_port_def)
  have "initialised False (Some (sample_profile 1)) [] [] = [sample_profile 1]"
    by (simp add: initialised_def)
  from server_outlives_launcher [OF m(1) this m(2)] m(1) show ?thesis
    by (auto simp: Let_def sample_profile_def)
qed

end
