(* ===== verification/Command_Ids.thy ===== *)
theory Command_Ids
  imports PC_Prelude
begin

text \<open>
  The command ids that \<open>chrome/browser/ui/browser_command_controller.cc\<close> names, by the section of its
  switch that executes them; the last group has no case there. Their numbers are defined elsewhere
  and are not used: the one sum that the source takes of them is written out. Any other id is an
  \<open>Other\<close>.
\<close>

datatype navigation_command =
    IDC_BACK | IDC_FORWARD | IDC_RELOAD | IDC_RELOAD_CLEARING_CACHE | IDC_RELOAD_BYPASSING_CACHE
  | IDC_HOME | IDC_OPEN_CURRENT_URL | IDC_STOP | IDC_TAB_SEARCH | IDC_TAB_SEARCH_CLOSE
  | IDC_TAB_SEARCH_TOGGLE_PIN | IDC_TOGGLE_VERTICAL_TABS | IDC_VERTICAL_TABS_SEND_FEEDBACK
  | IDC_TOGGLE_VERTICAL_TABS_EXPAND_ON_HOVER

datatype window_command =
    IDC_NEW_WINDOW | IDC_NEW_INCOGNITO_WINDOW | IDC_CLOSE_WINDOW | IDC_NEW_TAB
  | IDC_NEW_TAB_TO_RIGHT | IDC_CLOSE_TAB | IDC_SELECT_NEXT_TAB | IDC_SELECT_PREVIOUS_TAB
  | IDC_MOVE_TAB_NEXT | IDC_MOVE_TAB_PREVIOUS | IDC_SELECT_TAB_0 | IDC_SELECT_TAB_1
  | IDC_SELECT_TAB_2 | IDC_SELECT_TAB_3 | IDC_SELECT_TAB_4 | IDC_SELECT_TAB_5 | IDC_SELECT_TAB_6
  | IDC_SELECT_TAB_7 | IDC_SELECT_LAST_TAB | IDC_DUPLICATE_TAB | IDC_RESTORE_TAB
  | IDC_SHOW_AS_TAB | IDC_FULLSCREEN | IDC_OPEN_IN_PWA_WINDOW | IDC_MOVE_TAB_TO_NEW_WINDOW
  | IDC_NEW_SPLIT_TAB | IDC_NAME_WINDOW

datatype system_command =
    IDC_TAKE_SCREENSHOT | IDC_TOGGLE_MULTITASK_MENU | IDC_VISIT_DESKTOP_OF_LRU_USER_2
  | IDC_VISIT_DESKTOP_OF_LRU_USER_3 | IDC_VISIT_DESKTOP_OF_LRU_USER_4
  | IDC_VISIT_DESKTOP_OF_LRU_USER_5 | IDC_MINIMIZE_WINDOW | IDC_MAXIMIZE_WINDOW
  | IDC_RESTORE_WINDOW | IDC_USE_SYSTEM_TITLE_BAR | IDC_MOVE_WINDOW | IDC_SIZE_WINDOW
  | IDC_TOGGLE_FULLSCREEN_TOOLBAR | IDC_TOGGLE_JAVASCRIPT_APPLE_EVENTS | IDC_EXIT

datatype page_command =
    IDC_SAVE_PAGE | IDC_BOOKMARK_THIS_TAB | IDC_BOOKMARK_ALL_TABS | IDC_VIEW_SOURCE | IDC_PRINT
  | IDC_BASIC_PRINT | IDC_OFFERS_AND_REWARDS_FOR_PAGE | IDC_SAVE_CREDIT_CARD_FOR_PAGE
  | IDC_SAVE_IBAN_FOR_PAGE | IDC_AUTOFILL_MANDATORY_REAUTH | IDC_SAVE_AUTOFILL_ADDRESS
  | IDC_SHOW_SYNC_SETTINGS | IDC_SHOW_SYNC_PASSPHRASE_DIALOG
  | IDC_SHOW_CONTEXTUAL_TASKS_SIDE_PANEL | IDC_TURN_ON_SYNC | IDC_SHOW_SIGNIN
  | IDC_SHOW_SIGNIN_WHEN_PAUSED | IDC_SHOW_PASSWORD_MANAGER
  | IDC_SAFETY_HUB_SHOW_PASSWORD_CHECKUP | IDC_SHOW_PAYMENT_METHODS | IDC_SHOW_ADDRESSES
  | IDC_SHOW_CONTACT_INFO | IDC_SHOW_IDENTITY_DOCS | IDC_SHOW_TRAVEL
  | IDC_FILLED_CARD_INFORMATION | IDC_VIRTUAL_CARD_ENROLL | IDC_SEND_SHARED_TAB_GROUP_FEEDBACK
  | IDC_SHOW_TRANSLATE | IDC_MANAGE_PASSWORDS_FOR_PAGE | IDC_SEND_TAB_TO_SELF
  | IDC_QRCODE_GENERATOR | IDC_SHARING_HUB | IDC_SHARING_HUB_SCREENSHOT

datatype edit_command =
    IDC_CUT | IDC_COPY | IDC_PASTE | IDC_FIND | IDC_FIND_NEXT | IDC_FIND_PREVIOUS
  | IDC_CLOSE_FIND_OR_STOP | IDC_ZOOM_PLUS | IDC_ZOOM_NORMAL | IDC_ZOOM_MINUS
  | IDC_FOCUS_TOOLBAR | IDC_FOCUS_LOCATION | IDC_FOCUS_SEARCH | IDC_FOCUS_MENU_BAR
  | IDC_FOCUS_BOOKMARKS | IDC_FOCUS_INACTIVE_POPUP_FOR_ACCESSIBILITY | IDC_FOCUS_NEXT_PANE
  | IDC_FOCUS_PREVIOUS_PANE | IDC_FOCUS_WEB_CONTENTS_PANE | IDC_OPEN_FILE | IDC_CREATE_SHORTCUT
  | IDC_INSTALL_PWA

datatype tool_command =
    IDC_DEV_TOOLS | IDC_DEV_TOOLS_CONSOLE | IDC_DEV_TOOLS_DEVICES | IDC_DEV_TOOLS_INSPECT
  | IDC_DEV_TOOLS_TOGGLE | IDC_TASK_MANAGER | IDC_TASK_MANAGER_APP_MENU
  | IDC_TASK_MANAGER_SHORTCUT | IDC_TASK_MANAGER_CONTEXT_MENU | IDC_TASK_MANAGER_MAIN_MENU
  | IDC_FEEDBACK | IDC_REPORT_UNSAFE_SITE | IDC_SHOW_CHROME_LABS | IDC_SHOW_BOOKMARK_BAR
  | IDC_BOOKMARK_BAR_SUBMENU_ALWAYS_SHOW | IDC_BOOKMARK_BAR_SUBMENU_ALWAYS_HIDE
  | IDC_BOOKMARK_BAR_SUBMENU_ONLY_ON_NTP | IDC_SHOW_FULL_URLS | IDC_SHOW_GOOGLE_LENS_SHORTCUT
  | IDC_SHOW_AI_MODE_OMNIBOX_BUTTON | IDC_SHOW_SEARCH_TOOLS | IDC_PROFILING_ENABLED
  | IDC_CARET_BROWSING_TOGGLE

datatype show_command =
    IDC_RECENT_TABS_LOGIN_FOR_DEVICE_TABS | IDC_RECENT_TABS_SEE_DEVICE_TABS
  | IDC_SHOW_BOOKMARK_MANAGER | IDC_SHOW_BOOKMARK_SIDE_PANEL | IDC_SHOW_APP_MENU
  | IDC_SHOW_AVATAR_MENU | IDC_SHOW_HISTORY | IDC_SHOW_HISTORY_CLUSTERS_SIDE_PANEL
  | IDC_SHOW_TABS_FROM_OTHER_DEVICES_SIDE_PANEL | IDC_SHOW_DOWNLOADS
  | IDC_SHOW_COMMENTS_SIDE_PANEL | IDC_MANAGE_EXTENSIONS | IDC_SAFETY_HUB_MANAGE_EXTENSIONS
  | IDC_EXTENSIONS_SUBMENU_MANAGE_EXTENSIONS | IDC_EXTENSIONS_SUBMENU_VISIT_CHROME_WEB_STORE
  | IDC_FIND_EXTENSIONS

datatype info_command =
    IDC_PERFORMANCE | IDC_OPTIONS | IDC_EDIT_SEARCH_ENGINES | IDC_VIEW_PASSWORDS
  | IDC_CLEAR_BROWSING_DATA | IDC_IMPORT_SETTINGS | IDC_TOGGLE_REQUEST_TABLET_SITE | IDC_ABOUT
  | IDC_UPGRADE_DIALOG | IDC_OPEN_SAFETY_HUB | IDC_HELP_PAGE_VIA_KEYBOARD
  | IDC_HELP_PAGE_VIA_MENU | IDC_CHROME_TIPS | IDC_CHROME_WHATS_NEW | IDC_SHOW_BETA_FORUM
  | IDC_CHROME_ENTERPRISE_RELEASE_NOTES | IDC_ROUTE_MEDIA | IDC_WINDOW_MUTE_SITE
  | IDC_WINDOW_PIN_TAB | IDC_WINDOW_GROUP_TAB

datatype group_command =
    IDC_FOCUS_NEXT_TAB_GROUP | IDC_FOCUS_PREV_TAB_GROUP | IDC_CLOSE_TAB_GROUP
  | IDC_CREATE_NEW_TAB_GROUP | IDC_CREATE_NEW_TAB_GROUP_TOP_LEVEL | IDC_ADD_NEW_TAB_TO_GROUP
  | IDC_GROUP_UNGROUPED_TABS | IDC_ADD_NEW_TAB_RECENT_GROUP | IDC_UNFOCUS_TAB_GROUP
  | IDC_WINDOW_CLOSE_TABS_TO_RIGHT | IDC_WINDOW_CLOSE_OTHER_TABS | IDC_SHOW_MANAGEMENT_PAGE
  | IDC_MUTE_TARGET_SITE | IDC_PIN_TARGET_TAB | IDC_GROUP_TARGET_TAB | IDC_DUPLICATE_TARGET_TAB

datatype app_command =
    IDC_COPY_URL | IDC_OPEN_IN_CHROME | IDC_WEB_APP_SETTINGS | IDC_WEB_APP_MENU_APP_INFO
  | IDC_DEBUG_TOGGLE_TABLET_MODE | IDC_DEBUG_PRINT_VIEW_TREE | IDC_DEBUG_PRINT_VIEW_TREE_DETAILS
  | IDC_CONTENT_CONTEXT_LENS_OVERLAY | IDC_CONTENT_CONTEXT_LENS_REGION_SEARCH
  | IDC_READING_LIST_MENU_ADD_TAB | IDC_READING_LIST_MENU_SHOW_UI
  | IDC_SHOW_READING_MODE_SIDE_PANEL | IDC_SHOW_READING_MODE_KEYBOARD
  | IDC_SHOW_CUSTOMIZE_CHROME_SIDE_PANEL | IDC_SHOW_CUSTOMIZE_CHROME_TOOLBAR

datatype profile_command =
    IDC_CUSTOMIZE_CHROME | IDC_CLOSE_PROFILE | IDC_MANAGE_GOOGLE_ACCOUNT
  | IDC_OPEN_GUEST_PROFILE | IDC_ADD_NEW_PROFILE | IDC_MANAGE_CHROME_PROFILES
  | IDC_SET_BROWSER_AS_DEFAULT | IDC_GLIC_TOGGLE_PIN | IDC_OPEN_GLIC

datatype menu_command =
    IDC_BOOKMARK_BAR_SUBMENU | IDC_DEVELOPER_MENU | IDC_CONTENT_CONTEXT_SHARING_SUBMENU
  | IDC_ZOOM_MENU | IDC_PROFILE_MENU_IN_APP_MENU | IDC_FIND_AND_EDIT_MENU
  | IDC_SAVE_AND_SHARE_MENU | IDC_PASSWORDS_AND_AUTOFILL_MENU | IDC_HELP_MENU
  | IDC_BOOKMARKS_MENU | IDC_SAVED_TAB_GROUPS_MENU | IDC_RECENT_TABS_MENU
  | IDC_SHOW_SAVE_LOCAL_CARD_SIGN_IN_PROMO_IF_APPLICABLE | IDC_CLOSE_SIGN_IN_PROMO
  | IDC_READING_LIST_MENU

datatype command =
    Nav navigation_command | Wnd window_command | Sys system_command | Pag page_command | Edt edit_command | Tls tool_command
  | Shw show_command | Inf info_command | Grp group_command | Web app_command | Prf profile_command | Mnu menu_command
  | Other int

end
