(* ===== verification/Command_State.thy ===== *)
theory Command_State
  imports Command_Ids
begin

text \<open>
  \<open>chrome/browser/ui/browser_command_controller.cc\<close>, first half: which commands of a browser window
  are enabled. The command updater (\<open>CommandUpdaterImpl\<close>) is not part of the repository: it is the
  parameter \<open>U\<close>, with its documented behaviour as \<open>updater_laws\<close>. What the controller asks the rest of
  Chromium (the window, the profile, the preferences, \<open>browser_commands.h\<close>) is an environment, which
  may be another one at every event. The \<open>#if\<close>s are conditions on a
  record of build flags, so every platform is covered. What the controller asks of the window and of
  action items is the list of calls it makes.
\<close>

subsection \<open>The build, the environment and the updater\<close>

record build =
  is_chromeos :: bool
  is_linux :: bool
  is_win :: bool
  is_mac :: bool
  is_ozone :: bool
  is_android :: bool
  enable_printing :: bool
  google_branding :: bool
  lens_branded :: bool
  dcheck_is_on :: bool

datatype window_query =
    TypeNormal | TypeApp | TypeAppPopup | TypePictureInPicture | TypeDevtools
  | FeatureTabStrip | FeatureLocationBar | WindowExists | Fullscreen | ToolbarShowing
  | LocationBarVisible | HideUIForFullscreen | LockedFullscreen | LockedForOnTask
  | SystemTitleBarSupported | BrowserViewElement | ActorOverlayVisible | CanCloseFind

datatype profile_query =
    IsGuestSession | IsSystemProfile | IsIncognitoProfile | IncognitoAllowed | BoolPref string
  | ManagedPref string | LocalState | LocalPref string | SharingDisabledByPolicy
  | TabsFromOtherDevices | ExtensionRegistrar | ExtensionsEnabled | RestoreService
  | RestoreLoaded | RestoreEntries | BookmarkModel | BookmarksEnabled
  | PrimaryAccount

datatype tab_query =
    ActiveTab | ActiveWebContents | TabBlocked | TabClosable | TabIsSplit | CanReload
  | EnableBack | EnableForward | CanDuplicateTab | CanDuplicateTabAt int
  | CanViewSource | CanCreateDesktopShortcut | CanSendTabToSelf | CanGenerateQrCode
  | TranslateClient | CanManuallyTranslate | ReadLaterSupported
  | CanRequestTabletSite | IsStarred

datatype command_query =
    CanZoomIn | CanResetZoom | CanZoomOut | ContentRestriction string
  | CanBookmarkCurrentTab | CanBookmarkAllTabs | CanPrint | CanBasicPrint
  | CanSavePage | CanRouteMedia | CanToggleCaretBrowsing | CanCloseTabsToRight
  | CanCloseOtherTabs | CanMoveActiveTab | CanGroupUngrouped | AllowDevTools
  | CanOpenTaskManager | TextEditHotkey

datatype app_query =
    AppController | HideNewTabButton | IsolatedWebApp | PinnedHomeTab | WebApp
  | WebAppOrCustomTab | CanPopOutWebApp | CanCreateWebApp | CustomizeController
  | CustomizeAvailable

datatype service_query =
    FeatureOn string | ActionFound string | ChromeLabs | ProfilingSupported | RightToLeft
  | GlicGlobal | GlicService | GlicInstance | GlicInstanceActive | GlicProfileEnabled
  | GlicProfileEligible | GlicShowButton

datatype incognito_availability = IncognitoEnabled | IncognitoDisabled | IncognitoForced

record env =
  win :: "window_query \<Rightarrow> bool"
  pro :: "profile_query \<Rightarrow> bool"
  tab :: "tab_query \<Rightarrow> bool"
  can :: "command_query \<Rightarrow> bool"
  app :: "app_query \<Rightarrow> bool"
  svc :: "service_query \<Rightarrow> bool"
  focused_tab :: "int option"
  incognito :: incognito_availability

text \<open>\<open>CommandUpdaterImpl\<close> is code the model cannot read: a record of its operations.\<close>

record 'u updater =
  up_init :: 'u
  up_update :: "'u \<Rightarrow> command \<Rightarrow> bool \<Rightarrow> 'u \<times> bool"
  up_enabled :: "'u \<Rightarrow> command \<Rightarrow> bool"
  up_supports :: "'u \<Rightarrow> command \<Rightarrow> bool"
  up_disable_all :: "'u \<Rightarrow> 'u"
  up_ids :: "'u \<Rightarrow> command list"

definition updater_laws :: "'u updater \<Rightarrow> bool" where
  "updater_laws U \<longleftrightarrow>
     (\<forall>i. \<not> up_enabled U (up_init U) i) \<and>
     (\<forall>u i b j. up_enabled U (fst (up_update U u i b)) j = (if j = i then b else up_enabled U u j)) \<and>
     (\<forall>u i b j. up_supports U (fst (up_update U u i b)) j = (j = i \<or> up_supports U u j)) \<and>
     (\<forall>u j. \<not> up_enabled U (up_disable_all U u) j) \<and>
     (\<forall>u j. up_supports U (up_disable_all U u) j = up_supports U u j) \<and>
     (\<forall>u i. up_enabled U u i \<longrightarrow> up_supports U u i)"

subsection \<open>The controller\<close>

datatype call_arg = Name string | Num int | Text string | Bool bool

datatype call = Call string "call_arg list"

datatype handler =
    OnFileSelectionDialogs | OnDevTools | OnBookmarkEditing | OnBookmarkBar
  | OnIncognitoAvailability | OnPrintingState | OnSaveAs | OnFullscreenMode

record 'u command_controller =
  cc_updater :: 'u
  cc_locked :: bool
  cc_prefs :: "(string \<times> handler) list"
  cc_glic_allowed :: bool
  cc_glic_active :: bool
  cc_bookmark_load :: bool
  cc_restore :: bool
  cc_calls :: "call list"

definition put_cmds :: "'u updater \<Rightarrow> (command \<times> bool) list \<Rightarrow> 'u \<Rightarrow> 'u" where
  "put_cmds U l u = fold (\<lambda>(i, b) u. fst (up_update U u i b)) l u"

definition update_cmds :: "'u updater \<Rightarrow> (command \<times> bool) list \<Rightarrow> 'u command_controller \<Rightarrow> 'u command_controller" where
  "update_cmds U l s = s\<lparr>cc_updater := put_cmds U l (cc_updater s)\<rparr>"

definition calls :: "call list \<Rightarrow> 'u command_controller \<Rightarrow> 'u command_controller" where
  "calls l s = s\<lparr>cc_calls := cc_calls s @ l\<rparr>"

definition is_enabled :: "'u updater \<Rightarrow> 'u command_controller \<Rightarrow> command \<Rightarrow> bool" where
  "is_enabled U s i = up_enabled U (cc_updater s) i"

definition supports_command :: "'u updater \<Rightarrow> 'u command_controller \<Rightarrow> command \<Rightarrow> bool" where
  "supports_command U s i = up_supports U (cc_updater s) i"

definition is_showing_main_ui :: "env \<Rightarrow> bool" where
  "is_showing_main_ui e = win e FeatureTabStrip"

definition is_showing_location_bar :: "env \<Rightarrow> bool" where
  "is_showing_location_bar e = win e FeatureLocationBar"

definition can_open_file :: "env \<Rightarrow> bool" where
  "can_open_file e =
     (if win e TypeDevtools \<or> win e TypeApp \<or> win e TypeAppPopup then False
      else if pro e LocalState then pro e (LocalPref ''kAllowFileSelectionDialogs'')
      else True)"

text \<open>Commands are frozen in locked fullscreen, unless the window is locked for OnTask.\<close>

definition frozen :: "build \<Rightarrow> env \<Rightarrow> 'u command_controller \<Rightarrow> bool" where
  "frozen b e s =
     (let should_block_command_update = cc_locked s;
          should_block_command_update =
            (if is_chromeos b \<and> win e LockedForOnTask then False else should_block_command_update)
      in should_block_command_update)"

definition update_command_and_action ::
  "'u updater \<Rightarrow> env \<Rightarrow> command \<Rightarrow> string \<Rightarrow> bool \<Rightarrow> 'u command_controller \<Rightarrow> 'u command_controller" where
  "update_command_and_action U e command action enabled s =
     (let s = update_cmds U [(command, enabled)] s
      in if svc e (ActionFound action) then calls [Call ''SetEnabled'' [Name action, Bool enabled]] s
         else s)"

definition update_command_enabled ::
  "'u updater \<Rightarrow> build \<Rightarrow> env \<Rightarrow> command \<Rightarrow> bool \<Rightarrow> 'u command_controller \<Rightarrow> 'u command_controller \<times> bool" where
  "update_command_enabled U b e i state s =
     (if frozen b e s then (s, False)
      else (let (u, changed) = up_update U (cc_updater s) i state
            in (s\<lparr>cc_updater := u\<rparr>, changed)))"

subsection \<open>The updates, one function each\<close>

definition update_save_as :: "'u updater \<Rightarrow> env \<Rightarrow> 'u command_controller \<Rightarrow> 'u command_controller" where
  "update_save_as U e s =
     (if cc_locked s then s else update_cmds U [(Pag IDC_SAVE_PAGE, can e CanSavePage)] s)"

definition update_printing ::
  "'u updater \<Rightarrow> build \<Rightarrow> env \<Rightarrow> 'u command_controller \<Rightarrow> 'u command_controller" where
  "update_printing U b e s =
     (if cc_locked s then s
      else (let s = update_command_and_action U e (Pag IDC_PRINT) ''kActionPrint'' (can e CanPrint) s
            in if enable_printing b then update_cmds U [(Pag IDC_BASIC_PRINT, can e CanBasicPrint)] s
               else s))"

definition clipboard_cmds :: "env \<Rightarrow> (command \<times> bool) list" where
  "clipboard_cmds e =
     [(Edt IDC_COPY, \<not> can e (ContentRestriction ''COPY'')),
             (Edt IDC_CUT, \<not> can e (ContentRestriction ''CUT'')),
             (Edt IDC_PASTE, \<not> can e (ContentRestriction ''PASTE''))]"

definition update_content_restriction ::
  "'u updater \<Rightarrow> build \<Rightarrow> env \<Rightarrow> 'u command_controller \<Rightarrow> 'u command_controller" where
  "update_content_restriction U b e s =
     (let s = update_cmds U
            (clipboard_cmds e) s;
          s = update_save_as U e s
      in update_printing U b e s)"

definition zoom_cmds :: "env \<Rightarrow> (command \<times> bool) list" where
  "zoom_cmds e =
     [(Edt IDC_ZOOM_PLUS, can e CanZoomIn),
         (Edt IDC_ZOOM_NORMAL, can e CanResetZoom),
         (Edt IDC_ZOOM_MINUS, can e CanZoomOut)]"

definition update_zoom :: "'u updater \<Rightarrow> env \<Rightarrow> 'u command_controller \<Rightarrow> 'u command_controller" where
  "update_zoom U e s =
     (if \<not> tab e ActiveWebContents then s
      else update_cmds U
        (zoom_cmds e) s)"

definition dev_tools_cmds :: "build \<Rightarrow> bool \<Rightarrow> (command \<times> bool) list" where
  "dev_tools_cmds b dev_tools_enabled =
     [(Tls IDC_DEV_TOOLS, dev_tools_enabled),
      (Tls IDC_DEV_TOOLS_CONSOLE, dev_tools_enabled),
      (Tls IDC_DEV_TOOLS_DEVICES, dev_tools_enabled),
      (Tls IDC_DEV_TOOLS_INSPECT, dev_tools_enabled),
      (Tls IDC_DEV_TOOLS_TOGGLE, dev_tools_enabled),
      (Pag IDC_VIEW_SOURCE, dev_tools_enabled)] @
     (if is_mac b then [(Sys IDC_TOGGLE_JAVASCRIPT_APPLE_EVENTS, dev_tools_enabled)] else [])"

definition update_dev_tools ::
  "'u updater \<Rightarrow> build \<Rightarrow> env \<Rightarrow> 'u command_controller \<Rightarrow> 'u command_controller" where
  "update_dev_tools U b e s =
     (if cc_locked s then s else update_cmds U (dev_tools_cmds b (can e AllowDevTools)) s)"

definition bookmark_editing_cmds :: "env \<Rightarrow> (command \<times> bool) list" where
  "bookmark_editing_cmds e =
     [(Pag IDC_BOOKMARK_THIS_TAB, can e CanBookmarkCurrentTab),
         (Pag IDC_BOOKMARK_ALL_TABS, can e CanBookmarkAllTabs)]"

definition update_bookmark_editing :: "'u updater \<Rightarrow> env \<Rightarrow> 'u command_controller \<Rightarrow> 'u command_controller" where
  "update_bookmark_editing U e s =
     (if cc_locked s then s
      else update_cmds U
        (bookmark_editing_cmds e) s)"

definition bookmark_bar_cmds :: "env \<Rightarrow> (command \<times> bool) list" where
  "bookmark_bar_cmds e =
     (let common_enabled = (pro e BookmarksEnabled \<and> \<not> pro e IsGuestSession \<and>
            \<not> pro e IsSystemProfile \<and> is_showing_main_ui e);
          visibility_commands_enabled = (common_enabled \<and>
            \<not> pro e (ManagedPref ''kBookmarkBarVisibilityState'') \<and>
            \<not> pro e (ManagedPref ''kShowBookmarkBar''))
      in [(Tls IDC_SHOW_BOOKMARK_BAR, common_enabled \<and> \<not> pro e (ManagedPref ''kShowBookmarkBar'')),
          (Mnu IDC_BOOKMARK_BAR_SUBMENU, common_enabled),
          (Tls IDC_BOOKMARK_BAR_SUBMENU_ALWAYS_SHOW, visibility_commands_enabled),
          (Tls IDC_BOOKMARK_BAR_SUBMENU_ALWAYS_HIDE, visibility_commands_enabled),
          (Tls IDC_BOOKMARK_BAR_SUBMENU_ONLY_ON_NTP, visibility_commands_enabled)])"

definition update_bookmark_bar :: "'u updater \<Rightarrow> env \<Rightarrow> 'u command_controller \<Rightarrow> 'u command_controller" where
  "update_bookmark_bar U e s = (if cc_locked s then s else update_cmds U (bookmark_bar_cmds e) s)"

definition update_file_selection :: "'u updater \<Rightarrow> env \<Rightarrow> 'u command_controller \<Rightarrow> 'u command_controller" where
  "update_file_selection U e s =
     (if cc_locked s then s
      else update_cmds U [(Edt IDC_OPEN_FILE, can_open_file e)] (update_save_as U e s))"

definition shared_incognito_cmds :: "env \<Rightarrow> (command \<times> bool) list" where
  "shared_incognito_cmds e =
     (let forced_incognito = (incognito e = IncognitoForced);
          is_guest = pro e IsGuestSession;
          enable_extensions = (pro e ExtensionRegistrar \<and> pro e ExtensionsEnabled)
      in [(Wnd IDC_NEW_WINDOW, incognito e \<noteq> IncognitoForced),
          (Wnd IDC_NEW_INCOGNITO_WINDOW, incognito e \<noteq> IncognitoDisabled \<and> \<not> pro e IsGuestSession),
          (Shw IDC_SHOW_BOOKMARK_MANAGER, pro e BookmarksEnabled \<and> \<not> forced_incognito \<and> \<not> is_guest),
          (Shw IDC_MANAGE_EXTENSIONS, enable_extensions \<and> \<not> forced_incognito \<and> \<not> is_guest),
          (Shw IDC_SAFETY_HUB_MANAGE_EXTENSIONS, enable_extensions \<and> \<not> forced_incognito \<and> \<not> is_guest),
          (Inf IDC_IMPORT_SETTINGS, \<not> forced_incognito \<and> \<not> is_guest),
          (Inf IDC_OPTIONS, \<not> forced_incognito \<or> is_guest),
          (Inf IDC_PERFORMANCE, \<not> forced_incognito \<and> \<not> is_guest)])"

definition update_incognito :: "'u updater \<Rightarrow> env \<Rightarrow> 'u command_controller \<Rightarrow> 'u command_controller" where
  "update_incognito U e s =
     (if cc_locked s then s
      else (let s = update_cmds U (shared_incognito_cmds e) s;
                s = (if svc e (ActionFound ''kActionNewIncognitoWindow'')
                     then calls [Call ''SetEnabled'' [Name ''kActionNewIncognitoWindow'',
                                   Bool (pro e IncognitoAllowed)]] s
                     else s)
            in if \<not> is_showing_main_ui e
               then update_cmds U [(Inf IDC_IMPORT_SETTINGS, False), (Inf IDC_OPTIONS, False)] s
               else s))"

definition extensions_menu_cmds :: "(command \<times> bool) list" where
  "extensions_menu_cmds =
     [(Shw IDC_EXTENSIONS_SUBMENU_MANAGE_EXTENSIONS, True),
         (Shw IDC_EXTENSIONS_SUBMENU_VISIT_CHROME_WEB_STORE, True),
         (Shw IDC_FIND_EXTENSIONS, True)]"

definition update_extensions_menu :: "'u updater \<Rightarrow> 'u command_controller \<Rightarrow> 'u command_controller" where
  "update_extensions_menu U s =
     (if cc_locked s then s
      else update_cmds U
        extensions_menu_cmds s)"

definition hosted_app_cmds :: "env \<Rightarrow> (command \<times> bool) list" where
  "hosted_app_cmds e =
     (let has_toolbar = (win e TypeNormal \<or> app e WebApp);
          has_toolbar = (if win e HideUIForFullscreen then False else has_toolbar)
      in [(Edt IDC_FOCUS_TOOLBAR, has_toolbar), (Edt IDC_FOCUS_NEXT_PANE, has_toolbar),
          (Edt IDC_FOCUS_PREVIOUS_PANE, has_toolbar), (Shw IDC_SHOW_APP_MENU, has_toolbar)])"

definition fullscreen_cmds :: "build \<Rightarrow> env \<Rightarrow> (command \<times> bool) list" where
  "fullscreen_cmds b e =
     (let is_fullscreen = (win e WindowExists \<and> win e Fullscreen);
          show_main_ui = is_showing_main_ui e;
          show_location_bar = is_showing_location_bar e;
          main_not_fullscreen = (show_main_ui \<and> \<not> is_fullscreen);
          fullscreen_enabled =
            (if is_mac b then True else is_fullscreen \<or> pro e (BoolPref ''kFullscreenAllowed''))
      in [(Nav IDC_OPEN_CURRENT_URL, show_main_ui),
          (Wnd IDC_SHOW_AS_TAB, \<not> win e TypeNormal \<and> \<not> is_fullscreen \<and> \<not> win e TypeDevtools \<and>
             \<not> win e TypePictureInPicture),
          (Edt IDC_FOCUS_TOOLBAR, show_main_ui),
          (Edt IDC_FOCUS_LOCATION, show_location_bar),
          (Edt IDC_FOCUS_SEARCH, show_main_ui),
          (Edt IDC_FOCUS_MENU_BAR, main_not_fullscreen),
          (Edt IDC_FOCUS_NEXT_PANE, main_not_fullscreen),
          (Edt IDC_FOCUS_PREVIOUS_PANE, main_not_fullscreen),
          (Edt IDC_FOCUS_WEB_CONTENTS_PANE, main_not_fullscreen),
          (Edt IDC_FOCUS_BOOKMARKS, show_main_ui),
          (Edt IDC_FOCUS_INACTIVE_POPUP_FOR_ACCESSIBILITY, main_not_fullscreen),
          (Mnu IDC_DEVELOPER_MENU, show_main_ui)] @
         (if google_branding b
          then [(Tls IDC_FEEDBACK, show_main_ui \<or> win e TypeDevtools),
                (Tls IDC_REPORT_UNSAFE_SITE, show_main_ui)] else []) @
         [(Inf IDC_EDIT_SEARCH_ENGINES, show_main_ui),
          (Inf IDC_VIEW_PASSWORDS, show_main_ui),
          (Inf IDC_ABOUT, show_main_ui)] @
         (if google_branding b
          then [(Inf IDC_CHROME_TIPS, show_main_ui), (Inf IDC_CHROME_WHATS_NEW, show_main_ui)] else []) @
         [(Mnu IDC_CONTENT_CONTEXT_SHARING_SUBMENU, show_main_ui),
          (Pag IDC_SHARING_HUB, show_main_ui),
          (Pag IDC_SHARING_HUB_SCREENSHOT, show_main_ui),
          (Shw IDC_SHOW_APP_MENU, show_main_ui),
          (Grp IDC_SHOW_MANAGEMENT_PAGE, True)] @
         (if svc e ProfilingSupported then [(Tls IDC_PROFILING_ENABLED, show_main_ui)] else []) @
         [(Wnd IDC_FULLSCREEN, fullscreen_enabled),
          (Sys IDC_TOGGLE_FULLSCREEN_TOOLBAR, fullscreen_enabled)])"

definition update_fullscreen ::
  "'u updater \<Rightarrow> build \<Rightarrow> env \<Rightarrow> 'u command_controller \<Rightarrow> 'u command_controller" where
  "update_fullscreen U b e s =
     (if cc_locked s then s
      else (let s = update_cmds U (fullscreen_cmds b e) s;
                s = update_bookmark_bar U e s;
                s = update_incognito U e s
            in update_cmds U (hosted_app_cmds e) s))"

definition update_glic :: "'u updater \<Rightarrow> env \<Rightarrow> 'u command_controller \<Rightarrow> 'u command_controller" where
  "update_glic U e s =
     (if svc e GlicGlobal \<and> svc e GlicService
      then (let glic_active = (svc e GlicInstance \<and> svc e GlicInstanceActive);
                s = update_cmds U [(Prf IDC_OPEN_GLIC, svc e GlicProfileEnabled \<and> \<not> glic_active)] s
            in if svc e (ActionFound ''kActionSidePanelShowGlic'')
               then calls [Call ''SetVisible'' [Name ''kActionSidePanelShowGlic'',
                             Bool (svc e GlicShowButton)]] s
               else s)
      else s)"

definition update_enable_glic :: "'u updater \<Rightarrow> env \<Rightarrow> 'u command_controller \<Rightarrow> 'u command_controller" where
  "update_enable_glic U e s =
     (let s = update_cmds U [(Prf IDC_OPEN_GLIC, svc e GlicProfileEnabled)] s
      in if svc e GlicGlobal \<and> svc e (ActionFound ''kActionSidePanelShowGlic'')
         then calls [Call ''SetVisible'' [Name ''kActionSidePanelShowGlic'',
                       Bool (svc e GlicShowButton)]] s
         else s)"

definition update_close_find_or_stop ::
  "'u updater \<Rightarrow> env \<Rightarrow> 'u command_controller \<Rightarrow> 'u command_controller" where
  "update_close_find_or_stop U e s =
     update_cmds U [(Edt IDC_CLOSE_FIND_OR_STOP, win e CanCloseFind \<or> is_enabled U s (Nav IDC_STOP))] s"

definition update_reload_stop ::
  "'u updater \<Rightarrow> build \<Rightarrow> env \<Rightarrow> bool \<Rightarrow> bool \<Rightarrow> 'u command_controller \<Rightarrow> 'u command_controller" where
  "update_reload_stop U b e is_loading force s =
     (if frozen b e s then s
      else (let s = calls [Call ''UpdateReloadStopState'' [Bool is_loading, Bool force]] s;
                s = update_cmds U [(Nav IDC_STOP, is_loading)] s
            in update_close_find_or_stop U e s))"

definition update_tab_restore :: "'u updater \<Rightarrow> env \<Rightarrow> 'u command_controller \<Rightarrow> 'u command_controller" where
  "update_tab_restore U e s =
     (if cc_locked s then s
      else update_cmds U
        [(Wnd IDC_RESTORE_TAB, pro e RestoreService \<and> (\<not> pro e RestoreLoaded \<or> pro e RestoreEntries))] s)"

definition update_find :: "'u updater \<Rightarrow> env \<Rightarrow> 'u command_controller \<Rightarrow> 'u command_controller" where
  "update_find U e s =
     (let is_actor_overlay_visible =
            (svc e (FeatureOn ''kGlicActorUi'') \<and> svc e (FeatureOn ''kGlicActorUiOverlay'') \<and>
             win e ActorOverlayVisible);
          s = (if is_actor_overlay_visible \<and> win e CanCloseFind
               then calls [Call ''CloseFind'' []] s else s);
          enabled = (tab e ActiveTab \<and> \<not> tab e TabBlocked \<and> \<not> win e TypeDevtools \<and>
             \<not> is_actor_overlay_visible)
      in update_cmds U
           [(Edt IDC_FIND, enabled), (Edt IDC_FIND_NEXT, enabled), (Edt IDC_FIND_PREVIOUS, enabled)] s)"

definition update_media_router :: "'u updater \<Rightarrow> env \<Rightarrow> 'u command_controller \<Rightarrow> 'u command_controller" where
  "update_media_router U e s =
     (if cc_locked s then s
      else update_command_and_action U e (Inf IDC_ROUTE_MEDIA) ''kActionRouteMedia'' (can e CanRouteMedia) s)"

definition tab_keyboard_focus_cmds :: "env \<Rightarrow> int option \<Rightarrow> (command \<times> bool) list" where
  "tab_keyboard_focus_cmds e target_index =
     (let normal_window = win e TypeNormal
      in [(Grp IDC_DUPLICATE_TARGET_TAB, \<not> win e TypeApp \<and> \<not> win e TypeAppPopup \<and>
             (case target_index of None \<Rightarrow> False | Some i \<Rightarrow> tab e (CanDuplicateTabAt i))),
          (Grp IDC_MUTE_TARGET_SITE, normal_window \<and> target_index \<noteq> None),
          (Grp IDC_PIN_TARGET_TAB, normal_window \<and> target_index \<noteq> None),
          (Grp IDC_GROUP_TARGET_TAB, normal_window \<and> target_index \<noteq> None)])"

definition update_tab_keyboard_focus ::
  "'u updater \<Rightarrow> env \<Rightarrow> int option \<Rightarrow> 'u command_controller \<Rightarrow> 'u command_controller" where
  "update_tab_keyboard_focus U e target_index s =
     update_cmds U (tab_keyboard_focus_cmds e target_index) s"

definition update_web_contents_focus ::
  "'u updater \<Rightarrow> build \<Rightarrow> env \<Rightarrow> 'u command_controller \<Rightarrow> 'u command_controller" where
  "update_web_contents_focus U b e s =
     (if is_mac b then update_cmds U [(Tls IDC_CARET_BROWSING_TOGGLE, can e CanToggleCaretBrowsing)] s
      else s)"

definition tab_strip_cmds :: "env \<Rightarrow> (command \<times> bool) list" where
  "tab_strip_cmds e =
     [(Wnd IDC_CLOSE_TAB, tab e TabClosable),
                   (Grp IDC_WINDOW_CLOSE_TABS_TO_RIGHT, can e CanCloseTabsToRight),
                   (Grp IDC_WINDOW_CLOSE_OTHER_TABS, can e CanCloseOtherTabs),
                   (Wnd IDC_MOVE_TAB_TO_NEW_WINDOW, can e CanMoveActiveTab),
                   (Wnd IDC_NEW_SPLIT_TAB, win e TypeNormal),
                   (Grp IDC_GROUP_UNGROUPED_TABS, can e CanGroupUngrouped)]"

definition update_tab_strip :: "'u updater \<Rightarrow> env \<Rightarrow> 'u command_controller \<Rightarrow> 'u command_controller" where
  "update_tab_strip U e s =
     (if cc_locked s then s
      else if \<not> tab e ActiveTab then s
      else (let s = update_cmds U
                  (tab_strip_cmds e) s
            in update_bookmark_editing U e s))"


text \<open>\<open>UpdateCommandsForTabState\<close>: navigation, then, unless locked, everything about the page.\<close>

definition tab_navigation_cmds :: "env \<Rightarrow> (command \<times> bool) list" where
  "tab_navigation_cmds e =
     [(Nav IDC_BACK, tab e EnableBack),
      (Nav IDC_FORWARD, tab e EnableForward),
      (Nav IDC_RELOAD, tab e CanReload),
      (Nav IDC_RELOAD_BYPASSING_CACHE, tab e CanReload),
      (Nav IDC_RELOAD_CLEARING_CACHE, tab e CanReload)]"

definition tab_window_cmds :: "env \<Rightarrow> (command \<times> bool) list" where
  "tab_window_cmds e =
     (let is_app = (win e TypeApp \<or> win e TypeAppPopup);
          is_normal = win e TypeNormal
      in [(Wnd IDC_DUPLICATE_TAB, \<not> is_app \<and> tab e CanDuplicateTab),
          (Inf IDC_WINDOW_MUTE_SITE, \<not> is_app),
          (Inf IDC_WINDOW_PIN_TAB, is_normal),
          (Inf IDC_WINDOW_GROUP_TAB, is_normal)])"

definition tab_page_cmds :: "build \<Rightarrow> env \<Rightarrow> (command \<times> bool) list" where
  "tab_page_cmds b e =
     (let can_create_web_app = app e CanCreateWebApp
      in [(Pag IDC_VIEW_SOURCE, tab e CanViewSource),
          (Edt IDC_OPEN_FILE, can_open_file e),
          (Edt IDC_INSTALL_PWA, can_create_web_app),
          (Edt IDC_CREATE_SHORTCUT,
             if is_mac b \<or> is_linux b \<or> is_win b then tab e CanCreateDesktopShortcut
             else can_create_web_app)])"

definition tab_app_cmds :: "env \<Rightarrow> (command \<times> bool) list" where
  "tab_app_cmds e =
     (let is_isolated_app = (app e AppController \<and> app e IsolatedWebApp)
      in [(Web IDC_OPEN_IN_CHROME,
             app e WebAppOrCustomTab \<and> \<not> is_isolated_app \<and> \<not> app e PinnedHomeTab),
          (Web IDC_READING_LIST_MENU_ADD_TAB, tab e ReadLaterSupported),
          (Inf IDC_TOGGLE_REQUEST_TABLET_SITE, tab e CanRequestTabletSite)])"

definition update_tab_page ::
  "'u updater \<Rightarrow> build \<Rightarrow> env \<Rightarrow> 'u command_controller \<Rightarrow> 'u command_controller" where
  "update_tab_page U b e s =
     (let s = update_cmds U (tab_window_cmds e) s;
          s = calls [Call ''SetStarredState'' [Bool (tab e IsStarred)]] s;
          s = update_cmds U (tab_page_cmds b e) s;
          s = update_command_and_action U e (Pag IDC_SEND_TAB_TO_SELF) ''kActionSendTabToSelf''
                (tab e CanSendTabToSelf) s;
          s = update_command_and_action U e (Pag IDC_QRCODE_GENERATOR) ''kActionQrCodeGenerator''
                (tab e CanGenerateQrCode) s;
          can_translate = (tab e TranslateClient \<and> tab e CanManuallyTranslate);
          s = update_command_and_action U e (Pag IDC_SHOW_TRANSLATE) ''kActionShowTranslate''
                can_translate s;
          s = update_cmds U (tab_app_cmds e) s;
          s = update_content_restriction U b e s;
          s = update_bookmark_editing U e s;
          s = update_find U e s;
          s = update_media_router U e s;
          s = update_zoom U e s;
          s = update_tab_keyboard_focus U e (focused_tab e) s
      in if \<not> svc e (FeatureOn ''kDevToolsShowPolicyDialog'') then update_dev_tools U b e s
         else update_cmds U [(Pag IDC_VIEW_SOURCE, can e AllowDevTools)] s)"

definition update_tab_state ::
  "'u updater \<Rightarrow> build \<Rightarrow> env \<Rightarrow> 'u command_controller \<Rightarrow> 'u command_controller" where
  "update_tab_state U b e s =
     (if frozen b e s then s
      else if \<not> tab e ActiveWebContents then s
      else
        let s = update_cmds U (tab_navigation_cmds e) s
        in if cc_locked s then s else update_tab_page U b e s)"

subsection \<open>The initial state\<close>

text \<open>
  \<open>InitCommandState\<close> in the order of its sections: navigation, tab groups and window management,
  the page and zoom, the bits of user interface, the hosted applications and the tabs.
\<close>

definition init_first_cmds :: "env \<Rightarrow> (command \<times> bool) list" where
  "init_first_cmds e =
     (let can_reload = tab e CanReload
      in [(Nav IDC_RELOAD, can_reload),
          (Nav IDC_RELOAD_BYPASSING_CACHE, can_reload),
          (Nav IDC_RELOAD_CLEARING_CACHE, can_reload),
          (Grp IDC_ADD_NEW_TAB_TO_GROUP, True),
          (Grp IDC_CREATE_NEW_TAB_GROUP, True),
          (Grp IDC_FOCUS_NEXT_TAB_GROUP, True),
          (Grp IDC_FOCUS_PREV_TAB_GROUP, True),
          (Grp IDC_CLOSE_TAB_GROUP, True),
          (Grp IDC_GROUP_UNGROUPED_TABS, True),
          (Grp IDC_CREATE_NEW_TAB_GROUP_TOP_LEVEL, True),
          (Grp IDC_ADD_NEW_TAB_RECENT_GROUP, True),
          (Grp IDC_UNFOCUS_TAB_GROUP, True),
          (Tls IDC_SHOW_FULL_URLS, True),
          (Tls IDC_SHOW_GOOGLE_LENS_SHORTCUT, True),
          (Tls IDC_SHOW_SEARCH_TOOLS, True),
          (Tls IDC_SHOW_AI_MODE_OMNIBOX_BUTTON, True),
          (Wnd IDC_CLOSE_WINDOW, True),
          (Wnd IDC_NEW_TAB, \<not> app e AppController \<or> \<not> app e HideNewTabButton),
          (Wnd IDC_CLOSE_TAB, True),
          (Wnd IDC_DUPLICATE_TAB, \<not> win e TypePictureInPicture)])"

definition init_window_cmds :: "build \<Rightarrow> env \<Rightarrow> (command \<times> bool) list" where
  "init_window_cmds b e =
     [(Sys IDC_EXIT, True),
      (Wnd IDC_NAME_WINDOW, True),
      (Nav IDC_TOGGLE_VERTICAL_TABS, True),
      (Nav IDC_VERTICAL_TABS_SEND_FEEDBACK, True),
      (Nav IDC_TOGGLE_VERTICAL_TABS_EXPAND_ON_HOVER, True)] @
     (if is_chromeos b
      then [(Sys IDC_TOGGLE_MULTITASK_MENU, True),
            (Sys IDC_MINIMIZE_WINDOW, True),
            (Sys IDC_VISIT_DESKTOP_OF_LRU_USER_2, True),
            (Sys IDC_VISIT_DESKTOP_OF_LRU_USER_3, True),
            (Sys IDC_VISIT_DESKTOP_OF_LRU_USER_4, True),
            (Sys IDC_VISIT_DESKTOP_OF_LRU_USER_5, True)] else []) @
     (if is_linux b \<or> is_win b
      then [(Sys IDC_MINIMIZE_WINDOW, True), (Sys IDC_MAXIMIZE_WINDOW, True), (Sys IDC_RESTORE_WINDOW, True)]
      else []) @
     (if is_linux b
      then [(Sys IDC_USE_SYSTEM_TITLE_BAR, if is_ozone b then win e SystemTitleBarSupported else True)]
      else []) @
     (if is_win b then [(Sys IDC_MOVE_WINDOW, True), (Sys IDC_SIZE_WINDOW, True)] else []) @
     [(Wnd IDC_OPEN_IN_PWA_WINDOW, app e CanPopOutWebApp),
      (Pag IDC_MANAGE_PASSWORDS_FOR_PAGE, True),
      (Mnu IDC_ZOOM_MENU, True),
      (Edt IDC_ZOOM_PLUS, True),
      (Edt IDC_ZOOM_NORMAL, False),
      (Edt IDC_ZOOM_MINUS, True)]"

definition init_ui_cmds :: "build \<Rightarrow> env \<Rightarrow> (command \<times> bool) list" where
  "init_ui_cmds b e =
     (let guest_session = pro e IsGuestSession;
          can_open_task_manager = can e CanOpenTaskManager;
          history = (\<not> guest_session \<and> \<not> pro e IsSystemProfile);
          recent_tabs = (\<not> guest_session \<and> \<not> pro e IsSystemProfile \<and> \<not> pro e IsIncognitoProfile)
      in [(Tls IDC_TASK_MANAGER, can_open_task_manager),
          (Tls IDC_TASK_MANAGER_APP_MENU, can_open_task_manager),
          (Tls IDC_TASK_MANAGER_SHORTCUT, can_open_task_manager),
          (Tls IDC_TASK_MANAGER_CONTEXT_MENU, can_open_task_manager),
          (Tls IDC_TASK_MANAGER_MAIN_MENU, can_open_task_manager),
          (Mnu IDC_PROFILE_MENU_IN_APP_MENU, True),
          (Shw IDC_SHOW_HISTORY, history),
          (Shw IDC_SHOW_HISTORY_CLUSTERS_SIDE_PANEL, history),
          (Shw IDC_SHOW_TABS_FROM_OTHER_DEVICES_SIDE_PANEL, pro e TabsFromOtherDevices),
          (Shw IDC_SHOW_DOWNLOADS, True),
          (Shw IDC_SHOW_COMMENTS_SIDE_PANEL, True),
          (Mnu IDC_FIND_AND_EDIT_MENU, True),
          (Mnu IDC_SAVE_AND_SHARE_MENU, True),
          (Web IDC_SHOW_READING_MODE_SIDE_PANEL, True),
          (Web IDC_SHOW_READING_MODE_KEYBOARD, True),
          (Web IDC_SHOW_CUSTOMIZE_CHROME_SIDE_PANEL, True),
          (Web IDC_SHOW_CUSTOMIZE_CHROME_TOOLBAR, True),
          (Pag IDC_SEND_TAB_TO_SELF, False),
          (Pag IDC_QRCODE_GENERATOR, False),
          (Mnu IDC_PASSWORDS_AND_AUTOFILL_MENU, \<not> guest_session),
          (Pag IDC_SHOW_PASSWORD_MANAGER, \<not> guest_session),
          (Pag IDC_SAFETY_HUB_SHOW_PASSWORD_CHECKUP, \<not> guest_session),
          (Pag IDC_SHOW_PAYMENT_METHODS, \<not> guest_session),
          (Pag IDC_SHOW_SYNC_SETTINGS, True),
          (Pag IDC_SHOW_SYNC_PASSPHRASE_DIALOG, True),
          (Pag IDC_TURN_ON_SYNC, True),
          (Pag IDC_SHOW_SIGNIN_WHEN_PAUSED, True),
          (Pag IDC_SHOW_SIGNIN, True),
          (Pag IDC_SHOW_ADDRESSES, \<not> guest_session),
          (Pag IDC_SHOW_CONTACT_INFO, \<not> guest_session),
          (Pag IDC_SHOW_IDENTITY_DOCS, \<not> guest_session),
          (Pag IDC_SHOW_TRAVEL, \<not> guest_session),
          (Mnu IDC_HELP_MENU, True),
          (Inf IDC_HELP_PAGE_VIA_KEYBOARD, True),
          (Inf IDC_HELP_PAGE_VIA_MENU, True),
          (Inf IDC_SHOW_BETA_FORUM, True),
          (Inf IDC_CHROME_ENTERPRISE_RELEASE_NOTES, svc e (FeatureOn ''kEnterpriseReleaseNotes'')),
          (Mnu IDC_BOOKMARKS_MENU, history),
          (Mnu IDC_SAVED_TAB_GROUPS_MENU, True),
          (Mnu IDC_RECENT_TABS_MENU, recent_tabs),
          (Shw IDC_RECENT_TABS_LOGIN_FOR_DEVICE_TABS, recent_tabs),
          (Shw IDC_RECENT_TABS_SEE_DEVICE_TABS, recent_tabs)] @
         (if \<not> is_chromeos b
          then [(Prf IDC_CUSTOMIZE_CHROME, True),
                (Prf IDC_CLOSE_PROFILE, True),
                (Prf IDC_MANAGE_GOOGLE_ACCOUNT, True),
                (Prf IDC_OPEN_GUEST_PROFILE, True),
                (Prf IDC_ADD_NEW_PROFILE, True),
                (Prf IDC_MANAGE_CHROME_PROFILES, True)] else []) @
         [(Inf IDC_CLEAR_BROWSING_DATA, if pro e IsIncognitoProfile then True else history)])"

definition init_tab_cmds :: "build \<Rightarrow> env \<Rightarrow> (command \<times> bool) list" where
  "init_tab_cmds b e =
     (let normal_window = win e TypeNormal;
          is_web_app_or_custom_tab = app e WebAppOrCustomTab;
          enable_copy_url = (is_web_app_or_custom_tab \<or> \<not> pro e SharingDisabledByPolicy);
          supports_tabs = win e FeatureTabStrip;
          enable_tab_search_commands = win e TypeNormal
      in (if is_chromeos b
          then [(Sys IDC_TAKE_SCREENSHOT, True), (Shw IDC_SHOW_AVATAR_MENU, pro e IsIncognitoProfile)]
          else [(Shw IDC_SHOW_AVATAR_MENU, normal_window)]) @
         [(Mnu IDC_SHOW_SAVE_LOCAL_CARD_SIGN_IN_PROMO_IF_APPLICABLE, True),
          (Mnu IDC_CLOSE_SIGN_IN_PROMO, True),
          (Tls IDC_CARET_BROWSING_TOGGLE, True),
          (Nav IDC_HOME, normal_window \<or> win e TypeApp \<or> win e TypeAppPopup),
          (Web IDC_COPY_URL, enable_copy_url),
          (Web IDC_WEB_APP_SETTINGS, is_web_app_or_custom_tab),
          (Web IDC_WEB_APP_MENU_APP_INFO, is_web_app_or_custom_tab),
          (Wnd IDC_SELECT_NEXT_TAB, supports_tabs),
          (Wnd IDC_SELECT_PREVIOUS_TAB, supports_tabs),
          (Wnd IDC_MOVE_TAB_NEXT, supports_tabs),
          (Wnd IDC_MOVE_TAB_PREVIOUS, supports_tabs),
          (Wnd IDC_SELECT_TAB_0, supports_tabs),
          (Wnd IDC_SELECT_TAB_1, supports_tabs),
          (Wnd IDC_SELECT_TAB_2, supports_tabs),
          (Wnd IDC_SELECT_TAB_3, supports_tabs),
          (Wnd IDC_SELECT_TAB_4, supports_tabs),
          (Wnd IDC_SELECT_TAB_5, supports_tabs),
          (Wnd IDC_SELECT_TAB_6, supports_tabs),
          (Wnd IDC_SELECT_TAB_7, supports_tabs),
          (Wnd IDC_SELECT_LAST_TAB, supports_tabs),
          (Wnd IDC_NEW_TAB_TO_RIGHT, supports_tabs),
          (Inf IDC_UPGRADE_DIALOG, True),
          (Prf IDC_SET_BROWSER_AS_DEFAULT, True),
          (Inf IDC_OPEN_SAFETY_HUB, True),
          (Inf IDC_WINDOW_MUTE_SITE, normal_window),
          (Inf IDC_WINDOW_PIN_TAB, normal_window),
          (Inf IDC_WINDOW_GROUP_TAB, normal_window),
          (Grp IDC_WINDOW_CLOSE_TABS_TO_RIGHT, normal_window),
          (Grp IDC_WINDOW_CLOSE_OTHER_TABS, normal_window),
          (Nav IDC_TAB_SEARCH, enable_tab_search_commands),
          (Nav IDC_TAB_SEARCH_CLOSE, enable_tab_search_commands),
          (Nav IDC_TAB_SEARCH_TOGGLE_PIN, enable_tab_search_commands),
          (Pag IDC_SHOW_CONTEXTUAL_TASKS_SIDE_PANEL, True)] @
         (if svc e (FeatureOn ''kUIDebugTools'')
          then [(Web IDC_DEBUG_TOGGLE_TABLET_MODE, True),
                (Web IDC_DEBUG_PRINT_VIEW_TREE, True),
                (Web IDC_DEBUG_PRINT_VIEW_TREE_DETAILS, True)] else []) @
         [(Shw IDC_SHOW_BOOKMARK_SIDE_PANEL, True)] @
         (if win e TypeNormal
          then [(Mnu IDC_READING_LIST_MENU, True),
                (Web IDC_READING_LIST_MENU_ADD_TAB, True),
                (Web IDC_READING_LIST_MENU_SHOW_UI, True)] else []) @
         (if svc e ChromeLabs then [(Tls IDC_SHOW_CHROME_LABS, True)] else []) @
         [(Prf IDC_GLIC_TOGGLE_PIN, svc e GlicProfileEligible)])"

definition init_all_commands ::
  "'u updater \<Rightarrow> build \<Rightarrow> env \<Rightarrow> 'u command_controller \<Rightarrow> 'u command_controller" where
  "init_all_commands U b e s =
     (let s = update_cmds U (init_first_cmds e) s;
          s = update_tab_restore U e s;
          s = update_cmds U (init_window_cmds b e) s;
          s = update_cmds U [(Edt IDC_OPEN_FILE, can_open_file e)] s;
          s = (if svc e (FeatureOn ''kDevToolsShowPolicyDialog'')
               then update_cmds U (dev_tools_cmds b True) s
               else update_dev_tools U b e s);
          s = update_cmds U (init_ui_cmds b e) s;
          s = update_cmds U (init_tab_cmds b e) s;
          s = update_glic U e s;
          s = update_fullscreen U b e s;
          s = update_content_restriction U b e s;
          s = update_bookmark_editing U e s;
          s = update_incognito U e s;
          s = update_extensions_menu U s;
          s = update_tab_keyboard_focus U e (focused_tab e) s
      in update_web_contents_focus U b e s)"

text \<open>A failed \<open>DCHECK\<close> stops a build that has them.\<close>

definition init_command_state ::
  "'u updater \<Rightarrow> build \<Rightarrow> env \<Rightarrow> 'u command_controller \<Rightarrow> 'u command_controller option" where
  "init_command_state U b e s =
     (if cc_locked s then Some s
      else if dcheck_is_on b \<and> pro e IsSystemProfile then None
      else Some (init_all_commands U b e s))"

end
