(* ===== verification/Command_Execute.thy ===== *)
theory Command_Execute
  imports Command_State
begin

text \<open>
  \<open>chrome/browser/ui/browser_command_controller.cc\<close>, second half: executing a command. The switch of
  \<open>ExecuteCommandWithDisposition\<close> is an association list from the labels that the build has to what
  the case does: the calls it makes into the rest of Chromium (whose first argument, the browser,
  is left out), or no result where the process stops (\<open>NOTREACHED\<close>, \<open>CHECK\<close>, or a \<open>DCHECK\<close> in a build
  that has them). The sections are those of the source.
\<close>

definition does :: "string \<Rightarrow> call list option" where
  "does f = Some [Call f []]"

definition does_with :: "string \<Rightarrow> call_arg list \<Rightarrow> call list option" where
  "does_with f xs = Some [Call f xs]"

definition records :: "string \<Rightarrow> string \<Rightarrow> call list option" where
  "records a f = Some [Call ''RecordAction'' [Text a], Call f []]"

definition invokes_action :: "string \<Rightarrow> call list option" where
  "invokes_action a = Some [Call ''InvokeAction'' [Name a]]"

definition shows_side_panel :: "string \<Rightarrow> call list option" where
  "shows_side_panel k = Some [Call ''SidePanelUI::Show'' [Name k, Name ''kAppMenu'']]"

text \<open>\<open>ShowCustomizeChromeSidePanel\<close>\<close>

definition customize_side_panel :: "env \<Rightarrow> string \<Rightarrow> string \<Rightarrow> call list option" where
  "customize_side_panel e trigger section =
     (if \<not> tab e ActiveTab \<or> \<not> app e CustomizeController then Some []
      else if \<not> app e CustomizeAvailable then Some []
      else Some [Call ''OpenSidePanel'' [Name trigger, Name section]])"

text \<open>The pref \<open>kDevToolsAvailability\<close> is looked at again when a dialog can say that it is off.\<close>

definition unless_policy_dialog :: "env \<Rightarrow> call list \<Rightarrow> call list option" where
  "unless_policy_dialog e act =
     (if svc e (FeatureOn ''kDevToolsShowPolicyDialog'') \<and> \<not> can e AllowDevTools
      then Some [Call ''DevToolsPolicyDialog::Show'' []] else Some act)"

definition toggles_pref :: "env \<Rightarrow> string \<Rightarrow> call list option" where
  "toggles_pref e p = Some [Call ''SetBoolean'' [Name p, Bool (\<not> pro e (BoolPref p))]]"

subsection \<open>The switch\<close>

definition switch_navigation :: "string \<Rightarrow> (command \<times> call list option) list" where
  "switch_navigation disposition =
     [(Nav IDC_BACK, does_with ''GoBack'' [Name disposition]),
      (Nav IDC_FORWARD, does_with ''GoForward'' [Name disposition]),
      (Nav IDC_RELOAD, does_with ''Reload'' [Name disposition]),
      (Nav IDC_RELOAD_CLEARING_CACHE,
         Some [Call ''ClearCache'' [], Call ''ReloadBypassingCache'' [Name disposition]]),
      (Nav IDC_RELOAD_BYPASSING_CACHE, does_with ''ReloadBypassingCache'' [Name disposition]),
      (Nav IDC_HOME, does_with ''Home'' [Name disposition]),
      (Nav IDC_OPEN_CURRENT_URL, does ''OpenCurrentURL''),
      (Nav IDC_STOP, does ''Stop''),
      (Nav IDC_TAB_SEARCH, does ''ShowTabSearch''),
      (Nav IDC_TAB_SEARCH_CLOSE, does ''CloseTabSearch''),
      (Nav IDC_TAB_SEARCH_TOGGLE_PIN, does ''ToggleTabSearchPin''),
      (Nav IDC_TOGGLE_VERTICAL_TABS, does ''ToggleVerticalTabs''),
      (Nav IDC_VERTICAL_TABS_SEND_FEEDBACK,
         does_with ''ShowFeedbackPage'' [Name ''kFeedbackSourceVerticalTabs'', Text [], Text [],
           Text ''vertical_tabs'', Text []]),
      (Nav IDC_TOGGLE_VERTICAL_TABS_EXPAND_ON_HOVER, does ''ToggleVerticalTabsExpandOnHover'')]"

definition select_numbered_tab :: "int \<Rightarrow> int \<Rightarrow> call list option" where
  "select_numbered_tab n time_stamp =
     Some [Call ''RecordAction'' [Text ''Accel_SelectNumberedTab''],
       Call ''SelectNumberedTab'' [Num n, Name ''kKeyboard'', Num time_stamp]]"

text \<open>The ids \<open>IDC_SELECT_TAB_0\<close> to \<open>IDC_SELECT_TAB_7\<close> are consecutive numbers.\<close>

definition switch_window :: "env \<Rightarrow> int \<Rightarrow> (command \<times> call list option) list" where
  "switch_window e time_stamp =
     [(Wnd IDC_NEW_WINDOW, does ''NewWindow''),
      (Wnd IDC_NEW_INCOGNITO_WINDOW, does ''NewIncognitoWindow''),
      (Wnd IDC_CLOSE_WINDOW, records ''CloseWindowByKey'' ''CloseWindow''),
      (Wnd IDC_NEW_TAB, does_with ''NewTab'' [Name ''kNewTabCommand'']),
      (Wnd IDC_NEW_TAB_TO_RIGHT, does ''NewTabToRight''),
      (Wnd IDC_CLOSE_TAB, records ''CloseTabByKey'' ''CloseTab''),
      (Wnd IDC_SELECT_NEXT_TAB,
         Some [Call ''RecordAction'' [Text ''Accel_SelectNextTab''],
           Call ''SelectNextTab'' [Name ''kKeyboard'', Num time_stamp]]),
      (Wnd IDC_SELECT_PREVIOUS_TAB,
         Some [Call ''RecordAction'' [Text ''Accel_SelectPreviousTab''],
           Call ''SelectPreviousTab'' [Name ''kKeyboard'', Num time_stamp]]),
      (Wnd IDC_MOVE_TAB_NEXT, does ''MoveTabNext''),
      (Wnd IDC_MOVE_TAB_PREVIOUS, does ''MoveTabPrevious''),
      (Wnd IDC_SELECT_TAB_0, select_numbered_tab 0 time_stamp),
      (Wnd IDC_SELECT_TAB_1, select_numbered_tab 1 time_stamp),
      (Wnd IDC_SELECT_TAB_2, select_numbered_tab 2 time_stamp),
      (Wnd IDC_SELECT_TAB_3, select_numbered_tab 3 time_stamp),
      (Wnd IDC_SELECT_TAB_4, select_numbered_tab 4 time_stamp),
      (Wnd IDC_SELECT_TAB_5, select_numbered_tab 5 time_stamp),
      (Wnd IDC_SELECT_TAB_6, select_numbered_tab 6 time_stamp),
      (Wnd IDC_SELECT_TAB_7, select_numbered_tab 7 time_stamp),
      (Wnd IDC_SELECT_LAST_TAB,
         Some [Call ''RecordAction'' [Text ''Accel_SelectNumberedTab''],
           Call ''SelectLastTab'' [Name ''kKeyboard'', Num time_stamp]]),
      (Wnd IDC_DUPLICATE_TAB, does ''DuplicateTab''),
      (Wnd IDC_RESTORE_TAB, does ''RestoreTab''),
      (Wnd IDC_SHOW_AS_TAB, does ''ConvertPopupToTabbedBrowser''),
      (Wnd IDC_FULLSCREEN, does_with ''ToggleFullscreenMode'' [Bool True]),
      (Wnd IDC_OPEN_IN_PWA_WINDOW, records ''OpenActiveTabInPwaWindow'' ''ReparentWebAppForActiveTab''),
      (Wnd IDC_MOVE_TAB_TO_NEW_WINDOW, does ''MoveActiveTabToNewWindow''),
      (Wnd IDC_NEW_SPLIT_TAB,
         if \<not> tab e TabIsSplit
         then does_with ''NewSplitTab'' [Name ''kSideBySide'', Name ''kKeyboardShortcut''] else Some []),
      (Wnd IDC_NAME_WINDOW, does ''PromptToNameWindow'')]"

definition switch_platform :: "build \<Rightarrow> env \<Rightarrow> (command \<times> call list option) list" where
  "switch_platform b e =
     (if is_chromeos b
      then [(Sys IDC_TAKE_SCREENSHOT, does ''TakeScreenshot''),
            (Sys IDC_TOGGLE_MULTITASK_MENU, does ''ToggleMultitaskMenu''),
            (Sys IDC_VISIT_DESKTOP_OF_LRU_USER_2,
               does_with ''ExecuteVisitDesktopCommand'' [Name ''VISIT_DESKTOP_OF_LRU_USER_2'']),
            (Sys IDC_VISIT_DESKTOP_OF_LRU_USER_3,
               does_with ''ExecuteVisitDesktopCommand'' [Name ''VISIT_DESKTOP_OF_LRU_USER_3'']),
            (Sys IDC_VISIT_DESKTOP_OF_LRU_USER_4,
               does_with ''ExecuteVisitDesktopCommand'' [Name ''VISIT_DESKTOP_OF_LRU_USER_4'']),
            (Sys IDC_VISIT_DESKTOP_OF_LRU_USER_5,
               does_with ''ExecuteVisitDesktopCommand'' [Name ''VISIT_DESKTOP_OF_LRU_USER_5''])]
      else []) @
     (if is_linux b \<or> is_win b
      then [(Sys IDC_MINIMIZE_WINDOW, does ''Minimize''),
            (Sys IDC_MAXIMIZE_WINDOW, does ''Maximize''),
            (Sys IDC_RESTORE_WINDOW, does ''Restore'')] else []) @
     (if is_linux b then [(Sys IDC_USE_SYSTEM_TITLE_BAR, toggles_pref e ''kUseCustomChromeFrame'')] else []) @
     (if is_win b
      then [(Sys IDC_MOVE_WINDOW, does_with ''PostMessage'' [Name ''WM_SYSCOMMAND'', Name ''SC_MOVE'']),
            (Sys IDC_SIZE_WINDOW, does_with ''PostMessage'' [Name ''WM_SYSCOMMAND'', Name ''SC_SIZE''])]
      else []) @
     (if is_mac b
      then [(Sys IDC_TOGGLE_FULLSCREEN_TOOLBAR, does ''ToggleAlwaysShowToolbarInFullscreen''),
            (Sys IDC_TOGGLE_JAVASCRIPT_APPLE_EVENTS,
               unless_policy_dialog e [Call ''ToggleJavaScriptFromAppleEventsAllowed'' []])]
      else []) @
     [(Sys IDC_EXIT, does ''Exit'')]"

definition switch_page :: "build \<Rightarrow> env \<Rightarrow> (command \<times> call list option) list" where
  "switch_page b e =
     [(Pag IDC_SAVE_PAGE, does ''SavePage''),
      (Pag IDC_BOOKMARK_THIS_TAB, does ''BookmarkCurrentTab''),
      (Pag IDC_BOOKMARK_ALL_TABS, does ''BookmarkAllTabs''),
      (Pag IDC_VIEW_SOURCE,
         if svc e (FeatureOn ''kDevToolsShowPolicyDialog'') \<and> \<not> can e AllowDevTools
         then (if is_android b then Some [] else does ''DevToolsPolicyDialog::Show'')
         else does ''ViewSource''),
      (Pag IDC_PRINT, does ''Print'')] @
     (if enable_printing b
      then [(Pag IDC_BASIC_PRINT, records ''Accel_Advanced_Print'' ''BasicPrint'')] else []) @
     [(Pag IDC_OFFERS_AND_REWARDS_FOR_PAGE, does ''ShowOffersAndRewardsForPage''),
      (Pag IDC_SAVE_CREDIT_CARD_FOR_PAGE, does ''SaveCreditCard''),
      (Pag IDC_SAVE_IBAN_FOR_PAGE, does ''SaveIban''),
      (Pag IDC_AUTOFILL_MANDATORY_REAUTH, does ''ShowMandatoryReauthOptInPrompt''),
      (Pag IDC_SAVE_AUTOFILL_ADDRESS, does ''SaveAutofillAddress''),
      (Pag IDC_SHOW_SYNC_SETTINGS, does_with ''ShowSettingsSubPage'' [Name ''kSyncSetupSubPage''])] @
     (if \<not> is_chromeos b
      then [(Pag IDC_SHOW_SYNC_PASSPHRASE_DIALOG, does ''ShowSyncPassphraseDialogAndDecryptData'')]
      else []) @
     [(Pag IDC_SHOW_CONTEXTUAL_TASKS_SIDE_PANEL, does ''ToggleContextualTasksSidePanel''),
      (Pag IDC_TURN_ON_SYNC, does_with ''EnableSyncFromSingleAccountPromo'' [Name ''kMenu'']),
      (Pag IDC_SHOW_SIGNIN, does_with ''SignInFromSingleAccountPromo'' [Name ''kMenu'']),
      (Pag IDC_SHOW_SIGNIN_WHEN_PAUSED,
         does_with ''ShowReauthForPrimaryAccountWithAuthError'' [Name ''kMenu'']),
      (Pag IDC_SHOW_PASSWORD_MANAGER, does ''ShowPasswordManager''),
      (Pag IDC_SAFETY_HUB_SHOW_PASSWORD_CHECKUP, does ''ShowPasswordCheck''),
      (Pag IDC_SHOW_PAYMENT_METHODS, does ''ShowPaymentMethods''),
      (Pag IDC_SHOW_ADDRESSES, does ''ShowAddresses''),
      (Pag IDC_SHOW_CONTACT_INFO, does ''ShowContactInfo''),
      (Pag IDC_SHOW_IDENTITY_DOCS, does ''ShowIdentityDocs''),
      (Pag IDC_SHOW_TRAVEL, does ''ShowTravel''),
      (Pag IDC_FILLED_CARD_INFORMATION, does ''ShowFilledCardInformationBubble''),
      (Pag IDC_VIRTUAL_CARD_ENROLL, does ''ShowVirtualCardEnrollBubble''),
      (Pag IDC_SEND_SHARED_TAB_GROUP_FEEDBACK,
         does_with ''OpenFeedbackDialog'' [Name ''kFeedbackSourceDesktopTabGroups'', Text [],
           Text ''tab_group_share'']),
      (Pag IDC_SHOW_TRANSLATE, does ''ShowTranslateBubble''),
      (Pag IDC_MANAGE_PASSWORDS_FOR_PAGE, does ''ManagePasswordsForPage''),
      (Pag IDC_SEND_TAB_TO_SELF, does ''SendTabToSelf''),
      (Pag IDC_QRCODE_GENERATOR, does ''GenerateQRCode''),
      (Pag IDC_SHARING_HUB, does ''SharingHub''),
      (Pag IDC_SHARING_HUB_SCREENSHOT, does ''ScreenshotCapture'')]"

definition switch_edit :: "build \<Rightarrow> env \<Rightarrow> bool \<Rightarrow> call list option \<Rightarrow> (command \<times> call list option) list" where
  "switch_edit b e stop_enabled execute_stop =
     [(Edt IDC_CUT, invokes_action ''kActionCut''),
      (Edt IDC_COPY, invokes_action ''kActionCopy''),
      (Edt IDC_PASTE, invokes_action ''kActionPaste''),
      (Edt IDC_FIND, does ''Find''),
      (Edt IDC_FIND_NEXT, does ''FindNext''),
      (Edt IDC_FIND_PREVIOUS, does ''FindPrevious''),
      (Edt IDC_CLOSE_FIND_OR_STOP,
         if win e CanCloseFind then does ''CloseFind''
         else if stop_enabled then execute_stop else Some []),
      (Edt IDC_ZOOM_PLUS, does_with ''Zoom'' [Name ''PAGE_ZOOM_IN'']),
      (Edt IDC_ZOOM_NORMAL, does_with ''Zoom'' [Name ''PAGE_ZOOM_RESET'']),
      (Edt IDC_ZOOM_MINUS, does_with ''Zoom'' [Name ''PAGE_ZOOM_OUT'']),
      (Edt IDC_FOCUS_TOOLBAR, records ''Accel_Focus_Toolbar'' ''FocusToolbar''),
      (Edt IDC_FOCUS_LOCATION,
         if \<not> win e LocationBarVisible then Some []
         else records ''Accel_Focus_Location'' ''FocusLocationBar''),
      (Edt IDC_FOCUS_SEARCH, records ''Accel_Focus_Search'' ''FocusSearch''),
      (Edt IDC_FOCUS_MENU_BAR, does ''FocusAppMenu''),
      (Edt IDC_FOCUS_BOOKMARKS, records ''Accel_Focus_Bookmarks'' ''FocusBookmarksToolbar''),
      (Edt IDC_FOCUS_INACTIVE_POPUP_FOR_ACCESSIBILITY, does ''FocusInactivePopupForAccessibility''),
      (Edt IDC_FOCUS_NEXT_PANE, does ''FocusNextPane''),
      (Edt IDC_FOCUS_PREVIOUS_PANE, does ''FocusPreviousPane''),
      (Edt IDC_FOCUS_WEB_CONTENTS_PANE, does ''FocusWebContentsPane''),
      (Edt IDC_OPEN_FILE, does ''OpenFile''),
      (Edt IDC_CREATE_SHORTCUT,
         if is_win b \<or> is_mac b \<or> is_linux b
         then records ''CreateShortcut'' ''CreateDesktopShortcutForActiveWebContents''
         else Some [Call ''RecordAction'' [Text ''CreateShortcut''],
                Call ''CreateWebAppFromCurrentWebContents'' [Name ''kCreateShortcut'']]),
      (Edt IDC_INSTALL_PWA,
         Some [Call ''RecordAction'' [Text ''InstallWebAppFromMenu''],
           Call ''CreateWebAppFromCurrentWebContents'' [Name ''kInstallSite'']])]"


definition switch_tools :: "build \<Rightarrow> (command \<times> call list option) list" where
  "switch_tools b =
     [(Tls IDC_DEV_TOOLS,
         does_with ''ToggleDevToolsWindow'' [Name ''Show'', Name ''kMainMenuOrMainShortcut'']),
      (Tls IDC_DEV_TOOLS_CONSOLE,
         does_with ''ToggleDevToolsWindow'' [Name ''ShowConsolePanel'', Name ''kConsoleShortcut'']),
      (Tls IDC_DEV_TOOLS_DEVICES, does ''InspectUI::InspectDevices''),
      (Tls IDC_DEV_TOOLS_INSPECT,
         does_with ''ToggleDevToolsWindow'' [Name ''Inspect'', Name ''kInspectorModeShortcut'']),
      (Tls IDC_DEV_TOOLS_TOGGLE,
         does_with ''ToggleDevToolsWindow'' [Name ''Toggle'', Name ''kToggleShortcut'']),
      (Tls IDC_TASK_MANAGER, does ''OpenTaskManager''),
      (Tls IDC_TASK_MANAGER_APP_MENU, does_with ''OpenTaskManager'' [Name ''kMoreTools'']),
      (Tls IDC_TASK_MANAGER_SHORTCUT, does_with ''OpenTaskManager'' [Name ''kShortcut'']),
      (Tls IDC_TASK_MANAGER_CONTEXT_MENU, does_with ''OpenTaskManager'' [Name ''kContextMenu'']),
      (Tls IDC_TASK_MANAGER_MAIN_MENU, does_with ''OpenTaskManager'' [Name ''kMainMenu''])] @
     (if google_branding b
      then [(Tls IDC_FEEDBACK, does_with ''OpenFeedbackDialog'' [Name ''kFeedbackSourceBrowserCommand'']),
            (Tls IDC_REPORT_UNSAFE_SITE, does ''OpenReportUnsafeSiteDialog'')]
      else []) @
     [(Tls IDC_SHOW_CHROME_LABS, does ''ShowChromeLabs''),
      (Tls IDC_SHOW_BOOKMARK_BAR, does ''ToggleBookmarkBar''),
      (Tls IDC_BOOKMARK_BAR_SUBMENU_ALWAYS_SHOW,
         does_with ''SetBookmarkBarVisibilityState'' [Name ''kAlwaysShow'']),
      (Tls IDC_BOOKMARK_BAR_SUBMENU_ALWAYS_HIDE,
         does_with ''SetBookmarkBarVisibilityState'' [Name ''kAlwaysHide'']),
      (Tls IDC_BOOKMARK_BAR_SUBMENU_ONLY_ON_NTP,
         does_with ''SetBookmarkBarVisibilityState'' [Name ''kOnlyShowOnNtp'']),
      (Tls IDC_SHOW_FULL_URLS, does ''ToggleShowFullURLs''),
      (Tls IDC_SHOW_GOOGLE_LENS_SHORTCUT, does ''ToggleShowGoogleLensShortcut''),
      (Tls IDC_SHOW_AI_MODE_OMNIBOX_BUTTON, does ''ToggleShowAiModeOmniboxButton''),
      (Tls IDC_SHOW_SEARCH_TOOLS, does ''ToggleShowSearchTools''),
      (Tls IDC_PROFILING_ENABLED, does ''Profiling::Toggle''),
      (Tls IDC_CARET_BROWSING_TOGGLE, does ''ToggleCaretBrowsing'')]"

definition switch_show :: "build \<Rightarrow> env \<Rightarrow> (command \<times> call list option) list" where
  "switch_show b e =
     [(Shw IDC_RECENT_TABS_LOGIN_FOR_DEVICE_TABS, does_with ''ShowSettingsSubPage'' [Name ''kPeopleSubPage'']),
      (Shw IDC_RECENT_TABS_SEE_DEVICE_TABS,
         does_with ''ShowHistorySubPage'' [Name ''kChromeUIHistorySyncedTabs'']),
      (Shw IDC_SHOW_BOOKMARK_MANAGER, does ''ShowBookmarkManager''),
      (Shw IDC_SHOW_BOOKMARK_SIDE_PANEL, shows_side_panel ''kBookmarks''),
      (Shw IDC_SHOW_APP_MENU, records ''Accel_Show_App_Menu'' ''ShowAppMenu''),
      (Shw IDC_SHOW_AVATAR_MENU, does ''ShowAvatarMenu''),
      (Shw IDC_SHOW_HISTORY, does ''ShowHistory''),
      (Shw IDC_SHOW_HISTORY_CLUSTERS_SIDE_PANEL, shows_side_panel ''kHistoryClusters''),
      (Shw IDC_SHOW_TABS_FROM_OTHER_DEVICES_SIDE_PANEL, shows_side_panel ''kTabsFromOtherDevices''),
      (Shw IDC_SHOW_DOWNLOADS, does ''ShowDownloads''),
      (Shw IDC_SHOW_COMMENTS_SIDE_PANEL, shows_side_panel ''kComments''),
      (Shw IDC_MANAGE_EXTENSIONS, does ''ShowExtensions''),
      (Shw IDC_SAFETY_HUB_MANAGE_EXTENSIONS, does ''ShowExtensions''),
      (Shw IDC_EXTENSIONS_SUBMENU_MANAGE_EXTENSIONS, does ''ShowExtensions''),
      (Shw IDC_EXTENSIONS_SUBMENU_VISIT_CHROME_WEB_STORE,
         does_with ''ShowWebStore'' [Name ''kAppMenuUtmSource'']),
      (Shw IDC_FIND_EXTENSIONS, does_with ''ShowWebStore'' [Name ''kAppMenuUtmSource'']),
      (Inf IDC_PERFORMANCE, does_with ''ShowSettingsSubPage'' [Name ''kPerformanceSubPage'']),
      (Inf IDC_OPTIONS, does ''ShowSettings''),
      (Inf IDC_EDIT_SEARCH_ENGINES, does ''ShowSearchEngineSettings''),
      (Inf IDC_VIEW_PASSWORDS, does_with ''NavigateToManagePasswordsPage'' [Name ''kChromeMenuItem'']),
      (Inf IDC_CLEAR_BROWSING_DATA,
         Some ((if pro e IsIncognitoProfile then [Call ''ShowIncognitoClearBrowsingDataDialog'' []]
                else [Call ''ShowClearBrowsingDataDialog'' []]) @
               (if \<not> is_android b \<and> win e BrowserViewElement
                then [Call ''NotifyCustomEvent'' [Name ''kShowClearBrowsingDataDialogEventId'']] else []))),
      (Inf IDC_IMPORT_SETTINGS, does ''ShowImportDialog''),
      (Inf IDC_TOGGLE_REQUEST_TABLET_SITE, does ''ToggleRequestTabletSite''),
      (Inf IDC_ABOUT, does ''ShowAboutChrome''),
      (Inf IDC_UPGRADE_DIALOG, does ''OpenUpdateChromeDialog''),
      (Inf IDC_OPEN_SAFETY_HUB, does_with ''ShowSettingsSubPage'' [Name ''kSafetyHubSubPage'']),
      (Inf IDC_HELP_PAGE_VIA_KEYBOARD, does_with ''ShowHelp'' [Name ''kKeyboard'']),
      (Inf IDC_HELP_PAGE_VIA_MENU, does_with ''ShowHelp'' [Name ''kMenu'']),
      (Inf IDC_CHROME_TIPS, if google_branding b then does ''ShowChromeTips'' else None),
      (Inf IDC_CHROME_WHATS_NEW,
         if google_branding b \<and> (is_win b \<or> is_mac b \<or> is_linux b)
         then does ''ShowChromeWhatsNew'' else None),
      (Inf IDC_SHOW_BETA_FORUM, does ''ShowBetaForum''),
      (Inf IDC_CHROME_ENTERPRISE_RELEASE_NOTES,
         if svc e (FeatureOn ''kEnterpriseReleaseNotes'')
         then does ''ShowChromeEnterpriseReleaseNotes'' else Some []),
      (Inf IDC_ROUTE_MEDIA, does ''RouteMediaInvokedFromAppMenu''),
      (Inf IDC_WINDOW_MUTE_SITE, does ''MuteSite''),
      (Inf IDC_WINDOW_PIN_TAB, does ''PinTab''),
      (Inf IDC_WINDOW_GROUP_TAB, does ''GroupTab'')]"

definition groups_tabs :: "string \<Rightarrow> string \<Rightarrow> call list option" where
  "groups_tabs f shortcut = Some [Call f [], Call ''UmaHistogramEnumeration'' [Name shortcut]]"

definition switch_groups :: "env \<Rightarrow> (command \<times> call list option) list" where
  "switch_groups e =
     [(Grp IDC_FOCUS_NEXT_TAB_GROUP,
         groups_tabs (if svc e RightToLeft then ''FocusPreviousTabGroup'' else ''FocusNextTabGroup'')
           ''kFocusNextTabGroup''),
      (Grp IDC_FOCUS_PREV_TAB_GROUP,
         groups_tabs (if svc e RightToLeft then ''FocusNextTabGroup'' else ''FocusPreviousTabGroup'')
           ''kFocusPrevTabGroup''),
      (Grp IDC_CLOSE_TAB_GROUP, groups_tabs ''CloseTabGroup'' ''kCloseTabGroup''),
      (Grp IDC_CREATE_NEW_TAB_GROUP, groups_tabs ''CreateNewTabGroup'' ''kCreateNewTabGroup''),
      (Grp IDC_CREATE_NEW_TAB_GROUP_TOP_LEVEL, does ''CreateNewTabGroup''),
      (Grp IDC_ADD_NEW_TAB_TO_GROUP, groups_tabs ''AddNewTabToGroup'' ''kAddNewTabToGroup''),
      (Grp IDC_GROUP_UNGROUPED_TABS,
         Some [Call ''GroupAllUngroupedTabs'' [],
           Call ''RecordAction'' [Text ''TabGroups_GroupAllUngroupedTabs'']]),
      (Grp IDC_ADD_NEW_TAB_RECENT_GROUP, does ''AddNewTabToRecentGroup''),
      (Grp IDC_UNFOCUS_TAB_GROUP, does ''UnfocusTabGroup''),
      (Grp IDC_WINDOW_CLOSE_TABS_TO_RIGHT, does ''CloseTabsToRight''),
      (Grp IDC_WINDOW_CLOSE_OTHER_TABS, does ''CloseOtherTabs''),
      (Grp IDC_SHOW_MANAGEMENT_PAGE, does_with ''ShowSingletonTab'' [Name ''GetManagedUiUrl'']),
      (Grp IDC_MUTE_TARGET_SITE, does ''MuteSiteForKeyboardFocusedTab''),
      (Grp IDC_PIN_TARGET_TAB, does ''PinKeyboardFocusedTab''),
      (Grp IDC_GROUP_TARGET_TAB, does ''GroupKeyboardFocusedTab''),
      (Grp IDC_DUPLICATE_TARGET_TAB, does ''DuplicateKeyboardFocusedTab'')]"

definition switch_apps :: "build \<Rightarrow> env \<Rightarrow> (command \<times> call list option) list" where
  "switch_apps b e =
     [(Web IDC_COPY_URL, does ''CopyURL''),
      (Web IDC_OPEN_IN_CHROME, does ''OpenInChrome''),
      (Web IDC_WEB_APP_SETTINGS,
         if is_chromeos b then Some []
         else if \<not> app e AppController then None
         else does_with ''ShowWebAppSettings'' [Name ''app_id'', Name ''kBrowserCommand'']),
      (Web IDC_WEB_APP_MENU_APP_INFO,
         if tab e ActiveWebContents
         then does_with ''ShowPageInfoDialog'' [Name ''AppInfoDialogClosedCallback'', Name ''kAppMenuButton'']
         else Some []),
      (Web IDC_DEBUG_TOGGLE_TABLET_MODE,
         does_with ''ExecuteUIDebugCommand'' [Name ''DEBUG_TOGGLE_TABLET_MODE'']),
      (Web IDC_DEBUG_PRINT_VIEW_TREE, does_with ''ExecuteUIDebugCommand'' [Name ''DEBUG_PRINT_VIEW_TREE'']),
      (Web IDC_DEBUG_PRINT_VIEW_TREE_DETAILS,
         does_with ''ExecuteUIDebugCommand'' [Name ''DEBUG_PRINT_VIEW_TREE_DETAILS'']),
      (Web IDC_CONTENT_CONTEXT_LENS_OVERLAY, does ''ExecLensOverlay'')] @
     (if lens_branded b
      then [(Web IDC_CONTENT_CONTEXT_LENS_REGION_SEARCH, does ''ExecLensRegionSearch'')] else []) @
     [(Web IDC_READING_LIST_MENU_ADD_TAB, does ''MoveCurrentTabToReadLater''),
      (Web IDC_READING_LIST_MENU_SHOW_UI, shows_side_panel ''kReadingList''),
      (Web IDC_SHOW_READING_MODE_SIDE_PANEL, does_with ''ReadAnything::ShowUI'' [Name ''kAppMenu'']),
      (Web IDC_SHOW_READING_MODE_KEYBOARD, does_with ''ReadAnything::ToggleUI'' [Name ''kKeyboardShortcut'']),
      (Web IDC_SHOW_CUSTOMIZE_CHROME_SIDE_PANEL, customize_side_panel e ''kAppMenu'' ''kAppearance''),
      (Web IDC_SHOW_CUSTOMIZE_CHROME_TOOLBAR, customize_side_panel e ''kAppMenu'' ''kToolbar'')]"

text \<open>Where other browsers open their profile picker, this one navigates to its own page.\<close>

definition switch_profiles :: "build \<Rightarrow> env \<Rightarrow> (command \<times> call list option) list" where
  "switch_profiles b e =
     (if \<not> is_chromeos b
      then [(Prf IDC_CUSTOMIZE_CHROME, does_with ''ShowSettingsSubPage'' [Name ''kManageProfileSubPage'']),
            (Prf IDC_CLOSE_PROFILE,
               if pro e IsIncognitoProfile then does ''CloseAllBrowsersWithIncognitoProfile''
               else does ''CloseProfileWindows''),
            (Prf IDC_MANAGE_GOOGLE_ACCOUNT,
               if dcheck_is_on b \<and> \<not> pro e PrimaryAccount then None
               else does ''NavigateToGoogleAccountPage''),
            (Prf IDC_OPEN_GUEST_PROFILE, does ''SwitchToGuestProfile''),
            (Prf IDC_ADD_NEW_PROFILE,
               does_with ''ProfilePicker::Show'' [Name ''kAppMenuProfileSubMenuAddNewProfile'']),
            (Prf IDC_MANAGE_CHROME_PROFILES,
               does_with ''Navigate'' [Text ''purecloak://purecloak/'', Name ''PAGE_TRANSITION_TYPED'',
                 Name ''CURRENT_TAB''])]
      else []) @
     (if \<not> is_android b \<and> \<not> is_chromeos b
      then [(Prf IDC_SET_BROWSER_AS_DEFAULT,
               Some [Call ''StartSetAsDefault'' [], Call ''UpdatePrefsForDismissedPrompt'' [],
                 Call ''CloseAllPrompts'' [Name ''kAccept'']])] else []) @
     [(Prf IDC_GLIC_TOGGLE_PIN, toggles_pref e ''kGlicPinnedToTabstrip''),
      (Prf IDC_OPEN_GLIC,
         if svc e GlicService then does_with ''ToggleUI'' [Bool True, Name ''kThreeDotsMenu'']
         else Some [])]"

definition switch_table ::
  "build \<Rightarrow> env \<Rightarrow> string \<Rightarrow> int \<Rightarrow> bool \<Rightarrow> call list option \<Rightarrow> (command \<times> call list option) list" where
  "switch_table b e disposition time_stamp stop_enabled execute_stop =
     switch_navigation disposition @ switch_window e time_stamp @
     switch_platform b e @ switch_page b e @ switch_edit b e stop_enabled execute_stop @
     switch_tools b @ switch_show b e @ switch_groups e @ switch_apps b e @ switch_profiles b e"

text \<open>\<open>default:\<close> only logs.\<close>

definition dispatch ::
  "build \<Rightarrow> env \<Rightarrow> string \<Rightarrow> int \<Rightarrow> bool \<Rightarrow> call list option \<Rightarrow> command \<Rightarrow> call list option" where
  "dispatch b e disposition time_stamp stop_enabled execute_stop i =
     (case map_of (switch_table b e disposition time_stamp stop_enabled execute_stop) i of
        None \<Rightarrow> Some [] | Some r \<Rightarrow> r)"

subsection \<open>Executing\<close>

text \<open>
  The result says whether the command was enabled. \<open>IDC_CLOSE_FIND_OR_STOP\<close> executes \<open>IDC_STOP\<close> by
  the same function, whose guards are the same but for the enabled state of \<open>IDC_STOP\<close>.
\<close>

definition guarded ::
  "'u updater \<Rightarrow> env \<Rightarrow> call list option \<Rightarrow> command \<Rightarrow> 'u command_controller \<Rightarrow> (call list \<times> bool) option" where
  "guarded U e body i s =
     (if \<not> supports_command U s i \<or> \<not> is_enabled U s i then Some ([], False)
      else if \<not> tab e ActiveTab then Some ([], True)
      else map_option (\<lambda>l. (l, True)) body)"

definition execute_command_with_disposition ::
  "'u updater \<Rightarrow> build \<Rightarrow> env \<Rightarrow> command \<Rightarrow> string \<Rightarrow> int \<Rightarrow> 'u command_controller \<Rightarrow> ('u command_controller \<times> bool) option" where
  "execute_command_with_disposition U b e i disposition time_stamp s =
     (let execute_stop = map_option fst (guarded U e (does ''Stop'') (Nav IDC_STOP) s);
          body = dispatch b e disposition time_stamp (is_enabled U s (Nav IDC_STOP)) execute_stop i
      in map_option (\<lambda>(l, r). (calls l s, r)) (guarded U e body i s))"

definition execute_command ::
  "'u updater \<Rightarrow> build \<Rightarrow> env \<Rightarrow> command \<Rightarrow> int \<Rightarrow> 'u command_controller \<Rightarrow> ('u command_controller \<times> bool) option" where
  "execute_command U b e i time_stamp s =
     execute_command_with_disposition U b e i ''CURRENT_TAB'' time_stamp s"

end
