(* ===== verification/Command_Events.thy ===== *)
theory Command_Events
  imports Command_Execute "HOL-Library.Monad_Syntax"
begin

text \<open>
  \<open>chrome/browser/ui/browser_command_controller.cc\<close>, the life of a controller: its construction, with
  what it subscribes to, and the events that reach it afterwards, in any order and each in an
  environment of its own. A step has no result where the process stops: a \<open>DCHECK\<close> that fails in a
  build that has them, or a command whose execution stops it.
\<close>

subsection \<open>Construction\<close>

definition local_pref_handlers :: "env \<Rightarrow> (string \<times> handler) list" where
  "local_pref_handlers e =
     (if pro e LocalState then [(''kAllowFileSelectionDialogs'', OnFileSelectionDialogs)] else [])"

definition profile_pref_handlers :: "build \<Rightarrow> env \<Rightarrow> (string \<times> handler) list" where
  "profile_pref_handlers b e =
     (if \<not> svc e (FeatureOn ''kDevToolsShowPolicyDialog'')
      then [(''kDevToolsAvailability'', OnDevTools),
            (''kDeveloperToolsAvailabilityAllowlist'', OnDevTools),
            (''kDeveloperToolsAvailabilityBlocklist'', OnDevTools)] else []) @
     [(''kEditBookmarksEnabled'', OnBookmarkEditing),
      (''kShowBookmarkBar'', OnBookmarkBar),
      (''kBookmarkBarVisibilityState'', OnBookmarkBar),
      (''kIncognitoModeAvailability'', OnIncognitoAvailability)] @
     (if enable_printing b then [(''kPrintingEnabled'', OnPrintingState)] else []) @
     [(''kDownloadRestrictions'', OnSaveAs)] @
     (if \<not> is_mac b then [(''kFullscreenAllowed'', OnFullscreenMode)] else [])"

text \<open>The instance coordinator calls back while it is being subscribed to.\<close>

definition construct :: "'u updater \<Rightarrow> build \<Rightarrow> env \<Rightarrow> 'u command_controller option" where
  "construct U b e =
     (let glic = (svc e GlicGlobal \<and> svc e GlicService);
          s = \<lparr>cc_updater = up_init U, cc_locked = False,
               cc_prefs = local_pref_handlers e @ profile_pref_handlers b e,
               cc_glic_allowed = glic, cc_glic_active = glic,
               cc_bookmark_load = False, cc_restore = False, cc_calls = []\<rparr>;
          s = (if glic then update_glic U e s else s)
      in do {
           s \<leftarrow> init_command_state U b e s;
           let s = s\<lparr>cc_bookmark_load := pro e BookmarkModel\<rparr>;
           let s = s\<lparr>cc_restore := pro e RestoreService\<rparr>;
           Some (if pro e RestoreService \<and> \<not> pro e RestoreLoaded
                 then calls [Call ''LoadTabsFromLastSession'' []] s else s)
         })"

subsection \<open>Locked fullscreen\<close>

definition non_allowlisted_disabled :: "'u updater \<Rightarrow> 'u command_controller \<Rightarrow> bool" where
  "non_allowlisted_disabled U s =
     list_all (\<lambda>i. i \<in> set [Edt IDC_CUT, Edt IDC_COPY, Edt IDC_PASTE] \<or> \<not> is_enabled U s i)
       (up_ids U (cc_updater s))"

definition enter_locked ::
  "'u updater \<Rightarrow> build \<Rightarrow> env \<Rightarrow> 'u command_controller \<Rightarrow> 'u command_controller" where
  "enter_locked U b e s =
     (let s = s\<lparr>cc_updater := up_disable_all U (cc_updater s)\<rparr>
      in update_content_restriction U b e s)"

definition allow_on_task ::
  "'u updater \<Rightarrow> env \<Rightarrow> 'u command_controller \<Rightarrow> 'u command_controller" where
  "allow_on_task U e s =
     (if win e LockedForOnTask
      then update_find U e (update_cmds U
             [(Wnd IDC_SELECT_NEXT_TAB, win e FeatureTabStrip),
              (Wnd IDC_SELECT_PREVIOUS_TAB, win e FeatureTabStrip)] s)
      else s)"

definition update_locked_fullscreen ::
  "'u updater \<Rightarrow> build \<Rightarrow> env \<Rightarrow> 'u command_controller \<Rightarrow> 'u command_controller option" where
  "update_locked_fullscreen U b e s =
     (let locked = win e LockedFullscreen
      in if locked = cc_locked s then (if dcheck_is_on b then None else Some s)
      else
        let s = s\<lparr>cc_locked := locked\<rparr>
        in if \<not> locked then init_command_state U b e s
        else
          let s = enter_locked U b e s
          in if dcheck_is_on b \<and> \<not> non_allowlisted_disabled U s then None
             else Some (allow_on_task U e s))"

subsection \<open>Events\<close>

datatype event =
    TabStateChanged
  | ZoomStateChanged
  | ContentRestrictionsChanged
  | FullscreenStateChanged
  | LockedFullscreenStateChanged
  | PrintingStateChanged
  | LoadingStateChanged bool bool
  | FindBarVisibilityChanged
  | ExtensionStateChanged
  | TabKeyboardFocusChangedTo "int option"
  | WebContentsFocusChanged
  | UpdateCommandEnabled command bool
  | TabStripChanged
  | TabChangedAt bool
  | TabRestoreServiceChanged

datatype outer_event =
    TabRestoreServiceDestroyed
  | PrefChanged string
  | GlicAllowedChanged
  | GlicActiveInstanceChanged
  | BookmarkModelLoaded
  | ExecuteCommand command string int

definition on_tab_changed_at ::
  "'u updater \<Rightarrow> build \<Rightarrow> env \<Rightarrow> bool \<Rightarrow> 'u command_controller \<Rightarrow> 'u command_controller" where
  "on_tab_changed_at U b e blocked_only s =
     (if blocked_only
      then update_media_router U e (update_find U e (update_fullscreen U b e (update_printing U b e s)))
      else s)"

definition find_bar_visibility_changed ::
  "'u updater \<Rightarrow> build \<Rightarrow> env \<Rightarrow> 'u command_controller \<Rightarrow> 'u command_controller" where
  "find_bar_visibility_changed U b e s =
     (if frozen b e s then s else update_close_find_or_stop U e s)"

text \<open>The tab strip reports a changed model, a changed group and a pinned tab alike.\<close>

fun window_event ::
  "'u updater \<Rightarrow> build \<Rightarrow> env \<Rightarrow> event \<Rightarrow> 'u command_controller \<Rightarrow> 'u command_controller option" where
  "window_event U b e TabStateChanged s =
     Some (update_web_contents_focus U b e (update_tab_state U b e s))"
| "window_event U b e ZoomStateChanged s = Some (update_zoom U e s)"
| "window_event U b e ContentRestrictionsChanged s = Some (update_content_restriction U b e s)"
| "window_event U b e FullscreenStateChanged s = Some (update_fullscreen U b e s)"
| "window_event U b e LockedFullscreenStateChanged s =
     (if is_chromeos b then update_locked_fullscreen U b e s else Some s)"
| "window_event U b e PrintingStateChanged s = Some (update_printing U b e s)"
| "window_event U b e (LoadingStateChanged is_loading force) s =
     Some (update_reload_stop U b e is_loading force s)"
| "window_event U b e FindBarVisibilityChanged s = Some (find_bar_visibility_changed U b e s)"
| "window_event U b e ExtensionStateChanged s = Some (update_bookmark_editing U e s)"
| "window_event U b e (TabKeyboardFocusChangedTo i) s = Some (update_tab_keyboard_focus U e i s)"
| "window_event U b e WebContentsFocusChanged s = Some (update_web_contents_focus U b e s)"
| "window_event U b e (UpdateCommandEnabled i state) s =
     Some (fst (update_command_enabled U b e i state s))"
| "window_event U b e TabStripChanged s = Some (update_tab_strip U e s)"
| "window_event U b e (TabChangedAt blocked_only) s = Some (on_tab_changed_at U b e blocked_only s)"
| "window_event U b e TabRestoreServiceChanged s =
     Some (if cc_restore s then update_tab_restore U e s else s)"

fun run_handler ::
  "'u updater \<Rightarrow> build \<Rightarrow> env \<Rightarrow> handler \<Rightarrow> 'u command_controller \<Rightarrow> 'u command_controller" where
  "run_handler U b e OnFileSelectionDialogs s = update_file_selection U e s"
| "run_handler U b e OnDevTools s = update_dev_tools U b e s"
| "run_handler U b e OnBookmarkEditing s = update_bookmark_editing U e s"
| "run_handler U b e OnBookmarkBar s = update_bookmark_bar U e s"
| "run_handler U b e OnIncognitoAvailability s = update_incognito U e s"
| "run_handler U b e OnPrintingState s = update_printing U b e s"
| "run_handler U b e OnSaveAs s = update_save_as U e s"
| "run_handler U b e OnFullscreenMode s = update_fullscreen U b e s"

fun service_event ::
  "'u updater \<Rightarrow> build \<Rightarrow> env \<Rightarrow> outer_event \<Rightarrow> 'u command_controller \<Rightarrow> 'u command_controller option" where
  "service_event U b e TabRestoreServiceDestroyed s = Some (s\<lparr>cc_restore := False\<rparr>)"
| "service_event U b e (PrefChanged p) s =
     Some (case map_of (cc_prefs s) p of None \<Rightarrow> s | Some h \<Rightarrow> run_handler U b e h s)"
| "service_event U b e GlicAllowedChanged s =
     Some (if cc_glic_allowed s then update_enable_glic U e s else s)"
| "service_event U b e GlicActiveInstanceChanged s =
     Some (if cc_glic_active s then update_glic U e s else s)"
| "service_event U b e BookmarkModelLoaded s =
     Some (if cc_bookmark_load s then update_bookmark_editing U e (s\<lparr>cc_bookmark_load := False\<rparr>) else s)"
| "service_event U b e (ExecuteCommand i disposition time_stamp) s =
     map_option fst (execute_command_with_disposition U b e i disposition time_stamp s)"

datatype controller_event = Browser event | Service outer_event

fun controller_step ::
  "'u updater \<Rightarrow> build \<Rightarrow> env \<times> controller_event \<Rightarrow> 'u command_controller \<Rightarrow> 'u command_controller option" where
  "controller_step U b (e, Browser ev) s = window_event U b e ev s"
| "controller_step U b (e, Service ev) s = service_event U b e ev s"

primrec controller_run ::
  "'u updater \<Rightarrow> build \<Rightarrow> (env \<times> controller_event) list \<Rightarrow> 'u command_controller \<Rightarrow> 'u command_controller option" where
  "controller_run U b [] s = Some s"
| "controller_run U b (x # xs) s = Option.bind (controller_step U b x s) (controller_run U b xs)"

subsection \<open>Destruction\<close>

text \<open>
  \<open>~BrowserCommandController\<close>; \<open>RestoreService\<close> is here whether there is still a tab restore service.
\<close>

definition destruct :: "env \<Rightarrow> 'u command_controller \<Rightarrow> 'u command_controller" where
  "destruct e s =
     (let s = (if pro e RestoreService then s\<lparr>cc_restore := False\<rparr> else s)
      in s\<lparr>cc_prefs := [], cc_glic_allowed := False\<rparr>)"

lemma destructed_is_deaf:
  "service_event U b e (PrefChanged p) (destruct e' s) = Some (destruct e' s)"
  "service_event U b e GlicAllowedChanged (destruct e' s) = Some (destruct e' s)"
  "pro e' RestoreService \<Longrightarrow> window_event U b e TabRestoreServiceChanged (destruct e' s) = Some (destruct e' s)"
  by (simp_all add: destruct_def Let_def)

subsection \<open>Keys the page cannot take\<close>

text \<open>\<open>IsReservedCommandOrKey\<close>; the key code is the one of the event's \<open>windows_key_code\<close>.\<close>

definition is_reserved_command_or_key :: "build \<Rightarrow> env \<Rightarrow> string \<Rightarrow> command \<Rightarrow> bool" where
  "is_reserved_command_or_key b e key_code command_id =
     (let is_exit_fullscreen = (command_id = Sys IDC_EXIT \<or> command_id = Wnd IDC_FULLSCREEN);
          reserved = command_id \<in> set [Wnd IDC_CLOSE_TAB, Wnd IDC_CLOSE_WINDOW, Wnd IDC_NEW_INCOGNITO_WINDOW,
            Wnd IDC_NEW_TAB, Wnd IDC_NEW_WINDOW, Wnd IDC_RESTORE_TAB, Wnd IDC_SELECT_NEXT_TAB, Wnd IDC_SELECT_PREVIOUS_TAB,
            Sys IDC_EXIT]
      in if win e TypeApp \<or> win e TypeAppPopup then False
      else if is_chromeos b \<and>
        (key_code = ''VKEY_BROWSER_BACK'' \<and> command_id = Nav IDC_BACK \<or>
         key_code = ''VKEY_BROWSER_FORWARD'' \<and> command_id = Nav IDC_FORWARD \<or>
         key_code = ''VKEY_BROWSER_REFRESH'' \<and> command_id = Nav IDC_RELOAD) then True
      else if win e Fullscreen \<and> \<not> is_mac b then is_exit_fullscreen
      else if win e Fullscreen \<and> win e ToolbarShowing \<and> command_id = Wnd IDC_FULLSCREEN then True
      else if win e Fullscreen \<and> \<not> win e ToolbarShowing then is_exit_fullscreen
      else if is_linux b \<and> can e TextEditHotkey then False
      else reserved)"

text \<open>\<open>AppInfoDialogClosedCallback\<close>: whether the page gets the focus back.\<close>

definition app_info_dialog_closed :: "string \<Rightarrow> bool \<Rightarrow> bool \<Rightarrow> bool \<Rightarrow> bool" where
  "app_info_dialog_closed closed_reason reload_prompt browser_found active_contents =
     (if reload_prompt then False
      else if closed_reason \<noteq> ''kEscKeyPressed'' \<and> closed_reason \<noteq> ''kCloseButtonClicked'' then False
      else if \<not> browser_found then False
      else active_contents)"

end
