(* ===== verification/Command_Safety.thy ===== *)
theory Command_Safety
  imports Command_Events
begin

text \<open>
  What holds of a command controller after any sequence of events. Every update is a list of ids with
  the state each gets, so a property of the enabled commands that no entry of a list breaks is kept
  by the update: the lemmas of the collection \<open>bounded\<close> carry that through the functions and leave one
  condition on the entries.
\<close>

named_theorems bounded

subsection \<open>The updater\<close>

lemma updater_lawsD:
  assumes "updater_laws U"
  shows "\<not> up_enabled U (up_init U) i"
    "up_enabled U (fst (up_update U u i b)) j = (if j = i then b else up_enabled U u j)"
    "up_supports U (fst (up_update U u i b)) j = (j = i \<or> up_supports U u j)"
    "\<not> up_enabled U (up_disable_all U u) j"
    "up_supports U (up_disable_all U u) j = up_supports U u j"
    "up_enabled U u i \<Longrightarrow> up_supports U u i"
  using assms by (simp_all add: updater_laws_def)

lemma enabled_put_cmds:
  assumes "updater_laws U"
  shows "up_enabled U (put_cmds U l u) i =
    (case map_of (rev l) i of None \<Rightarrow> up_enabled U u i | Some b \<Rightarrow> b)"
  by (induction l arbitrary: u)
    (auto simp: put_cmds_def updater_lawsD [OF assms] map_add_def split: option.splits)

lemma supports_put_cmds:
  assumes "updater_laws U"
  shows "up_supports U (put_cmds U l u) i = (i \<in> fst ` set l \<or> up_supports U u i)"
  by (induction l arbitrary: u) (auto simp: put_cmds_def updater_lawsD [OF assms])

lemma is_enabled_update_cmds:
  "updater_laws U \<Longrightarrow> is_enabled U (update_cmds U l s) i =
    (case map_of (rev l) i of None \<Rightarrow> is_enabled U s i | Some b \<Rightarrow> b)"
  by (simp add: is_enabled_def update_cmds_def enabled_put_cmds split: option.splits)

lemma is_enabled_calls [simp]: "is_enabled U (calls l s) i = is_enabled U s i"
  by (simp add: is_enabled_def calls_def)

lemma calls_fields [simp]:
  "cc_updater (calls l s) = cc_updater s" "cc_locked (calls l s) = cc_locked s"
  "cc_prefs (calls l s) = cc_prefs s" "cc_glic_allowed (calls l s) = cc_glic_allowed s"
  "cc_glic_active (calls l s) = cc_glic_active s" "cc_bookmark_load (calls l s) = cc_bookmark_load s"
  "cc_restore (calls l s) = cc_restore s"
  by (simp_all add: calls_def)

lemma update_cmds_fields [simp]:
  "cc_locked (update_cmds U l s) = cc_locked s" "cc_prefs (update_cmds U l s) = cc_prefs s"
  "cc_glic_allowed (update_cmds U l s) = cc_glic_allowed s"
  "cc_glic_active (update_cmds U l s) = cc_glic_active s"
  "cc_bookmark_load (update_cmds U l s) = cc_bookmark_load s"
  "cc_restore (update_cmds U l s) = cc_restore s" "cc_calls (update_cmds U l s) = cc_calls s"
  by (simp_all add: update_cmds_def)

subsection \<open>Bounds on the enabled commands\<close>

text \<open>
  \<open>bounds U lo hi s\<close>: the commands of \<open>lo\<close> are enabled, and only commands of \<open>hi\<close> are. An entry of a
  list honours the bounds when it neither disables one of \<open>lo\<close> nor enables one outside \<open>hi\<close>.
\<close>

definition bounds :: "'u updater \<Rightarrow> command set \<Rightarrow> command set \<Rightarrow> 'u command_controller \<Rightarrow> bool" where
  "bounds U lo hi s \<longleftrightarrow> (\<forall>i. (i \<in> lo \<longrightarrow> is_enabled U s i) \<and> (is_enabled U s i \<longrightarrow> i \<in> hi))"

definition honours :: "command set \<Rightarrow> command set \<Rightarrow> (command \<times> bool) list \<Rightarrow> bool" where
  "honours lo hi l \<longleftrightarrow> list_all (\<lambda>(i, b). (if b then i \<in> hi else i \<notin> lo)) l"

lemma honours_append [simp]: "honours lo hi (l @ m) = (honours lo hi l \<and> honours lo hi m)"
  by (simp add: honours_def)

lemma honours_Cons [simp]:
  "honours lo hi ((i, b) # l) = ((if b then i \<in> hi else i \<notin> lo) \<and> honours lo hi l)"
  by (simp add: honours_def)

lemma honours_Nil [simp]: "honours lo hi []"
  by (simp add: honours_def)

lemma honours_if [simp]:
  "honours lo hi (if c then l else m) = (if c then honours lo hi l else honours lo hi m)"
  by simp

lemma bounds_update_cmds:
  assumes "updater_laws U" "bounds U lo hi s" "honours lo hi l"
  shows "bounds U lo hi (update_cmds U l s)"
proof -
  have "(i \<in> lo \<longrightarrow> is_enabled U (update_cmds U l s) i) \<and>
        (is_enabled U (update_cmds U l s) i \<longrightarrow> i \<in> hi)" for i
  proof (cases "map_of (rev l) i")
    case None
    then show ?thesis using assms by (simp add: is_enabled_update_cmds bounds_def)
  next
    case (Some b)
    then have "(i, b) \<in> set l" by (metis map_of_SomeD set_rev)
    then show ?thesis
      using Some assms by (auto simp: is_enabled_update_cmds honours_def list_all_iff split: if_splits)
  qed
  then show ?thesis by (simp add: bounds_def)
qed

lemma bounds_calls [simp]: "bounds U lo hi (calls l s) = bounds U lo hi s"
  by (simp add: bounds_def)

lemma bounds_fields [simp]:
  "bounds U lo hi (s\<lparr>cc_locked := x\<rparr>) = bounds U lo hi s"
  "bounds U lo hi (s\<lparr>cc_bookmark_load := x\<rparr>) = bounds U lo hi s"
  "bounds U lo hi (s\<lparr>cc_restore := x\<rparr>) = bounds U lo hi s"
  by (simp_all add: bounds_def is_enabled_def)


subsection \<open>A bound that every update honours\<close>

text \<open>
  The ids that an update sets on its own, to whatever value, and the lists of the larger updates. A
  bound leaves the first alone and is honoured by the entries of the second, in the environments it
  is for.
\<close>

definition single_ids :: "command list" where
  "single_ids =
     [Pag IDC_SAVE_PAGE, Pag IDC_PRINT, Pag IDC_BASIC_PRINT, Edt IDC_OPEN_FILE, Prf IDC_OPEN_GLIC, Wnd IDC_RESTORE_TAB,
      Edt IDC_FIND, Edt IDC_FIND_NEXT, Edt IDC_FIND_PREVIOUS, Inf IDC_ROUTE_MEDIA, Pag IDC_SEND_TAB_TO_SELF,
      Pag IDC_QRCODE_GENERATOR, Pag IDC_SHOW_TRANSLATE, Nav IDC_STOP, Edt IDC_CLOSE_FIND_OR_STOP,
      Tls IDC_CARET_BROWSING_TOGGLE, Wnd IDC_SELECT_NEXT_TAB, Wnd IDC_SELECT_PREVIOUS_TAB, Tls IDC_DEV_TOOLS,
      Tls IDC_DEV_TOOLS_CONSOLE, Tls IDC_DEV_TOOLS_DEVICES, Tls IDC_DEV_TOOLS_INSPECT, Tls IDC_DEV_TOOLS_TOGGLE,
      Pag IDC_VIEW_SOURCE, Sys IDC_TOGGLE_JAVASCRIPT_APPLE_EVENTS, Grp IDC_DUPLICATE_TARGET_TAB,
      Grp IDC_MUTE_TARGET_SITE, Grp IDC_PIN_TARGET_TAB, Grp IDC_GROUP_TARGET_TAB]"

definition init_entries :: "build \<Rightarrow> env \<Rightarrow> (command \<times> bool) list" where
  "init_entries b e = init_first_cmds e @ init_window_cmds b e @ init_ui_cmds b e @ init_tab_cmds b e"

definition update_entries :: "build \<Rightarrow> env \<Rightarrow> (command \<times> bool) list" where
  "update_entries b e =
     clipboard_cmds e @ zoom_cmds e @ bookmark_editing_cmds e @ bookmark_bar_cmds e @
     shared_incognito_cmds e @ extensions_menu_cmds @ hosted_app_cmds e @ fullscreen_cmds b e @
     tab_navigation_cmds e @ tab_window_cmds e @ tab_page_cmds b e @ tab_app_cmds e @ tab_strip_cmds e"

text \<open>What others do through \<open>UpdateCommandEnabled\<close> has to honour the bound as well.\<close>

definition event_within ::
  "(env \<Rightarrow> bool) \<Rightarrow> command set \<Rightarrow> command set \<Rightarrow> env \<times> controller_event \<Rightarrow> bool" where
  "event_within good lo hi x \<longleftrightarrow>
     good (fst x) \<and>
     (case snd x of Browser (UpdateCommandEnabled i state) \<Rightarrow> honours lo hi [(i, state)] | _ \<Rightarrow> True)"

locale command_bound =
  fixes b :: build
    and lo hi :: "command set"
    and good :: "env \<Rightarrow> bool"
  assumes singles: "set single_ids \<subseteq> hi - lo"
    and settings: "Inf IDC_OPTIONS \<notin> lo" "Inf IDC_IMPORT_SETTINGS \<notin> lo"
    and inits: "good e \<Longrightarrow> honours lo hi (init_entries b e)"
    and updates: "good e \<Longrightarrow> honours lo hi (update_entries b e)"
    and unlockable: "lo = {} \<or> \<not> is_chromeos b"
begin

lemmas entries = inits [unfolded init_entries_def] updates [unfolded update_entries_def]

lemma single: "i \<in> set single_ids \<Longrightarrow> honours lo hi [(i, x)]"
  using singles by auto

lemma honours_singles:
  "honours lo hi (dev_tools_cmds b x)" "honours lo hi (tab_keyboard_focus_cmds e f)"
  "honours lo hi [(Edt IDC_FIND, x), (Edt IDC_FIND_NEXT, y), (Edt IDC_FIND_PREVIOUS, z)]"
  "honours lo hi [(Wnd IDC_SELECT_NEXT_TAB, x), (Wnd IDC_SELECT_PREVIOUS_TAB, y)]"
  "honours lo hi [(Inf IDC_IMPORT_SETTINGS, False), (Inf IDC_OPTIONS, False)]"
  using singles settings
  by (auto simp: dev_tools_cmds_def tab_keyboard_focus_cmds_def single_ids_def Let_def)

text \<open>Every update stays within the bound, in an environment it is for.\<close>

lemma bounds_single:
  "updater_laws U \<Longrightarrow> bounds U lo hi s \<Longrightarrow> i \<in> set single_ids \<Longrightarrow>
    bounds U lo hi (update_cmds U [(i, x)] s)"
  by (rule bounds_update_cmds [OF _ _ single])

lemma bounds_command_and_action:
  "updater_laws U \<Longrightarrow> bounds U lo hi s \<Longrightarrow> i \<in> set single_ids \<Longrightarrow>
    bounds U lo hi (update_command_and_action U e i a x s)"
  by (simp add: update_command_and_action_def bounds_single Let_def)

lemma bounds_small:
  assumes "updater_laws U" "bounds U lo hi s"
  shows "bounds U lo hi (update_save_as U e s)" "bounds U lo hi (update_printing U b e s)"
    "bounds U lo hi (update_dev_tools U b e s)" "bounds U lo hi (update_tab_restore U e s)"
    "bounds U lo hi (update_find U e s)" "bounds U lo hi (update_media_router U e s)"
    "bounds U lo hi (update_tab_keyboard_focus U e f s)"
    "bounds U lo hi (update_web_contents_focus U b e s)" "bounds U lo hi (update_glic U e s)"
    "bounds U lo hi (update_enable_glic U e s)" "bounds U lo hi (update_close_find_or_stop U e s)"
    "bounds U lo hi (update_file_selection U e s)"
    "bounds U lo hi (update_reload_stop U b e is_loading force s)"
    "bounds U lo hi (find_bar_visibility_changed U b e s)"
  by (simp_all add: assms update_save_as_def update_printing_def update_dev_tools_def
      update_tab_restore_def update_find_def update_media_router_def update_tab_keyboard_focus_def
      update_web_contents_focus_def update_glic_def update_enable_glic_def
      update_close_find_or_stop_def update_file_selection_def update_reload_stop_def
      find_bar_visibility_changed_def bounds_single bounds_command_and_action single_ids_def
      bounds_update_cmds honours_singles Let_def del: honours_Cons)

lemma bounds_lists:
  assumes "updater_laws U" "bounds U lo hi s" "good e"
  shows "bounds U lo hi (update_content_restriction U b e s)" "bounds U lo hi (update_zoom U e s)"
    "bounds U lo hi (update_bookmark_editing U e s)" "bounds U lo hi (update_bookmark_bar U e s)"
    "bounds U lo hi (update_incognito U e s)" "bounds U lo hi (update_extensions_menu U s)"
    "bounds U lo hi (update_cmds U (hosted_app_cmds e) s)"
    "bounds U lo hi (update_cmds U (fullscreen_cmds b e) s)"
    "bounds U lo hi (update_tab_strip U e s)"
  using entries [OF assms(3)]
  by (simp_all add: assms update_content_restriction_def update_zoom_def update_bookmark_editing_def
      update_bookmark_bar_def update_incognito_def update_extensions_menu_def update_tab_strip_def
      bounds_update_cmds bounds_small honours_singles Let_def del: honours_Cons)

lemma bounds_fullscreen:
  assumes "updater_laws U" "bounds U lo hi s" "good e"
  shows "bounds U lo hi (update_fullscreen U b e s)"
  by (simp add: assms update_fullscreen_def bounds_lists Let_def)

lemma bounds_tab_state:
  assumes "updater_laws U" "bounds U lo hi s" "good e"
  shows "bounds U lo hi (update_tab_state U b e s)"
proof -
  have page: "bounds U lo hi (update_tab_page U b e s)" if "bounds U lo hi s" for s
    using entries [OF assms(3)] that
    by (simp add: assms update_tab_page_def Let_def bounds_small bounds_lists bounds_update_cmds
        bounds_command_and_action bounds_single single_ids_def del: honours_Cons)
  show ?thesis
    using entries [OF assms(3)]
    by (simp add: assms update_tab_state_def Let_def bounds_update_cmds page)
qed

lemma bounds_init:
  assumes "updater_laws U" "bounds U lo hi s" "good e"
    and "init_command_state U b e s = Some t"
  shows "bounds U lo hi t"
proof -
  have "bounds U lo hi (init_all_commands U b e s)"
    using entries [OF assms(3)]
    by (simp add: init_all_commands_def Let_def assms(1-3) bounds_small bounds_lists [OF _ _ assms(3)]
        bounds_update_cmds bounds_fullscreen bounds_single honours_singles single_ids_def
        del: honours_Cons)
  then show ?thesis
    using assms(2,4) by (auto simp: init_command_state_def split: if_split_asm)
qed

lemma bounds_locked:
  assumes laws: "updater_laws U" and s: "bounds U lo hi s" and e: "good e"
    and r: "update_locked_fullscreen U b e s = Some t" and lo: "lo = {}"
  shows "bounds U lo hi t"
proof -
  have off: "bounds U lo hi (u\<lparr>cc_updater := up_disable_all U (cc_updater u)\<rparr>)" for u
    by (simp add: bounds_def is_enabled_def lo updater_lawsD [OF laws])
  have "bounds U lo hi (allow_on_task U e (enter_locked U b e u))" for u
    by (simp add: enter_locked_def allow_on_task_def laws e off bounds_small bounds_lists
        bounds_update_cmds honours_singles Let_def del: honours_Cons)
  moreover have "bounds U lo hi t" if "init_command_state U b e (s\<lparr>cc_locked := False\<rparr>) = Some t"
    by (rule bounds_init [OF laws _ e that]) (simp add: s)
  ultimately show ?thesis
    using r s by (auto simp: update_locked_fullscreen_def Let_def split: if_split_asm)
qed

text \<open>A bound that the entries for the user interface establish holds after initialisation.\<close>

lemma bounds_init_fresh:
  assumes "updater_laws U" "good e" "\<And>s. bounds U lo hi (update_cmds U (init_ui_cmds b e) s)"
  shows "bounds U lo hi (init_all_commands U b e s)"
  using entries [OF assms(2)]
  by (simp add: init_all_commands_def Let_def assms bounds_small bounds_lists [OF _ _ assms(2)]
      bounds_update_cmds bounds_fullscreen honours_singles del: honours_Cons)

lemma bounds_browser_event:
  assumes laws: "updater_laws U" and s: "bounds U lo hi s"
    and ok: "event_within good lo hi (e, Browser ev)" and r: "window_event U b e ev s = Some t"
  shows "bounds U lo hi t"
proof -
  have e: "good e" using ok by (simp add: event_within_def)
  note small = bounds_small [OF laws] bounds_lists [OF laws _ e] bounds_fullscreen [OF laws _ e]
    bounds_tab_state [OF laws _ e]
  show ?thesis
  proof (cases ev)
    case LockedFullscreenStateChanged
    then show ?thesis
      using r s unlockable bounds_locked [OF laws s e, of t] by (auto split: if_split_asm)
  next
    case (UpdateCommandEnabled i x)
    have "bounds U lo hi (update_cmds U [(i, x)] s)"
      using ok UpdateCommandEnabled by (intro bounds_update_cmds [OF laws s]) (simp add: event_within_def)
    then show ?thesis
      using r s UpdateCommandEnabled
      by (auto simp: update_command_enabled_def update_cmds_def put_cmds_def split: prod.splits if_splits)
  qed (use r s in \<open>auto simp: on_tab_changed_at_def small split: if_split_asm\<close>)
qed

lemma bounds_outer_event:
  assumes laws: "updater_laws U" and s: "bounds U lo hi s" and e: "good e"
    and r: "service_event U b e ev s = Some t"
  shows "bounds U lo hi t"
proof -
  note small = bounds_small [OF laws] bounds_lists [OF laws _ e] bounds_fullscreen [OF laws _ e]
  have h: "bounds U lo hi (run_handler U b e h s)" for h
    by (cases h) (simp_all add: small s)
  show ?thesis
    using r s
    by (cases ev) (auto simp: small h execute_command_with_disposition_def Let_def
        split: option.split_asm if_split_asm)
qed

lemma bounds_run:
  assumes "updater_laws U" "bounds U lo hi s" "list_all (event_within good lo hi) xs"
    and "controller_run U b xs s = Some t"
  shows "bounds U lo hi t"
  using assms(2-)
proof (induction xs arbitrary: s)
  case (Cons x xs)
  obtain e ev where x: "x = (e, ev)" by (cases x)
  obtain u where u: "controller_step U b x s = Some u" "controller_run U b xs u = Some t"
    using Cons.prems(3) by (auto split: Option.bind_splits)
  have "bounds U lo hi u"
    using u(1) Cons.prems(1,2)
    by (cases ev) (auto simp: x event_within_def intro: bounds_outer_event [OF assms(1)]
        bounds_browser_event [OF assms(1), unfolded event_within_def])
  then show ?case using Cons.IH Cons.prems(2) u(2) by simp
qed simp

lemma bounds_construct:
  assumes laws: "updater_laws U" and e: "good e" and lo: "lo = {}"
    and r: "construct U b e = Some t"
  shows "bounds U lo hi t"
proof -
  have none: "bounds U lo hi s" if "cc_updater s = up_init U" for s
    using that by (simp add: bounds_def is_enabled_def lo updater_lawsD [OF laws])
  show ?thesis
    using r by (auto simp: construct_def Let_def none bounds_small laws split: Option.bind_splits if_splits
        dest!: bounds_init [OF laws _ e, rotated])
qed

end


subsection \<open>Locked fullscreen\<close>

lemma locked_kept:
  "cc_locked (update_save_as U e s) = cc_locked s" "cc_locked (update_printing U b e s) = cc_locked s"
  "cc_locked (update_dev_tools U b e s) = cc_locked s" "cc_locked (update_tab_restore U e s) = cc_locked s"
  "cc_locked (update_find U e s) = cc_locked s" "cc_locked (update_media_router U e s) = cc_locked s"
  "cc_locked (update_tab_keyboard_focus U e f s) = cc_locked s"
  "cc_locked (update_web_contents_focus U b e s) = cc_locked s"
  "cc_locked (update_glic U e s) = cc_locked s" "cc_locked (update_enable_glic U e s) = cc_locked s"
  "cc_locked (update_close_find_or_stop U e s) = cc_locked s"
  "cc_locked (update_file_selection U e s) = cc_locked s"
  "cc_locked (update_reload_stop U b e is_loading force s) = cc_locked s"
  "cc_locked (find_bar_visibility_changed U b e s) = cc_locked s"
  "cc_locked (update_content_restriction U b e s) = cc_locked s" "cc_locked (update_zoom U e s) = cc_locked s"
  "cc_locked (update_bookmark_editing U e s) = cc_locked s"
  "cc_locked (update_bookmark_bar U e s) = cc_locked s" "cc_locked (update_incognito U e s) = cc_locked s"
  "cc_locked (update_extensions_menu U s) = cc_locked s" "cc_locked (update_tab_strip U e s) = cc_locked s"
  by (simp_all add: update_save_as_def update_printing_def update_dev_tools_def update_tab_restore_def
      update_find_def update_media_router_def update_tab_keyboard_focus_def
      update_web_contents_focus_def update_glic_def update_enable_glic_def update_close_find_or_stop_def
      update_file_selection_def update_reload_stop_def find_bar_visibility_changed_def
      update_content_restriction_def update_zoom_def update_bookmark_editing_def
      update_bookmark_bar_def update_incognito_def update_extensions_menu_def update_tab_strip_def
      update_command_and_action_def Let_def)

lemma locked_kept_large:
  "cc_locked (update_fullscreen U b e s) = cc_locked s"
  "cc_locked (update_tab_state U b e s) = cc_locked s"
  "cc_locked (on_tab_changed_at U b e blocked_only s) = cc_locked s"
  "cc_locked (init_all_commands U b e s) = cc_locked s"
  "cc_locked (enter_locked U b e s) = cc_locked s"
  "cc_locked (allow_on_task U e s) = cc_locked s"
  "cc_locked (run_handler U b e h s) = cc_locked s"
  by (simp_all add: locked_kept update_fullscreen_def update_tab_state_def update_tab_page_def
      on_tab_changed_at_def init_all_commands_def enter_locked_def allow_on_task_def Let_def
      update_command_and_action_def) (cases h; simp add: locked_kept update_fullscreen_def Let_def)

text \<open>
  The commands that are enabled at some time in locked fullscreen: the clipboard, which the source
  allows on purpose, and those whose updates have no early return.
\<close>

definition locked_commands :: "command list" where
  "locked_commands =
     [Edt IDC_CUT, Edt IDC_COPY, Edt IDC_PASTE, Edt IDC_FIND, Edt IDC_FIND_NEXT, Edt IDC_FIND_PREVIOUS, Edt IDC_ZOOM_PLUS,
      Edt IDC_ZOOM_NORMAL, Edt IDC_ZOOM_MINUS, Grp IDC_DUPLICATE_TARGET_TAB, Grp IDC_MUTE_TARGET_SITE,
      Grp IDC_PIN_TARGET_TAB, Grp IDC_GROUP_TARGET_TAB, Prf IDC_OPEN_GLIC]"

abbreviation locked_bound :: "'u updater \<Rightarrow> 'u command_controller \<Rightarrow> bool" where
  "locked_bound U s \<equiv> (cc_locked s \<longrightarrow> bounds U {} (set locked_commands) s)"

lemma honours_locked:
  "honours {} (set locked_commands) (clipboard_cmds e)"
  "honours {} (set locked_commands) (zoom_cmds e)"
  "honours {} (set locked_commands) (tab_keyboard_focus_cmds e f)"
  "honours {} (set locked_commands) [(Prf IDC_OPEN_GLIC, x)]"
  "honours {} (set locked_commands) [(Edt IDC_FIND, x), (Edt IDC_FIND_NEXT, y), (Edt IDC_FIND_PREVIOUS, z)]"
  by (simp_all add: locked_commands_def clipboard_cmds_def zoom_cmds_def tab_keyboard_focus_cmds_def
      Let_def)

lemma locked_updates:
  assumes "updater_laws U" "cc_locked s" "bounds U {} (set locked_commands) s"
  shows "bounds U {} (set locked_commands) (update_content_restriction U b e s)"
    "bounds U {} (set locked_commands) (update_zoom U e s)"
    "bounds U {} (set locked_commands) (update_find U e s)"
    "bounds U {} (set locked_commands) (update_tab_keyboard_focus U e f s)"
    "bounds U {} (set locked_commands) (update_glic U e s)"
    "bounds U {} (set locked_commands) (update_enable_glic U e s)"
  by (simp_all add: assms update_content_restriction_def update_zoom_def update_find_def
      update_tab_keyboard_focus_def update_glic_def update_enable_glic_def update_save_as_def
      update_printing_def bounds_update_cmds honours_locked Let_def del: honours_Cons)

lemma locked_guarded:
  assumes "cc_locked s"
  shows "update_save_as U e s = s" "update_printing U b e s = s" "update_dev_tools U b e s = s"
    "update_tab_restore U e s = s" "update_media_router U e s = s" "update_file_selection U e s = s"
    "update_bookmark_editing U e s = s" "update_bookmark_bar U e s = s" "update_incognito U e s = s"
    "update_extensions_menu U s = s" "update_tab_strip U e s = s" "update_fullscreen U b e s = s"
    "\<not> win e LockedForOnTask \<Longrightarrow> frozen b e s"
  by (simp_all add: assms update_save_as_def update_printing_def update_dev_tools_def
      update_tab_restore_def update_media_router_def update_file_selection_def
      update_bookmark_editing_def update_bookmark_bar_def update_incognito_def
      update_extensions_menu_def update_tab_strip_def update_fullscreen_def frozen_def)

lemma enter_locked_bound:
  assumes "updater_laws U" "cc_locked s"
  shows "bounds U {} {Edt IDC_CUT, Edt IDC_COPY, Edt IDC_PASTE} (enter_locked U b e s)"
proof -
  have "bounds U {} {Edt IDC_CUT, Edt IDC_COPY, Edt IDC_PASTE} (s\<lparr>cc_updater := up_disable_all U (cc_updater s)\<rparr>)"
    by (simp add: bounds_def is_enabled_def updater_lawsD [OF assms(1)])
  moreover have "honours {} {Edt IDC_CUT, Edt IDC_COPY, Edt IDC_PASTE} (clipboard_cmds e)"
    by (simp add: clipboard_cmds_def)
  ultimately show ?thesis
    using assms by (simp add: enter_locked_def update_content_restriction_def locked_guarded
        bounds_update_cmds Let_def)
qed

lemma enter_locked_checked:
  "updater_laws U \<Longrightarrow> cc_locked s \<Longrightarrow> non_allowlisted_disabled U (enter_locked U b e s)"
  using enter_locked_bound [of U s b e] by (auto simp: non_allowlisted_disabled_def bounds_def list_all_iff)

lemma bounds_mono: "bounds U lo hi s \<Longrightarrow> lo' \<subseteq> lo \<Longrightarrow> hi \<subseteq> hi' \<Longrightarrow> bounds U lo' hi' s"
  by (auto simp: bounds_def)

lemma locked_browser_event:
  assumes laws: "updater_laws U" and task: "\<not> win e LockedForOnTask" and mac: "\<not> is_mac b"
    and s: "locked_bound U s" and r: "window_event U b e ev s = Some t"
  shows "locked_bound U t"
proof (cases "ev = LockedFullscreenStateChanged")
  case True
  have "bounds U {} (set locked_commands) (enter_locked U b e (s\<lparr>cc_locked := True\<rparr>))"
    by (rule bounds_mono [OF enter_locked_bound [OF laws]]) (simp_all add: locked_commands_def)
  then show ?thesis
    using True r s task
    by (auto simp: update_locked_fullscreen_def allow_on_task_def init_command_state_def
        locked_kept_large Let_def split: if_split_asm)
next
  case False
  show ?thesis
  proof (cases "cc_locked s")
    case True
    then have b: "bounds U {} (set locked_commands) s" using s by simp
    show ?thesis
      using r task mac False b True
      by (cases ev) (auto simp: locked_guarded locked_updates laws update_tab_state_def
          update_web_contents_focus_def update_reload_stop_def find_bar_visibility_changed_def
          update_command_enabled_def on_tab_changed_at_def locked_kept)
  next
    case unlocked: False
    then show ?thesis
      using r False
      by (cases ev) (auto simp: locked_kept locked_kept_large update_command_enabled_def
          split: prod.splits if_splits)
  qed
qed

lemma locked_outer_event:
  assumes laws: "updater_laws U" and s: "locked_bound U s" and r: "service_event U b e ev s = Some t"
  shows "locked_bound U t"
proof (cases "cc_locked s")
  case True
  then have b: "bounds U {} (set locked_commands) s" using s by simp
  have "bounds U {} (set locked_commands) (run_handler U b e h s)" for h
    using True b by (cases h) (simp_all add: locked_guarded)
  then show ?thesis
    using r b True
    by (cases ev) (auto simp: locked_guarded locked_updates laws
        execute_command_with_disposition_def Let_def split: option.split_asm if_split_asm)
next
  case False
  then show ?thesis
    using r by (cases ev) (auto simp: locked_kept locked_kept_large execute_command_with_disposition_def
        Let_def split: option.split_asm if_split_asm)
qed

lemma locked_run:
  assumes "updater_laws U" "\<not> is_mac b" "\<forall>x\<in>set xs. \<not> win (fst x) LockedForOnTask"
    and "locked_bound U s" "controller_run U b xs s = Some t"
  shows "locked_bound U t"
  using assms(3-)
proof (induction xs arbitrary: s)
  case (Cons x xs)
  obtain e ev where x: "x = (e, ev)" by (cases x)
  obtain u where u: "controller_step U b x s = Some u" "controller_run U b xs u = Some t"
    using Cons.prems(3) by (auto split: Option.bind_splits)
  have "locked_bound U u"
  proof (cases ev)
    case (Browser bev)
    show ?thesis
      by (rule locked_browser_event [OF assms(1) _ assms(2) Cons.prems(2), where e = e and ev = bev])
        (use u Cons.prems(1) x Browser in auto)
  next
    case (Service sev)
    show ?thesis
      by (rule locked_outer_event [OF assms(1) Cons.prems(2), where b = b and e = e and ev = sev])
        (use u x Service in auto)
  qed
  then show ?case using Cons.IH Cons.prems(1) u(2) by simp
qed simp

lemma construct_unlocked: "construct U b e = Some s \<Longrightarrow> \<not> cc_locked s"
  by (auto simp: construct_def Let_def init_command_state_def locked_kept locked_kept_large
      split: Option.bind_splits if_splits)

end
