(* ===== verification/Command_Claims.thy ===== *)
theory Command_Claims
  imports Command_Safety "HOL-Library.AList"
begin

text \<open>
  The properties of a command controller over its whole life, each for every command updater that
  keeps its documented behaviour, every build and every sequence of events.
\<close>

subsection \<open>An updater\<close>

text \<open>An updater with the documented behaviour, to run the controller on.\<close>

definition list_updater :: "(command \<times> bool) list updater" where
  "list_updater =
     \<lparr>up_init = [],
      up_update = (\<lambda>u i b. (AList.update i b u, map_of u i \<noteq> Some b)),
      up_enabled = (\<lambda>u i. map_of u i = Some True),
      up_supports = (\<lambda>u i. i \<in> set (List.map fst u)),
      up_disable_all = List.map (\<lambda>(i, b). (i, False)),
      up_ids = List.map fst\<rparr>"

lemma map_of_disabled: "map_of (List.map (\<lambda>(i, b). (i, False)) u) i \<noteq> Some True"
  by (induction u) auto

lemma list_updater_laws: "updater_laws list_updater"
  by (auto simp: updater_laws_def list_updater_def update_conv' dom_update image_image split_beta
      map_of_disabled dest: map_of_SomeD intro: rev_image_eqI)

definition silent_env :: env where
  "silent_env = \<lparr>win = (\<lambda>_. False), pro = (\<lambda>_. False), tab = (\<lambda>_. False), can = (\<lambda>_. False),
     app = (\<lambda>_. False), svc = (\<lambda>_. False), focused_tab = None, incognito = IncognitoEnabled\<rparr>"

definition plain :: build where
  "plain = \<lparr>is_chromeos = False, is_linux = True, is_win = False, is_mac = False, is_ozone = True,
     is_android = False, enable_printing = True, google_branding = False, lens_branded = False,
     dcheck_is_on = True\<rparr>"

subsection \<open>Guest sessions\<close>

definition guest_commands :: "command list" where
  "guest_commands =
     [Shw IDC_SHOW_HISTORY, Shw IDC_SHOW_HISTORY_CLUSTERS_SIDE_PANEL, Mnu IDC_PASSWORDS_AND_AUTOFILL_MENU,
      Pag IDC_SHOW_PASSWORD_MANAGER, Pag IDC_SAFETY_HUB_SHOW_PASSWORD_CHECKUP, Pag IDC_SHOW_PAYMENT_METHODS,
      Pag IDC_SHOW_ADDRESSES, Pag IDC_SHOW_CONTACT_INFO, Pag IDC_SHOW_IDENTITY_DOCS, Pag IDC_SHOW_TRAVEL,
      Mnu IDC_BOOKMARKS_MENU, Mnu IDC_RECENT_TABS_MENU, Shw IDC_RECENT_TABS_LOGIN_FOR_DEVICE_TABS,
      Shw IDC_RECENT_TABS_SEE_DEVICE_TABS, Wnd IDC_NEW_INCOGNITO_WINDOW, Shw IDC_SHOW_BOOKMARK_MANAGER,
      Shw IDC_MANAGE_EXTENSIONS, Shw IDC_SAFETY_HUB_MANAGE_EXTENSIONS, Inf IDC_IMPORT_SETTINGS, Inf IDC_PERFORMANCE,
      Tls IDC_SHOW_BOOKMARK_BAR, Mnu IDC_BOOKMARK_BAR_SUBMENU, Tls IDC_BOOKMARK_BAR_SUBMENU_ALWAYS_SHOW,
      Tls IDC_BOOKMARK_BAR_SUBMENU_ALWAYS_HIDE, Tls IDC_BOOKMARK_BAR_SUBMENU_ONLY_ON_NTP]"

lemma guest_init:
  assumes "pro e IsGuestSession"
  shows "honours {} (- set guest_commands) (init_first_cmds e)"
    "honours {} (- set guest_commands) (init_window_cmds b e)"
    "honours {} (- set guest_commands) (init_tab_cmds b e)"
  by (simp_all add: init_first_cmds_def init_window_cmds_def init_tab_cmds_def guest_commands_def Let_def)

lemma guest_init_ui:
  assumes "pro e IsGuestSession"
  shows "honours {} (- set guest_commands) (init_ui_cmds b e)"
  by (simp add: assms init_ui_cmds_def guest_commands_def Let_def)

lemma guest_update:
  assumes "pro e IsGuestSession"
  shows "honours {} (- set guest_commands) (clipboard_cmds e)"
    "honours {} (- set guest_commands) (zoom_cmds e)"
    "honours {} (- set guest_commands) (bookmark_editing_cmds e)"
    "honours {} (- set guest_commands) (bookmark_bar_cmds e)"
    "honours {} (- set guest_commands) (shared_incognito_cmds e)"
    "honours {} (- set guest_commands) extensions_menu_cmds"
    "honours {} (- set guest_commands) (hosted_app_cmds e)"
  by (simp_all add: assms clipboard_cmds_def zoom_cmds_def bookmark_editing_cmds_def bookmark_bar_cmds_def
      shared_incognito_cmds_def extensions_menu_cmds_def hosted_app_cmds_def guest_commands_def Let_def)

lemma guest_update_large:
  "honours {} (- set guest_commands) (fullscreen_cmds b e)"
  "honours {} (- set guest_commands) (tab_navigation_cmds e)"
  "honours {} (- set guest_commands) (tab_window_cmds e)"
  "honours {} (- set guest_commands) (tab_page_cmds b e)"
  "honours {} (- set guest_commands) (tab_app_cmds e)"
  "honours {} (- set guest_commands) (tab_strip_cmds e)"
  by (simp_all add: fullscreen_cmds_def tab_navigation_cmds_def tab_window_cmds_def tab_page_cmds_def
      tab_app_cmds_def tab_strip_cmds_def guest_commands_def Let_def)

interpretation guest: command_bound b "{}" "- set guest_commands" "\<lambda>e. pro e IsGuestSession" for b
proof unfold_locales
  show "set single_ids \<subseteq> - set guest_commands - {}"
    by (simp add: single_ids_def guest_commands_def)
qed (simp_all add: init_entries_def update_entries_def guest_init guest_init_ui guest_update
    guest_update_large)

text \<open>
  C20 (safety): In a guest session, from the construction of the controller and through every sequence
  of events, the commands of the list \<open>guest_commands\<close> are never enabled, and executing one of them does
  nothing and says so, unless code outside the controller enables one of them. These are the commands
  the controller withholds from guests: the history and the recent tabs, the password manager and the
  autofill pages, the bookmark menu, manager and bar, the extensions page, importing settings, the
  performance page and incognito windows. It is not all that could show stored data: the command
  \<open>IDC_VIEW_PASSWORDS\<close>, the bookmarks side panel and the extensions submenu stay enabled.
\<close>

theorem guest_commands_stay_off:
  assumes "updater_laws U" "construct U b e = Some s" "controller_run U b xs s = Some t"
    and "pro e IsGuestSession" "\<forall>x\<in>set xs. pro (fst x) IsGuestSession"
    and "\<forall>x\<in>set xs. \<forall>j\<in>set guest_commands. snd x \<noteq> Browser (UpdateCommandEnabled j True)"
    and "i \<in> set guest_commands"
  shows "\<not> is_enabled U t i \<and>
    execute_command_with_disposition U b e' i disposition time_stamp t = Some (t, False)"
proof -
  have xs: "list_all (event_within (\<lambda>e. pro e IsGuestSession) {} (- set guest_commands)) xs"
    using assms(5,6) by (auto simp: list_all_iff event_within_def split: controller_event.splits event.splits)
  have "bounds U {} (- set guest_commands) t"
    using guest.bounds_run [OF assms(1) guest.bounds_construct [OF assms(1,4) refl assms(2)] xs assms(3)] .
  then have off: "\<not> is_enabled U t i" using assms(7) by (auto simp: bounds_def)
  then show ?thesis
    by (simp add: execute_command_with_disposition_def guarded_def Let_def calls_def)
qed

definition try_run ::
  "build \<Rightarrow> env \<Rightarrow> (env \<times> controller_event) list \<Rightarrow> (command \<times> bool) list command_controller option" where
  "try_run b e xs = Option.bind (construct list_updater b e) (controller_run list_updater b xs)"

lemma try_runE:
  assumes "try_run b e xs \<noteq> None"
  obtains s t where "construct list_updater b e = Some s" "controller_run list_updater b xs s = Some t"
    "try_run b e xs = Some t"
  using assms by (auto simp: try_run_def split: Option.bind_splits)

definition guest_env :: env where
  "guest_env = silent_env\<lparr>pro := (\<lambda>q. q = IsGuestSession), tab := (\<lambda>q. q = ActiveTab)\<rparr>"

lemma guest_run_returns:
  "try_run plain guest_env [(guest_env, Browser TabStateChanged), (guest_env, Browser FullscreenStateChanged)] \<noteq> None"
  by code_simp

theorem guest_commands_stay_off_witness:
  "\<exists>t. try_run plain guest_env
      [(guest_env, Browser TabStateChanged), (guest_env, Browser FullscreenStateChanged)] = Some t \<and>
    \<not> is_enabled list_updater t (Shw IDC_SHOW_HISTORY)"
proof -
  obtain s t where r: "construct list_updater plain guest_env = Some s"
    "controller_run list_updater plain
      [(guest_env, Browser TabStateChanged), (guest_env, Browser FullscreenStateChanged)] s = Some t"
    "try_run plain guest_env
      [(guest_env, Browser TabStateChanged), (guest_env, Browser FullscreenStateChanged)] = Some t"
    by (rule try_runE [OF guest_run_returns])
  have "\<not> is_enabled list_updater t (Shw IDC_SHOW_HISTORY)"
    using guest_commands_stay_off [OF list_updater_laws r(1,2), of "Shw IDC_SHOW_HISTORY"]
    by (simp add: guest_env_def guest_commands_def)
  then show ?thesis using r(3) by blast
qed

subsection \<open>The page of the workspaces\<close>

lemma manage_init_ui:
  "updater_laws U \<Longrightarrow> \<not> is_chromeos b \<Longrightarrow>
    bounds U {Prf IDC_MANAGE_CHROME_PROFILES} UNIV (update_cmds U (init_ui_cmds b e) s)"
  by (simp add: bounds_def is_enabled_update_cmds init_ui_cmds_def Let_def)

lemma manage_init:
  "honours {Prf IDC_MANAGE_CHROME_PROFILES} UNIV (init_first_cmds e)"
  "honours {Prf IDC_MANAGE_CHROME_PROFILES} UNIV (init_window_cmds b e)"
  "honours {Prf IDC_MANAGE_CHROME_PROFILES} UNIV (init_ui_cmds b e)"
  "honours {Prf IDC_MANAGE_CHROME_PROFILES} UNIV (init_tab_cmds b e)"
  by (simp_all add: init_first_cmds_def init_window_cmds_def init_ui_cmds_def init_tab_cmds_def Let_def)

lemma manage_update:
  "honours {Prf IDC_MANAGE_CHROME_PROFILES} UNIV (clipboard_cmds e)"
  "honours {Prf IDC_MANAGE_CHROME_PROFILES} UNIV (zoom_cmds e)"
  "honours {Prf IDC_MANAGE_CHROME_PROFILES} UNIV (bookmark_editing_cmds e)"
  "honours {Prf IDC_MANAGE_CHROME_PROFILES} UNIV (bookmark_bar_cmds e)"
  "honours {Prf IDC_MANAGE_CHROME_PROFILES} UNIV (shared_incognito_cmds e)"
  "honours {Prf IDC_MANAGE_CHROME_PROFILES} UNIV extensions_menu_cmds"
  "honours {Prf IDC_MANAGE_CHROME_PROFILES} UNIV (hosted_app_cmds e)"
  by (simp_all add: clipboard_cmds_def zoom_cmds_def bookmark_editing_cmds_def bookmark_bar_cmds_def
      shared_incognito_cmds_def extensions_menu_cmds_def hosted_app_cmds_def Let_def)

lemma manage_update_large:
  "honours {Prf IDC_MANAGE_CHROME_PROFILES} UNIV (fullscreen_cmds b e)"
  "honours {Prf IDC_MANAGE_CHROME_PROFILES} UNIV (tab_navigation_cmds e)"
  "honours {Prf IDC_MANAGE_CHROME_PROFILES} UNIV (tab_window_cmds e)"
  "honours {Prf IDC_MANAGE_CHROME_PROFILES} UNIV (tab_page_cmds b e)"
  "honours {Prf IDC_MANAGE_CHROME_PROFILES} UNIV (tab_app_cmds e)"
  "honours {Prf IDC_MANAGE_CHROME_PROFILES} UNIV (tab_strip_cmds e)"
  by (simp_all add: fullscreen_cmds_def tab_navigation_cmds_def tab_window_cmds_def tab_page_cmds_def
      tab_app_cmds_def tab_strip_cmds_def Let_def)

interpretation manage: command_bound "b\<lparr>is_chromeos := False\<rparr>" "{Prf IDC_MANAGE_CHROME_PROFILES}" UNIV
  "\<lambda>_. True" for b
proof unfold_locales
  show "set single_ids \<subseteq> UNIV - {Prf IDC_MANAGE_CHROME_PROFILES}"
    by (simp add: single_ids_def)
qed (simp_all add: init_entries_def update_entries_def manage_init manage_update manage_update_large)

lemma dispatch_manage:
  assumes "\<not> is_chromeos b"
  shows "dispatch b e d ts se es (Prf IDC_MANAGE_CHROME_PROFILES) =
    does_with ''Navigate'' [Text ''purecloak://purecloak/'', Name ''PAGE_TRANSITION_TYPED'',
      Name ''CURRENT_TAB'']"
proof -
  have none: "map_of (switch_navigation d) (Prf i) = None" "map_of (switch_window e ts) (Prf i) = None"
    "map_of (switch_platform b e) (Prf i) = None" "map_of (switch_page b e) (Prf i) = None"
    "map_of (switch_edit b e se es) (Prf i) = None" "map_of (switch_tools b) (Prf i) = None"
    "map_of (switch_show b e) (Prf i) = None" "map_of (switch_groups e) (Prf i) = None"
    "map_of (switch_apps b e) (Prf i) = None" for i
    by (simp_all add: switch_navigation_def switch_window_def switch_platform_def switch_page_def
        switch_edit_def switch_tools_def switch_show_def switch_groups_def switch_apps_def
        map_add_def)
  have "map_of (switch_profiles b e) (Prf IDC_MANAGE_CHROME_PROFILES) =
      Some (does_with ''Navigate'' [Text ''purecloak://purecloak/'', Name ''PAGE_TRANSITION_TYPED'',
        Name ''CURRENT_TAB''])"
    using assms by (simp add: switch_profiles_def)
  then show ?thesis
    by (simp add: dispatch_def switch_table_def none map_add_def)
qed

lemma enabled_dispatches:
  assumes "updater_laws U" "is_enabled U s i" "tab e ActiveTab"
  shows "execute_command_with_disposition U b e i disposition time_stamp s =
    map_option (\<lambda>l. (calls l s, True))
      (dispatch b e disposition time_stamp (is_enabled U s (Nav IDC_STOP))
        (map_option fst (guarded U e (does ''Stop'') (Nav IDC_STOP) s)) i)"
  using assms updater_lawsD(6) [OF assms(1), of "cc_updater s" i]
  by (simp add: execute_command_with_disposition_def guarded_def supports_command_def is_enabled_def
      Let_def option.map_comp comp_def)

lemma manage_enabled_after_construct:
  assumes laws: "updater_laws U" and desktop: "\<not> is_chromeos b" and r: "construct U b e = Some s"
  shows "bounds U {Prf IDC_MANAGE_CHROME_PROFILES} UNIV s"
proof -
  have b: "b\<lparr>is_chromeos := False\<rparr> = b" using desktop by (cases b) simp
  have "bounds U {Prf IDC_MANAGE_CHROME_PROFILES} UNIV (init_all_commands U b e u)" for u
    using manage.bounds_init_fresh [where b = b and e = e and U = U and s = u, unfolded b, OF laws]
      manage_init_ui [OF laws desktop] by blast
  then show ?thesis
    using r by (auto simp: construct_def Let_def init_command_state_def locked_kept
        split: Option.bind_splits if_splits)
qed

text \<open>
  C24 (functional): On a desktop build, through every sequence of events that does not disable it from
  outside, the command for managing profiles stays enabled, and executing it in a window that has a
  tab does one thing: it navigates the current tab to the page of the workspaces.
\<close>

theorem manage_profiles_opens_workspaces:
  assumes "updater_laws U" "\<not> is_chromeos b" "construct U b e = Some s"
    and "controller_run U b xs s = Some t" "tab e' ActiveTab"
    and "\<forall>x\<in>set xs. snd x \<noteq> Browser (UpdateCommandEnabled (Prf IDC_MANAGE_CHROME_PROFILES) False)"
  shows "execute_command_with_disposition U b e' (Prf IDC_MANAGE_CHROME_PROFILES) disposition time_stamp t =
    Some (calls [Call ''Navigate'' [Text ''purecloak://purecloak/'', Name ''PAGE_TRANSITION_TYPED'',
      Name ''CURRENT_TAB'']] t, True)"
proof -
  have b: "b\<lparr>is_chromeos := False\<rparr> = b" using assms(2) by (cases b) simp
  have xs: "list_all (event_within (\<lambda>_. True) {Prf IDC_MANAGE_CHROME_PROFILES} UNIV) xs"
    using assms(6) by (auto simp: list_all_iff event_within_def split: controller_event.splits event.splits)
  have "bounds U {Prf IDC_MANAGE_CHROME_PROFILES} UNIV t"
    using manage.bounds_run [where b = b, unfolded b,
        OF assms(1) manage_enabled_after_construct [OF assms(1-3)] xs assms(4)] .
  then have "is_enabled U t (Prf IDC_MANAGE_CHROME_PROFILES)" by (simp add: bounds_def)
  then show ?thesis
    by (simp add: enabled_dispatches [OF assms(1) _ assms(5)] dispatch_manage [OF assms(2)] does_with_def)
qed

definition desktop_env :: env where
  "desktop_env = silent_env\<lparr>tab := (\<lambda>q. q = ActiveTab \<or> q = ActiveWebContents)\<rparr>"

lemma desktop_run_returns: "try_run plain desktop_env [(desktop_env, Browser TabStateChanged)] \<noteq> None"
  by code_simp

theorem manage_profiles_opens_workspaces_witness:
  "\<exists>t. try_run plain desktop_env [(desktop_env, Browser TabStateChanged)] = Some t \<and>
    execute_command_with_disposition list_updater plain desktop_env (Prf IDC_MANAGE_CHROME_PROFILES)
      ''NEW_FOREGROUND_TAB'' 0 t =
    Some (calls [Call ''Navigate'' [Text ''purecloak://purecloak/'', Name ''PAGE_TRANSITION_TYPED'',
      Name ''CURRENT_TAB'']] t, True)"
proof -
  obtain s t where r: "construct list_updater plain desktop_env = Some s"
    "controller_run list_updater plain [(desktop_env, Browser TabStateChanged)] s = Some t"
    "try_run plain desktop_env [(desktop_env, Browser TabStateChanged)] = Some t"
    by (rule try_runE [OF desktop_run_returns])
  show ?thesis
    using manage_profiles_opens_workspaces [OF list_updater_laws _ r(1,2), of desktop_env] r(3)
    by (simp add: plain_def desktop_env_def)
qed

subsection \<open>Execution never stops the process\<close>

definition stopping :: "build \<Rightarrow> env \<Rightarrow> command \<Rightarrow> bool" where
  "stopping b e i \<longleftrightarrow>
     i = Inf IDC_CHROME_TIPS \<and> \<not> google_branding b \<or>
     i = Inf IDC_CHROME_WHATS_NEW \<and> \<not> (google_branding b \<and> (is_win b \<or> is_mac b \<or> is_linux b)) \<or>
     i = Web IDC_WEB_APP_SETTINGS \<and> \<not> is_chromeos b \<and> \<not> app e AppController \<or>
     i = Prf IDC_MANAGE_GOOGLE_ACCOUNT \<and> dcheck_is_on b \<and> \<not> pro e PrimaryAccount"

definition returning :: "build \<Rightarrow> env \<Rightarrow> (command \<times> call list option) list \<Rightarrow> bool" where
  "returning b e l \<longleftrightarrow> list_all (\<lambda>(i, r). r \<noteq> None \<or> stopping b e i) l"

lemma returning_append [simp]: "returning b e (l @ m) = (returning b e l \<and> returning b e m)"
  by (simp add: returning_def)

lemmas returns_def = does_def does_with_def records_def invokes_action_def shows_side_panel_def
  customize_side_panel_def unless_policy_dialog_def toggles_pref_def select_numbered_tab_def
  groups_tabs_def

lemma switch_returns:
  "returning b e (switch_navigation d)" "returning b e (switch_window e ts)"
  "returning b e (switch_platform b e)" "returning b e (switch_page b e)" "returning b e (switch_tools b)"
  "es \<noteq> None \<Longrightarrow> returning b e (switch_edit b e se es)" "returning b e (switch_show b e)"
  "returning b e (switch_groups e)" "returning b e (switch_apps b e)" "returning b e (switch_profiles b e)"
  by (simp_all add: switch_navigation_def switch_window_def switch_platform_def switch_page_def
      switch_edit_def switch_tools_def switch_show_def switch_groups_def switch_apps_def
      switch_profiles_def returns_def stopping_def returning_def)

lemma dispatch_returns:
  assumes "es \<noteq> None" "\<not> stopping b e i"
  shows "\<exists>l. dispatch b e d ts se es i = Some l"
proof -
  have "returning b e (switch_table b e d ts se es)"
    by (simp add: switch_table_def switch_returns assms(1))
  then show ?thesis
    using assms(2) by (auto simp: dispatch_def returning_def list_all_iff split: option.split dest!: map_of_SomeD)
qed

lemma step_returns:
  assumes "\<not> dcheck_is_on b" "\<And>i. is_enabled U s i \<Longrightarrow> \<not> stopping b e i"
  shows "controller_step U b (e, ev) s \<noteq> None"
proof -
  have "guarded U e (does ''Stop'') (Nav IDC_STOP) s \<noteq> None"
    by (auto simp: guarded_def does_def)
  then have "execute_command_with_disposition U b e i d ts s \<noteq> None" for i d ts
    using dispatch_returns [where b = b and e = e and i = i and d = d and ts = ts
        and se = "is_enabled U s (Nav IDC_STOP)"] assms(2) [of i]
    by (auto simp: execute_command_with_disposition_def guarded_def [where i = i] Let_def)
  then have "service_event U b e x s \<noteq> None" for x by (cases x) auto
  moreover have "window_event U b e x s \<noteq> None" for x
    using assms(1) by (cases x) (simp_all add: update_locked_fullscreen_def init_command_state_def Let_def)
  ultimately show ?thesis by (cases ev) simp_all
qed

abbreviation tips :: "command set" where
  "tips \<equiv> {Inf IDC_CHROME_TIPS, Inf IDC_CHROME_WHATS_NEW}"

abbreviation settings :: "command set" where
  "settings \<equiv> {Web IDC_WEB_APP_SETTINGS}"

lemma tips_init:
  "honours {} (- tips) (init_first_cmds e)" "honours {} (- tips) (init_window_cmds b e)"
  "honours {} (- tips) (init_ui_cmds b e)" "honours {} (- tips) (init_tab_cmds b e)"
  by (simp_all add: init_first_cmds_def init_window_cmds_def init_ui_cmds_def init_tab_cmds_def Let_def)

lemma tips_update:
  "honours {} (- tips) (clipboard_cmds e)" "honours {} (- tips) (zoom_cmds e)"
  "honours {} (- tips) (bookmark_editing_cmds e)" "honours {} (- tips) (bookmark_bar_cmds e)"
  "honours {} (- tips) (shared_incognito_cmds e)" "honours {} (- tips) extensions_menu_cmds"
  "honours {} (- tips) (hosted_app_cmds e)" "honours {} (- tips) (tab_navigation_cmds e)"
  "honours {} (- tips) (tab_window_cmds e)" "honours {} (- tips) (tab_page_cmds b e)"
  "honours {} (- tips) (tab_app_cmds e)" "honours {} (- tips) (tab_strip_cmds e)"
  "\<not> google_branding b \<Longrightarrow> honours {} (- tips) (fullscreen_cmds b e)"
  by (simp_all add: clipboard_cmds_def zoom_cmds_def bookmark_editing_cmds_def bookmark_bar_cmds_def
      shared_incognito_cmds_def extensions_menu_cmds_def hosted_app_cmds_def tab_navigation_cmds_def
      tab_window_cmds_def tab_page_cmds_def tab_app_cmds_def tab_strip_cmds_def fullscreen_cmds_def Let_def)

interpretation unbranded: command_bound "b\<lparr>google_branding := False\<rparr>" "{}" "- tips" "\<lambda>_. True" for b
  by unfold_locales (simp_all add: single_ids_def init_entries_def update_entries_def tips_init tips_update)

lemma settings_init:
  "honours {} (- settings) (init_first_cmds e)" "honours {} (- settings) (init_window_cmds b e)"
  "honours {} (- settings) (init_ui_cmds b e)"
  "\<not> app e WebAppOrCustomTab \<Longrightarrow> honours {} (- settings) (init_tab_cmds b e)"
  by (simp_all add: init_first_cmds_def init_window_cmds_def init_ui_cmds_def init_tab_cmds_def Let_def)

lemma settings_update:
  "honours {} (- settings) (clipboard_cmds e)" "honours {} (- settings) (zoom_cmds e)"
  "honours {} (- settings) (bookmark_editing_cmds e)" "honours {} (- settings) (bookmark_bar_cmds e)"
  "honours {} (- settings) (shared_incognito_cmds e)" "honours {} (- settings) extensions_menu_cmds"
  "honours {} (- settings) (hosted_app_cmds e)" "honours {} (- settings) (tab_navigation_cmds e)"
  "honours {} (- settings) (tab_window_cmds e)" "honours {} (- settings) (tab_page_cmds b e)"
  "honours {} (- settings) (tab_app_cmds e)" "honours {} (- settings) (tab_strip_cmds e)"
  "honours {} (- settings) (fullscreen_cmds b e)"
  by (simp_all add: clipboard_cmds_def zoom_cmds_def bookmark_editing_cmds_def bookmark_bar_cmds_def
      shared_incognito_cmds_def extensions_menu_cmds_def hosted_app_cmds_def tab_navigation_cmds_def
      tab_window_cmds_def tab_page_cmds_def tab_app_cmds_def tab_strip_cmds_def fullscreen_cmds_def Let_def)

interpretation appless: command_bound b "{}" "- settings" "\<lambda>e. \<not> app e WebAppOrCustomTab" for b
  by unfold_locales
    (simp_all add: single_ids_def init_entries_def update_entries_def settings_init settings_update)

text \<open>A window is that of a web app for all of its life or never is.\<close>

definition app_settled :: "env set \<Rightarrow> bool" where
  "app_settled es \<longleftrightarrow> (\<forall>e\<in>es. app e AppController) \<or> (\<forall>e\<in>es. \<not> app e WebAppOrCustomTab)"

definition harmless :: "build \<Rightarrow> env set \<Rightarrow> 'u updater \<Rightarrow> 'u command_controller \<Rightarrow> bool" where
  "harmless b es U s \<longleftrightarrow>
     (\<not> google_branding b \<longrightarrow> bounds U {} (- tips) s) \<and>
     ((\<forall>e\<in>es. \<not> app e WebAppOrCustomTab) \<longrightarrow> bounds U {} (- settings) s)"

lemma construct_returns:
  assumes "\<not> dcheck_is_on b \<or> \<not> pro e IsSystemProfile"
  shows "\<exists>s. construct U b e = Some s"
proof -
  have "\<exists>t. init_command_state U b e s = Some t" for s
    using assms by (auto simp: init_command_state_def)
  then show ?thesis by (simp add: construct_def Let_def bind_eq_Some_conv)
qed

lemma harmless_run:
  assumes "updater_laws U" "harmless b es U s" "controller_run U b xs s = Some t" "fst ` set xs \<subseteq> es"
    and "\<forall>x\<in>set xs. \<forall>i\<in>tips \<union> settings. snd x \<noteq> Browser (UpdateCommandEnabled i True)"
  shows "harmless b es U t"
proof -
  have t: "list_all (event_within (\<lambda>_. True) {} (- tips)) xs"
    using assms(5) by (auto simp: list_all_iff event_within_def split: controller_event.splits event.splits)
  have a: "list_all (event_within (\<lambda>e. \<not> app e WebAppOrCustomTab) {} (- settings)) xs"
    if "\<forall>e\<in>es. \<not> app e WebAppOrCustomTab"
    using that assms(4,5)
    by (auto simp: list_all_iff event_within_def split: controller_event.splits event.splits)
  have "bounds U {} (- tips) t" if "\<not> google_branding b" "bounds U {} (- tips) s"
  proof -
    have b: "b\<lparr>google_branding := False\<rparr> = b" using that(1) by (cases b) simp
    show ?thesis
      by (rule unbranded.bounds_run [where b = b, unfolded b, OF assms(1) that(2) t assms(3)])
  qed
  then show ?thesis
    using assms(2) appless.bounds_run [OF assms(1) _ a assms(3)] by (auto simp: harmless_def)
qed

lemma harmless_construct:
  assumes "updater_laws U" "construct U b e = Some s" "e \<in> es"
  shows "harmless b es U s"
proof -
  have "bounds U {} (- tips) s" if "\<not> google_branding b"
  proof -
    have b: "b\<lparr>google_branding := False\<rparr> = b" using that by (cases b) simp
    show ?thesis
      by (rule unbranded.bounds_construct [where b = b, unfolded b, OF assms(1) TrueI refl assms(2)])
  qed
  then show ?thesis
    using appless.bounds_construct [OF assms(1) _ refl assms(2)] assms(3) by (auto simp: harmless_def)
qed

lemma harmless_stops_not:
  assumes "harmless b es U s" "app_settled es" "e \<in> es" "\<not> dcheck_is_on b"
    and "google_branding b \<longrightarrow> is_win b \<or> is_mac b \<or> is_linux b" "is_enabled U s i"
  shows "\<not> stopping b e i"
  using assms by (auto simp: harmless_def app_settled_def stopping_def bounds_def)

text \<open>
  C22 (liveness): In a build without debug checks, and with the branded pages only on the platforms
  that have them, the controller is constructed and lives through every sequence of events and
  commands: no \<open>NOTREACHED\<close> and no \<open>CHECK\<close> of the switch is reached, provided nobody else enables the
  three commands that have them and the window is that of a web app all its life or never.
\<close>

theorem controller_lives_on:
  assumes "updater_laws U" "\<not> dcheck_is_on b"
    and "google_branding b \<longrightarrow> is_win b \<or> is_mac b \<or> is_linux b"
    and "app_settled (insert e (fst ` set xs))"
    and "\<forall>x\<in>set xs. \<forall>i\<in>tips \<union> settings. snd x \<noteq> Browser (UpdateCommandEnabled i True)"
  shows "\<exists>s t. construct U b e = Some s \<and> controller_run U b xs s = Some t"
proof -
  define es where "es = insert e (fst ` set xs)"
  obtain s where s: "construct U b e = Some s"
    using construct_returns [of b e U] assms(2) by blast
  have run: "\<exists>t. controller_run U b ys s = Some t"
    if "harmless b es U s" "set ys \<subseteq> set xs" for ys s
    using that
  proof (induction ys arbitrary: s)
    case (Cons y ys)
    obtain e' ev where y: "y = (e', ev)" by (cases y)
    have "e' \<in> es" using Cons.prems(2) y by (force simp: es_def)
    then obtain u where u: "controller_step U b y s = Some u"
      using step_returns [OF assms(2) harmless_stops_not [OF Cons.prems(1) assms(4) [folded es_def] _ assms(2,3)]]
      unfolding y by blast
    have "harmless b es U u"
      by (rule harmless_run [OF assms(1) Cons.prems(1), where xs = "[y]"])
        (use u Cons.prems(2) assms(5) in \<open>auto simp: es_def\<close>)
    then show ?case using Cons.IH Cons.prems(2) u by auto
  qed simp
  show ?thesis
    using s run [OF harmless_construct [OF assms(1) s]] by (auto simp: es_def)
qed

theorem controller_lives_on_witness:
  "\<exists>s t. construct list_updater (plain\<lparr>dcheck_is_on := False\<rparr>) desktop_env = Some s \<and>
    controller_run list_updater (plain\<lparr>dcheck_is_on := False\<rparr>)
      [(desktop_env, Service (ExecuteCommand (Inf IDC_CHROME_WHATS_NEW) ''CURRENT_TAB'' 0)),
       (desktop_env, Service (ExecuteCommand (Web IDC_WEB_APP_SETTINGS) ''CURRENT_TAB'' 0))] s = Some t"
  by (rule controller_lives_on [OF list_updater_laws])
    (simp_all add: plain_def app_settled_def desktop_env_def silent_env_def)

text \<open>
  On a branded build for another platform the command for the page of news is enabled all the same,
  and executing it reaches \<open>NOTREACHED\<close>.
\<close>

lemma branded_chromeos_stops:
  "try_run (plain\<lparr>is_linux := False, is_chromeos := True, google_branding := True\<rparr>)
     (desktop_env\<lparr>win := (\<lambda>q. q = FeatureTabStrip)\<rparr>)
     [(desktop_env, Service (ExecuteCommand (Inf IDC_CHROME_WHATS_NEW) ''CURRENT_TAB'' 0))] = None"
  by code_simp

subsection \<open>Locked fullscreen\<close>

text \<open>A run that locks the window and then lets every unguarded update happen.\<close>

definition open_env :: env where
  "open_env = silent_env\<lparr>win := (\<lambda>q. q = LockedFullscreen \<or> q = TypeNormal), tab := (\<lambda>q. q \<noteq> TabBlocked),
     can := (\<lambda>q. q \<in> {CanZoomIn, CanResetZoom, CanZoomOut}), svc := (\<lambda>_. True)\<rparr>"

definition leak_events :: "(env \<times> controller_event) list" where
  "leak_events =
     [(open_env, Browser LockedFullscreenStateChanged), (open_env, Browser ZoomStateChanged),
      (open_env, Browser (TabChangedAt True)), (open_env, Browser (TabKeyboardFocusChangedTo (Some 0))),
      (open_env, Service GlicAllowedChanged)]"

lemma glic_kept:
  "cc_glic_allowed (update_save_as U e s) = cc_glic_allowed s"
  "cc_glic_allowed (update_printing U b e s) = cc_glic_allowed s"
  "cc_glic_allowed (update_dev_tools U b e s) = cc_glic_allowed s"
  "cc_glic_allowed (update_tab_restore U e s) = cc_glic_allowed s"
  "cc_glic_allowed (update_zoom U e s) = cc_glic_allowed s"
  "cc_glic_allowed (update_find U e s) = cc_glic_allowed s"
  "cc_glic_allowed (update_glic U e s) = cc_glic_allowed s"
  "cc_glic_allowed (update_tab_keyboard_focus U e f s) = cc_glic_allowed s"
  "cc_glic_allowed (update_web_contents_focus U b e s) = cc_glic_allowed s"
  "cc_glic_allowed (update_bookmark_editing U e s) = cc_glic_allowed s"
  "cc_glic_allowed (update_bookmark_bar U e s) = cc_glic_allowed s"
  "cc_glic_allowed (update_incognito U e s) = cc_glic_allowed s"
  "cc_glic_allowed (update_extensions_menu U s) = cc_glic_allowed s"
  by (simp_all add: update_save_as_def update_printing_def update_dev_tools_def update_tab_restore_def
      update_zoom_def update_find_def update_glic_def update_tab_keyboard_focus_def
      update_web_contents_focus_def update_bookmark_editing_def update_bookmark_bar_def
      update_incognito_def update_extensions_menu_def update_command_and_action_def Let_def)

lemma glic_kept_large:
  "cc_glic_allowed (update_content_restriction U b e s) = cc_glic_allowed s"
  "cc_glic_allowed (update_fullscreen U b e s) = cc_glic_allowed s"
  by (simp_all add: update_content_restriction_def update_fullscreen_def glic_kept Let_def)

lemma glic_kept_init:
  "cc_glic_allowed (init_all_commands U b e s) = cc_glic_allowed s"
  "cc_glic_allowed (enter_locked U b e s) = cc_glic_allowed s"
  by (simp_all add: init_all_commands_def enter_locked_def glic_kept glic_kept_large Let_def)

lemma open_construct:
  "\<exists>s. construct U b open_env = Some s \<and> cc_glic_allowed s \<and> \<not> cc_locked s"
  by (simp add: construct_def init_command_state_def open_env_def silent_env_def Let_def glic_kept glic_kept_init locked_kept
      locked_kept_large)

lemma leak_run:
  assumes laws: "updater_laws U" and chromeos: "is_chromeos b" and s: "cc_glic_allowed s" "\<not> cc_locked s"
  shows "\<exists>t. controller_run U b leak_events s = Some t \<and> cc_locked t \<and>
    (\<forall>i\<in>set locked_commands. is_enabled U t i)"
proof -
  let ?e = open_env
  define u where "u = enter_locked U b ?e (s\<lparr>cc_locked := True\<rparr>)"
  have u: "cc_locked u" "cc_glic_allowed u" "non_allowlisted_disabled U u"
    using s enter_locked_checked [OF laws] by (simp_all add: u_def glic_kept_init locked_kept_large)
  have clip: "is_enabled U u i" if "i \<in> {Edt IDC_CUT, Edt IDC_COPY, Edt IDC_PASTE}" for i
    using that by (auto simp: u_def enter_locked_def update_content_restriction_def locked_guarded
        clipboard_cmds_def open_env_def silent_env_def is_enabled_update_cmds [OF laws] Let_def)
  define z where "z = update_find U ?e (update_zoom U ?e u)"
  have zoom: "is_enabled U z i = (i \<in> set [Edt IDC_FIND, Edt IDC_FIND_NEXT, Edt IDC_FIND_PREVIOUS,
      Edt IDC_ZOOM_PLUS, Edt IDC_ZOOM_NORMAL, Edt IDC_ZOOM_MINUS] \<or> is_enabled U u i)" for i
    by (simp add: z_def update_find_def update_zoom_def zoom_cmds_def open_env_def silent_env_def
        is_enabled_update_cmds [OF laws] Let_def)
  define t where "t = update_enable_glic U ?e (update_tab_keyboard_focus U ?e (Some 0) z)"
  have "is_enabled U t i" if "i \<in> set locked_commands" for i
    using that clip [of i]
    by (auto simp: t_def update_enable_glic_def update_tab_keyboard_focus_def tab_keyboard_focus_cmds_def
        open_env_def silent_env_def is_enabled_update_cmds [OF laws] zoom locked_commands_def Let_def)
  moreover have "controller_run U b leak_events s = Some t" "cc_locked t"
    using s u chromeos
    by (simp_all add: leak_events_def t_def z_def u_def [symmetric] update_locked_fullscreen_def Let_def
        on_tab_changed_at_def locked_guarded locked_kept glic_kept allow_on_task_def
        open_env_def [THEN arg_cong, of win] silent_env_def)
  ultimately show ?thesis by blast
qed

text \<open>
  C21 (safety): On a build for the platform that has locked fullscreen, the commands that some sequence
  of events in which the window is never locked for OnTask enables in locked fullscreen are exactly
  the three for the clipboard, which are meant to be, and eleven more whose updates have no early
  return: finding, zooming, the keyboard-focused tab and the assistant. (A window locked for OnTask
  switches between tabs as well.)
\<close>

theorem locked_fullscreen_enables_exactly:
  assumes "updater_laws U" "is_chromeos b" "\<not> is_mac b"
  shows "{i. \<exists>e xs s t. construct U b e = Some s \<and> controller_run U b xs s = Some t \<and> cc_locked t \<and>
      (\<forall>x\<in>set xs. \<not> win (fst x) LockedForOnTask) \<and> is_enabled U t i} = set locked_commands"
proof (intro equalityI subsetI)
  fix i
  assume "i \<in> {i. \<exists>e xs s t. construct U b e = Some s \<and> controller_run U b xs s = Some t \<and> cc_locked t \<and>
      (\<forall>x\<in>set xs. \<not> win (fst x) LockedForOnTask) \<and> is_enabled U t i}"
  then obtain e xs s t where r: "construct U b e = Some s" "controller_run U b xs s = Some t"
    "cc_locked t" "\<forall>x\<in>set xs. \<not> win (fst x) LockedForOnTask" "is_enabled U t i" by blast
  have "locked_bound U s" using construct_unlocked [OF r(1)] by simp
  then have "locked_bound U t" by (rule locked_run [OF assms(1,3) r(4) _ r(2)])
  then show "i \<in> set locked_commands" using r(3,5) by (simp add: bounds_def)
next
  fix i assume i: "i \<in> set locked_commands"
  obtain s where s: "construct U b open_env = Some s" "cc_glic_allowed s" "\<not> cc_locked s"
    using open_construct by blast
  obtain t where t: "controller_run U b leak_events s = Some t" "cc_locked t" "is_enabled U t i"
    using leak_run [OF assms(1,2) s(2,3)] i by blast
  have "\<forall>x\<in>set leak_events. \<not> win (fst x) LockedForOnTask"
    by (simp add: leak_events_def open_env_def)
  then show "i \<in> {i. \<exists>e xs s t. construct U b e = Some s \<and> controller_run U b xs s = Some t \<and> cc_locked t \<and>
      (\<forall>x\<in>set xs. \<not> win (fst x) LockedForOnTask) \<and> is_enabled U t i}"
    using s(1) t by blast
qed

theorem locked_fullscreen_enables_exactly_witness:
  "\<exists>e xs s t. construct list_updater (plain\<lparr>is_chromeos := True\<rparr>) e = Some s \<and>
    controller_run list_updater (plain\<lparr>is_chromeos := True\<rparr>) xs s = Some t \<and> cc_locked t \<and>
    (\<forall>x\<in>set xs. \<not> win (fst x) LockedForOnTask) \<and> is_enabled list_updater t (Edt IDC_ZOOM_PLUS)"
proof -
  have "Edt IDC_ZOOM_PLUS \<in> set locked_commands" by (simp add: locked_commands_def)
  then show ?thesis
    using locked_fullscreen_enables_exactly [OF list_updater_laws, of "plain\<lparr>is_chromeos := True\<rparr>"]
    by (auto simp: plain_def set_eq_iff)
qed

text \<open>
  Where the command for the extensions page is disabled, as in a guest session, the entry of the
  submenu that opens the same page is not.
\<close>

lemma submenu_opens_extensions:
  "\<exists>t. try_run plain guest_env [(guest_env, Browser TabStateChanged)] = Some t \<and>
    \<not> is_enabled list_updater t (Shw IDC_MANAGE_EXTENSIONS) \<and>
    map_option snd (execute_command_with_disposition list_updater plain guest_env
      (Shw IDC_EXTENSIONS_SUBMENU_MANAGE_EXTENSIONS) ''CURRENT_TAB'' 0 t) = Some True"
proof -
  have "case try_run plain guest_env [(guest_env, Browser TabStateChanged)] of None \<Rightarrow> False
    | Some t \<Rightarrow> \<not> is_enabled list_updater t (Shw IDC_MANAGE_EXTENSIONS) \<and>
        map_option snd (execute_command_with_disposition list_updater plain guest_env
          (Shw IDC_EXTENSIONS_SUBMENU_MANAGE_EXTENSIONS) ''CURRENT_TAB'' 0 t) = Some True"
    by code_simp
  then show ?thesis by (simp split: option.splits)
qed

end
