(* ===== verification/Profile_Menu.thy ===== *)
theory Profile_Menu
  imports Command_State "HOL-Library.Monad_Syntax"
begin

text \<open>
  The profile menu of the toolbar, \<open>chrome/browser/ui/views/profiles/profile_menu_view.cc\<close>: which buttons
  the menu has and what clicking one does. The accounts, the sync service and the other profiles are
  an environment; a text is the name of its message and what is put into it; images and metrics are
  left out. Building the menu and clicking have no result where the process stops (\<open>CHECK\<close>,
  \<open>NOTREACHED\<close>, or \<open>DCHECK\<close> in a build that has them).
\<close>

subsection \<open>The environment\<close>

datatype menu_query =
    GuestSession | OffTheRecord | WebAppWindow | EntryExists | BadgingForMenu | ChildProfile
  | Dasherless | SyncServiceExists | PrimaryForSync | PrimaryForSignin | ClearPrimaryAllowed
  | PasskeyUi | PasskeyError | CanOfferSignin | ReplaceSyncPromos | AvatarSyncPromo | YourSavedInfo
  | IdentityManagerExists

datatype menu_query2 =
    AccountsWithTokens | SigninAllowed | AcceptedManagement | UnconsentedProfile | TokenError
  | ProfileCreationAllowed | GuestModeEnabled | WindowActive | PasswordManagerApp | PerformActions

datatype signed_in_state = SignedOut | WebOnlySignedIn | SyncPaused | SignInPending | Syncing | SignedIn

datatype sync_error =
    NoSyncError | UnrecoverableError | SignInNeedsUpdate | NeedsClientUpgrade
  | NeedsTrustedVaultKeyForEverything | NeedsTrustedVaultKeyForPasswords
  | TrustedVaultRecoverabilityDegradedForEverything | TrustedVaultRecoverabilityDegradedForPasswords
  | NeedsPassphrase | NeedsSettingsConfirmation | BookmarksLimitExceeded

datatype promo =
    HistorySyncPromo | BatchUploadPromo | BatchUploadBookmarksPromo
  | BatchUploadWindows10DepreciationPromo | SyncPromo | SigninPromo

datatype name_form = GaiaName | LocalName | GaiaAndLocalName

record account =
  ac_empty :: bool
  ac_email :: string
  ac_full_name :: "string option"
  ac_given_name :: "string option"

record attributes_entry =
  ae_path :: string
  ae_name :: string
  ae_form :: name_form
  ae_gaia_name :: string
  ae_local_name :: string
  ae_omitted :: bool
  ae_has_app :: bool

record menu_env =
  has :: "menu_query \<Rightarrow> bool"
  may :: "menu_query2 \<Rightarrow> bool"
  signed_in :: signed_in_state
  error_of_sync :: sync_error
  promo_type :: "promo option"
  from_avatar_promo :: bool
  local_data_count :: nat
  primary_account :: account
  promo_account :: account
  display_name :: string
  display_email :: string
  own_path :: string
  own_entry :: attributes_entry
  profile_entries :: "attributes_entry list"
  window_count :: nat
  loaded_profiles :: "(string \<times> nat) list"

subsection \<open>Texts, actions and the menu\<close>

datatype label = NoLabel | Plain string | Msg string "string list" | Plural string nat

datatype item =
    ProfileManagementLabel | ManageGoogleAccountButton | GuestProfileButton | ExitProfileButton
  | SyncSettingsButton | GoogleServicesSettingsButton | AccountSettingsButton | PasskeyUnlockButton
  | SyncErrorButton | SigninAccountButton | SigninButton | SigninReauthButton | HistorySyncButton
  | SignoutButton | OtherProfileButton | AddNewProfileButton | ManageProfilesButton | EditProfileButton
  | AutofillSettingsButton

datatype upload_item =
    BatchUploadButton | BatchUploadAsPrimaryButton | BatchUploadWithBookmarksAsPrimaryButton
  | BatchUploadWindows10DepreciationAsPrimaryButton | NoUpload item

datatype action =
    ManageProfile | ManageGoogleAccount | GuestProfile | ExitProfile | SyncSettings
  | GoogleServicesSettings | AccountSettings | PasskeyUnlock | SyncError sync_error
  | Signin account item string | Signout | OtherProfile string | AddNewProfile | ManageProfiles
  | EditProfile | AutofillSettings | YourSavedInfoSettings | BatchUpload upload_item

record identity_section =
  is_title :: label
  is_header :: "(label \<times> action) option"
  is_subtitle :: label
  is_email_subtitle :: label
  is_button_text :: label
  is_button_action :: "action option"
  is_dotted_ring :: bool

record profile_menu =
  pm_title :: label
  pm_subtitle :: label
  pm_identity :: "identity_section option"
  pm_features :: "(label \<times> action) list"
  pm_profiles :: "(label \<times> action) list"
  pm_management :: "(label \<times> action) list"

subsection \<open>The identity section\<close>

definition profile_identifier :: "attributes_entry \<Rightarrow> label" where
  "profile_identifier entry =
     (case ae_form entry of
        GaiaName \<Rightarrow> Plain (ae_name entry)
      | LocalName \<Rightarrow> Plain (ae_name entry)
      | GaiaAndLocalName \<Rightarrow> Msg ''IDS_PROFILE_MENU_PROFILE_IDENTIFIER_WITH_SEPARATOR''
          [ae_gaia_name entry, ae_local_name entry])"

text \<open>\<open>GetSyncErrorButtonStringId\<close> is the message that Chromium has for the error.\<close>

definition sync_error_button_text :: "(sync_error \<Rightarrow> string) \<Rightarrow> menu_env \<Rightarrow> sync_error \<Rightarrow> label" where
  "sync_error_button_text button_id e error =
     (if error = UnrecoverableError \<and> \<not> has e ClearPrimaryAllowed
      then Msg ''IDS_SYNC_ERROR_USER_MENU_SIGNOUT_BUTTON_MAYBE_TITLE_CASE'' []
      else if error = SignInNeedsUpdate \<and> has e PrimaryForSync
      then Msg ''IDS_SYNC_RELOGIN_BUTTON_MAYBE_TITLE_CASE'' []
      else Msg (button_id error) [])"

definition menu_titles :: "build \<Rightarrow> menu_env \<Rightarrow> label \<times> label" where
  "menu_titles b e =
     (let local_state = Msg ''IDS_PROFILES_LOCAL_PROFILE_STATE'' [];
          full_name = Plain (case ac_full_name (primary_account e) of None \<Rightarrow> [] | Some n \<Rightarrow> n);
          desktop = (is_mac b \<or> is_win b \<or> is_linux b);
          name = (if desktop then display_name e else []);
          email = (if desktop then display_email e else [])
      in if signed_in e \<in> {SignedOut, WebOnlySignedIn}
         then (if name = [] then local_state else Plain name, Plain email)
         else if signed_in e \<in> {SyncPaused, SignInPending} then (full_name, local_state)
         else (full_name, Plain (ac_email (primary_account e))))"

definition header_of :: "menu_env \<Rightarrow> (label \<times> action) option" where
  "header_of e =
     (if has e BadgingForMenu
      then Some (if has e ChildProfile then Msg ''IDS_MANAGED_BY_PARENT'' []
                 else Msg ''IDS_PROFILE_MENU_PROFILE_MANAGED_HEADER'' [], ManageProfile)
      else None)"

definition signed_out_section ::
  "menu_env \<Rightarrow> identity_section \<Rightarrow> (identity_section \<times> account \<times> item \<times> string) option" where
  "signed_out_section e params =
     (let account = promo_account e
      in if \<not> has e CanOfferSignin
         then Some (params, primary_account e, SigninAccountButton,
                    if from_avatar_promo e then ''kHistoryOptinAvatarPromoAccessPoint'' else ''kAvatarBubbleSignIn'')
         else if from_avatar_promo e \<and> promo_type e \<noteq> Some SigninPromo then None
         else
           let access_point = (if from_avatar_promo e then ''kAvatarPillExpandPromo''
                               else ''kAvatarBubbleSignInWithSyncPromo'')
           in if ac_empty account
              then Some (params\<lparr>is_subtitle := Msg (if has e ReplaceSyncPromos
                      then ''IDS_PROFILE_MENU_SIGNIN_PROMO_DESCRIPTION_WITH_BOOKMARKS''
                      else ''IDS_PROFILE_MENU_SIGNIN_PROMO_DESCRIPTION'') [],
                    is_button_text := Msg ''IDS_PROFILE_MENU_SIGNIN_PROMO_BUTTON'' []\<rparr>,
                    primary_account e, SigninButton, access_point)
              else Some (params\<lparr>is_subtitle := Msg (if has e ReplaceSyncPromos
                      then ''IDS_SETTINGS_PEOPLE_ACCOUNT_AWARE_SIGNIN_ACCOUNT_ROW_SUBTITLE_WITH_EMAIL_WITH_BOOKMARKS''
                      else ''IDS_SETTINGS_PEOPLE_ACCOUNT_AWARE_SIGNIN_ACCOUNT_ROW_SUBTITLE_WITH_EMAIL'')
                        [ac_email account],
                    is_button_text := Msg ''IDS_PROFILES_DICE_WEB_ONLY_SIGNIN_BUTTON''
                      [case ac_given_name account of None \<Rightarrow> ac_email account | Some n \<Rightarrow> n]\<rparr>,
                    account, SigninAccountButton, access_point))"

fun promo_section ::
  "menu_env \<Rightarrow> promo \<Rightarrow> identity_section \<Rightarrow> (identity_section \<times> item) option" where
  "promo_section e HistorySyncPromo params =
     Some (params\<lparr>is_subtitle := Msg ''IDS_PROFILE_MENU_SYNC_PROMO_SYNC_HISTORY_DESCRIPTION''
             [ac_email (primary_account e)],
           is_button_text := Msg ''IDS_PROFILE_MENU_SYNC_PROMO_BUTTON_LABEL'' []\<rparr>, HistorySyncButton)"
| "promo_section e BatchUploadPromo params =
     Some (params\<lparr>is_email_subtitle := Plain (ac_email (primary_account e)),
           is_subtitle := Msg ''IDS_PROFILE_MENU_PROMO_DESCRIPTION_WITH_BATCH_UPLOAD'' [],
           is_button_text := Msg ''IDS_PROFILE_MENU_PROMO_BUTTON_WITH_BATCH_UPLOAD'' [],
           is_button_action := Some (BatchUpload BatchUploadAsPrimaryButton)\<rparr>, SigninAccountButton)"
| "promo_section e BatchUploadBookmarksPromo params =
     Some (params\<lparr>is_email_subtitle := Plain (ac_email (primary_account e)),
           is_subtitle := Msg ''IDS_PROFILE_MENU_PROMO_DESCRIPTION_WITH_BATCH_UPLOAD_BOOKMARK_CLEANUP'' [],
           is_button_text := Msg ''IDS_PROFILE_MENU_PROMO_BUTTON_WITH_BATCH_UPLOAD'' [],
           is_button_action := Some (BatchUpload BatchUploadWithBookmarksAsPrimaryButton)\<rparr>,
           SigninAccountButton)"
| "promo_section e BatchUploadWindows10DepreciationPromo params =
     Some (params\<lparr>is_email_subtitle := Plain (ac_email (primary_account e)),
           is_subtitle := Msg ''IDS_PROFILE_MENU_DESCRIPTION_WITH_SYNC_PROMO'' [],
           is_button_text := Msg ''IDS_PROFILE_MENU_BUTTON_LABEL_WITH_SYNC_PROMO'' [],
           is_button_action := Some (BatchUpload BatchUploadWindows10DepreciationAsPrimaryButton)\<rparr>,
           SigninAccountButton)"
| "promo_section e SyncPromo params =
     (if \<not> has e AvatarSyncPromo then None
      else Some (params\<lparr>is_subtitle := Msg ''IDS_PROFILE_MENU_DESCRIPTION_WITH_SYNC_PROMO'' [],
             is_button_text := Msg ''IDS_PROFILE_MENU_BUTTON_LABEL_WITH_SYNC_PROMO'' []\<rparr>,
             SigninAccountButton))"
| "promo_section e SigninPromo params = None"

definition signed_in_section ::
  "menu_env \<Rightarrow> identity_section \<Rightarrow> (identity_section \<times> item) option" where
  "signed_in_section e params =
     (case promo_type e of
        Some p \<Rightarrow> promo_section e p params
      | None \<Rightarrow> Some
          (if has e ReplaceSyncPromos
           then params\<lparr>is_email_subtitle := Plain (ac_email (primary_account e))\<rparr>
           else params\<lparr>is_subtitle := Msg ''IDS_PROFILES_DICE_SYNC_PROMO'' [],
                  is_button_text := Msg ''IDS_PROFILES_DICE_SIGNIN_BUTTON'' []\<rparr>, SigninAccountButton))"

text \<open>The section by the state of the account, once nothing more urgent has claimed it.\<close>

definition account_section ::
  "(sync_error \<Rightarrow> string) \<Rightarrow> menu_env \<Rightarrow> identity_section \<Rightarrow>
    (identity_section \<times> account \<times> item \<times> string) option" where
  "account_section button_id e params =
     (let access_point = (if from_avatar_promo e then ''kHistoryOptinAvatarPromoAccessPoint''
                          else ''kAvatarBubbleSignIn'')
      in if signed_in e = SignedOut \<or> signed_in e = WebOnlySignedIn then signed_out_section e params
      else if signed_in e = SignedIn
      then map_option (\<lambda>(params, item). (params, primary_account e, item, access_point))
             (signed_in_section e params)
      else if signed_in e = Syncing
      then Some (params\<lparr>is_email_subtitle := Plain (ac_email (primary_account e))\<rparr>,
                 primary_account e, SigninAccountButton, access_point)
      else Some (params\<lparr>is_subtitle := Msg ''IDS_SETTINGS_PENDING_STATE_DESCRIPTION''
                   [ac_email (primary_account e)],
                 is_button_text := Msg (button_id SignInNeedsUpdate) [],
                 is_dotted_ring := True\<rparr>,
                 primary_account e, SigninReauthButton, access_point))"

text \<open>\<open>label.empty()\<close>\<close>

definition label_empty :: "label \<Rightarrow> bool" where
  "label_empty l \<longleftrightarrow> l = NoLabel \<or> l = Plain []"

definition with_default_action ::
  "identity_section \<times> account \<times> item \<times> string \<Rightarrow> identity_section" where
  "with_default_action r =
     (case r of (params, account, item, access_point) \<Rightarrow>
        if \<not> label_empty (is_button_text params) \<and> is_button_action params = None
        then params\<lparr>is_button_action := Some (Signin account item access_point)\<rparr> else params)"

text \<open>
  \<open>GetIdentitySectionParams\<close>; the description of a sync error and the texts about passkeys are
  messages of Chromium.
\<close>

definition identity_section_params ::
  "(sync_error \<Rightarrow> string) \<Rightarrow> menu_env \<Rightarrow> identity_section option" where
  "identity_section_params button_id e =
     (let params = \<lparr>is_title = profile_identifier (own_entry e), is_header = header_of e,
            is_subtitle = NoLabel, is_email_subtitle = NoLabel, is_button_text = NoLabel,
            is_button_action = None, is_dotted_ring = False\<rparr>;
          error = (if has e SyncServiceExists then error_of_sync e else NoSyncError)
      in if has e Dasherless
         then Some (params\<lparr>is_subtitle := Msg ''IDS_PROFILES_DASHER_FEATURE_DISABLED_TITLE'' []\<rparr>)
      else if has e WebAppWindow
         then Some (if ac_email (primary_account e) \<noteq> []
                    then params\<lparr>is_subtitle := Plain (ac_email (primary_account e))\<rparr> else params)
      else if error \<noteq> NoSyncError \<and> (error \<noteq> SignInNeedsUpdate \<or> has e PrimaryForSync)
         then Some (params\<lparr>is_subtitle := Msg ''GetAvatarSyncErrorDescription''
                      [ac_email (primary_account e)],
                    is_button_text := sync_error_button_text button_id e error,
                    is_button_action := Some (SyncError error),
                    is_dotted_ring := True\<rparr>)
      else if error = NoSyncError \<and> has e PasskeyUi \<and> has e PasskeyError
         then Some (params\<lparr>is_subtitle := Msg ''GetPasskeyErrorProfileMenuDetails'' [],
                    is_button_text := Msg ''GetPasskeyErrorProfileMenuButtonLabel'' [],
                    is_button_action := Some PasskeyUnlock,
                    is_dotted_ring := True\<rparr>)
      else map_option with_default_action (account_section button_id e params))"

subsection \<open>The buttons\<close>

definition batch_upload_button :: "menu_env \<Rightarrow> (label \<times> action) list" where
  "batch_upload_button e =
     (if \<not> has e ReplaceSyncPromos then []
      else if local_data_count e = 0 then []
      else [(Plural ''IDS_PROFILE_MENU_BATCH_UPLOAD_BUTTON'' (local_data_count e),
             BatchUpload BatchUploadButton)])"

definition autofill_settings_button :: "menu_env \<Rightarrow> (label \<times> action) list" where
  "autofill_settings_button e =
     [(Msg ''IDS_PROFILE_MENU_AUTOFILL_SETTINGS_BUTTON'' [],
       if has e YourSavedInfo then YourSavedInfoSettings else AutofillSettings)]"

definition customize_profile_button :: "(label \<times> action) list" where
  "customize_profile_button = [(Msg ''IDS_PROFILE_MENU_CUSTOMIZE_PROFILE_BUTTON'' [], EditProfile)]"

definition account_settings_button :: "menu_env \<Rightarrow> (label \<times> action) list" where
  "account_settings_button e =
     (if \<not> has e IdentityManagerExists then []
      else if signed_in e = SignInPending \<or> signed_in e = SignedIn
      then [(Msg ''IDS_PROFILE_MENU_ACCOUNT_SETTINGS_BUTTON'' [], AccountSettings)]
      else [])"

definition account_settings_button_with_sync :: "menu_env \<Rightarrow> (label \<times> action) list" where
  "account_settings_button_with_sync e =
     (if \<not> has e IdentityManagerExists then []
      else if \<not> (may e AccountsWithTokens \<or> \<not> may e SigninAllowed) then []
      else [(Msg (if signed_in e = Syncing then ''IDS_PROFILES_OPEN_SYNC_SETTINGS_BUTTON''
                  else ''IDS_PROFILE_MENU_OPEN_ACCOUNT_SETTINGS'') [], SyncSettings)])"

definition google_services_button :: "menu_env \<Rightarrow> (label \<times> action) list" where
  "google_services_button e =
     (if \<not> has e IdentityManagerExists then []
      else if may e SigninAllowed then []
      else [(Msg ''IDS_PROFILE_MENU_OPEN_ACCOUNT_SETTINGS'' [], GoogleServicesSettings)])"

definition manage_google_account_button :: "menu_env \<Rightarrow> (label \<times> action) list" where
  "manage_google_account_button e =
     (if \<not> has e IdentityManagerExists then []
      else if signed_in e = SignedIn \<or> signed_in e = Syncing
      then [(Msg ''IDS_SETTINGS_MANAGE_GOOGLE_ACCOUNT'' [], ManageGoogleAccount)]
      else [])"

definition close_browsers_button :: "menu_env \<Rightarrow> (label \<times> action) list" where
  "close_browsers_button e =
     (if has e GuestSession
      then [(Plural ''IDS_GUEST_PROFILE_MENU_CLOSE_X_WINDOWS_BUTTON'' (window_count e), ExitProfile)]
      else if window_count e \<le> 1 then []
      else if \<not> (\<exists>(path, n) \<in> set (loaded_profiles e). path \<noteq> own_path e \<and> n > 0) then []
      else [(Plural ''IDS_PROFILE_MENU_CLOSE_PROFILE_X_WINDOWS_BUTTON'' (window_count e), ExitProfile)])"

definition signout_button :: "menu_env \<Rightarrow> (label \<times> action) list" where
  "signout_button e =
     (if \<not> has e IdentityManagerExists then []
      else if \<not> (may e UnconsentedProfile \<and> \<not> has e PrimaryForSync \<and> \<not> may e AcceptedManagement) then []
      else [(Msg (if may e TokenError then ''IDS_PROFILE_MENU_SIGN_OUT_WHEN_SIGNIN_PENDING''
                  else ''IDS_PROFILE_MENU_SIGN_OUT'') [], Signout)])"

definition feature_buttons :: "menu_env \<Rightarrow> (label \<times> action) list" where
  "feature_buttons e =
     batch_upload_button e @ autofill_settings_button e @ manage_google_account_button e @
     customize_profile_button @
     (if has e ReplaceSyncPromos \<and> (\<not> has e IdentityManagerExists \<or> \<not> has e PrimaryForSync)
      then account_settings_button e else account_settings_button_with_sync e) @
     (if has e ReplaceSyncPromos then google_services_button e else []) @
     close_browsers_button e @ signout_button e"

text \<open>On macOS a web app lists only the profiles that have it.\<close>

definition available_profiles :: "build \<Rightarrow> menu_env \<Rightarrow> attributes_entry list" where
  "available_profiles b e =
     (let is_regular_web_app = (has e WebAppWindow \<and> \<not> may e PasswordManagerApp)
      in List.filter (\<lambda>entry. ae_path entry \<noteq> own_path e \<and> \<not> ae_omitted entry \<and>
           (is_mac b \<and> is_regular_web_app \<longrightarrow> ae_has_app entry)) (profile_entries e))"

definition other_profile_buttons :: "attributes_entry list \<Rightarrow> (label \<times> action) list" where
  "other_profile_buttons entries =
     List.map (\<lambda>entry. (Plain (ae_name entry), OtherProfile (ae_path entry))) entries"

definition management_buttons :: "menu_env \<Rightarrow> (label \<times> action) list" where
  "management_buttons e =
     (if may e ProfileCreationAllowed
      then [(Msg ''IDS_PROFILE_MENU_ADD_PROFILE'' [], AddNewProfile)] else []) @
     (if may e GuestModeEnabled \<and> \<not> has e WebAppWindow
      then [(Msg ''IDS_PROFILE_MENU_OPEN_GUEST_PROFILE'' [], GuestProfile)] else []) @
     [(Msg ''IDS_PROFILE_MENU_MANAGE_PROFILES'' [], ManageProfiles)]"

definition guest_menu :: "menu_env \<Rightarrow> profile_menu" where
  "guest_menu e =
     (let title = Msg ''IDS_GUEST_PROFILE_NAME'' []
      in \<lparr>pm_title = title, pm_subtitle = Plain [],
          pm_identity = Some \<lparr>is_title = title, is_header = None, is_subtitle = NoLabel,
            is_email_subtitle = NoLabel, is_button_text = NoLabel, is_button_action = None,
            is_dotted_ring = False\<rparr>,
          pm_features = close_browsers_button e, pm_profiles = [], pm_management = []\<rparr>)"

definition build_menu ::
  "build \<Rightarrow> (sync_error \<Rightarrow> string) \<Rightarrow> menu_env \<Rightarrow> profile_menu option" where
  "build_menu b button_id e =
     (if has e GuestSession then Some (guest_menu e)
      else if has e OffTheRecord then None
      else do {
        identity \<leftarrow> (if \<not> has e EntryExists then Some None
                     else map_option Some (identity_section_params button_id e));
        Some \<lparr>pm_title = fst (menu_titles b e), pm_subtitle = snd (menu_titles b e),
              pm_identity = identity,
              pm_features = (if has e WebAppWindow then [] else feature_buttons e),
              pm_profiles = other_profile_buttons (available_profiles b e),
              pm_management = (if has e WebAppWindow then [] else management_buttons e)\<rparr>
      })"

definition menu_actions :: "profile_menu \<Rightarrow> action list" where
  "menu_actions m =
     (case pm_identity m of None \<Rightarrow> []
      | Some i \<Rightarrow> List.map snd (case is_header i of None \<Rightarrow> [] | Some h \<Rightarrow> [h]) @
          (case is_button_action i of None \<Rightarrow> [] | Some a \<Rightarrow> [a])) @
     List.map snd (pm_features m @ pm_profiles m @ pm_management m)"

subsection \<open>Clicking\<close>

text \<open>
  Every handler first reports the item it is for; then, when actions are to be performed, it does
  what it is for.
\<close>

fun batch_entry_point :: "bool \<Rightarrow> upload_item \<Rightarrow> string option" where
  "batch_entry_point from_promo BatchUploadButton = Some ''kProfileMenuRowButtonAction''"
| "batch_entry_point from_promo BatchUploadAsPrimaryButton =
     Some (if from_promo then ''kProfileMenuPrimaryButtonActionFromAvatarPromo''
           else ''kProfileMenuPrimaryButtonAction'')"
| "batch_entry_point from_promo BatchUploadWithBookmarksAsPrimaryButton =
     Some (if from_promo then ''kProfileMenuPrimaryButtonWithBookmarksActionFromAvatarPromo''
           else ''kProfileMenuPrimaryButtonWithBookmarksAction'')"
| "batch_entry_point from_promo BatchUploadWindows10DepreciationAsPrimaryButton =
     Some (if from_promo then ''kProfileMenuPrimaryButtonWithWindows10DepreciationActionFromAvatarPromo''
           else ''kProfileMenuPrimaryButtonWithWindows10DepreciationAction'')"
| "batch_entry_point from_promo (NoUpload i) = None"

fun sync_error_clicked :: "menu_env \<Rightarrow> sync_error \<Rightarrow> call list option" where
  "sync_error_clicked e UnrecoverableError =
     (if \<not> has e ClearPrimaryAllowed
      then Some [Call ''ShowSettingsSubPage'' [Name ''kSignOutSubPage'']]
      else Some [Call ''RevokeSyncConsent'' [Name ''kUserClickedSignoutSettings''],
             Call ''CloseWithReason'' [Name ''kUnspecified''],
             Call ''EnableSyncFromSingleAccountPromo''
               [Text (ac_email (primary_account e)), Name ''kAvatarBubbleSignIn'']])"
| "sync_error_clicked e SignInNeedsUpdate =
     Some [Call ''CloseWithReason'' [Name ''kUnspecified''],
       Call ''ShowReauthForPrimaryAccountWithAuthError'' [Name ''kAvatarBubbleSignIn'']]"
| "sync_error_clicked e NeedsClientUpgrade = Some [Call ''OpenUpdateChromeDialog'' []]"
| "sync_error_clicked e NeedsTrustedVaultKeyForEverything =
     Some [Call ''OpenTabForSyncKeyRetrieval'' [Name ''kProfileMenu'']]"
| "sync_error_clicked e NeedsTrustedVaultKeyForPasswords =
     Some [Call ''OpenTabForSyncKeyRetrieval'' [Name ''kProfileMenu'']]"
| "sync_error_clicked e TrustedVaultRecoverabilityDegradedForEverything =
     Some [Call ''OpenTabForSyncKeyRecoverabilityDegraded'' [Name ''kProfileMenu'']]"
| "sync_error_clicked e TrustedVaultRecoverabilityDegradedForPasswords =
     Some [Call ''OpenTabForSyncKeyRecoverabilityDegraded'' [Name ''kProfileMenu'']]"
| "sync_error_clicked e NeedsPassphrase = Some [Call ''ShowSyncPassphraseDialogAndDecryptData'' []]"
| "sync_error_clicked e NeedsSettingsConfirmation =
     Some [Call ''ShowSettingsSubPage'' [Name ''kSyncSetupSubPage'']]"
| "sync_error_clicked e BookmarksLimitExceeded =
     Some [Call ''ShowBookmarksLimitExceededHelp'' [Name ''kProfileMenu'']]"
| "sync_error_clicked e NoSyncError = None"

text \<open>Both buttons about profiles lead to the page of the workspaces.\<close>

definition open_workspaces :: "call list" where
  "open_workspaces = [Call ''Navigate'' [Text ''purecloak://purecloak/'', Name ''PAGE_TRANSITION_TYPED'',
     Name ''CURRENT_TAB'']]"

definition other_profile_selected :: "build \<Rightarrow> menu_env \<Rightarrow> string \<Rightarrow> call list option" where
  "other_profile_selected b e path =
     (if \<not> has e WebAppWindow
      then Some [Call ''CloseWithReason'' [Name ''kUnspecified''], Call ''SwitchToProfile'' [Text path]]
      else if is_mac b \<and> \<not> may e PasswordManagerApp
      then Some [Call ''LaunchAppInProfile'' [Text path]]
      else if \<not> may e PasswordManagerApp then None
      else Some [Call ''WebAppProfileSwitcher::SwitchToProfile'' [Text path]])"

fun perform :: "build \<Rightarrow> menu_env \<Rightarrow> action \<Rightarrow> call list option" where
  "perform b e ManageProfile = Some [Call ''ExecuteCommand'' [Name ''IDC_SHOW_MANAGEMENT_PAGE'']]"
| "perform b e ManageGoogleAccount =
     (if dcheck_is_on b \<and> \<not> has e PrimaryForSignin then None
      else Some [Call ''NavigateToGoogleAccountPage'' [Text (ac_email (primary_account e))]])"
| "perform b e GuestProfile =
     (if dcheck_is_on b \<and> \<not> may e GuestModeEnabled then None
      else Some [Call ''SwitchToGuestProfile'' []])"
| "perform b e ExitProfile = Some [Call ''CloseProfileWindows'' []]"
| "perform b e SyncSettings = Some [Call ''ShowSettingsSubPage'' [Name ''kSyncSetupSubPage'']]"
| "perform b e GoogleServicesSettings =
     Some [Call ''ShowSettingsSubPage'' [Name ''kGoogleServicesSubpage'']]"
| "perform b e AccountSettings = Some [Call ''ShowSettingsSubPage'' [Name ''kPeopleSubPage'']]"
| "perform b e PasskeyUnlock =
     Some [Call ''OpenTabWithPasskeyUnlockChallenge'' [Name ''kPasskeyUnlockProfileMenu'']]"
| "perform b e (SyncError error) = sync_error_clicked e error"
| "perform b e (Signin account i access_point) =
     Some [Call ''CloseWithReason'' [Name ''kUnspecified''],
       if i = SigninReauthButton
       then Call ''ShowReauthForAccount'' [Text (ac_email account), Name access_point]
       else Call ''EnableSyncFromSingleAccountPromo'' [Text (ac_email account), Name access_point]]"
| "perform b e Signout =
     Some [Call ''CloseWithReason'' [Name ''kUnspecified''],
       Call ''SignoutOrReauthWithPrompt'' [Name ''kProfileMenuSignoutConfirmationPrompt'',
         Name ''kUserClickedSignoutProfileMenu'', Name ''kUserMenu_SignOutAllAccounts'']]"
| "perform b e (OtherProfile path) = other_profile_selected b e path"
| "perform b e AddNewProfile = Some open_workspaces"
| "perform b e ManageProfiles = Some open_workspaces"
| "perform b e EditProfile = Some [Call ''ShowSettingsSubPage'' [Name ''kManageProfileSubPage'']]"
| "perform b e AutofillSettings = Some [Call ''ShowSettingsSubPage'' [Name ''kAutofillSubPage'']]"
| "perform b e YourSavedInfoSettings = Some [Call ''ShowSettingsSubPage'' [Name ''kAutofillSubPage'']]"
| "perform b e (BatchUpload i) =
     map_option (\<lambda>p. [Call ''OpenBatchUpload'' [Name p]]) (batch_entry_point (from_avatar_promo e) i)"

fun item_of :: "action \<Rightarrow> upload_item" where
  "item_of ManageProfile = NoUpload ProfileManagementLabel"
| "item_of ManageGoogleAccount = NoUpload ManageGoogleAccountButton"
| "item_of GuestProfile = NoUpload GuestProfileButton"
| "item_of ExitProfile = NoUpload ExitProfileButton"
| "item_of SyncSettings = NoUpload SyncSettingsButton"
| "item_of GoogleServicesSettings = NoUpload GoogleServicesSettingsButton"
| "item_of AccountSettings = NoUpload AccountSettingsButton"
| "item_of PasskeyUnlock = NoUpload PasskeyUnlockButton"
| "item_of (SyncError error) = NoUpload SyncErrorButton"
| "item_of (Signin account i access_point) = NoUpload i"
| "item_of Signout = NoUpload SignoutButton"
| "item_of (OtherProfile path) = NoUpload OtherProfileButton"
| "item_of AddNewProfile = NoUpload AddNewProfileButton"
| "item_of ManageProfiles = NoUpload ManageProfilesButton"
| "item_of EditProfile = NoUpload EditProfileButton"
| "item_of AutofillSettings = NoUpload AutofillSettingsButton"
| "item_of YourSavedInfoSettings = NoUpload AutofillSettingsButton"
| "item_of (BatchUpload i) = i"

text \<open>The item that was clicked last, and the calls; signing out is checked before anything else.\<close>

record menu_view =
  mv_clicked :: "upload_item option"
  mv_calls :: "call list"

definition click :: "build \<Rightarrow> menu_env \<Rightarrow> action \<Rightarrow> menu_view \<Rightarrow> menu_view option" where
  "click b e a v =
     (if a = Signout \<and> dcheck_is_on b \<and> \<not> has e ClearPrimaryAllowed then None
      else
        let v = v\<lparr>mv_clicked := Some (item_of a)\<rparr>
        in if \<not> may e PerformActions then Some v
           else map_option (\<lambda>l. v\<lparr>mv_calls := mv_calls v @ l\<rparr>) (perform b e a))"

definition on_close :: "menu_env \<Rightarrow> menu_view \<Rightarrow> menu_view" where
  "on_close e v =
     (if mv_clicked v = None \<and> may e WindowActive
      then v\<lparr>mv_calls := mv_calls v @
             [Call ''LaunchHatsSurveyForProfile'' [Name ''kHatsSurveyTriggerIdentityProfileMenuDismissed'']]\<rparr>
      else v)"

end
