(* ===== verification/Profile_Menu_Safety.thy ===== *)
theory Profile_Menu_Safety
  imports Profile_Menu
begin

text \<open>
  What the profile menu offers for profiles: which of its buttons, in which kind of window, lead to the
  page of the workspaces.
\<close>

subsection \<open>The identity section\<close>

text \<open>The two buttons that were changed for the product, and a section that has neither.\<close>

definition profile_actions :: "action set" where
  "profile_actions = {AddNewProfile, ManageProfiles}"

definition leads_elsewhere :: "identity_section \<Rightarrow> bool" where
  "leads_elsewhere q \<longleftrightarrow>
     (\<forall>h. is_header q = Some h \<longrightarrow> snd h \<notin> profile_actions) \<and>
     (\<forall>a. is_button_action q = Some a \<longrightarrow> a \<notin> profile_actions)"

lemma leads_elsewhere_texts [simp]:
  "leads_elsewhere (q\<lparr>is_subtitle := x\<rparr>) = leads_elsewhere q"
  "leads_elsewhere (q\<lparr>is_email_subtitle := x\<rparr>) = leads_elsewhere q"
  "leads_elsewhere (q\<lparr>is_button_text := x\<rparr>) = leads_elsewhere q"
  "leads_elsewhere (q\<lparr>is_dotted_ring := y\<rparr>) = leads_elsewhere q"
  by (simp_all add: leads_elsewhere_def)

lemma leads_elsewhere_action [simp]:
  "a \<notin> profile_actions \<Longrightarrow> leads_elsewhere q \<Longrightarrow> leads_elsewhere (q\<lparr>is_button_action := Some a\<rparr>)"
  by (simp add: leads_elsewhere_def)

lemma other_actions [simp]:
  "BatchUpload u \<notin> profile_actions" "Signin account i ap \<notin> profile_actions" "PasskeyUnlock \<notin> profile_actions"
  "SyncError error \<notin> profile_actions" "ManageProfile \<notin> profile_actions" "OtherProfile path \<notin> profile_actions"
  "ExitProfile \<notin> profile_actions" "GuestProfile \<notin> profile_actions"
  by (simp_all add: profile_actions_def)

lemma promo_elsewhere:
  "promo_section e p params = Some (q, i) \<Longrightarrow> leads_elsewhere params \<Longrightarrow> leads_elsewhere q"
  by (cases p) (auto split: if_splits)

lemma signed_out_elsewhere:
  "signed_out_section e params = Some (q, r) \<Longrightarrow> leads_elsewhere params \<Longrightarrow> leads_elsewhere q"
  by (auto simp: signed_out_section_def Let_def split: if_splits)

lemma signed_in_elsewhere:
  "signed_in_section e params = Some (q, i) \<Longrightarrow> leads_elsewhere params \<Longrightarrow> leads_elsewhere q"
  by (auto simp: signed_in_section_def split: if_splits option.splits intro: promo_elsewhere)

lemma account_elsewhere:
  "account_section bid e params = Some (q, r) \<Longrightarrow> leads_elsewhere params \<Longrightarrow> leads_elsewhere q"
  by (auto simp: account_section_def Let_def split: if_splits
      intro: signed_out_elsewhere signed_in_elsewhere)

lemma default_elsewhere: "leads_elsewhere q \<Longrightarrow> leads_elsewhere (with_default_action (q, r))"
  by (cases r) (simp add: with_default_action_def)

lemma identity_elsewhere:
  assumes "identity_section_params bid e = Some q"
  shows "leads_elsewhere q"
proof -
  define params where "params = \<lparr>is_title = profile_identifier (own_entry e), is_header = header_of e,
    is_subtitle = NoLabel, is_email_subtitle = NoLabel, is_button_text = NoLabel,
    is_button_action = None, is_dotted_ring = False\<rparr>"
  have base: "leads_elsewhere params"
    by (simp add: params_def leads_elsewhere_def header_of_def)
  show ?thesis
    using assms unfolding identity_section_params_def Let_def params_def [symmetric]
    using base
    by (auto simp: default_elsewhere dest: account_elsewhere split: if_splits)
qed

subsection \<open>The menu\<close>

abbreviation all_elsewhere :: "(label \<times> action) list \<Rightarrow> bool" where
  "all_elsewhere l \<equiv> list_all (\<lambda>x. snd x \<notin> profile_actions) l"

lemma buttons_elsewhere:
  "all_elsewhere (batch_upload_button e)" "all_elsewhere (autofill_settings_button e)"
  "all_elsewhere customize_profile_button" "all_elsewhere (account_settings_button e)"
  "all_elsewhere (account_settings_button_with_sync e)" "all_elsewhere (google_services_button e)"
  "all_elsewhere (manage_google_account_button e)" "all_elsewhere (close_browsers_button e)"
  "all_elsewhere (signout_button e)" "all_elsewhere (other_profile_buttons es)"
  by (simp_all add: batch_upload_button_def autofill_settings_button_def customize_profile_button_def
      account_settings_button_def account_settings_button_with_sync_def google_services_button_def
      manage_google_account_button_def close_browsers_button_def signout_button_def
      other_profile_buttons_def list_all_iff profile_actions_def)

lemma elsewhere_disjoint: "all_elsewhere l \<Longrightarrow> snd ` set l \<inter> profile_actions = {}"
  by (auto simp: list_all_iff)

lemma feature_elsewhere: "snd ` set (feature_buttons e) \<inter> profile_actions = {}"
  by (rule elsewhere_disjoint) (simp add: feature_buttons_def buttons_elsewhere)

lemma other_elsewhere: "snd ` set (other_profile_buttons es) \<inter> profile_actions = {}"
  by (rule elsewhere_disjoint) (rule buttons_elsewhere)

lemma management_offers:
  "snd ` set (management_buttons e) \<inter> profile_actions =
     (if may e ProfileCreationAllowed then {AddNewProfile} else {}) \<union> {ManageProfiles}"
  by (auto simp: management_buttons_def profile_actions_def)

lemma menu_offers:
  assumes "build_menu b bid e = Some m"
  shows "set (menu_actions m) \<inter> profile_actions =
    (if has e GuestSession \<or> has e WebAppWindow then {}
     else (if may e ProfileCreationAllowed then {AddNewProfile} else {}) \<union> {ManageProfiles})"
proof (cases "has e GuestSession")
  case True
  then have "m = guest_menu e" using assms by (simp add: build_menu_def)
  moreover have "menu_actions (guest_menu e) = [ExitProfile]"
    using True by (simp add: guest_menu_def menu_actions_def close_browsers_button_def Let_def)
  ultimately show ?thesis using True by simp
next
  case False
  obtain i where m: "m = \<lparr>pm_title = fst (menu_titles b e), pm_subtitle = snd (menu_titles b e), pm_identity = i,
      pm_features = (if has e WebAppWindow then [] else feature_buttons e),
      pm_profiles = other_profile_buttons (available_profiles b e),
      pm_management = (if has e WebAppWindow then [] else management_buttons e)\<rparr>"
    and i: "\<And>q. i = Some q \<Longrightarrow> leads_elsewhere q"
    using assms False by (auto simp: build_menu_def identity_elsewhere split: if_splits Option.bind_splits)
  have "set (case i of None \<Rightarrow> [] | Some i \<Rightarrow> List.map snd (case is_header i of None \<Rightarrow> [] | Some h \<Rightarrow> [h]) @
      (case is_button_action i of None \<Rightarrow> [] | Some a \<Rightarrow> [a])) \<inter> profile_actions = {}"
  proof (cases i)
    case (Some q)
    then show ?thesis
      using i by (cases "is_header q"; cases "is_button_action q") (auto simp: leads_elsewhere_def)
  qed simp
  then have "set (menu_actions m) \<inter> profile_actions =
      snd ` set (pm_features m @ pm_profiles m @ pm_management m) \<inter> profile_actions"
    by (simp only: menu_actions_def m profile_menu.simps set_append set_map Int_Un_distrib2 Un_empty_left)
  then show ?thesis
    using False feature_elsewhere [of e] other_elsewhere [of "available_profiles b e"] management_offers [of e]
    by (simp add: m image_Un Int_Un_distrib2)
qed

text \<open>Of all actions, exactly these two open the page of the workspaces.\<close>

lemma perform_opens: "perform b e a = Some open_workspaces \<longleftrightarrow> a \<in> profile_actions"
proof (cases a)
  case (SyncError error)
  then show ?thesis by (cases error) (simp_all add: open_workspaces_def)
next
  case (BatchUpload i)
  then show ?thesis by (cases "batch_entry_point (from_avatar_promo e) i") (simp_all add: open_workspaces_def)
next
  case (OtherProfile path)
  then show ?thesis by (simp add: open_workspaces_def other_profile_selected_def)
qed (simp_all add: open_workspaces_def profile_actions_def)

lemma click_opens:
  assumes "may e PerformActions"
  shows "(\<exists>v'. click b e a v = Some v' \<and> mv_calls v' = mv_calls v @ open_workspaces) \<longleftrightarrow> a \<in> profile_actions"
proof
  assume "\<exists>v'. click b e a v = Some v' \<and> mv_calls v' = mv_calls v @ open_workspaces"
  then have "perform b e a = Some open_workspaces"
    using assms by (auto simp: click_def Let_def split: if_splits)
  then show "a \<in> profile_actions" by (simp add: perform_opens)
next
  assume a: "a \<in> profile_actions"
  then have "perform b e a = Some open_workspaces" "a \<noteq> Signout"
    by (simp add: perform_opens, auto simp: profile_actions_def)
  then show "\<exists>v'. click b e a v = Some v' \<and> mv_calls v' = mv_calls v @ open_workspaces"
    using assms by (simp add: click_def Let_def)
qed

text \<open>
  C23 (functional): the way from the profile menu to the workspaces. Of the buttons of a menu, those that
  open the page of the workspaces when clicked, in whatever state the rest of the browser is by
  then, are in an ordinary window the one for managing profiles, always, and the one for adding a
  profile when creating profiles is allowed; in a guest session and in the window of a web app there
  is none. (The menu must be one that performs actions, as it is outside tests.)
\<close>

theorem menu_leads_to_workspaces:
  assumes "build_menu b bid e = Some m" "may e' PerformActions"
  shows "{a \<in> set (menu_actions m). \<exists>v'. click b e' a v = Some v' \<and> mv_calls v' = mv_calls v @ open_workspaces} =
    (if has e GuestSession \<or> has e WebAppWindow then {}
     else if may e ProfileCreationAllowed then {AddNewProfile, ManageProfiles} else {ManageProfiles})"
proof -
  have "{a \<in> set (menu_actions m). a \<in> profile_actions} = set (menu_actions m) \<inter> profile_actions" by blast
  then show ?thesis
    unfolding click_opens [OF assms(2)] menu_offers [OF assms(1)] by (simp add: insert_commute)
qed

definition menu_example :: menu_env where
  "menu_example = \<lparr>has = (\<lambda>q. q \<in> {EntryExists, IdentityManagerExists, PrimaryForSignin, ReplaceSyncPromos}),
     may = (\<lambda>q. q \<in> {ProfileCreationAllowed, GuestModeEnabled, PerformActions, SigninAllowed}),
     signed_in = SignedIn, error_of_sync = NoSyncError, promo_type = Some BatchUploadPromo,
     from_avatar_promo = True, local_data_count = 2,
     primary_account = \<lparr>ac_empty = False, ac_email = ''a@b'', ac_full_name = None, ac_given_name = None\<rparr>,
     promo_account = \<lparr>ac_empty = True, ac_email = [], ac_full_name = None, ac_given_name = None\<rparr>,
     display_name = [], display_email = [], own_path = ''p'',
     own_entry = \<lparr>ae_path = ''p'', ae_name = ''me'', ae_form = LocalName, ae_gaia_name = [],
       ae_local_name = ''me'', ae_omitted = False, ae_has_app = False\<rparr>,
     profile_entries = [], window_count = 1, loaded_profiles = []\<rparr>"

definition debug_linux :: build where
  "debug_linux = \<lparr>is_chromeos = False, is_linux = True, is_win = False, is_mac = False, is_ozone = True,
     is_android = False, enable_printing = True, google_branding = False, lens_branded = False,
     dcheck_is_on = True\<rparr>"

theorem menu_leads_to_workspaces_witness:
  "\<exists>m. build_menu debug_linux (\<lambda>_. ''IDS'') menu_example = Some m \<and>
    {a \<in> set (menu_actions m). \<exists>v'. click debug_linux menu_example a \<lparr>mv_clicked = None, mv_calls = []\<rparr> = Some v' \<and>
       mv_calls v' = open_workspaces} = {AddNewProfile, ManageProfiles}"
proof -
  have "build_menu debug_linux (\<lambda>_. ''IDS'') menu_example \<noteq> None"
    by (simp add: build_menu_def menu_example_def identity_section_params_def account_section_def
        signed_in_section_def Let_def)
  then obtain m where m: "build_menu debug_linux (\<lambda>_. ''IDS'') menu_example = Some m" by blast
  have p: "may menu_example PerformActions" by (simp add: menu_example_def)
  show ?thesis
    using menu_leads_to_workspaces [OF m p, of "\<lparr>mv_clicked = None, mv_calls = []\<rparr>"] m
    by (simp add: menu_example_def)
qed

end
