(* ===== verification/Workspace_Applied.thy ===== *)
theory Workspace_Applied
  imports Profile_Applier Cdp_Client "HOL-Library.Multiset"
begin

text \<open>
  The applier of \<open>browser/workspace_profile_applier.cc\<close> together with the client of
  \<open>content/cdp_websocket_client.cc\<close> it calls on the thread pool. A check of the port and the
  sending of a batch run there on the network; their answers travel back to the applier's
  sequence as replies of their own, during which timers fire and the applier may go. A descriptor
  the applier closes is closed in the network; a failed \<open>CHECK\<close> on the pool ends the process.
\<close>

subsection \<open>State\<close>

record applying =
  aw_applier :: applier
  aw_net :: net
  aw_answers :: "bool list"
  aw_fds :: "int list"
  aw_sent :: "sock list"
  aw_down :: bool

definition applying :: "js_lib \<Rightarrow> json_lib \<Rightarrow> string \<Rightarrow> int \<Rightarrow> workspace list \<Rightarrow> net \<Rightarrow> applying" where
  "applying js jl url port ws nt =
     \<lparr>aw_applier = started js jl url port ws, aw_net = nt, aw_answers = [], aw_fds = [],
      aw_sent = [], aw_down = False\<rparr>"

text \<open>\<open>close(cdp_socket_)\<close>, as the network sees it.\<close>

definition close_released :: "applier \<Rightarrow> applier \<Rightarrow> net \<Rightarrow> net" where
  "close_released a a' nt =
     (if 0 \<le> ap_socket a \<and> ap_socket a' < 0 then close_fd (ap_socket a) nt else nt)"

definition on_applier :: "(applier \<Rightarrow> applier) \<Rightarrow> applying \<Rightarrow> applying" where
  "on_applier f w =
     w\<lparr>aw_applier := f (aw_applier w),
       aw_net := close_released (aw_applier w) (f (aw_applier w)) (aw_net w)\<rparr>"

subsection \<open>The tasks on the pool\<close>

definition run_check :: "applying \<Rightarrow> applying" where
  "run_check w =
     (let (b, nt) = is_cdp_available (ap_port (aw_applier w)) (aw_net w)
      in w\<lparr>aw_net := nt, aw_answers := aw_answers w @ [b]\<rparr>)"

definition run_send ::
  "json_lib \<Rightarrow> (string \<Rightarrow> string) \<Rightarrow> string \<Rightarrow> (nat \<Rightarrow> byte list) \<Rightarrow> applying \<Rightarrow> applying" where
  "run_send jl base64 raw keys w =
     (let (port, cmds) = ap_sends (aw_applier w) ! length (aw_fds w)
      in case send_commands jl base64 raw keys port cmds (aw_net w) of
           (None, nt) \<Rightarrow> w\<lparr>aw_net := nt, aw_down := True\<rparr>
         | (Some (fd, None), nt) \<Rightarrow> w\<lparr>aw_net := nt, aw_fds := aw_fds w @ [fd]\<rparr>
         | (Some (fd, Some s), nt) \<Rightarrow>
             w\<lparr>aw_net := nt, aw_fds := aw_fds w @ [fd], aw_sent := aw_sent w @ [s]\<rparr>)"

subsection \<open>Steps\<close>

datatype aw_event =
    TimerFires | CheckRuns | CheckReplies bool | SendRuns string "nat \<Rightarrow> byte list" | SendReplies
  | HealthPolled int bool | ApplierGoes

text \<open>
  What the kernel promises of descriptors: one that is opened is not negative and was not open.
  The masks of the frames have four bytes.
\<close>

definition kernel_ok :: "net \<Rightarrow> bool" where
  "kernel_ok nt = (distinct (nt_open nt) \<and> (\<forall>fd\<in>set (nt_open nt). 0 \<le> fd))"

definition runs :: "applying \<Rightarrow> bool" where
  "runs w = (\<not> aw_down w \<and> \<not> ap_crashed (aw_applier w))"

definition reply_check :: "bool \<Rightarrow> applier \<Rightarrow> applier" where
  "reply_check b a = on_cdp_check_result b (a\<lparr>ap_checks := ap_checks a - 1\<rparr>)"

text \<open>The reply of a send; the weak pointer of a destroyed applier drops it.\<close>

definition reply_send :: "int \<Rightarrow> applier \<Rightarrow> applier" where
  "reply_send fd a =
     (let a' = take_fd fd (a\<lparr>ap_sends := tl (ap_sends a)\<rparr>)
      in if ap_alive a then on_commands_sent fd a' else a')"

inductive aw_step :: "json_lib \<Rightarrow> (string \<Rightarrow> string) \<Rightarrow> applying \<Rightarrow> aw_event \<Rightarrow> applying \<Rightarrow> bool"
  for jl base64 where
  timer: "\<lbrakk>runs w; ap_alive (aw_applier w); ap_poll_timer (aw_applier w)\<rbrakk> \<Longrightarrow>
    aw_step jl base64 w TimerFires (on_applier on_poll_tick w)"
| check_runs: "\<lbrakk>runs w; length (aw_answers w) < ap_checks (aw_applier w)\<rbrakk> \<Longrightarrow>
    aw_step jl base64 w CheckRuns (run_check w)"
| check_replies: "\<lbrakk>runs w; ap_alive (aw_applier w); b \<in> set (aw_answers w)\<rbrakk> \<Longrightarrow>
    aw_step jl base64 w (CheckReplies b)
      (on_applier (reply_check b) (w\<lparr>aw_answers := remove1 b (aw_answers w)\<rparr>))"
| send_runs: "\<lbrakk>runs w; length (aw_fds w) < length (ap_sends (aw_applier w));
      kernel_ok (aw_net (run_send jl base64 raw keys w)); \<And>k. length (keys k) = 4\<rbrakk> \<Longrightarrow>
    aw_step jl base64 w (SendRuns raw keys) (run_send jl base64 raw keys w)"
| send_replies: "\<lbrakk>runs w; aw_fds w = fd # fds\<rbrakk> \<Longrightarrow>
    aw_step jl base64 w SendReplies (on_applier (reply_send fd) (w\<lparr>aw_fds := fds\<rparr>))"
| health: "\<lbrakk>runs w; ap_alive (aw_applier w); ap_health_timer (aw_applier w)\<rbrakk> \<Longrightarrow>
    aw_step jl base64 w (HealthPolled ret hup) (on_applier (on_health_check ret hup) w)"
| goes: "\<lbrakk>runs w; ap_alive (aw_applier w)\<rbrakk> \<Longrightarrow>
    aw_step jl base64 w ApplierGoes (on_applier destroy_applier w)"

inductive aw_run :: "json_lib \<Rightarrow> (string \<Rightarrow> string) \<Rightarrow> applying \<Rightarrow> aw_event list \<Rightarrow> applying \<Rightarrow> bool"
  for jl base64 where
  nil: "aw_run jl base64 w [] w"
| cons: "\<lbrakk>aw_step jl base64 w e v; aw_run jl base64 v es u\<rbrakk> \<Longrightarrow> aw_run jl base64 w (e # es) u"

subsection \<open>Descriptors\<close>

text \<open>
  What is open is what was open at first, what the applier holds and what its sends have opened
  and not yet reported.
\<close>

definition accounted :: "int list \<Rightarrow> applying \<Rightarrow> bool" where
  "accounted n0 w =
     (mset (nt_open (aw_net w)) =
        mset n0 + mset (ap_open (aw_applier w)) + mset (filter ((\<le>) 0) (aw_fds w)))"

definition aw_inv :: "int list \<Rightarrow> applying \<Rightarrow> bool" where
  "aw_inv n0 w =
     (ap_inv (aw_applier w) \<and> accounted n0 w \<and> kernel_ok (aw_net w) \<and>
      length (aw_answers w) \<le> ap_checks (aw_applier w) \<and>
      length (aw_fds w) \<le> length (ap_sends (aw_applier w)))"

lemma kernel_ok_close: "kernel_ok nt \<Longrightarrow> kernel_ok (close_fd fd nt)"
  using set_remove1_subset [of fd "nt_open nt"] by (auto simp: kernel_ok_def close_fd_def)

lemma kernel_ok_released: "kernel_ok nt \<Longrightarrow> kernel_ok (close_released a a' nt)"
  by (simp add: close_released_def kernel_ok_close)

lemma check_available_open:
  "is_cdp_available port nt = (b, nt') \<Longrightarrow>
   nt_open nt' = nt_open nt \<and> set (nt_conns nt') \<subseteq> set (nt_conns nt)"
  using http_get_open [of port "''/json/version''" nt] http_get_conns [of port "''/json/version''" nt]
  by (auto simp: is_cdp_available_def Let_def split: prod.splits)

lemma kernel_ok_check:
  "is_cdp_available port nt = (b, nt') \<Longrightarrow> kernel_ok nt' = kernel_ok nt"
  using check_available_open [of port nt b nt'] by (simp add: kernel_ok_def)

text \<open>An operation of a living applier that reports nothing releases what it drops.\<close>

definition releases :: "(applier \<Rightarrow> applier) \<Rightarrow> bool" where
  "releases f =
     (\<forall>a. ap_open a = (if 0 \<le> ap_socket a then [ap_socket a] else []) \<longrightarrow>
        ap_open (f a) = (if 0 \<le> ap_socket a \<and> ap_socket (f a) < 0 then [] else ap_open a))"

lemma releases_ops:
  "releases on_poll_tick" "releases (reply_check b)" "releases (on_health_check ret hup)"
  "releases destroy_applier"
  by (auto simp: releases_def applier_defs reply_check_def)

lemma accounted_released:
  assumes "releases f" "ap_alive (aw_applier w)" "ap_inv (aw_applier w)" "accounted n0 w"
  shows "accounted n0 (on_applier f w)"
proof -
  let ?a = "aw_applier w"
  have o: "ap_open ?a = (if 0 \<le> ap_socket ?a then [ap_socket ?a] else [])"
    using assms(2, 3) by (simp add: ap_inv_def)
  then have "ap_open (f ?a) = (if 0 \<le> ap_socket ?a \<and> ap_socket (f ?a) < 0 then [] else ap_open ?a)"
    using assms(1) by (simp add: releases_def)
  then show ?thesis
    using assms(4) o by (auto simp: accounted_def on_applier_def close_released_def close_fd_def)
qed

lemma accounted_replied:
  assumes "ap_inv (aw_applier w)" "accounted n0 w" "aw_fds w = fd # fds"
    "length (aw_fds w) \<le> length (ap_sends (aw_applier w))"
  shows "accounted n0 (on_applier (reply_send fd) (w\<lparr>aw_fds := fds\<rparr>))"
proof -
  have "ap_socket (aw_applier w) < 0" using assms(1, 3, 4) by (auto simp: ap_inv_def)
  then show ?thesis
    using assms(2, 3)
    by (auto simp: accounted_def on_applier_def close_released_def reply_send_def applier_defs)
qed

lemma accounted_sent:
  assumes "accounted n0 w" "kernel_ok (aw_net (run_send jl base64 raw keys w))"
  shows "accounted n0 (run_send jl base64 raw keys w)"
proof -
  obtain port cmds where p: "ap_sends (aw_applier w) ! length (aw_fds w) = (port, cmds)" by fastforce
  obtain r nt where r: "send_commands jl base64 raw keys port cmds (aw_net w) = (r, nt)" by fastforce
  show ?thesis
  proof (cases "\<exists>fd s. r = Some (fd, Some s)")
    case True
    then obtain fd s where fd: "r = Some (fd, Some s)" by blast
    then have "nt_open nt = fd # nt_open (aw_net w)" using send_commands_success r by metis
    moreover from this have "0 \<le> fd" using assms(2) p r fd by (simp add: run_send_def kernel_ok_def)
    ultimately show ?thesis using assms(1) p r fd by (simp add: run_send_def accounted_def)
  next
    case False
    then have "nt_open nt = nt_open (aw_net w) \<and> (r = None \<or> r = Some (-1, None))"
      using send_commands_failure [OF r] by blast
    then show ?thesis using assms(1) p r by (auto simp: run_send_def accounted_def)
  qed
qed

lemma run_send_fields [simp]:
  "aw_applier (run_send jl base64 raw keys w) = aw_applier w"
  "aw_answers (run_send jl base64 raw keys w) = aw_answers w"
  by (simp_all add: run_send_def split: prod.split option.split)

lemma run_send_fds: "length (aw_fds (run_send jl base64 raw keys w)) \<le> Suc (length (aw_fds w))"
  by (simp add: run_send_def split: prod.split option.split)

subsection \<open>The applier's own steps\<close>

text \<open>Each step of the whole is a step of the applier alone or leaves it as it is.\<close>

fun own_events :: "applying \<Rightarrow> aw_event \<Rightarrow> ap_event list" where
  "own_events w TimerFires = [Tick]"
| "own_events w CheckRuns = []"
| "own_events w (CheckReplies b) = [CheckDone b]"
| "own_events w (SendRuns raw keys) = []"
| "own_events w SendReplies = [SendDone (hd (aw_fds w))]"
| "own_events w (HealthPolled ret hup) = [Health ret hup]"
| "own_events w ApplierGoes = [Destroy]"

lemma reply_is_fresh:
  assumes "accounted n0 w" "kernel_ok (aw_net w)" "aw_fds w = fd # fds"
  shows "fd \<notin> set (ap_open (aw_applier w))"
proof
  assume in_open: "fd \<in> set (ap_open (aw_applier w))"
  have eq: "mset (nt_open (aw_net w)) =
      mset n0 + mset (ap_open (aw_applier w)) + mset (filter ((\<le>) 0) (aw_fds w))"
    using assms(1) by (simp add: accounted_def)
  have "fd \<in># mset (nt_open (aw_net w))" unfolding eq using in_open by simp
  then have "0 \<le> fd" using assms(2) by (simp add: kernel_ok_def)
  have "count (mset (nt_open (aw_net w))) fd =
      count (mset n0) fd + count (mset (ap_open (aw_applier w))) fd +
      count (mset (filter ((\<le>) 0) (aw_fds w))) fd"
    unfolding eq by simp
  moreover have "0 < count (mset (ap_open (aw_applier w))) fd"
    "0 < count (mset (filter ((\<le>) 0) (aw_fds w))) fd"
    using in_open assms(3) \<open>0 \<le> fd\<close> by (simp_all add: count_mset_gt_0)
  moreover have "count (mset (nt_open (aw_net w))) fd \<le> 1"
    using assms(2) by (simp add: kernel_ok_def distinct_count_atmost_1)
  ultimately show False by linarith
qed

lemma ap_run_one: "ap_step a e b \<Longrightarrow> ap_run a [e] b"
  by (rule ap_run.cons [OF _ ap_run.nil])

lemma on_applier_applier [simp]: "aw_applier (on_applier f w) = f (aw_applier w)"
  by (simp add: on_applier_def)

lemma own_step:
  assumes "aw_step jl base64 w e v" "aw_inv n0 w"
  shows "ap_run (aw_applier w) (own_events w e) (aw_applier v)"
  using assms(1)
proof cases
  case timer
  then show ?thesis by (auto simp: runs_def intro!: ap_run_one ap_step.tick)
next
  case check_runs
  then show ?thesis by (auto simp: run_check_def split: prod.split intro: ap_run.nil)
next
  case (check_replies b)
  have "0 < ap_checks (aw_applier w)"
    using check_replies assms(2) by (cases "aw_answers w") (auto simp: aw_inv_def)
  with check_replies show ?thesis
    using ap_step.check [of "aw_applier w" b]
    by (auto simp: runs_def reply_check_def simp flip: One_nat_def intro: ap_run_one)
next
  case (send_runs raw keys)
  then show ?thesis by (auto intro: ap_run.nil)
next
  case (send_replies fd fds)
  obtain s ss where ss: "ap_sends (aw_applier w) = s # ss"
    using send_replies assms(2) by (cases "ap_sends (aw_applier w)") (auto simp: aw_inv_def)
  have "fd \<notin> set (ap_open (aw_applier w))"
    using reply_is_fresh send_replies assms(2) by (auto simp: aw_inv_def)
  then have "ap_step (aw_applier w) (SendDone fd) (reply_send fd (aw_applier w))"
    using send_replies ss ap_step.sent [of "aw_applier w" s ss fd] ap_step.sent_late [of "aw_applier w" s ss fd]
    by (auto simp: reply_send_def runs_def Let_def)
  then show ?thesis using send_replies by (auto intro: ap_run_one)
next
  case (health ret hup)
  then show ?thesis by (auto simp: runs_def intro!: ap_run_one ap_step.health)
next
  case goes
  then show ?thesis by (auto simp: runs_def intro!: ap_run_one ap_step.destroy)
qed

lemma aw_inv_step:
  assumes "aw_step jl base64 w e v" "aw_inv n0 w"
  shows "aw_inv n0 v"
proof -
  have "ap_inv (aw_applier v)"
    using ap_inv_run [OF own_step [OF assms]] assms(2) by (simp add: aw_inv_def)
  moreover have "accounted n0 v"
    using assms(1)
  proof cases
    case check_runs
    then show ?thesis
      using assms(2) check_available_open
      by (auto simp: aw_inv_def run_check_def accounted_def split: prod.split)
  next
    case (check_replies b)
    have "accounted n0 (w\<lparr>aw_answers := remove1 b (aw_answers w)\<rparr>)"
      using assms(2) by (simp add: aw_inv_def accounted_def)
    then show ?thesis
      using check_replies assms(2) by (auto simp: aw_inv_def releases_ops intro!: accounted_released)
  qed (use assms(2) in \<open>auto simp: aw_inv_def releases_ops accounted_sent accounted_replied
        intro!: accounted_released\<close>)
  moreover have "kernel_ok (aw_net v)"
    using assms
    by cases (auto simp: aw_inv_def on_applier_def run_check_def kernel_ok_check
        split: prod.split intro!: kernel_ok_released)
  moreover have "length (aw_answers v) \<le> ap_checks (aw_applier v)"
    using assms
    by cases (auto simp: aw_inv_def on_applier_def run_check_def applier_defs reply_check_def
        length_remove1 reply_send_def split: prod.split)
  moreover have "length (aw_fds v) \<le> length (ap_sends (aw_applier v))"
    using assms
    by cases (auto simp: aw_inv_def on_applier_def run_check_def applier_defs reply_check_def
        reply_send_def split: prod.split intro: order.trans [OF run_send_fds])
  ultimately show ?thesis by (simp add: aw_inv_def)
qed

lemma ap_run_append: "ap_run a es b \<Longrightarrow> ap_run b fs c \<Longrightarrow> ap_run a (es @ fs) c"
  by (induction rule: ap_run.induct) (auto intro: ap_run.cons)

lemma aw_inv_run: "aw_run jl base64 w es v \<Longrightarrow> aw_inv n0 w \<Longrightarrow> aw_inv n0 v"
  by (induction rule: aw_run.induct) (auto intro: aw_inv_step)

lemma own_run:
  "aw_run jl base64 w es v \<Longrightarrow> aw_inv n0 w \<Longrightarrow> \<exists>fs. ap_run (aw_applier w) fs (aw_applier v)"
proof (induction rule: aw_run.induct)
  case (cons w e v es u)
  have "aw_inv n0 v" by (rule aw_inv_step [OF cons(1, 4)])
  then show ?case using cons.IH ap_run_append [OF own_step [OF cons(1, 4)]] by blast
qed (auto intro: ap_run.nil)

lemma aw_inv_applying: "kernel_ok nt \<Longrightarrow> aw_inv (nt_open nt) (applying js jl url port ws nt)"
  using ap_inv_started [of js jl url port ws]
  by (simp add: aw_inv_def applying_def accounted_def started_def apply_settings_def
      new_applier_def Let_def)

subsection \<open>Delivery\<close>

text \<open>What is on the connection: the handshake request and frames that read as the commands.\<close>

definition delivered :: "(string \<Rightarrow> string) \<Rightarrow> int \<Rightarrow> string list \<Rightarrow> sock \<Rightarrow> bool" where
  "delivered base64 port cmds s =
     (\<exists>raw path frames. sk_out s = bytes_of (handshake_request base64 raw port path) @ frames \<and>
        (\<forall>srv. arriving srv = frames \<longrightarrow> read_frames (length cmds) srv = cmds))"

text \<open>The descriptor \<open>fd\<close> is the connection that was served last.\<close>

definition served :: "int \<Rightarrow> sock list \<Rightarrow> bool" where
  "served fd ss = (0 \<le> fd \<longrightarrow> ss \<noteq> [] \<and> sk_fd (last ss) = fd)"

definition holds_commands :: "int \<Rightarrow> string list \<Rightarrow> applier \<Rightarrow> bool" where
  "holds_commands port cmds a =
     (ap_port a = port \<and> set (ap_sends a) \<subseteq> {(port, cmds)} \<and>
      (\<not> ap_started a \<longrightarrow> ap_pending a = cmds) \<and>
      (ap_saved a = cmds \<or> (\<not> ap_health_timer a \<and> ap_sends a = [])))"

definition delivery_inv :: "(string \<Rightarrow> string) \<Rightarrow> int \<Rightarrow> string list \<Rightarrow> applying \<Rightarrow> bool" where
  "delivery_inv base64 port cmds w =
     (holds_commands port cmds (aw_applier w) \<and>
      (\<forall>c. Some c \<in> set (nt_conns (aw_net w)) \<longrightarrow> sk_out c = []) \<and>
      (\<forall>s\<in>set (aw_sent w). delivered base64 port cmds s) \<and>
      (\<forall>fd\<in>set (aw_fds w). served fd (aw_sent w)) \<and>
      served (ap_socket (aw_applier w)) (aw_sent w) \<and>
      (True \<in> set (callbacks (aw_applier w)) \<longrightarrow> aw_sent w \<noteq> []))"

lemma holds_commands_ops:
  assumes "holds_commands port cmds a"
  shows "holds_commands port cmds (on_poll_tick a)" "holds_commands port cmds (reply_check b a)"
    "ap_health_timer a \<Longrightarrow> holds_commands port cmds (on_health_check ret hup a)"
    "holds_commands port cmds (destroy_applier a)"
    "ap_sends a \<noteq> [] \<Longrightarrow> holds_commands port cmds (reply_send fd a)"
proof -
  show "ap_sends a \<noteq> [] \<Longrightarrow> holds_commands port cmds (reply_send fd a)"
    using assms by (cases "ap_sends a") (auto simp: holds_commands_def applier_defs reply_send_def)
qed (use assms in \<open>auto simp: holds_commands_def applier_defs reply_check_def\<close>)

lemma callbacks_run_callback [simp]:
  "callbacks (run_callback b a) = callbacks a @ (if ap_callback a then [b] else [])"
  by (simp add: callbacks_def run_callback_def)

lemma reports_true:
  "True \<in> set (callbacks (reply_check b a)) \<longleftrightarrow> True \<in> set (callbacks a)"
  "True \<in> set (callbacks (on_poll_tick a)) \<longleftrightarrow> True \<in> set (callbacks a)"
  "True \<in> set (callbacks (on_health_check ret hup a)) \<longleftrightarrow> True \<in> set (callbacks a)"
  "True \<in> set (callbacks (destroy_applier a)) \<longleftrightarrow> True \<in> set (callbacks a)"
  "True \<in> set (callbacks (reply_send fd a)) \<Longrightarrow> True \<in> set (callbacks a) \<or> 0 \<le> fd"
  by (auto simp: callbacks_def applier_defs reply_check_def reply_send_def split: if_splits)

lemma socket_after:
  "ap_socket (reply_check b a) = ap_socket a" "ap_socket (on_poll_tick a) = ap_socket a"
  "ap_socket (on_health_check ret hup a) \<in> {ap_socket a, -1}"
  "ap_socket (destroy_applier a) \<in> {ap_socket a, -1}"
  "ap_socket (reply_send fd a) \<in> {ap_socket a, fd}"
  by (auto simp: applier_defs reply_check_def reply_send_def)

lemma served_socket: "served fd ss \<Longrightarrow> fd' \<in> {fd, -1} \<Longrightarrow> served fd' ss"
  by (auto simp: served_def)

lemma on_applier_fields [simp]:
  "aw_sent (on_applier f w) = aw_sent w" "aw_fds (on_applier f w) = aw_fds w"
  "nt_conns (aw_net (on_applier f w)) = nt_conns (aw_net w)"
  by (simp_all add: on_applier_def close_released_def close_fd_def)

text \<open>An operation that keeps the commands and the served socket and reports no new success.\<close>

lemma delivery_inv_applier:
  assumes "delivery_inv base64 port cmds w" "holds_commands port cmds (f (aw_applier w))"
    "ap_socket (f (aw_applier w)) \<in> {ap_socket (aw_applier w), -1}"
    "True \<in> set (callbacks (f (aw_applier w))) \<Longrightarrow> True \<in> set (callbacks (aw_applier w))"
  shows "delivery_inv base64 port cmds (on_applier f w)"
  using assms served_socket [of "ap_socket (aw_applier w)" "aw_sent w" "ap_socket (f (aw_applier w))"]
  by (auto simp: delivery_inv_def)

lemma delivery_inv_replied:
  assumes "delivery_inv base64 port cmds w" "aw_fds w = fd # fds" "ap_sends (aw_applier w) \<noteq> []"
  shows "delivery_inv base64 port cmds (on_applier (reply_send fd) (w\<lparr>aw_fds := fds\<rparr>))"
proof -
  let ?a = "reply_send fd (aw_applier w)"
  have "served fd (aw_sent w)" "served (ap_socket (aw_applier w)) (aw_sent w)"
    using assms(1, 2) by (simp_all add: delivery_inv_def)
  then have "served (ap_socket ?a) (aw_sent w)" using socket_after(5) [of fd "aw_applier w"] by auto
  moreover have "True \<in> set (callbacks ?a) \<Longrightarrow> aw_sent w \<noteq> []"
    using reports_true(5) [of fd "aw_applier w"] assms(1) \<open>served fd (aw_sent w)\<close>
    by (auto simp: delivery_inv_def served_def)
  ultimately show ?thesis
    using assms holds_commands_ops(5) [of port cmds "aw_applier w" fd] by (simp add: delivery_inv_def)
qed

lemma delivery_inv_sent:
  assumes "delivery_inv base64 port cmds w" "aw_fds w = []" "ap_socket (aw_applier w) < 0"
    "ap_sends (aw_applier w) \<noteq> []" "\<And>k. length (keys k) = 4"
    "\<And>c. c \<in> set cmds \<Longrightarrow> length c \<le> kMaxWsPayload"
  shows "delivery_inv base64 port cmds (run_send jl base64 raw keys w)"
proof -
  have s: "ap_sends (aw_applier w) ! length (aw_fds w) = (port, cmds)"
    using assms(1, 2, 4) by (cases "ap_sends (aw_applier w)") (auto simp: delivery_inv_def holds_commands_def)
  obtain r nt where r: "send_commands jl base64 raw keys port cmds (aw_net w) = (r, nt)" by fastforce
  have fresh: "\<forall>c. Some c \<in> set (nt_conns nt) \<longrightarrow> sk_out c = []"
    using send_commands_conns [of jl base64 raw keys port cmds "aw_net w"] r assms(1)
    by (auto simp: delivery_inv_def)
  show ?thesis
  proof (cases "\<exists>fd t. r = Some (fd, Some t)")
    case True
    then obtain fd t where t: "r = Some (fd, Some t)" by blast
    have "delivered base64 port cmds t"
      unfolding delivered_def
      by (rule exI, rule commands_on_socket [OF r [unfolded t]]) (use assms in \<open>auto simp: delivery_inv_def\<close>)
    moreover have "sk_fd t = fd"
      using send_commands_fd [OF r [unfolded t]] by simp
    moreover have "run_send jl base64 raw keys w =
        w\<lparr>aw_net := nt, aw_fds := aw_fds w @ [fd], aw_sent := aw_sent w @ [t]\<rparr>"
      by (simp add: run_send_def s r t)
    ultimately show ?thesis
      using assms(1, 2, 3) fresh by (auto simp: delivery_inv_def served_def)
  next
    case False
    then have "r = None \<or> r = Some (-1, None)" using send_commands_failure [OF r] by blast
    then have "run_send jl base64 raw keys w \<in>
        {w\<lparr>aw_net := nt, aw_down := True\<rparr>, w\<lparr>aw_net := nt, aw_fds := aw_fds w @ [-1]\<rparr>}"
      using s r by (auto simp: run_send_def)
    then show ?thesis
      using assms(1, 2) fresh by (auto simp: delivery_inv_def served_def)
  qed
qed

lemma delivery_inv_step:
  assumes "aw_step jl base64 w e v" "delivery_inv base64 port cmds w" "aw_inv n0 w"
    "\<And>c. c \<in> set cmds \<Longrightarrow> length c \<le> kMaxWsPayload"
  shows "delivery_inv base64 port cmds v"
proof -
  have h: "holds_commands port cmds (aw_applier w)" using assms(2) by (simp add: delivery_inv_def)
  note ops = holds_commands_ops [OF h] and inv = assms(3) [unfolded aw_inv_def]
  from assms(1) show ?thesis
  proof cases
    case timer
    show ?thesis unfolding timer
      by (rule delivery_inv_applier [OF assms(2)]) (use ops(1) in \<open>simp_all add: socket_after reports_true\<close>)
  next
    case check_runs
    obtain b nt where nt: "is_cdp_available (ap_port (aw_applier w)) (aw_net w) = (b, nt)" by fastforce
    then have "set (nt_conns nt) \<subseteq> set (nt_conns (aw_net w))"
      using check_available_open by blast
    then show ?thesis
      using assms(2) check_runs nt by (auto simp: delivery_inv_def run_check_def)
  next
    case (check_replies b)
    have "delivery_inv base64 port cmds (w\<lparr>aw_answers := remove1 b (aw_answers w)\<rparr>)"
      using assms(2) by (simp add: delivery_inv_def)
    then show ?thesis unfolding check_replies
      by (rule delivery_inv_applier) (use ops(2) in \<open>simp_all add: socket_after reports_true\<close>)
  next
    case (send_runs raw keys)
    then have "aw_fds w = []" "ap_socket (aw_applier w) < 0" "ap_sends (aw_applier w) \<noteq> []"
      using inv by (auto simp: ap_inv_def)
    then show ?thesis using send_runs assms(2, 4) by (auto intro: delivery_inv_sent)
  next
    case (send_replies fd fds)
    then have "ap_sends (aw_applier w) \<noteq> []" using inv by auto
    then show ?thesis using send_replies delivery_inv_replied [OF assms(2)] by simp
  next
    case (health ret hup)
    show ?thesis unfolding health
      by (rule delivery_inv_applier [OF assms(2)])
        (use ops(3) health socket_after(3) in \<open>simp_all add: reports_true\<close>)
  next
    case goes
    show ?thesis unfolding goes
      by (rule delivery_inv_applier [OF assms(2)])
        (use ops(4) socket_after(4) in \<open>simp_all add: reports_true\<close>)
  qed
qed

lemma delivery_inv_run:
  assumes "aw_run jl base64 w es v" "delivery_inv base64 port cmds w" "aw_inv n0 w"
    "\<And>c. c \<in> set cmds \<Longrightarrow> length c \<le> kMaxWsPayload"
  shows "delivery_inv base64 port cmds v"
  using assms
proof (induction rule: aw_run.induct)
  case (cons w e v es u)
  show ?case
    by (rule cons.IH) (use cons delivery_inv_step [OF cons(1)] aw_inv_step [OF cons(1)] in blast)+
qed

lemma delivery_inv_applying:
  assumes "ws \<noteq> []" "\<And>c. Some c \<in> set (nt_conns nt) \<Longrightarrow> sk_out c = []"
  shows "delivery_inv base64 port (sent_commands js jl ws) (applying js jl url port ws nt)"
  using assms started_fields [OF assms(1), of js jl url port]
  by (simp add: delivery_inv_def applying_def holds_commands_def served_def callbacks_def)
    (simp add: started_def apply_settings_def new_applier_def Let_def)

subsection \<open>A run\<close>

definition version_sock :: sock where "version_sock = http_sock 4 ''Browser''"

lemma version_served:
  "is_cdp_available 9333 \<lparr>nt_conns = Some version_sock # cs, nt_open = os\<rparr> =
     (True, \<lparr>nt_conns = cs, nt_open = os\<rparr>)"
  using http_served [of "''/json/version''" "''Browser''" 4 cs os]
  by (simp add: is_cdp_available_def version_sock_def http_request_def crlf_def body_of_def
      show_int_def show_nat.simps)

abbreviation sample_batch :: "string list" where
  "sample_batch \<equiv> sent_commands sample_js sample_cdp_json [workspace_default]"

definition launched_net :: net where
  "launched_net =
     \<lparr>nt_conns = Some version_sock # nt_conns (batch_net (length sample_batch) []), nt_open = []\<rparr>"

abbreviation launched :: applying where
  "launched \<equiv> applying sample_js sample_cdp_json [] 9333 [workspace_default] launched_net"

lemma sample_batch_fields: "sample_batch \<noteq> []" "set sample_batch \<subseteq> {''{}''}"
  by (auto simp: sent_commands_def to_json_def sample_cdp_json_def)

lemma launched_conns: "Some c \<in> set (nt_conns launched_net) \<Longrightarrow> sk_out c = []"
  by (auto simp: launched_net_def batch_net_def version_sock_def http_sock_def page_sock_def browser_sock_def)

lemma launched_run:
  obtains w where "aw_run sample_cdp_json (\<lambda>s. s) launched
      [TimerFires, CheckRuns, CheckReplies True, SendRuns ''raw'' sample_keys, SendReplies] w"
    "callbacks (aw_applier w) = [True]" "ap_socket (aw_applier w) = 5" "ap_alive (aw_applier w)"
    "aw_fds w = []" "nt_open (aw_net w) = [5]" "nt_open launched_net = []"
proof -
  note f = started_fields [of "[workspace_default]" sample_js sample_cdp_json "[]" 9333, simplified]
  let ?a = "started sample_js sample_cdp_json [] 9333 [workspace_default]"
  let ?n = "batch_net (length sample_batch) []"
  let ?w = "applying sample_js sample_cdp_json [] 9333 [workspace_default]"
  let ?t = "on_poll_tick ?a" and ?r = "reply_check True (on_poll_tick ?a)"
  have n: "\<lparr>nt_conns = nt_conns ?n, nt_open = []\<rparr> = ?n" by (simp add: batch_net_def)
  obtain s where s: "send_commands sample_cdp_json (\<lambda>s. s) ''raw'' sample_keys 9333 sample_batch ?n =
      (Some (5, Some s), \<lparr>nt_conns = [], nt_open = [5]\<rparr>)"
    using batch_sent [OF sample_batch_fields] by blast
  define w1 where "w1 = (?w launched_net)\<lparr>aw_applier := ?t\<rparr>"
  define w2 where "w2 = w1\<lparr>aw_net := ?n, aw_answers := [True]\<rparr>"
  define w3 where "w3 = w2\<lparr>aw_applier := ?r, aw_answers := []\<rparr>"
  define w4 where "w4 = w3\<lparr>aw_net := \<lparr>nt_conns = [], nt_open = [5]\<rparr>, aw_fds := [5], aw_sent := [s]\<rparr>"
  define w5 where "w5 = w4\<lparr>aw_applier := reply_send 5 ?r, aw_fds := []\<rparr>"
  have r: "ap_sends ?r = [(9333, sample_batch)]" "ap_alive ?r" "\<not> ap_crashed ?r" "ap_socket ?r = -1"
    "ap_callback ?r" "ap_log ?r = [SendPosted 9333 sample_batch]"
    using f by (simp_all add: reply_check_def applier_defs)
  have t: "ap_alive ?t" "\<not> ap_crashed ?t" "ap_port ?t = 9333" "0 < ap_checks ?t" "ap_socket ?t = -1"
    using f by (simp_all add: applier_defs)
  have "on_applier on_poll_tick (?w launched_net) = w1"
    using f by (simp add: on_applier_def w1_def applying_def close_released_def)
  moreover have "runs (?w launched_net) \<and> ap_alive (aw_applier (?w launched_net)) \<and>
      ap_poll_timer (aw_applier (?w launched_net))"
    using f by (simp add: applying_def runs_def)
  ultimately have s1: "aw_step sample_cdp_json (\<lambda>s. s) (?w launched_net) TimerFires w1"
    using aw_step.timer [of "?w launched_net" sample_cdp_json "\<lambda>s. s"] by simp
  have "run_check w1 = w2"
    using t version_served [of "nt_conns ?n" "[]"]
    by (simp add: run_check_def w1_def w2_def applying_def launched_net_def n)
  then have s2: "aw_step sample_cdp_json (\<lambda>s. s) w1 CheckRuns w2"
    using aw_step.check_runs [of w1 sample_cdp_json "\<lambda>s. s"] t by (simp add: w1_def applying_def runs_def)
  have "on_applier (reply_check True) (w2\<lparr>aw_answers := remove1 True (aw_answers w2)\<rparr>) = w3"
    using t by (simp add: on_applier_def w3_def w2_def w1_def close_released_def)
  then have s3: "aw_step sample_cdp_json (\<lambda>s. s) w2 (CheckReplies True) w3"
    using aw_step.check_replies [of w2 True sample_cdp_json "\<lambda>s. s"] t
    by (simp add: w2_def w1_def applying_def runs_def)
  have "run_send sample_cdp_json (\<lambda>s. s) ''raw'' sample_keys w3 = w4"
    using r s by (simp add: run_send_def w4_def w3_def w2_def w1_def applying_def)
  moreover have "kernel_ok (aw_net w4)" by (simp add: w4_def kernel_ok_def)
  ultimately have s4: "aw_step sample_cdp_json (\<lambda>s. s) w3 (SendRuns ''raw'' sample_keys) w4"
    using aw_step.send_runs [of w3 sample_cdp_json "\<lambda>s. s" "''raw''" sample_keys] r
    by (simp add: w3_def w2_def w1_def applying_def runs_def sample_keys_def)
  have "on_applier (reply_send 5) (w4\<lparr>aw_fds := []\<rparr>) = w5"
    using r by (simp add: on_applier_def w5_def w4_def w3_def close_released_def)
  then have s5: "aw_step sample_cdp_json (\<lambda>s. s) w4 SendReplies w5"
    using aw_step.send_replies [of w4 5 "[]" sample_cdp_json "\<lambda>s. s"] r
    by (simp add: w4_def w3_def w2_def w1_def applying_def runs_def)
  show thesis
    by (rule that, rule aw_run.cons [OF s1 aw_run.cons [OF s2 aw_run.cons [OF s3 aw_run.cons [OF s4
          aw_run.cons [OF s5 aw_run.nil]]]]])
      (use r in \<open>simp_all add: w5_def w4_def reply_send_def applier_defs callbacks_def launched_net_def\<close>)
qed

subsection \<open>Properties\<close>

text \<open>
  C12 (refinement): the applier with the client and the pool behaves as the applier on its own.
  What happens to it is a run of the applier's steps, in which the kernel's descriptors stand for
  the results of the sends; and the descriptors that are open are those that were open at first,
  those the applier holds, and those of sends that have not reported.
\<close>

theorem applying_refines_applier:
  assumes "aw_run jl base64 (applying js jl url port ws nt) es w" "kernel_ok nt"
  shows "(\<exists>fs. ap_run (started js jl url port ws) fs (aw_applier w)) \<and>
         mset (nt_open (aw_net w)) =
           mset (nt_open nt) + mset (ap_open (aw_applier w)) + mset (filter ((\<le>) 0) (aw_fds w)) \<and>
         (ap_alive (aw_applier w) \<longrightarrow>
            ap_open (aw_applier w) = (if 0 \<le> ap_socket (aw_applier w) then [ap_socket (aw_applier w)] else []))"
proof -
  note inv0 = aw_inv_applying [OF assms(2), of js jl url port ws]
  have "aw_inv (nt_open nt) w" by (rule aw_inv_run [OF assms(1) inv0])
  moreover have "\<exists>fs. ap_run (started js jl url port ws) fs (aw_applier w)"
    using own_run [OF assms(1) inv0] by (simp add: applying_def)
  ultimately show ?thesis by (auto simp: aw_inv_def accounted_def ap_inv_def)
qed

theorem applying_refines_applier_witness:
  "\<exists>w. aw_run sample_cdp_json (\<lambda>s. s) launched
     [TimerFires, CheckRuns, CheckReplies True, SendRuns ''raw'' sample_keys, SendReplies] w \<and>
     ap_open (aw_applier w) = [5] \<and> mset (nt_open (aw_net w)) = {#5#}"
proof -
  obtain w where w: "aw_run sample_cdp_json (\<lambda>s. s) launched
      [TimerFires, CheckRuns, CheckReplies True, SendRuns ''raw'' sample_keys, SendReplies] w"
    "ap_socket (aw_applier w) = 5" "ap_alive (aw_applier w)" "aw_fds w = []" "nt_open launched_net = []"
    by (rule launched_run)
  then have "kernel_ok launched_net" by (simp add: kernel_ok_def)
  from applying_refines_applier [OF w(1) this] w show ?thesis by auto
qed

text \<open>
  C5 (functional): a launch that reports success has been delivered. Every connection that a
  batch was sent on carries the handshake and then frames from which any endpoint reads all
  commands of the settings, in order; there is one when the callback has run with true, and the
  connection the applier watches is the last of them.
\<close>

theorem success_is_delivered:
  assumes "aw_run jl base64 (applying js jl url port ws nt) es w" "kernel_ok nt" "ws \<noteq> []"
    "\<And>c. Some c \<in> set (nt_conns nt) \<Longrightarrow> sk_out c = []"
    "\<And>c. c \<in> set (sent_commands js jl ws) \<Longrightarrow> length c \<le> kMaxWsPayload"
  shows "(\<forall>s\<in>set (aw_sent w). delivered base64 port (sent_commands js jl ws) s) \<and>
         (True \<in> set (callbacks (aw_applier w)) \<longrightarrow> aw_sent w \<noteq> []) \<and>
         (0 \<le> ap_socket (aw_applier w) \<longrightarrow>
            aw_sent w \<noteq> [] \<and> sk_fd (last (aw_sent w)) = ap_socket (aw_applier w))"
  using delivery_inv_run [OF assms(1) delivery_inv_applying [OF assms(3, 4)] aw_inv_applying [OF assms(2)] assms(5)]
  by (auto simp: delivery_inv_def served_def)

theorem success_is_delivered_witness:
  "\<exists>w s. aw_run sample_cdp_json (\<lambda>s. s) launched
     [TimerFires, CheckRuns, CheckReplies True, SendRuns ''raw'' sample_keys, SendReplies] w \<and>
     s \<in> set (aw_sent w) \<and> sk_fd s = 5 \<and> delivered (\<lambda>s. s) 9333 sample_batch s"
proof -
  obtain w where w: "aw_run sample_cdp_json (\<lambda>s. s) launched
      [TimerFires, CheckRuns, CheckReplies True, SendRuns ''raw'' sample_keys, SendReplies] w"
    "ap_socket (aw_applier w) = 5" "nt_open launched_net = []"
    by (rule launched_run)
  have k: "kernel_ok launched_net" using w(3) by (simp add: kernel_ok_def)
  have len: "length c \<le> kMaxWsPayload" if "c \<in> set sample_batch" for c
    using that sample_batch_fields(2) by (auto simp: kMaxWsPayload_def)
  have "(\<forall>s\<in>set (aw_sent w). delivered (\<lambda>s. s) 9333 sample_batch s) \<and>
      aw_sent w \<noteq> [] \<and> sk_fd (last (aw_sent w)) = 5"
    using success_is_delivered [OF w(1) k _ launched_conns len] w(2) by simp
  then show ?thesis using w(1) last_in_set by blast
qed

end
