(* ===== verification/Panel_Views.thy ===== *)
theory Panel_Views
  imports Side_Panel "HOL-Library.Word"
begin

text \<open>
  What the side panel puts on the screen: the texts of \<open>common/purecloak_i18n.h\<close>, the views of the
  panel (\<open>purecloak_side_panel_view.cc\<close>) and of its dialogs (\<open>workspace_management_dialogs.cc\<close>), the
  panel's entry in the browser's registry (\<open>purecloak_side_panel_coordinator.cc\<close>) and the button that
  toggles it (\<open>browser/ui/views/purecloak_toolbar_button.cc\<close>). Texts are sequences of UTF-16 code units;
  the conversions between UTF-8 and UTF-16 are the base library's and parameters. A view is what it
  shows and what pressing it does; sizes, colours and fonts are left out. The view tree is shown to
  be the abstract panel of \<open>Side_Panel\<close>.
\<close>

subsection \<open>Texts\<close>

type_synonym u16 = "16 word list"

definition wide :: "string \<Rightarrow> u16" where "wide s = map (\<lambda>c. of_nat (of_char c)) s"

record utf_lib =
  to_utf16 :: "string \<Rightarrow> u16"
  to_utf8 :: "u16 \<Rightarrow> string"
  valid_utf8 :: "string \<Rightarrow> bool"

text \<open>What is relied on: valid texts survive the way to UTF-16 and back.\<close>

definition utf_ok :: "utf_lib \<Rightarrow> bool" where
  "utf_ok u \<longleftrightarrow> (\<forall>s. valid_utf8 u s \<longrightarrow> to_utf8 u (to_utf16 u s) = s)"

definition text_workspaces :: "string \<Rightarrow> u16" where
  "text_workspaces loc = i18n loc [0x5DE5, 0x4F5C, 0x533A]
     (wide ''Workspaces'')"

definition text_new_workspace :: "string \<Rightarrow> u16" where
  "text_new_workspace loc = i18n loc [0x002B, 0x0020, 0x65B0, 0x5EFA]
     (wide ''+ New'')"

definition text_no_workspaces :: "string \<Rightarrow> u16" where
  "text_no_workspaces loc = i18n loc [0x6682, 0x65E0, 0x5DE5, 0x4F5C, 0x533A, 0x3002, 0x70B9, 0x51FB, 0x0022, 0x002B,
      0x0020, 0x65B0, 0x5EFA, 0x0022, 0x521B, 0x5EFA, 0x4E00, 0x4E2A, 0x3002]
     (wide ''No workspaces yet. Click \"+ New\" to create one.'')"

definition text_normal :: "string \<Rightarrow> u16" where
  "text_normal loc = i18n loc [0xD83D, 0xDCE6, 0x0020, 0x666E, 0x901A]
     ([0xD83D, 0xDCE6, 0x0020, 0x004E, 0x006F, 0x0072, 0x006D, 0x0061, 0x006C])"

definition text_fingerprint :: "string \<Rightarrow> u16" where
  "text_fingerprint loc = i18n loc [0xD83D, 0xDD12, 0x0020, 0x6307, 0x7EB9]
     ([0xD83D, 0xDD12, 0x0020, 0x0046, 0x0069, 0x006E, 0x0067, 0x0065, 0x0072, 0x0070, 0x0072, 0x0069, 0x006E, 0x0074])"

definition text_create_workspace :: "string \<Rightarrow> u16" where
  "text_create_workspace loc = i18n loc [0x521B, 0x5EFA, 0x5DE5, 0x4F5C, 0x533A]
     (wide ''Create Workspace'')"

definition text_rename_workspace :: "string \<Rightarrow> u16" where
  "text_rename_workspace loc = i18n loc [0x91CD, 0x547D, 0x540D, 0x5DE5, 0x4F5C, 0x533A]
     (wide ''Rename Workspace'')"

definition text_delete_workspace :: "string \<Rightarrow> u16" where
  "text_delete_workspace loc = i18n loc [0x5220, 0x9664, 0x5DE5, 0x4F5C, 0x533A]
     (wide ''Delete Workspace'')"

definition text_workspace_type :: "string \<Rightarrow> u16" where
  "text_workspace_type loc = i18n loc [0x5DE5, 0x4F5C, 0x533A, 0x7C7B, 0x578B]
     (wide ''Workspace type'')"

definition text_create :: "string \<Rightarrow> u16" where
  "text_create loc = i18n loc [0x521B, 0x5EFA]
     (wide ''Create'')"

definition text_rename :: "string \<Rightarrow> u16" where
  "text_rename loc = i18n loc [0x91CD, 0x547D, 0x540D]
     (wide ''Rename'')"

definition text_delete :: "string \<Rightarrow> u16" where
  "text_delete loc = i18n loc [0x5220, 0x9664]
     (wide ''Delete'')"

definition text_cancel :: "string \<Rightarrow> u16" where
  "text_cancel loc = i18n loc [0x53D6, 0x6D88]
     (wide ''Cancel'')"

definition text_name :: "string \<Rightarrow> u16" where
  "text_name loc = i18n loc [0x540D, 0x79F0]
     (wide ''Name'')"

definition text_type :: "string \<Rightarrow> u16" where
  "text_type loc = i18n loc [0x7C7B, 0x578B]
     (wide ''Type'')"

definition text_new_name :: "string \<Rightarrow> u16" where
  "text_new_name loc = i18n loc [0x65B0, 0x540D, 0x79F0]
     (wide ''New name'')"

definition text_workspace_name :: "string \<Rightarrow> u16" where
  "text_workspace_name loc = i18n loc [0x5DE5, 0x4F5C, 0x533A, 0x540D, 0x79F0]
     (wide ''Workspace name'')"

definition text_toolbar_tooltip :: "string \<Rightarrow> u16" where
  "text_toolbar_tooltip loc = i18n loc [0x0050, 0x0075, 0x0072, 0x0065, 0x0043, 0x006C, 0x006F, 0x0061, 0x006B, 0x0020,
      0x5DE5, 0x4F5C, 0x533A, 0x6A21, 0x5F0F]
     (wide ''PureCloak workspace mode'')"

text \<open>The question of the delete dialog is put together in UTF-8.\<close>

definition text_delete_workspace_confirm :: "utf_lib \<Rightarrow> string \<Rightarrow> string \<Rightarrow> u16" where
  "text_delete_workspace_confirm u loc name =
     (if is_chinese_locale loc
      then to_utf16 u (map char_of [0xE5 :: nat, 0x88, 0xA0, 0xE9, 0x99, 0xA4, 0xE5, 0xB7, 0xA5, 0xE4, 0xBD, 0x9C, 0xE5, 0x8C, 0xBA, 0x20, 0x22] @
             name @ map char_of [0x22 :: nat, 0xEF, 0xBC, 0x9F])
      else to_utf16 u (''Delete \"'' @ name @ ''\"?''))"

subsection \<open>Views\<close>

datatype press = PressCreate | PressRename string | PressDelete string

datatype view =
    Label u16
  | TextButton u16 press
  | Textfield u16 u16
  | Combobox u16 "u16 list" bool
  | Container "view list"
  | ScrollView view

definition pencil :: u16 where "pencil = [0x270F]"
definition wastebasket :: u16 where "wastebasket = [0xD83D, 0xDDD1]"

definition create_small_button :: "u16 \<Rightarrow> press \<Rightarrow> view" where
  "create_small_button label callback = TextButton label callback"

definition type_text :: "string \<Rightarrow> wtype \<Rightarrow> u16" where
  "type_text loc t = (if t = KFingerprint then text_fingerprint loc else text_normal loc)"

text \<open>A card is a box around one row.\<close>

definition card_view :: "utf_lib \<Rightarrow> string \<Rightarrow> workspace \<Rightarrow> view" where
  "card_view u loc w =
     Container [Container
       [Label (type_text loc (ws_type w)), Label (to_utf16 u (ws_name w)),
        create_small_button pencil (PressRename (ws_id w)),
        create_small_button wastebasket (PressDelete (ws_id w))]]"

text \<open>The children of \<open>container_\<close> after \<open>RebuildWorkspaceList\<close>.\<close>

definition workspace_list_views :: "utf_lib \<Rightarrow> string \<Rightarrow> store \<Rightarrow> view list" where
  "workspace_list_views u loc st =
     (let workspaces = get_all_workspaces st
      in if workspaces = [] then [Label (text_no_workspaces loc)]
         else map (card_view u loc) workspaces)"

definition panel_tree :: "utf_lib \<Rightarrow> string \<Rightarrow> store \<Rightarrow> view list" where
  "panel_tree u loc st =
     [Container [Label (text_workspaces loc), TextButton (text_new_workspace loc) PressCreate],
      ScrollView (Container (workspace_list_views u loc st))]"

fun pressed :: "bool \<Rightarrow> press \<Rightarrow> panel \<Rightarrow> panel" where
  "pressed widget PressCreate pn = on_create_workspace_clicked widget pn"
| "pressed widget (PressRename i) pn = on_rename_workspace widget i pn"
| "pressed widget (PressDelete i) pn = on_delete_workspace widget i pn"

subsection \<open>Dialogs\<close>

text \<open>
  A dialog's fields: the text in \<open>name_field_\<close> and the selection of \<open>type_combobox_\<close>, which the user
  may change. The selection a new combo box has is the toolkit's.
\<close>

record dialog_widget =
  dw_title :: u16
  dw_ok :: u16
  dw_cancel :: u16
  dw_contents :: "view list"
  dw_field :: u16
  dw_index :: "nat option"

definition type_item_count :: nat where "type_item_count = 2"

definition type_item_at :: "string \<Rightarrow> nat \<Rightarrow> u16" where
  "type_item_at loc index =
     (if index = 0 then text_normal loc else if index = 1 then text_fingerprint loc else [])"

definition create_label :: "u16 \<Rightarrow> view" where "create_label text_shown = Label text_shown"

definition create_labeled_textfield_row :: "u16 \<Rightarrow> u16 \<Rightarrow> view" where
  "create_labeled_textfield_row label_text default_text = Textfield label_text default_text"

definition create_workspace_dialog :: "string \<Rightarrow> bool \<Rightarrow> nat option \<Rightarrow> dialog_widget" where
  "create_workspace_dialog loc enable_fingerprint_type index =
     \<lparr>dw_title = text_create_workspace loc, dw_ok = text_create loc, dw_cancel = text_cancel loc,
      dw_contents =
        [create_label (text_name loc), create_labeled_textfield_row (text_workspace_name loc) [],
         create_label (text_type loc),
         Combobox (text_workspace_type loc) (map (type_item_at loc) [0..<type_item_count])
           enable_fingerprint_type],
      dw_field = [], dw_index = index\<rparr>"

definition rename_workspace_dialog :: "utf_lib \<Rightarrow> string \<Rightarrow> string \<Rightarrow> dialog_widget" where
  "rename_workspace_dialog u loc current_name =
     \<lparr>dw_title = text_rename_workspace loc, dw_ok = text_rename loc, dw_cancel = text_cancel loc,
      dw_contents =
        [create_label (text_new_name loc),
         create_labeled_textfield_row (text_workspace_name loc) (to_utf16 u current_name)],
      dw_field = to_utf16 u current_name, dw_index = None\<rparr>"

definition delete_workspace_dialog :: "utf_lib \<Rightarrow> string \<Rightarrow> string \<Rightarrow> dialog_widget" where
  "delete_workspace_dialog u loc workspace_name =
     \<lparr>dw_title = text_delete_workspace loc, dw_ok = text_delete loc, dw_cancel = text_cancel loc,
      dw_contents = [create_label (text_delete_workspace_confirm u loc workspace_name)],
      dw_field = [], dw_index = None\<rparr>"

definition get_entered_name :: "utf_lib \<Rightarrow> dialog_widget \<Rightarrow> string" where
  "get_entered_name u d = to_utf8 u (dw_field d)"

text \<open>The widget of a dialog of the panel, as it is opened.\<close>

fun dialog_opened :: "utf_lib \<Rightarrow> string \<Rightarrow> nat option \<Rightarrow> dialog \<Rightarrow> dialog_widget" where
  "dialog_opened u loc index CreateDialog = create_workspace_dialog loc True index"
| "dialog_opened u loc index (RenameDialog i n) = rename_workspace_dialog u loc n"
| "dialog_opened u loc index (DeleteDialog i n) = delete_workspace_dialog u loc n"

subsection \<open>Registration\<close>

text \<open>
  The registry and the side panel's user interface belong to Chromium: what they are asked to do
  is recorded. An entry keeps the store it was made for; showing it makes a new panel on that store.
\<close>

datatype entry_id = KPureCloakWorkspace

datatype ui_call =
    RegisterEntry entry_id nat
  | ToggleEntry entry_id

text \<open>\<open>window\<close>: a browser, if there is one, and its profile, if it has one.\<close>

definition create_and_register_purecloak_side_panel ::
  "('p \<Rightarrow> nat) \<Rightarrow> 'p option option \<Rightarrow> ui_call list" where
  "create_and_register_purecloak_side_panel store_of window =
     (case window of
        None \<Rightarrow> []
      | Some None \<Rightarrow> []
      | Some (Some profile) \<Rightarrow> [RegisterEntry KPureCloakWorkspace (store_of profile)])"

definition button_pressed :: "ui_call list" where
  "button_pressed = [ToggleEntry KPureCloakWorkspace]"

text \<open>The store the button's panel is on.\<close>

fun entry_store :: "ui_call list \<Rightarrow> entry_id \<Rightarrow> nat option" where
  "entry_store [] i = None"
| "entry_store (RegisterEntry j st # cs) i = (if i = j then Some st else entry_store cs i)"
| "entry_store (ToggleEntry j # cs) i = entry_store cs i"

lemma button_shows_store_of_window:
  "entry_store (create_and_register_purecloak_side_panel store_of window @ button_pressed) KPureCloakWorkspace =
     (case window of Some (Some p) \<Rightarrow> Some (store_of p) | _ \<Rightarrow> None)"
  by (auto simp: create_and_register_purecloak_side_panel_def button_pressed_def split: option.split)

subsection \<open>The screen and the abstract panel\<close>

text \<open>A card of the abstract panel as it is shown.\<close>

definition shown_card :: "utf_lib \<Rightarrow> string \<Rightarrow> card \<Rightarrow> view" where
  "shown_card u loc c =
     Container [Container
       [Label (type_text loc (if cd_fingerprint c then KFingerprint else KNormal)),
        Label (to_utf16 u (cd_name c)), create_small_button pencil (PressRename (cd_id c)),
        create_small_button wastebasket (PressDelete (cd_id c))]]"

fun shown_panel :: "utf_lib \<Rightarrow> string \<Rightarrow> panel_view \<Rightarrow> view list" where
  "shown_panel u loc NoWorkspaces = [Label (text_no_workspaces loc)]"
| "shown_panel u loc (Cards cs) = map (shown_card u loc) cs"

lemma shown_card_of: "shown_card u loc (card_of w) = card_view u loc w"
  by (cases "ws_type w") (simp_all add: shown_card_def card_of_def card_view_def type_text_def)

lemma workspace_list_shown: "workspace_list_views u loc st = shown_panel u loc (view_of st)"
  by (simp add: workspace_list_views_def view_of_def Let_def shown_card_of comp_def)

lemma type_texts_differ: "text_fingerprint loc \<noteq> text_normal loc"
  by (simp add: text_fingerprint_def text_normal_def i18n_def)

lemma to_utf16_inj:
  "utf_ok u \<Longrightarrow> valid_utf8 u s \<Longrightarrow> valid_utf8 u t \<Longrightarrow> to_utf16 u s = to_utf16 u t \<longleftrightarrow> s = t"
  unfolding utf_ok_def by metis

lemma shown_card_inj:
  assumes "utf_ok u" "valid_utf8 u (cd_name c)" "valid_utf8 u (cd_name d)"
  shows "shown_card u loc c = shown_card u loc d \<longleftrightarrow> c = d"
  using to_utf16_inj [OF assms] type_texts_differ [of loc] type_texts_differ [of loc, symmetric]
  by (auto simp: shown_card_def type_text_def create_small_button_def card.equality split: if_splits)

lemma shown_cards_inj:
  assumes "utf_ok u" "\<forall>c\<in>set cs. valid_utf8 u (cd_name c)" "\<forall>d\<in>set ds. valid_utf8 u (cd_name d)"
  shows "map (shown_card u loc) cs = map (shown_card u loc) ds \<longleftrightarrow> cs = ds"
  using assms(2, 3)
proof (induction cs arbitrary: ds)
  case (Cons c cs)
  then show ?case using shown_card_inj [OF assms(1)] by (cases ds) auto
qed auto

lemma shown_card_no_label: "shown_card u loc c \<noteq> Label x" "Label x \<noteq> shown_card u loc c"
  by (simp_all add: shown_card_def)

text \<open>Conversions for the witnesses: texts of single-byte characters.\<close>

definition ascii_utf :: utf_lib where
  "ascii_utf = \<lparr>to_utf16 = wide, to_utf8 = map (\<lambda>x. char_of (unat x)), valid_utf8 = (\<lambda>s. True)\<rparr>"

lemma char_of_wide [simp]: "char_of (unat (of_nat (of_char c) :: 16 word)) = c"
proof -
  have "(of_char c :: nat) < 256" by (rule nat_of_char_less_256)
  then have "(of_char c :: nat) mod 65536 = of_char c" by (intro mod_less) linarith
  then have "unat (of_nat (of_char c) :: 16 word) = of_char c" by (simp only: unat_of_nat) simp
  then show ?thesis by (metis char_of_char)
qed

lemma ascii_utf_ok: "utf_ok ascii_utf"
  unfolding utf_ok_def ascii_utf_def wide_def by (simp add: comp_def del: unsigned_of_nat)

subsection \<open>Properties\<close>

text \<open>
  C25 (equivalence): the screen is the list of workspaces. In every locale two stores show the same
  view tree exactly if the panel has the same cards for them, with the same ids, types and names
  in the same order; so nothing of a card is lost or confused on the way to the screen.
\<close>

theorem screen_determines_cards:
  assumes "utf_ok u" "\<forall>w\<in>set (get_all_workspaces st) \<union> set (get_all_workspaces st'). valid_utf8 u (ws_name w)"
  shows "panel_tree u loc st = panel_tree u loc st' \<longleftrightarrow> view_of st = view_of st'"
proof -
  have v: "(\<forall>c\<in>set cs. valid_utf8 u (cd_name c)) \<and> cs \<noteq> []" if "view_of s = Cards cs" "s \<in> {st, st'}" for s cs
    using that assms(2) by (auto simp: view_of_def Let_def card_of_def split: if_splits)
  have "shown_panel u loc (view_of st) = shown_panel u loc (view_of st') \<longleftrightarrow> view_of st = view_of st'"
    using v [of st] v [of st'] shown_cards_inj [OF assms(1)] shown_card_no_label
    by (cases "view_of st"; cases "view_of st'") (auto simp: neq_Nil_conv)
  then show ?thesis by (simp add: panel_tree_def workspace_list_shown)
qed

definition store_with :: "workspace list \<Rightarrow> store" where
  "store_with ws = new_store\<lparr>st_workspaces := map (\<lambda>w. (ws_id w, w)) ws\<rparr>"

theorem screen_determines_cards_witness:
  "panel_tree ascii_utf ''en'' (store_with [workspace_default\<lparr>ws_name := ''a''\<rparr>]) \<noteq>
   panel_tree ascii_utf ''en'' (store_with [workspace_default\<lparr>ws_name := ''a'', ws_type := KFingerprint\<rparr>])"
  using screen_determines_cards [OF ascii_utf_ok, of "store_with [workspace_default\<lparr>ws_name := ''a''\<rparr>]"
      "store_with [workspace_default\<lparr>ws_name := ''a'', ws_type := KFingerprint\<rparr>]" "''en''"]
  by (simp add: ascii_utf_def store_with_def view_of_def get_all_workspaces_def card_of_def
      workspace_default_def Let_def)

text \<open>
  C37 (roundtrip): renaming starts from the name. The pencil of a workspace's card opens a dialog that
  shows the workspace's name; accepted as it is, it leaves everything of the workspace but the time
  of its last change.
\<close>

theorem rename_starts_from_name:
  assumes "utf_ok u" "get_workspace (sy_store (pn_sys pn)) i = Some w" "pn_alive pn"
    "valid_utf8 u (ws_name w)" "ws_name w \<noteq> []"
  shows "let pn' = pressed True (PressRename i) pn;
             d = dialog_opened u loc index (last (pn_dialogs pn'))
         in pn_dialogs pn' = pn_dialogs pn @ [RenameDialog i (ws_name w)] \<and>
            Textfield (text_workspace_name loc) (to_utf16 u (ws_name w)) \<in> set (dw_contents d) \<and>
            (\<exists>pn''. panel_step tlib jl (Accept (length (pn_dialogs pn)) ids seeds now (get_entered_name u d) (dw_index d)) pn' = Some pn'' \<and>
               pn_dialogs pn'' = pn_dialogs pn \<and>
               get_workspace (sy_store (pn_sys pn'')) i = Some (w\<lparr>ws_updated_at := now\<rparr>))"
proof -
  have e: "to_utf8 u (to_utf16 u (ws_name w)) = ws_name w" using assms(1, 4) by (simp add: utf_ok_def)
  have "\<not> length (pn_dialogs pn) < length (pn_dialogs pn)" by simp
  then show ?thesis
    using assms(2, 3, 5) e
    by (simp add: Let_def on_rename_workspace_def get_entered_name_def rename_workspace_dialog_def
        create_labeled_textfield_row_def drop_nth_def rename_workspace_eq renamed_def get_workspace_def)
qed

theorem rename_starts_from_name_witness:
  "\<exists>pn''. panel_step no_time no_json
      (Accept 0 (\<lambda>n. ''x'') (\<lambda>n. 0) 9 (get_entered_name ascii_utf (rename_workspace_dialog ascii_utf ''en'' ''a'')) None)
      (pressed True (PressRename []) (open_panel 3 \<lparr>sy_store = store_with [workspace_default\<lparr>ws_name := ''a''\<rparr>],
         sy_disk = no_disk, sy_replies = []\<rparr>)) = Some pn'' \<and>
    get_workspace (sy_store (pn_sys pn'')) [] = Some (workspace_default\<lparr>ws_name := ''a'', ws_updated_at := 9\<rparr>)"
proof -
  let ?w = "workspace_default\<lparr>ws_name := ''a''\<rparr>"
  let ?pn = "open_panel 3 \<lparr>sy_store = store_with [?w], sy_disk = no_disk, sy_replies = []\<rparr>"
  have w: "get_workspace (sy_store (pn_sys ?pn)) [] = Some ?w" "pn_alive ?pn"
    by (simp_all add: open_panel_def rebuild_workspace_list_def store_with_def get_workspace_def
        add_observer_def workspace_default_def)
  have v: "valid_utf8 ascii_utf (ws_name ?w)" "ws_name ?w \<noteq> []" by (simp_all add: ascii_utf_def)
  have d: "pn_dialogs ?pn = []" by (simp add: open_panel_def rebuild_workspace_list_def)
  note r = rename_starts_from_name [OF ascii_utf_ok w v, of "''en''" None no_time no_json "\<lambda>n. ''x''" "\<lambda>n. 0" 9,
      unfolded Let_def d]
  have l: "last (pn_dialogs (pressed True (PressRename []) ?pn)) = RenameDialog [] ''a''"
    using conjunct1 [OF r] by simp
  have n: "dw_index (rename_workspace_dialog ascii_utf ''en'' ''a'') = None"
    by (simp add: rename_workspace_dialog_def)
  obtain pn'' where "panel_step no_time no_json (Accept 0 (\<lambda>n. ''x'') (\<lambda>n. 0) 9
      (get_entered_name ascii_utf (rename_workspace_dialog ascii_utf ''en'' ''a'')) None)
      (pressed True (PressRename []) ?pn) = Some pn''"
    "get_workspace (sy_store (pn_sys pn'')) [] = Some (?w\<lparr>ws_updated_at := 9\<rparr>)"
    using conjunct2 [OF conjunct2 [OF r]] unfolding l dialog_opened.simps n list.size(3) by blast
  then show ?thesis by blast
qed

text \<open>
  The type that is chosen is the type that is shown: the item of the combo box at the selected
  index is the type's text on the card of the workspace that is created.
\<close>

lemma chosen_type_is_shown:
  assumes "k < type_item_count"
  shows "type_item_at loc k = type_text loc (selected_type (Some k))"
  using assms by (auto simp: type_item_count_def type_item_at_def type_text_def selected_type_def less_2_cases_iff)

end
