(* ===== verification/Startup_Parts.thy ===== *)
theory Startup_Parts
  imports Chrome_Startup Command_State
begin

text \<open>
  \<open>chrome/browser/chrome_browser_main.cc\<close>, the pieces the stages of startup are made of: the extra parts
  in their order, the choice of the first profile, the requests of other browser processes, the
  metrics. The \<open>#if\<close>s are conditions on build flags, what the code asks of the rest of Chromium is an
  environment, and what it tells it is a list of calls. Trace events and local timers are left out.
\<close>

subsection \<open>Build, environment and state\<close>

record main_build = build +
  is_posix :: bool
  is_purecloak :: bool
  for_testing :: bool
  toolkit_views :: bool
  use_aura :: bool
  arch_x86_64 :: bool
  process_singleton :: bool
  downgrade_processing :: bool
  extensions :: bool
  extensions_core :: bool
  background_mode :: bool
  offline_pages :: bool
  pdf :: bool
  print_preview :: bool
  oop_printing :: bool
  official_build :: bool
  rlz :: bool
  on_device_model_service :: bool
  updater_enabled :: bool
  record_active_use :: bool

text \<open>The yes-or-no questions the code asks.\<close>

datatype startup_query =
    BrowserProcessExists | BrowserAlreadyRunning | ProcessShuttingDown | ShutdownStarted | TryingToQuit
  | HeadlessMode | FirstRun | EulaRequired | EulaAccepted | UserDataDirKnown | LocaleKnown
  | MultipleProfiles | DirectoryExists string | MediaHistoryExists
  | SpeechRecognitionOn | UserBrowserContext | SpeechRecognitionSupported
  | StartupInterrupted | ProfilerTrial | HeapProfilerTrial | ClockTrial | BackgroundSessions
  | EventLogInitialized | StatsDefaultKnown | StatsDefault
  | HasInitialPrefs | EulaExitNow | SuppressesDefaultPrompt | ConfirmToQuit
  | Managed | TranslatedIntel | MessagingDirExists
  | LocalPrefOn string | LocalPrefManaged string | LocalStringEmpty string | IsolationPolicyApplicable
  | InProcessNetwork | NetworkRunner
  | FeatureEnabled string | LocalStateExists | NetworkProfileCheck | GeoLanguage
  | DefaultBrowserSet | AuraEnvExists | UpgradeRelaunch | DowngradeNeeded | Enrolled
  | MachineLevelInstall | HasImportDict | DebugPrintPathEmpty | EarlyPrintBackend
  | ComponentUpdater | CreatorStarts | BuiltPrefService | CrashReporting | RestartInBackground
  | MessageLoopPosts

datatype profile_mode = BrowserWindow | ProfilePicker | ModeError

record startup_profile =
  sp_mode :: profile_mode
  sp_profile :: "chrome_profile option"

datatype restart_mode = NoRestart | RestartLastSession | RestartInBackgroundMode | RestartThisSession

record startup_env =
  asks :: "startup_query \<Rightarrow> bool"
  notification_profile :: string
  profile_directory :: string
  chosen_profile :: startup_profile
  fallback_profile :: startup_profile
  only_profile :: "chrome_profile option"
  loaded_profiles :: "chrome_profile list"
  last_opened_profiles :: "chrome_profile list"
  shutdown_restart :: restart_mode

datatype result_code =
    NormalExit | MissingData | EulaRefused | DisallowedByPolicy | IntegrationFailed
  | UpgradeRelaunched | DowngradeAndRelaunch | EnrollmentFailed | MachineInstallExists
  | UninstallResult bool | IconsResult

text \<open>
  \<open>su_switches\<close> is the command line of the process, \<open>su_parts\<close> the extra parts, \<open>su_loop\<close> whether the run loop
  of the main message loop exists.
\<close>

record startup =
  su_parts :: "string list"
  su_switches :: "string list"
  su_result :: result_code
  su_process :: bool
  su_creator :: bool
  su_master_prefs :: bool
  su_loop :: bool
  su_initialized :: bool
  su_observing :: bool
  su_shutdown_watcher :: bool
  su_restart :: restart_mode
  su_log :: "call list"

abbreviation tell :: "string \<Rightarrow> call" where "tell f \<equiv> Call f []"

definition on_flag :: "bool \<Rightarrow> call list \<Rightarrow> call list" where "on_flag b l = (if b then l else [])"

definition say :: "call list \<Rightarrow> startup \<Rightarrow> startup" where "say l s = s\<lparr>su_log := su_log s @ l\<rparr>"

definition has_sw :: "startup \<Rightarrow> string \<Rightarrow> bool" where "has_sw s name = (name \<in> set (su_switches s))"

definition desktop :: "main_build \<Rightarrow> bool" where
  "desktop b \<longleftrightarrow> is_linux b \<or> is_mac b \<or> is_win b"

definition profile_arg :: "chrome_profile \<Rightarrow> call_arg" where
  "profile_arg p = Num (int (pf_context (cp_profile p)))"

subsection \<open>The extra parts\<close>

definition platform_parts :: "main_build \<Rightarrow> string option" where
  "platform_parts b =
     (if is_win b then Some ''ChromeBrowserMainPartsWin''
      else if is_mac b then Some ''ChromeBrowserMainPartsMac''
      else if is_chromeos b then Some ''ChromeBrowserMainPartsAsh''
      else if is_linux b then Some ''ChromeBrowserMainPartsLinux''
      else if is_android b then Some ''ChromeBrowserMainPartsAndroid''
      else if is_posix b then Some ''ChromeBrowserMainPartsPosix''
      else None)"

definition add_parts :: "string \<Rightarrow> startup \<Rightarrow> startup" where
  "add_parts part s = s\<lparr>su_parts := su_parts s @ [part]\<rparr>"

definition add_parts_if :: "bool \<Rightarrow> string \<Rightarrow> startup \<Rightarrow> startup" where
  "add_parts_if b part s = (if b then add_parts part s else s)"

definition new_startup :: "string list \<Rightarrow> startup" where
  "new_startup switches =
     \<lparr>su_parts = [], su_switches = switches, su_result = NormalExit, su_process = False,
      su_creator = False, su_master_prefs = False, su_loop = False, su_initialized = False,
      su_observing = False, su_shutdown_watcher = False, su_restart = NoRestart, su_log = []\<rparr>"

text \<open>An unknown platform does not compile. The parts of other modules are added by their functions.\<close>

definition create :: "main_build \<Rightarrow> startup_env \<Rightarrow> string list \<Rightarrow> startup option" where
  "create b e switches =
     (if platform_parts b = None then None
      else Some (fold (\<lambda>(c, part). add_parts_if c part)
        [(True, ''ThreadNotifier''),
         (\<not> (is_android b \<and> asks e BuiltPrefService), ''Profiles''),
         (toolkit_views b \<and> is_linux b, ''ViewsLinux''),
         (toolkit_views b \<and> \<not> is_linux b, ''Views''),
         (is_mac b, ''Mac''),
         (is_chromeos b, ''Ash''),
         (is_linux b, ''Linux''),
         (\<not> is_linux b \<and> is_ozone b, ''Ozone''),
         (True, ''PerformanceMonitor''),
         (True, ''PerformanceManager''),
         (True, ''Profiling''),
         (True, ''Memory''),
         (True, ''Metrics''),
         (True, ''Enterprise''),
         (\<not> is_android b, ''Headless''),
         (for_testing b, ''Cft''),
         (on_device_model_service b, ''OptimizationGuide''),
         (True, ''Gpu''),
         (True, ''SegmentationPlatform'')] (new_startup switches)))"

definition part_calls :: "string \<Rightarrow> startup \<Rightarrow> call list" where
  "part_calls stage s = map (\<lambda>part. Call stage [Name part]) (su_parts s)"

text \<open>\<open>~ChromeBrowserMainParts\<close>: \<open>pop_back\<close> until nothing is left.\<close>

function destroy_parts :: "startup \<Rightarrow> startup" where
  "destroy_parts s =
     (if su_parts s = [] then s
      else destroy_parts
        (say [Call ''delete'' [Name (last (su_parts s))]] (s\<lparr>su_parts := butlast (su_parts s)\<rparr>)))"
  by pat_completeness auto
termination by (relation "measure (\<lambda>s. length (su_parts s))") (auto simp: say_def)

declare destroy_parts.simps [simp del]

subsection \<open>The first profile\<close>

definition delete_media_history_database :: "startup_env \<Rightarrow> chrome_profile \<Rightarrow> call list" where
  "delete_media_history_database e p =
     [Call ''Media.MediaHistory.DatabaseExists'' [Bool (asks e MediaHistoryExists)],
      Call ''sql::Database::Delete'' [profile_arg p]]"

text \<open>The directory that the command line asks for, if it may and does.\<close>

definition requested_directory :: "bool \<Rightarrow> startup_env \<Rightarrow> startup \<Rightarrow> string" where
  "requested_directory already_set e s =
     (let profile_dir_specified = (asks e MultipleProfiles \<and> has_sw s ''profile-directory'');
          last_used_profile =
            (if \<not> already_set \<and> profile_dir_specified then profile_directory e else [])
      in if has_sw s ''ignore-profile-directory-if-not-exists'' \<and> \<not> asks e (DirectoryExists last_used_profile)
         then [] else last_used_profile)"

definition create_initial_profile ::
  "main_build \<Rightarrow> startup_env \<Rightarrow> startup \<Rightarrow> startup_profile option \<times> call list" where
  "create_initial_profile b e s =
     (let from_notification = (is_win b \<and> notification_profile e \<noteq> []);
          set_notification = on_flag from_notification
            [Call ''SetLastUsedProfile'' [Text (notification_profile e)]];
          profile_dir_specified = (asks e MultipleProfiles \<and> has_sw s ''profile-directory'');
          last_used_profile = requested_directory from_notification e s;
          set_requested = on_flag (last_used_profile \<noteq> []) [Call ''SetLastUsedProfile'' [Text last_used_profile]];
          last_used_profile_set = (from_notification \<or> last_used_profile \<noteq> []);
          clear_active = on_flag (last_used_profile_set \<and> \<not> has_sw s ''app-id'')
            [Call ''SetList'' [Name ''kProfilesLastActive'']];
          before = set_notification @ set_requested @ clear_active;
          histogram = [tell ''Startup.CreateFirstProfile'']
      in if is_android b \<or> is_chromeos b
         then (case only_profile e of
                 None \<Rightarrow> (None, before)
               | Some p \<Rightarrow> (Some \<lparr>sp_mode = BrowserWindow, sp_profile = Some p\<rparr>, before @ histogram))
         else let info = chosen_profile e;
                  info = (if sp_mode info = ModeError \<and> \<not> last_used_profile_set
                          then fallback_profile e else info)
              in if sp_mode info = ModeError
                 then (Some info, before @ [Call ''ShowProfileErrorDialog''
                        [Name (if profile_dir_specified then ''CREATE_FAILURE_SPECIFIED'' else ''CREATE_FAILURE_ALL'')]])
                 else (Some info, before @ histogram))"

subsection \<open>Other browser processes\<close>

text \<open>
  \<open>current\<close> are the switches of this process, \<open>new\<close> those of the other. The request is taken when the
  answer is true; it is handled by a task that looks again whether the browser is going down.
\<close>

definition should_drop_for_automation :: "string list \<Rightarrow> string list \<Rightarrow> bool" where
  "should_drop_for_automation current new =
     (let current_enables_automation = (''enable-automation'' \<in> set current);
          new_enables_automation = (''enable-automation'' \<in> set new);
          new_has_app_id = (''app-id'' \<in> set new)
      in if current_enables_automation \<and> new_enables_automation \<and> new_has_app_id then False
         else current_enables_automation \<or> new_enables_automation)"

definition process_singleton_notification :: "main_build \<Rightarrow> startup_env \<Rightarrow> string list \<Rightarrow> string list \<Rightarrow> bool" where
  "process_singleton_notification b e current new =
     (if \<not> asks e BrowserProcessExists \<or> asks e ProcessShuttingDown then False
      else if should_drop_for_automation current new then False
      else if desktop b \<and> (asks e HeadlessMode \<or> ''headless'' \<in> set new) then False
      else asks e MessageLoopPosts)"

definition process_singleton_notification_impl :: "main_build \<Rightarrow> startup_env \<Rightarrow> string list \<Rightarrow> call list" where
  "process_singleton_notification_impl b e new =
     (if \<not> asks e BrowserProcessExists \<or> asks e ProcessShuttingDown \<or> asks e ShutdownStarted then []
      else if is_win b \<and> ''uninstall'' \<in> set new then []
      else on_flag (is_linux b) [tell ''ExtractXdgActivationTokenFromCmdLine''] @
           [tell ''GetStartupProfilePath'', tell ''ProcessCommandLineAlreadyRunning''] @
           on_flag (record_active_use b) [tell ''SetLastRunTime''])"

subsection \<open>Metrics\<close>

definition setup_metrics :: "call list" where
  "setup_metrics =
     [tell ''SubprocessMetricsProvider::CreateInstance'',
      Call ''SyntheticTrialRegistry::AddObserver'' [Name ''VariationsIdsProvider''],
      Call ''SyntheticTrialRegistry::AddObserver'' [Name ''SyntheticTrialsActiveGroupIdProvider''],
      tell ''SyntheticTrialSyncer::Create'', tell ''InitializeMetricsRecordingState'',
      tell ''RegisterSyntheticTrials'']"

definition start_metrics_recording :: "main_build \<Rightarrow> startup_env \<Rightarrow> call list" where
  "start_metrics_recording b e =
     on_flag (asks e ProfilerTrial) [Call ''RegisterSyntheticFieldTrial'' [Name ''profiler'']] @
     on_flag (asks e HeapProfilerTrial) [Call ''RegisterSyntheticFieldTrial'' [Name ''heap profiler'']] @
     (if is_android b \<and> \<not> asks e BackgroundSessions then []
      else [tell ''CheckForClonedInstall''] @
           on_flag (is_win b)
             (on_flag (asks e ClockTrial) [Call ''RegisterSyntheticFieldTrial'' [Name ''clock'']] @
              [tell ''StartUpdatingLastLiveTimestamp'']) @
           [tell ''UpdateUploadPermissions''])"

definition record_browser_startup_time :: "main_build \<Rightarrow> startup_env \<Rightarrow> call list" where
  "record_browser_startup_time b e =
     (if asks e StartupInterrupted then []
      else [Call ''RecordBrowserMainMessageLoopStart'' [Bool (\<not> is_android b \<and> asks e FirstRun)]])"

definition should_install_soda :: "main_build \<Rightarrow> startup_env \<Rightarrow> startup \<Rightarrow> bool" where
  "should_install_soda b e s =
     (if is_chromeos b then asks e SpeechRecognitionOn \<and> asks e UserBrowserContext
      else \<not> has_sw s ''disable-component-update'')"

end
