(* ===== verification/Startup_Stages.thy ===== *)
theory Startup_Stages
  imports Startup_Parts
begin

text \<open>
  \<open>chrome/browser/chrome_browser_main.cc\<close>, the stages of startup and shutdown, each a function on the
  state of the main parts. A stage that only tells other modules something is a list of calls. The
  stage before the main message loop can end early in many places; it is a list of actions, each of
  which goes on, exits with a code, or crashes at a failed \<open>CHECK\<close>. The \<open>CHECK\<close>s of the stages before
  it, that a known directory and the metrics' provider exist, are taken to hold.
\<close>

subsection \<open>Actions\<close>

datatype stop = Exit result_code | Crash

fun until_stop :: "(startup \<Rightarrow> (stop \<times> startup) + startup) list \<Rightarrow> startup \<Rightarrow> (stop \<times> startup) + startup" where
  "until_stop [] s = Inr s"
| "until_stop (f # fs) s = (case f s of Inl r \<Rightarrow> Inl r | Inr s' \<Rightarrow> until_stop fs s')"

definition go :: "(startup \<Rightarrow> startup) \<Rightarrow> startup \<Rightarrow> (stop \<times> startup) + startup" where
  "go f s = Inr (f s)"

definition stop_if :: "bool \<Rightarrow> stop \<Rightarrow> startup \<Rightarrow> (stop \<times> startup) + startup" where
  "stop_if b r s = (if b then Inl (r, s) else Inr s)"

subsection \<open>Before the threads\<close>

text \<open>\<open>OnLocalStateLoaded\<close>: its code and whether the resource bundle failed to load.\<close>

definition apply_first_run_prefs :: "main_build \<Rightarrow> startup_env \<Rightarrow> startup \<Rightarrow> result_code \<times> startup" where
  "apply_first_run_prefs b e s =
     (if is_android b \<or> is_chromeos b then (NormalExit, s)
      else let s = s\<lparr>su_master_prefs := True\<rparr> in
        if \<not> asks e HasInitialPrefs then (NormalExit, s)
        else let s = say [tell ''first_run::ProcessInitialPreferences''] s in
          if asks e EulaExitNow then (EulaRefused, s)
          else (NormalExit,
            say (on_flag (asks e SuppressesDefaultPrompt)
                   [Call ''SetString'' [Name ''kBrowserSuppressDefaultBrowserPrompt'']] @
                 on_flag (is_mac b \<and> \<not> asks e ConfirmToQuit)
                   [Call ''SetBoolean'' [Name ''kConfirmToQuitEnabled'', Bool False]]) s))"

definition on_local_state_loaded :: "main_build \<Rightarrow> startup_env \<Rightarrow> startup \<Rightarrow> result_code \<times> bool \<times> startup" where
  "on_local_state_loaded b e s =
     (if \<not> asks e UserDataDirKnown then (MissingData, False, s)
      else let s = say ([tell ''UsePrefServiceAsCache'', tell ''RefreshCache''] @
                        on_flag (is_win b \<and> asks e FirstRun \<and> asks e StatsDefaultKnown)
                          [Call ''RecordMetricsReportingDefaultState''
                             [Name (if asks e StatsDefault then ''OPT_OUT'' else ''OPT_IN'')]]) s in
        if \<not> asks e LocaleKnown then (MissingData, True, s)
        else let (r, s) = apply_first_run_prefs b e s in
          if r \<noteq> NormalExit then (r, False, s)
          else (NormalExit, False,
                say [tell ''SetupOriginTrialsCommandLineAndSettings'', tell ''OriginTrialsSettingsProvider::SetSettings'',
                     tell ''EnableExpiryChecker''] s))"

definition pre_early_initialization :: "main_build \<Rightarrow> startup_env \<Rightarrow> startup \<Rightarrow> result_code \<times> startup" where
  "pre_early_initialization b e s =
     (let s = say (part_calls ''PreEarlyInitialization'' s) s;
          s = s\<lparr>su_process := True\<rparr>;
          s = say (on_flag (is_android b) [tell ''CreateProfilePrefService'']) s;
          (load_local_state_result, failed_to_load_resource_bundle, s) = on_local_state_loaded b e s;
          s = say [tell ''SetMetricsServices''] s
      in if load_local_state_result = MissingData \<and> failed_to_load_resource_bundle
         then (if has_sw s ''noerrdialogs'' then MissingData else NormalExit, s)
         else (load_local_state_result, s))"

definition post_early_initialization :: "startup \<Rightarrow> startup" where
  "post_early_initialization s = say (part_calls ''PostEarlyInitialization'' s) s"

definition toolkit_initialized :: "startup \<Rightarrow> startup" where
  "toolkit_initialized s =
     say (part_calls ''ToolkitInitialized'' s @
          [Call ''AppendColorProviderInitializer'' [Name ''AddComponentsColorMixers''],
           Call ''AppendColorProviderInitializer'' [Name ''AddChromeColorMixers''],
           tell ''InitializeActionIdStringMapping'']) s"

definition pre_create_main_message_loop :: "main_build \<Rightarrow> startup \<Rightarrow> startup" where
  "pre_create_main_message_loop b s =
     say (part_calls ''PreCreateMainMessageLoop'' s @
          (if has_sw s ''disable-updater-scheduler'' \<or> has_sw s ''enable-benchmarking'' then []
           else [Call ''updater::SchedulePeriodicTasks''
                   [Name (if is_mac b \<and> updater_enabled b then ''ShowUpdaterPromotionInfoBar'' else ''DoNothing'')]])) s"

definition post_create_main_message_loop :: "main_build \<Rightarrow> startup_env \<Rightarrow> startup \<Rightarrow> startup" where
  "post_create_main_message_loop b e s =
     say (on_flag (\<not> is_android b) [tell ''UpgradeDetector::Init''] @
          [tell ''SetMainThreadTaskRunner''] @
          on_flag (\<not> asks e EventLogInitialized) [tell ''device_event_log::Initialize''] @
          part_calls ''PostCreateMainMessageLoop'' s) s"

text \<open>A policy adds a switch to the command line; three of them only if it is not there yet.\<close>

definition append_switch_if :: "bool \<Rightarrow> string \<Rightarrow> startup \<Rightarrow> startup" where
  "append_switch_if b name s = (if b then s\<lparr>su_switches := su_switches s @ [name]\<rparr> else s)"

definition apply_policy_switches :: "main_build \<Rightarrow> startup_env \<Rightarrow> startup \<Rightarrow> startup" where
  "apply_policy_switches b e s =
     (let s = append_switch_if
                (asks e (LocalPrefOn ''kSitePerProcess'') \<and> asks e IsolationPolicyApplicable \<and>
                 \<not> has_sw s ''site-per-process'') ''site-per-process'' s;
          s = append_switch_if
                (\<not> asks e (LocalPrefOn ''kDataURLWhitespacePreservationEnabled'') \<and>
                 \<not> has_sw s ''remove-whitespace-for-data-urls'') ''remove-whitespace-for-data-urls'' s;
          s = append_switch_if (asks e (LocalPrefOn ''kEnableUnsafeSwiftShader''))
                ''enable-unsafe-swiftshader'' s;
          s = append_switch_if
                (asks e (LocalPrefOn ''kLocalNetworkAccessPermissionsPolicyDefaultEnabled''))
                ''local-network-access-permissions-policy-default-enabled'' s
      in append_switch_if
           (is_android b \<and>
            ((asks e (LocalPrefManaged ''kSitePerProcess'') \<and> \<not> asks e (LocalPrefOn ''kSitePerProcess'')) \<or>
             (asks e (LocalPrefManaged ''kIsolateOrigins'') \<and> asks e (LocalStringEmpty ''kIsolateOrigins''))))
           ''disable-site-isolation-for-policy'' s)"

definition pre_create_threads_calls :: "main_build \<Rightarrow> startup_env \<Rightarrow> startup \<Rightarrow> call list" where
  "pre_create_threads_calls b e s =
     on_flag (\<not> is_android b) [tell ''MaybeShowInvalidUserDataDirWarningDialog''] @
     [tell ''MediaCaptureDevicesDispatcher::GetInstance''] @
     on_flag (\<not> is_android b) [tell ''IsChromeFirstRun''] @
     on_flag (is_chromeos b)
       [tell ''InitializeCrosSettings'', tell ''StatsReportingController::Initialize'',
        tell ''MetricsReportingLevelController::Initialize'', tell ''StabilityMetricsManager::Initialize'',
        tell ''HWDataUsageController::Initialize''] @
     [tell ''BrowserProcess::Init''] @
     on_flag (\<not> is_chromeos b \<and> asks e Managed) [Call ''AllocateCrashKey'' [Name ''enrollment-domain'']] @
     on_flag (\<not> is_android b) [tell ''UMABrowsingActivityObserver::Init''] @
     [tell ''SetCrashKeysFromCommandLine'', tell ''OnResourceBundleCreated''] @
     on_flag (\<not> is_android b \<and> \<not> is_chromeos b \<and> asks e FirstRun \<and> \<not> has_sw s ''app'' \<and> \<not> has_sw s ''app-id'')
       [tell ''AddFirstRunTabs''] @
     on_flag (extensions_core b \<and> (is_chromeos b \<or> is_linux b \<or> is_mac b \<or> is_android b) \<and> \<not> asks e MessagingDirExists)
       [Call ''CreateDirectory'' [Name ''user_native_messaging_dir'']] @
     on_flag (is_mac b \<and> arch_x86_64 b \<and> asks e TranslatedIntel) [Call ''Sleep'' [Num 3]] @
     on_flag (is_mac b) [tell ''SecKeychainAddCallback''] @
     on_flag (desktop b)
       [tell ''DesktopSessionDurationTracker::Initialize'', tell ''ProfileActivityMetricsRecorder::Initialize'',
        tell ''TouchUIControllerStatsTracker::Initialize'']"

definition pre_create_threads_impl :: "main_build \<Rightarrow> startup_env \<Rightarrow> startup \<Rightarrow> result_code \<times> startup" where
  "pre_create_threads_impl b e s =
     (if \<not> asks e LocaleKnown then (MissingData, say [tell ''ShowMissingLocaleMessageBox''] s)
      else let s = say (pre_create_threads_calls b e s) (s\<lparr>su_creator := \<not> is_android b\<rparr>);
               s = apply_policy_switches b e s
           in (NormalExit, say ([tell ''BrowserProcess::PreCreateThreads''] @ setup_metrics) s))"

definition pre_create_threads :: "main_build \<Rightarrow> startup_env \<Rightarrow> startup \<Rightarrow> result_code \<times> startup" where
  "pre_create_threads b e s =
     (let (r, s) = pre_create_threads_impl b e s;
          s = s\<lparr>su_result := r\<rparr>;
          s = (if r = NormalExit then say (part_calls ''PreCreateThreads'' s) s else s)
      in (r, say [tell ''gpu_mode_manager''] s))"

definition post_create_threads :: "main_build \<Rightarrow> startup_env \<Rightarrow> startup \<Rightarrow> startup" where
  "post_create_threads b e s =
     say ([Call ''PostTask'' [Name ''ThreadProfiler::StartOnChildThread'', Name ''kIo'']] @
          (if \<not> is_android b
           then [Call ''PostTask'' [Name ''TracingSamplerProfiler::CreateOnChildThreadWithCustomUnwinders'']]
           else on_flag (asks e InProcessNetwork \<and> asks e (FeatureEnabled ''kNetworkServiceDedicatedThread'') \<and>
                         asks e NetworkRunner)
                  [Call ''PostTask'' [Name ''ThreadProfiler::StartOnChildThread'', Name ''kNetwork'']]) @
          on_flag (process_singleton b) [tell ''ChromeProcessSingleton::StartWatching''] @
          [tell ''SetupSystemTracingFromFieldTrial'', tell ''SetupBackgroundTracingFromCommandLine'',
           tell ''SetupPresetTracingFromFieldTrial'', tell ''EmitNamedTrigger''] @
          part_calls ''PostCreateThreads'' s) s"

subsection \<open>Profiles and the browser\<close>

definition pre_profile_init :: "main_build \<Rightarrow> startup_env \<Rightarrow> startup \<Rightarrow> startup" where
  "pre_profile_init b e s =
     say ([tell ''SetGlobalAppName''] @ part_calls ''PreProfileInit'' s @
          [tell ''DisallowKeyedServiceFactoryRegistration''] @
          on_flag (\<not> is_android b)
            [tell ''CleanUpEphemeralProfiles'', tell ''CleanUpDeletedProfiles'', tell ''SetPublisherHostFactory''] @
          on_flag (extensions b) [tell ''javascript_dialog_extensions_client::InstallClient''] @
          [tell (if is_mac b \<and> \<not> asks e (FeatureEnabled ''kViewsJSAppModalDialog'') \<and> \<not> asks e HeadlessMode
                 then ''InstallChromeJavaScriptAppModalDialogViewCocoaFactory''
                 else ''InstallChromeJavaScriptAppModalDialogViewFactory'')] @
          on_flag (extensions b) [tell ''SetChromeAppModalDialogManagerDelegate''] @
          [tell ''ChromeMediaRouterFactory::DoPlatformInit''] @
          on_flag (if is_mac b \<or> is_win b then asks e LocalStateExists
                   else is_android b \<and> asks e (FeatureEnabled ''kAndroidEntraSSO'') \<and> asks e LocalStateExists)
            [tell ''PlatformAuthPolicyObserver'']) s"

definition post_profile_init_stage :: "main_build \<Rightarrow> startup_env \<Rightarrow> chrome_profile \<Rightarrow> bool \<Rightarrow> startup \<Rightarrow> startup" where
  "post_profile_init_stage b e p is_initial_profile s =
     say (map (\<lambda>part. Call ''PostProfileInit'' [Name part, profile_arg p, Bool is_initial_profile]) (su_parts s) @
          on_flag (is_win b \<and> asks e NetworkProfileCheck)
            [Call ''PostTask'' [Name ''CheckNetworkProfile'', profile_arg p]] @
          on_flag (is_android b \<or> is_chromeos b \<or> desktop b)
            [Call ''PostTask'' [Name ''DeleteMediaHistoryDatabase'', profile_arg p]] @
          on_flag (\<not> is_android b \<and> should_install_soda b e s)
            [Call ''IsOnDeviceSpeechRecognitionSupported'' [Bool (asks e SpeechRecognitionSupported)],
             Call ''SodaInstaller::Init'' [profile_arg p]] @
          on_flag (rlz b \<and> \<not> is_chromeos b \<and> is_initial_profile)
            [tell ''SetRlzDelegate'', Call ''InitRlzDelayed'' [profile_arg p]] @
          [Call ''RecordAcceptLanguages'' [profile_arg p], Call ''LogApplicationStartMetrics'' [profile_arg p]] @
          on_flag (\<not> is_chromeos b) [Call ''RecordPageLanguages'' [profile_arg p]] @
          on_flag (desktop b \<and> asks e HeadlessMode) [tell ''ReportHeadlessActionMetrics''] @
          on_flag (is_purecloak b \<and> is_initial_profile) [Call ''StartPureCloakApiServer'' [profile_arg p]]) s"

definition call_post_profile_init_stage :: "main_build \<Rightarrow> startup_env \<Rightarrow> chrome_profile \<Rightarrow> startup \<Rightarrow> startup" where
  "call_post_profile_init_stage b e p s =
     post_profile_init_stage b e p (\<not> su_initialized s) (s\<lparr>su_initialized := True\<rparr>)"

definition profile_added_stage :: "main_build \<Rightarrow> startup_env \<Rightarrow> chrome_profile \<Rightarrow> startup \<Rightarrow> startup" where
  "profile_added_stage b e p s =
     (if \<not> browsing (is_chromeos b) p then s else call_post_profile_init_stage b e p s)"

definition profile_init_manager_stage :: "main_build \<Rightarrow> startup_env \<Rightarrow> chrome_profile option \<Rightarrow> startup \<Rightarrow> startup" where
  "profile_init_manager_stage b e initial s =
     (let s = (case initial of None \<Rightarrow> s | Some p \<Rightarrow> call_post_profile_init_stage b e p s)
      in fold (profile_added_stage b e) (List.filter (\<lambda>p. \<not> same_profile initial p) (loaded_profiles e))
           (s\<lparr>su_observing := True\<rparr>))"

text \<open>What happens to the manager while the browser runs.\<close>

fun profile_event :: "main_build \<Rightarrow> startup_env \<Rightarrow> main_event \<Rightarrow> startup \<Rightarrow> startup" where
  "profile_event b e (ProfileAdded p) s = (if su_observing s then profile_added_stage b e p s else s)"
| "profile_event b e ProfileManagerDestroying s = s\<lparr>su_observing := False\<rparr>"

definition pre_browser_start :: "main_build \<Rightarrow> startup \<Rightarrow> startup" where
  "pre_browser_start b s =
     say (part_calls ''PreBrowserStart'' s @
          on_flag (\<not> is_android b) [tell ''TabManager::Start''] @
          [tell ''subresource_filter_ruleset_service''] @
          on_flag (is_win b) [tell ''CommitLaunchOnStartupState'']) s"

definition post_browser_start :: "main_build \<Rightarrow> startup_env \<Rightarrow> startup \<Rightarrow> startup" where
  "post_browser_start b e s =
     say (part_calls ''PostBrowserStart'' s @ [tell ''OnBrowserStarted''] @
          on_flag (process_singleton b) [tell ''ChromeProcessSingleton::Unlock''] @
          [Call ''PostDelayedTask'' [Name ''DeleteOldWebRtcLogFilesForAllProfiles'', Num 60]] @
          on_flag (\<not> is_android b \<and> asks e (FeatureEnabled ''kWebUsb''))
            [tell ''WebUsbDetector'', Call ''PostTask'' [Name ''WebUsbDetector::Initialize'']] @
          on_flag (is_win b) [tell ''SchedulePlatformRuntimeInstallationIfRequired''] @
          [tell ''AfterStartupTaskUtils::StartMonitoringStartup'']) s"

subsection \<open>The stage before the main message loop\<close>

text \<open>The checks that come before there is a profile.\<close>

definition early_checks :: "main_build \<Rightarrow> startup_env \<Rightarrow> (startup \<Rightarrow> (stop \<times> startup) + startup) list" where
  "early_checks b e =
     [go (say (on_flag (is_win b) [tell ''InitializeWinParentalControls''])),
      go (say (on_flag (is_linux b \<and> asks e FirstRun \<and> asks e EulaRequired \<and> \<not> asks e HeadlessMode)
                 [tell ''ShowEulaDialog''])),
      stop_if (is_linux b \<and> asks e FirstRun \<and> asks e EulaRequired \<and> \<not> asks e HeadlessMode \<and>
               \<not> asks e EulaAccepted) (Exit EulaRefused),
      go (say (start_metrics_recording b e @ [tell ''BrowserProcess::PreMainMessageLoopRun''])),
      (\<lambda>s. stop_if (is_win b \<and> has_sw s ''uninstall'') (Exit (UninstallResult (asks e BrowserAlreadyRunning))) s),
      (\<lambda>s. stop_if (is_win b \<and> (has_sw s ''hide-icons'' \<or> has_sw s ''show-icons'')) (Exit IconsResult) s),
      go (say (on_flag (is_win b) [Call ''SelectFileDialog::SetFactory'' [Name ''Chrome'']] @
               on_flag (desktop b \<and> asks e HeadlessMode) [Call ''SelectFileDialog::SetFactory'' [Name ''Headless'']])),
      stop_if (for_testing b \<and> \<not> asks e (LocalPrefOn ''kChromeForTestingAllowed'')) (Exit DisallowedByPolicy),
      (\<lambda>s. stop_if (has_sw s ''make-default-browser'' \<and> asks e (LocalPrefManaged ''kDefaultBrowserSettingEnabled'') \<and>
                \<not> asks e (LocalPrefOn ''kDefaultBrowserSettingEnabled'')) (Exit DisallowedByPolicy) s),
      (\<lambda>s. stop_if (has_sw s ''make-default-browser'')
              (Exit (if asks e DefaultBrowserSet then NormalExit else IntegrationFailed))
              (say (on_flag (has_sw s ''make-default-browser'') [tell ''SetAsDefaultBrowser'']) s)),
      stop_if (use_aura b \<and> \<not> asks e AuraEnvExists) Crash,
      stop_if (is_win b \<and> asks e UpgradeRelaunch) (Exit UpgradeRelaunched),
      stop_if (downgrade_processing b \<and> \<not> is_android b \<and> asks e DowngradeNeeded) (Exit DowngradeAndRelaunch),
      go (say (on_flag (downgrade_processing b \<and> \<not> is_android b) [tell ''UpdateLastVersion''] @
               on_flag (\<not> is_chromeos b) [tell ''InitCloudManagementController''])),
      stop_if (\<not> is_android b \<and> \<not> is_chromeos b \<and> \<not> asks e Enrolled) (Exit EnrollmentFailed),
      stop_if (is_win b \<and> asks e MachineLevelInstall) (Exit MachineInstallExists)]"

text \<open>What the stage tells once it has a profile, up to the initialisation of the profiles.\<close>

definition profile_calls :: "main_build \<Rightarrow> startup_env \<Rightarrow> startup \<Rightarrow> call list" where
  "profile_calls b e s =
     on_flag (\<not> is_android b) [tell ''CreateSentinelIfNeeded''] @
     on_flag (background_mode b) [tell ''AutoloadProfiles''] @
     [tell ''TranslateService::Initialize''] @
     on_flag (asks e GeoLanguage) [tell ''GeoLanguageProvider::StartUp''] @
     [Call ''WebUIControllerFactory::RegisterFactory'' [Name ''ChromeWebUIControllerFactory''],
      tell ''RegisterChromeWebUIConfigs'', tell ''RegisterChromeUntrustedWebUIConfigs''] @
     on_flag (is_purecloak b) [tell ''RegisterPureCloakWebUIConfigs''] @
     on_flag (is_android b) [tell ''SetPageInfoClient''] @
     [tell ''CreateDevToolsProtocolHandler''] @
     on_flag (has_sw s ''auto-open-devtools-for-tabs'') [tell ''CreateDevToolsAutoOpener''] @
     on_flag (\<not> has_sw s ''disable-component-update'') [tell ''RegisterComponentsForUpdate'']"

definition first_run_calls :: "main_build \<Rightarrow> startup_env \<Rightarrow> chrome_profile option \<Rightarrow> call list" where
  "first_run_calls b e initial =
     (case initial of
        None \<Rightarrow> []
      | Some p \<Rightarrow>
          [Call ''AutoImport'' [profile_arg p]] @
          on_flag (asks e (FeatureEnabled ''kBookmarksImportOnFirstRun'') \<and> asks e HasImportDict)
            [Call ''StartBookmarkImportFromDict'' [profile_arg p]] @
          on_flag (extensions b \<and> asks e (FeatureEnabled ''kInitialExternalExtensions''))
            [Call ''SetString'' [Name ''kInitialInstallProviderName'', profile_arg p],
             Call ''SetList'' [Name ''kInitialInstallList'', profile_arg p]]) @
     [tell ''DoPostImportTasks'']"

text \<open>From the choice of the profile to the first run's dialogs, which can end the browser.\<close>

definition choose_profile :: "main_build \<Rightarrow> startup_env \<Rightarrow> startup \<Rightarrow> (stop \<times> startup) + startup" where
  "choose_profile b e s =
     (let (info, l) = create_initial_profile b e s;
          s = say l s
      in case info of
           None \<Rightarrow> Inl (Crash, s)
         | Some info \<Rightarrow>
             if sp_mode info = ModeError then Inl (Exit NormalExit, s)
             else let s = say (profile_calls b e s) s;
                      s = profile_init_manager_stage b e (sp_profile info) s
                  in if \<not> is_android b \<and> \<not> is_chromeos b \<and> asks e FirstRun
                     then stop_if (asks e TryingToQuit) (Exit NormalExit)
                            (say (first_run_calls b e (sp_profile info)) s)
                     else Inr s)"

definition profile_setup :: "main_build \<Rightarrow> startup_env \<Rightarrow> (startup \<Rightarrow> (stop \<times> startup) + startup) list" where
  "profile_setup b e = [go (pre_profile_init b e), choose_profile b e]"

text \<open>The modules that are set up before the browser starts.\<close>

definition resource_calls :: "main_build \<Rightarrow> startup_env \<Rightarrow> startup \<Rightarrow> call list" where
  "resource_calls b e s =
     on_flag (is_win b \<and> \<not> has_sw s ''browser-test'') [tell ''RegisterApplicationRestart''] @
     [tell ''NetModule::SetResourceProvider'', tell ''media::SetLocalizedStringProvider''] @
     on_flag (\<not> is_android b) [tell ''intranet_redirect_detector''] @
     on_flag (pdf b) [Call ''SetIsOopifPdfPolicyEnabled''
       [Bool (asks e (LocalPrefOn ''kPdfViewerOutOfProcessIframeEnabled''))]] @
     on_flag (print_preview b \<and> \<not> official_build b \<and> has_sw s ''debug-print'' \<and> \<not> asks e DebugPrintPathEmpty)
       [tell ''SetDebugDumpPath''] @
     on_flag (enable_printing b) ([tell ''InitializeProcessForPrinting''] @
       on_flag (oop_printing b \<and> asks e EarlyPrintBackend) [tell ''EarlyStartPrintBackendService''])"

text \<open>\<open>browser_creator_->Start\<close> and what follows a successful start: only then the run loop is made.\<close>

definition start_browser :: "main_build \<Rightarrow> startup_env \<Rightarrow> startup \<Rightarrow> startup" where
  "start_browser b e s =
     (if is_android b then say [tell ''set_policy_pref_service''] s
      else let last_opened = (if \<not> is_chromeos b \<and> \<not> has_sw s ''app-id'' then last_opened_profiles e else []);
               s = say (on_flag (for_testing b \<and> asks e ComponentUpdater) [tell ''EnsureRequiredComponentsReady''] @
                        [Call ''StartupBrowserCreator::Start'' (map profile_arg last_opened)]) s;
               s = (if asks e CreatorStarts
                    then (say (on_flag (is_linux b \<or> is_win b) [tell ''StartAutoupdateTimer''] @
                               on_flag (is_linux b) [tell ''SaveLastModifiedTimeOfExe''] @
                               on_flag (record_active_use b) [tell ''SetLastRunTime''] @
                               [tell ''SetQuitClosure'']) s)\<lparr>su_loop := True\<rparr>
                    else s)
           in s\<lparr>su_creator := False\<rparr>)"

definition browser_setup :: "main_build \<Rightarrow> startup_env \<Rightarrow> (startup \<Rightarrow> (stop \<times> startup) + startup) list" where
  "browser_setup b e =
     [(\<lambda>s. go (say (resource_calls b e s)) s),
      (\<lambda>s. stop_if (has_sw s ''crash-test'') Crash s),
      go (say ([tell ''ContentSerializedNavigationDriver::SetInstance''] @
               on_flag (offline_pages b) [tell ''OfflinePageInfoHandler::Register''])),
      go (pre_browser_start b),
      go (say [tell ''PerformPreMainMessageLoopStartup'']),
      go (start_browser b e),
      go (say [tell ''UnblockAsyncLoading'']),
      go (post_browser_start b e),
      go (say (on_flag (downgrade_processing b) [tell ''DeleteMovedUserDataSoon''])),
      (\<lambda>s. go (say (on_flag (su_result s = NormalExit) (record_browser_startup_time b e))) s)]"

text \<open>The code of an early exit, or the code that the state has; a crash has none.\<close>

definition pre_main_message_loop_run_impl :: "main_build \<Rightarrow> startup_env \<Rightarrow> startup \<Rightarrow> stop \<times> startup" where
  "pre_main_message_loop_run_impl b e s =
     (case until_stop (early_checks b e @ profile_setup b e @ browser_setup b e) s of
        Inl r \<Rightarrow> r
      | Inr s' \<Rightarrow> (Exit (su_result s'), s'))"

definition pre_main_message_loop_run :: "main_build \<Rightarrow> startup_env \<Rightarrow> startup \<Rightarrow> (result_code \<times> startup) option" where
  "pre_main_message_loop_run b e s =
     (case pre_main_message_loop_run_impl b e s of
        (Crash, s) \<Rightarrow> None
      | (Exit r, s) \<Rightarrow>
          let s = s\<lparr>su_result := r\<rparr> in Some (r, say (part_calls ''PreMainMessageLoopRun'' s) s))"

definition should_intercept_main_message_loop_run :: "startup \<Rightarrow> bool" where
  "should_intercept_main_message_loop_run s = su_loop s"

definition will_run_main_message_loop :: "startup \<Rightarrow> bool \<times> startup" where
  "will_run_main_message_loop s = (su_loop s, s\<lparr>su_loop := False\<rparr>)"

definition on_first_idle :: "main_build \<Rightarrow> call list" where
  "on_first_idle b =
     [tell ''RecordBrowserMainLoopFirstIdle''] @ on_flag (is_android b) [tell ''ShareHistory::CreateForProfile'']"

subsection \<open>Shutdown\<close>

text \<open>On Android the loop is not this one: the stages are never reached there.\<close>

definition post_main_message_loop_run :: "main_build \<Rightarrow> startup_env \<Rightarrow> startup \<Rightarrow> startup option" where
  "post_main_message_loop_run b e s =
     (if is_android b then None
      else let s = say [tell ''UpgradeDetector::Shutdown'', tell ''HangWatcher::SetShuttingDown''] s;
               s = (if asks e CrashReporting then s
                    else (say [Call ''ShutdownWatcher::Arm'' [Num 300]] s)\<lparr>su_shutdown_watcher := True\<rparr>);
               s = say (part_calls ''PostMainMessageLoopRun'' s @ [tell ''TranslateService::Shutdown''] @
                        on_flag (process_singleton b) [tell ''ChromeProcessSingleton::Cleanup''] @
                        [tell ''MetricsService::Stop'', tell ''ShutdownPreThreadsStop'', tell ''StartTearDown'']) s
           in Some (s\<lparr>su_restart := shutdown_restart e\<rparr>))"

definition final_restart_mode :: "main_build \<Rightarrow> startup_env \<Rightarrow> startup \<Rightarrow> restart_mode" where
  "final_restart_mode b e s =
     (let mode = (if su_restart s = RestartLastSession \<and> background_mode b \<and> asks e RestartInBackground
                  then RestartInBackgroundMode else su_restart s)
      in if downgrade_processing b \<and> su_result s = DowngradeAndRelaunch then RestartThisSession else mode)"

definition post_destroy_threads_stage :: "main_build \<Rightarrow> startup_env \<Rightarrow> startup \<Rightarrow> startup option" where
  "post_destroy_threads_stage b e s =
     (if is_android b then None
      else let mode = final_restart_mode b e s;
               s = say (part_calls ''PostDestroyThreads'' s @ [tell ''BrowserProcess::PostDestroyThreads'', tell ''metrics::Shutdown'']) s;
               s = s\<lparr>su_observing := False\<rparr>;
               s = say (on_flag (is_chromeos b)
                          [tell ''HWDataUsageController::Shutdown'', tell ''StabilityMetricsManager::Shutdown'',
                           tell ''MetricsReportingLevelController::Shutdown'', tell ''StatsReportingController::Shutdown'',
                           tell ''ShutdownCrosSettings''] @
                        on_flag (downgrade_processing b \<and> su_result s = DowngradeAndRelaunch)
                          [tell ''ProcessDowngrade'']) s;
               s = say [Call ''delete'' [Name ''browser_process_'']] (s\<lparr>su_process := False\<rparr>);
               s = say (on_flag (is_purecloak b) [tell ''StopPureCloakApiServer'']) s;
               s = say [Call ''ShutdownPostThreadsStop''
                          [Name (case mode of NoRestart \<Rightarrow> ''kNoRestart'' | RestartLastSession \<Rightarrow> ''kRestartLastSession''
                             | RestartInBackgroundMode \<Rightarrow> ''kRestartInBackground'' | RestartThisSession \<Rightarrow> ''kRestartThisSession'')]] s;
               s = (if is_chromeos b then s else s\<lparr>su_master_prefs := False\<rparr>)
           in Some (say [tell ''device_event_log::Shutdown''] s))"

end
