(* ===== verification/Startup_Safety.thy ===== *)
theory Startup_Safety
  imports Startup_Stages
begin

text \<open>
  What the stages of startup guarantee: that the stage before the main message loop goes through its
  parts in order and when there is a loop to run afterwards, and that the product's hooks are called
  in their order, the server's once, as the model of the hooks in \<open>Chrome_Startup\<close> has it.
\<close>

subsection \<open>Lists of actions\<close>

fun ended :: "(stop \<times> startup) + startup \<Rightarrow> startup" where
  "ended (Inl (r, s)) = s"
| "ended (Inr s) = s"

fun why :: "(stop \<times> startup) + startup \<Rightarrow> stop option" where
  "why (Inl (r, s)) = Some r"
| "why (Inr s) = None"

lemma until_stop_append:
  "until_stop (fs @ gs) s = (case until_stop fs s of Inl r \<Rightarrow> Inl r | Inr t \<Rightarrow> until_stop gs t)"
  by (induction fs arbitrary: s) (auto simp: until_stop.simps split: sum.split)

declare until_stop.simps(2) [simp del]

lemma until_stop_one [simp]: "until_stop [f] s = f s"
  by (simp add: until_stop.simps split: sum.split)

lemma until_stop_go [simp]: "until_stop (go f # fs) s = until_stop fs (f s)"
  by (simp add: until_stop.simps go_def)

lemma until_stop_go_at [simp]: "until_stop ((\<lambda>s. go (f s) s) # fs) s = until_stop fs (f s s)"
  by (simp add: until_stop.simps go_def)

lemma until_stop_if [simp]: "until_stop (stop_if c r # fs) s = (if c then Inl (r, s) else until_stop fs s)"
  by (simp add: until_stop.simps stop_if_def)

lemma why_go [simp]: "why (go f s) = None"
  by (simp add: go_def)

lemma until_stop_cond:
  "until_stop ((\<lambda>s. stop_if (c s) (r s) (g s)) # fs) s = (if c s then Inl (r s, g s) else until_stop fs (g s))"
  by (simp add: until_stop.simps stop_if_def)

lemma ended_stop [simp]: "ended (stop_if c r s) = s" "ended (go f s) = f s"
  by (simp_all add: stop_if_def go_def)

text \<open>What every action keeps, the list keeps, however it ends.\<close>

lemma until_stop_keeps:
  assumes "\<And>f s. f \<in> set fs \<Longrightarrow> P s \<Longrightarrow> P (ended (f s))" "P s"
  shows "P (ended (until_stop fs s))"
  using assms
proof (induction fs arbitrary: s)
  case (Cons f fs)
  then have "P (ended (f s))" by simp
  then show ?case
    using Cons.IH [of "ended (f s)"] Cons.prems(1) by (cases "f s") (auto simp: until_stop.simps split: sum.split)
qed simp

lemma say_fields [simp]:
  "su_parts (say l s) = su_parts s" "su_switches (say l s) = su_switches s" "su_result (say l s) = su_result s"
  "su_process (say l s) = su_process s" "su_creator (say l s) = su_creator s"
  "su_master_prefs (say l s) = su_master_prefs s" "su_loop (say l s) = su_loop s"
  "su_initialized (say l s) = su_initialized s" "su_observing (say l s) = su_observing s"
  "su_restart (say l s) = su_restart s" "su_log (say l s) = su_log s @ l"
  "has_sw (say l s) n = has_sw s n"
  by (simp_all add: say_def has_sw_def)

lemma has_sw_update [simp]:
  "has_sw (s\<lparr>su_initialized := x\<rparr>) n = has_sw s n" "has_sw (s\<lparr>su_observing := x\<rparr>) n = has_sw s n"
  by (simp_all add: has_sw_def)

subsection \<open>The loop\<close>

text \<open>The state but for the log and what is known of the profiles.\<close>

definition same_run :: "startup \<Rightarrow> startup \<Rightarrow> bool" where
  "same_run s t \<longleftrightarrow> su_loop t = su_loop s \<and> su_result t = su_result s \<and> su_switches t = su_switches s \<and>
     su_parts t = su_parts s"

lemma same_run_refl [simp]: "same_run s s" by (simp add: same_run_def)

lemma same_run_trans: "same_run s t \<Longrightarrow> same_run t u \<Longrightarrow> same_run s u" by (simp add: same_run_def)

lemma same_run_say [simp]: "same_run s (say l t) = same_run s t" by (simp add: same_run_def)

lemma same_run_has: "same_run s t \<Longrightarrow> has_sw t n = has_sw s n" by (simp add: same_run_def has_sw_def)

lemma post_profile_init_same: "same_run s (call_post_profile_init_stage b e p t) = same_run s t"
  by (simp add: call_post_profile_init_stage_def post_profile_init_stage_def) (simp add: same_run_def)

lemma profile_added_same: "same_run s (profile_added_stage b e p t) = same_run s t"
  by (simp add: profile_added_stage_def post_profile_init_same)

lemma profiles_added_same: "same_run s (fold (profile_added_stage b e) ps t) = same_run s t"
  by (induction ps arbitrary: t) (simp_all add: profile_added_same)

lemma manager_same: "same_run s (profile_init_manager_stage b e initial t) = same_run s t"
  by (cases initial) (simp_all add: profile_init_manager_stage_def profiles_added_same Let_def
      post_profile_init_same same_run_def [of _ "_\<lparr>su_observing := _\<rparr>"] , simp_all add: same_run_def
      post_profile_init_same [unfolded same_run_def])

lemma stages_same:
  "same_run s (pre_profile_init b e t) = same_run s t" "same_run s (pre_browser_start b t) = same_run s t"
  "same_run s (post_browser_start b e t) = same_run s t"
  by (simp_all add: pre_profile_init_def pre_browser_start_def post_browser_start_def)

lemma early_checks_same: "same_run s (ended (until_stop (early_checks b e) s))"
  by (rule until_stop_keeps) (auto simp: early_checks_def)

lemma profile_setup_same: "same_run s (ended (until_stop (profile_setup b e) s))"
  by (rule until_stop_keeps)
    (auto simp: profile_setup_def choose_profile_def stages_same manager_same Let_def split: prod.split option.split)

text \<open>The first of a list of reasons.\<close>

fun first_reason :: "(bool \<times> stop) list \<Rightarrow> stop option" where
  "first_reason [] = None"
| "first_reason ((c, r) # rs) = (if c then Some r else first_reason rs)"

definition reasons_before_profile :: "main_build \<Rightarrow> startup_env \<Rightarrow> startup \<Rightarrow> (bool \<times> stop) list" where
  "reasons_before_profile b e s =
     [(is_linux b \<and> asks e FirstRun \<and> asks e EulaRequired \<and> \<not> asks e HeadlessMode \<and> \<not> asks e EulaAccepted,
       Exit EulaRefused),
      (is_win b \<and> has_sw s ''uninstall'', Exit (UninstallResult (asks e BrowserAlreadyRunning))),
      (is_win b \<and> (has_sw s ''hide-icons'' \<or> has_sw s ''show-icons''), Exit IconsResult),
      (for_testing b \<and> \<not> asks e (LocalPrefOn ''kChromeForTestingAllowed''), Exit DisallowedByPolicy),
      (has_sw s ''make-default-browser'' \<and> asks e (LocalPrefManaged ''kDefaultBrowserSettingEnabled'') \<and>
       \<not> asks e (LocalPrefOn ''kDefaultBrowserSettingEnabled''), Exit DisallowedByPolicy),
      (has_sw s ''make-default-browser'', Exit (if asks e DefaultBrowserSet then NormalExit else IntegrationFailed)),
      (use_aura b \<and> \<not> asks e AuraEnvExists, Crash),
      (is_win b \<and> asks e UpgradeRelaunch, Exit UpgradeRelaunched),
      (downgrade_processing b \<and> \<not> is_android b \<and> asks e DowngradeNeeded, Exit DowngradeAndRelaunch),
      (\<not> is_android b \<and> \<not> is_chromeos b \<and> \<not> asks e Enrolled, Exit EnrollmentFailed),
      (is_win b \<and> asks e MachineLevelInstall, Exit MachineInstallExists)]"

definition first_profile :: "main_build \<Rightarrow> startup_env \<Rightarrow> startup \<Rightarrow> startup_profile option" where
  "first_profile b e s = fst (create_initial_profile b e s)"

definition no_profile :: "main_build \<Rightarrow> startup_env \<Rightarrow> startup \<Rightarrow> bool" where
  "no_profile b e s = (case first_profile b e s of None \<Rightarrow> True | Some info \<Rightarrow> sp_mode info = ModeError)"

definition reasons_not_to_start :: "main_build \<Rightarrow> startup_env \<Rightarrow> startup \<Rightarrow> (bool \<times> stop) list" where
  "reasons_not_to_start b e s =
     reasons_before_profile b e s @
     [(first_profile b e s = None, Crash),
      (no_profile b e s, Exit NormalExit),
      (\<not> is_android b \<and> \<not> is_chromeos b \<and> asks e FirstRun \<and> asks e TryingToQuit, Exit NormalExit),
      (has_sw s ''crash-test'', Crash)]"

lemma first_reason_append:
  "first_reason (rs @ rs') = (case first_reason rs of None \<Rightarrow> first_reason rs' | Some r \<Rightarrow> Some r)"
  by (induction rs rule: first_reason.induct) auto

lemma why_if [simp]: "why (if c then Inl (r, s) else x) = (if c then Some r else why x)"
  by simp

lemma early_checks_why: "why (until_stop (early_checks b e) s) = first_reason (reasons_before_profile b e s)"
  by (simp only: early_checks_def reasons_before_profile_def until_stop_cond until_stop_if until_stop_go
      until_stop.simps(1) why_if why.simps first_reason.simps say_fields cong del: if_weak_cong)

lemma create_initial_profile_cong:
  "(\<And>n. has_sw t n = has_sw s n) \<Longrightarrow> create_initial_profile b e t = create_initial_profile b e s"
  by (simp add: create_initial_profile_def requested_directory_def)

lemma profile_setup_why:
  assumes "same_run s t"
  shows "why (until_stop (profile_setup b e) t) = first_reason
    [(first_profile b e s = None, Crash), (no_profile b e s, Exit NormalExit),
     (\<not> is_android b \<and> \<not> is_chromeos b \<and> asks e FirstRun \<and> asks e TryingToQuit, Exit NormalExit)]"
proof -
  have "same_run s (pre_profile_init b e t)" using assms by (simp add: stages_same)
  then have c: "create_initial_profile b e (pre_profile_init b e t) = create_initial_profile b e s"
    by (intro create_initial_profile_cong) (rule same_run_has)
  obtain info l where i: "create_initial_profile b e s = (info, l)" by fastforce
  show ?thesis
    by (cases info) (auto simp: profile_setup_def choose_profile_def c i Let_def first_profile_def no_profile_def stop_if_def)
qed

lemma start_browser_loop:
  "su_loop (start_browser b e t) = (su_loop t \<or> \<not> is_android b \<and> asks e CreatorStarts)"
  "su_result (start_browser b e t) = su_result t"
  by (simp_all add: start_browser_def Let_def)

lemma browser_setup_ends:
  assumes "same_run s t" "\<not> su_loop s"
  shows "why (until_stop (browser_setup b e) t) = (if has_sw s ''crash-test'' then Some Crash else None)"
    "su_loop (ended (until_stop (browser_setup b e) t)) =
       (\<not> has_sw s ''crash-test'' \<and> \<not> is_android b \<and> asks e CreatorStarts)"
    "su_result (ended (until_stop (browser_setup b e) t)) = su_result s"
proof -
  have h: "has_sw t ''crash-test'' = has_sw s ''crash-test''" by (rule same_run_has [OF assms(1)])
  have k: "\<not> su_loop t" "su_result t = su_result s" using assms by (simp_all add: same_run_def)
  show "why (until_stop (browser_setup b e) t) = (if has_sw s ''crash-test'' then Some Crash else None)"
    "su_loop (ended (until_stop (browser_setup b e) t)) =
       (\<not> has_sw s ''crash-test'' \<and> \<not> is_android b \<and> asks e CreatorStarts)"
    "su_result (ended (until_stop (browser_setup b e) t)) = su_result s"
    using h k by (auto simp: browser_setup_def start_browser_loop post_browser_start_def pre_browser_start_def
        until_stop_cond)
qed

lemma why_cases:
  obtains t where "why x = None" "x = Inr t" | r t where "why x = Some r" "x = Inl (r, t)"
  by (cases x) auto

text \<open>The three parts of the stage, one after the other.\<close>

lemma startup_parts:
  obtains (early) r t where "first_reason (reasons_before_profile b e s) = Some r"
      "pre_main_message_loop_run_impl b e s = (r, t)" "t = ended (until_stop (early_checks b e) s)"
  | (profile) r t u where "first_reason (reasons_before_profile b e s) = None"
      "u = ended (until_stop (early_checks b e) s)" "t = ended (until_stop (profile_setup b e) u)"
      "why (until_stop (profile_setup b e) u) = Some r" "pre_main_message_loop_run_impl b e s = (r, t)"
  | (browser) x u v where "first_reason (reasons_before_profile b e s) = None"
      "u = ended (until_stop (early_checks b e) s)" "v = ended (until_stop (profile_setup b e) u)"
      "why (until_stop (profile_setup b e) u) = None" "x = until_stop (browser_setup b e) v"
      "pre_main_message_loop_run_impl b e s =
         ((case why x of Some r \<Rightarrow> r | None \<Rightarrow> Exit (su_result (ended x))), ended x)"
proof -
  note impl = pre_main_message_loop_run_impl_def [of b e s] until_stop_append
  show thesis
  proof (cases rule: why_cases [of "until_stop (early_checks b e) s"])
    case (2 r t)
    have "first_reason (reasons_before_profile b e s) = Some r"
      by (rule trans [OF early_checks_why [symmetric] 2(1)])
    moreover have "pre_main_message_loop_run_impl b e s = (r, t)" by (simp add: impl 2(2))
    moreover have "t = ended (until_stop (early_checks b e) s)" by (simp add: 2(2))
    ultimately show ?thesis by (rule early)
  next
    case (1 u)
    note one = 1
    have none: "first_reason (reasons_before_profile b e s) = None"
      by (rule trans [OF early_checks_why [symmetric] one(1)])
    have u: "u = ended (until_stop (early_checks b e) s)" by (simp add: one(2))
    show ?thesis
    proof (cases rule: why_cases [of "until_stop (profile_setup b e) u"])
      case (2 r t)
      have "t = ended (until_stop (profile_setup b e) u)" by (simp add: 2(2))
      moreover have "pre_main_message_loop_run_impl b e s = (r, t)" by (simp add: impl one(2) 2(2))
      ultimately show ?thesis using none u 2(1) by (intro profile)
    next
      case (1 v)
      have v: "v = ended (until_stop (profile_setup b e) u)" by (simp add: 1(2))
      let ?x = "until_stop (browser_setup b e) v"
      have "pre_main_message_loop_run_impl b e s =
          ((case why ?x of Some r \<Rightarrow> r | None \<Rightarrow> Exit (su_result (ended ?x))), ended ?x)"
        by (cases ?x) (auto simp: impl one(2) 1(2))
      then show ?thesis using none u v 1(1) by (intro browser [OF _ _ _ _ refl])
    qed
  qed
qed

text \<open>The verdict of the stage, and whether it leaves a run loop.\<close>

lemma startup_verdict:
  assumes "\<not> su_loop s"
  shows "fst (pre_main_message_loop_run_impl b e s) =
       (case first_reason (reasons_not_to_start b e s) of Some r \<Rightarrow> r | None \<Rightarrow> Exit (su_result s))"
    and "su_loop (snd (pre_main_message_loop_run_impl b e s)) \<longleftrightarrow>
       first_reason (reasons_not_to_start b e s) = None \<and> \<not> is_android b \<and> asks e CreatorStarts"
proof -
  note u = early_checks_same [of s b e]
  note v = same_run_trans [OF u profile_setup_same [of "ended (until_stop (early_checks b e) s)" b e]]
  note w = profile_setup_why [OF u, of b e]
  note defs = reasons_not_to_start_def first_reason_append
  have "fst (pre_main_message_loop_run_impl b e s) =
       (case first_reason (reasons_not_to_start b e s) of Some r \<Rightarrow> r | None \<Rightarrow> Exit (su_result s)) \<and>
     su_loop (snd (pre_main_message_loop_run_impl b e s)) =
       (first_reason (reasons_not_to_start b e s) = None \<and> \<not> is_android b \<and> asks e CreatorStarts)"
  proof (cases rule: startup_parts [of b e s])
    case (early r t)
    then show ?thesis using assms u by (simp add: defs same_run_def)
  next
    case (profile r t u')
    then show ?thesis using assms v w by (auto simp: defs same_run_def split: if_splits)
  next
    case (browser x u' v')
    then show ?thesis using browser_setup_ends [OF v assms, of b e] w by (auto simp: defs split: if_splits)
  qed
  then show "fst (pre_main_message_loop_run_impl b e s) =
       (case first_reason (reasons_not_to_start b e s) of Some r \<Rightarrow> r | None \<Rightarrow> Exit (su_result s))"
    and "su_loop (snd (pre_main_message_loop_run_impl b e s)) \<longleftrightarrow>
       first_reason (reasons_not_to_start b e s) = None \<and> \<not> is_android b \<and> asks e CreatorStarts"
    by simp_all
qed

definition linux_build :: main_build where
  "linux_build =
     \<lparr>is_chromeos = False, is_linux = True, is_win = False, is_mac = False, is_ozone = True, is_android = False,
      enable_printing = True, google_branding = False, lens_branded = False, dcheck_is_on = False,
      is_posix = True, is_purecloak = True, for_testing = False, toolkit_views = True, use_aura = True,
      arch_x86_64 = True, process_singleton = True, downgrade_processing = True, extensions = True,
      extensions_core = True, background_mode = True, offline_pages = False, pdf = True, print_preview = True,
      oop_printing = True, official_build = True, rlz = False, on_device_model_service = False,
      updater_enabled = False, record_active_use = False\<rparr>"

definition startup_env_of :: "startup_query set \<Rightarrow> startup_profile \<Rightarrow> chrome_profile list \<Rightarrow> startup_env" where
  "startup_env_of yes info loaded =
     \<lparr>asks = (\<lambda>q. q \<in> yes), notification_profile = [], profile_directory = [], chosen_profile = info,
      fallback_profile = info, only_profile = None, loaded_profiles = loaded, last_opened_profiles = [],
      shutdown_restart = NoRestart\<rparr>"

subsection \<open>The product's hooks\<close>

definition product_call :: "call \<Rightarrow> bool" where
  "product_call c = (case c of Call f _ \<Rightarrow>
     f \<in> {''RegisterPureCloakWebUIConfigs'', ''StartPureCloakApiServer'', ''StopPureCloakApiServer''})"

definition product_calls :: "startup \<Rightarrow> call list" where
  "product_calls s = List.filter product_call (su_log s)"

abbreviation started_with :: "chrome_profile \<Rightarrow> call" where
  "started_with p \<equiv> Call ''StartPureCloakApiServer'' [profile_arg p]"

lemma product_call_simps [simp]:
  "product_call (Call f l) \<longleftrightarrow>
     f = ''RegisterPureCloakWebUIConfigs'' \<or> f = ''StartPureCloakApiServer'' \<or> f = ''StopPureCloakApiServer''"
  by (simp add: product_call_def)

lemma filter_on_flag [simp]: "List.filter P (on_flag c l) = on_flag c (List.filter P l)" "on_flag c [] = []"
  by (simp_all add: on_flag_def)

lemma product_calls_say [simp]: "product_calls (say l s) = product_calls s @ List.filter product_call l"
  by (simp add: product_calls_def)

lemma product_calls_update [simp]:
  "product_calls (s\<lparr>su_initialized := x\<rparr>) = product_calls s" "product_calls (s\<lparr>su_observing := x\<rparr>) = product_calls s"
  "product_calls (s\<lparr>su_loop := x\<rparr>) = product_calls s" "product_calls (s\<lparr>su_creator := x\<rparr>) = product_calls s"
  "product_calls (s\<lparr>su_restart := r\<rparr>) = product_calls s" "product_calls (s\<lparr>su_shutdown_watcher := x\<rparr>) = product_calls s"
  "product_calls (s\<lparr>su_process := x\<rparr>) = product_calls s" "product_calls (s\<lparr>su_master_prefs := x\<rparr>) = product_calls s"
  by (simp_all add: product_calls_def)

lemma part_calls_product [simp]:
  "\<not> product_call (Call stage []) \<Longrightarrow> List.filter product_call (part_calls stage s) = []"
  by (simp add: part_calls_def filter_empty_conv)

lemma product_if [simp]: "product_calls (if c then s else t) = (if c then product_calls s else product_calls t)"
  by simp

lemma quiet_stages:
  "product_calls (pre_profile_init b e s) = product_calls s"
  "product_calls (pre_browser_start b s) = product_calls s"
  "product_calls (post_browser_start b e s) = product_calls s"
  "product_calls (start_browser b e s) = product_calls s"
  by (simp_all add: pre_profile_init_def pre_browser_start_def post_browser_start_def start_browser_def Let_def)

lemma first_run_quiet: "List.filter product_call (first_run_calls b e initial) = []"
  by (simp add: first_run_calls_def split: option.split)

lemma initial_profile_quiet:
  "create_initial_profile b e s = (info, l) \<Longrightarrow> List.filter product_call l = []"
  by (auto simp: create_initial_profile_def Let_def split: if_splits option.splits)

lemma profile_calls_product:
  "List.filter product_call (profile_calls b e s) = on_flag (is_purecloak b) [tell ''RegisterPureCloakWebUIConfigs'']"
  by (simp add: profile_calls_def)

text \<open>Nothing of what concerns the product happens between two states.\<close>

definition quiet_run :: "startup \<Rightarrow> startup \<Rightarrow> bool" where
  "quiet_run s t \<longleftrightarrow> product_calls t = product_calls s \<and> su_initialized t = su_initialized s \<and>
     su_observing t = su_observing s"

lemma quiet_run_refl [simp]: "quiet_run s s" by (simp add: quiet_run_def)

lemma quiet_run_say [simp]: "List.filter product_call l = [] \<Longrightarrow> quiet_run s (say l t) = quiet_run s t"
  by (simp add: quiet_run_def)

lemma start_browser_fields:
  "su_initialized (start_browser b e s) = su_initialized s" "su_observing (start_browser b e s) = su_observing s"
  by (simp_all add: start_browser_def Let_def)

lemma quiet_run_stages [simp]:
  "quiet_run s (pre_profile_init b e t) = quiet_run s t" "quiet_run s (pre_browser_start b t) = quiet_run s t"
  "quiet_run s (post_browser_start b e t) = quiet_run s t" "quiet_run s (start_browser b e t) = quiet_run s t"
  by (simp_all add: quiet_run_def quiet_stages start_browser_fields)
    (simp_all add: pre_profile_init_def pre_browser_start_def post_browser_start_def)

lemma quiet_calls [simp]:
  "List.filter product_call (start_metrics_recording b e) = []"
  "List.filter product_call (resource_calls b e s) = []"
  "List.filter product_call (record_browser_startup_time b e) = []"
  by (simp_all add: start_metrics_recording_def resource_calls_def record_browser_startup_time_def)

lemma early_checks_quiet: "quiet_run s (ended (until_stop (early_checks b e) s))"
  by (rule until_stop_keeps) (auto simp: early_checks_def)

lemma browser_setup_quiet: "quiet_run s (ended (until_stop (browser_setup b e) s))"
  by (rule until_stop_keeps) (auto simp: browser_setup_def)

text \<open>Initialising profiles starts the server with the first one.\<close>

definition starts_for :: "main_build \<Rightarrow> bool \<Rightarrow> chrome_profile list \<Rightarrow> call list" where
  "starts_for b done ps = (if is_purecloak b \<and> \<not> done then map started_with (take 1 ps) else [])"

lemma profile_parts_product:
  "List.filter product_call (map (\<lambda>part. Call ''PostProfileInit'' (args part)) parts) = []"
  by (induction parts) simp_all

lemma call_stage_product:
  "product_calls (call_post_profile_init_stage b e p s) = product_calls s @ starts_for b (su_initialized s) [p]"
  "su_initialized (call_post_profile_init_stage b e p s)"
  "su_observing (call_post_profile_init_stage b e p s) = su_observing s"
  by (simp_all add: call_post_profile_init_stage_def post_profile_init_stage_def starts_for_def
      profile_parts_product) (simp add: on_flag_def)

lemma starts_for_simps [simp]:
  "starts_for b True ps = []" "starts_for b done [] = []"
  "starts_for b False [p] @ starts_for b True ps = starts_for b False (p # ps)"
  by (simp_all add: starts_for_def)

lemma added_stage_product:
  "product_calls (profile_added_stage b e p s) =
     product_calls s @ starts_for b (su_initialized s) (List.filter (browsing (is_chromeos b)) [p])"
  "su_initialized (profile_added_stage b e p s) = (su_initialized s \<or> browsing (is_chromeos b) p)"
  "su_observing (profile_added_stage b e p s) = su_observing s"
  by (simp_all add: profile_added_stage_def call_stage_product)

lemma starts_for_append:
  "starts_for b done ps @ starts_for b (done \<or> ps \<noteq> []) qs = starts_for b done (ps @ qs)"
  by (cases ps) (simp_all add: starts_for_def)

lemma profiles_added_product:
  "product_calls (fold (profile_added_stage b e) ps s) =
     product_calls s @ starts_for b (su_initialized s) (List.filter (browsing (is_chromeos b)) ps) \<and>
   su_initialized (fold (profile_added_stage b e) ps s) =
     (su_initialized s \<or> List.filter (browsing (is_chromeos b)) ps \<noteq> []) \<and>
   su_observing (fold (profile_added_stage b e) ps s) = su_observing s"
proof (induction ps arbitrary: s)
  case (Cons p ps)
  show ?case
    using Cons.IH [of "profile_added_stage b e p s"]
      starts_for_append [of b "su_initialized s" "List.filter (browsing (is_chromeos b)) [p]"
        "List.filter (browsing (is_chromeos b)) ps"]
    by (auto simp: added_stage_product)
qed simp

lemma initialised_eq:
  "initialised c initial loaded [] = (case initial of None \<Rightarrow> [] | Some p \<Rightarrow> [p]) @
     List.filter (browsing c) (List.filter (\<lambda>p. \<not> same_profile initial p) loaded)"
  by (auto simp: initialised_def intro!: filter_cong)

lemma manager_product:
  assumes "\<not> su_initialized s"
  shows "product_calls (profile_init_manager_stage b e initial s) =
       product_calls s @ starts_for b False (initialised (is_chromeos b) initial (loaded_profiles e) [])"
    "su_initialized (profile_init_manager_stage b e initial s) \<longleftrightarrow>
       initialised (is_chromeos b) initial (loaded_profiles e) [] \<noteq> []"
    "su_observing (profile_init_manager_stage b e initial s)"
proof -
  let ?ps = "List.filter (browsing (is_chromeos b))
    (List.filter (\<lambda>p. \<not> same_profile initial p) (loaded_profiles e))"
  have "starts_for b False [p] = starts_for b False (p # ?ps)" for p by (simp add: starts_for_def)
  then show "product_calls (profile_init_manager_stage b e initial s) =
       product_calls s @ starts_for b False (initialised (is_chromeos b) initial (loaded_profiles e) [])"
    "su_initialized (profile_init_manager_stage b e initial s) \<longleftrightarrow>
       initialised (is_chromeos b) initial (loaded_profiles e) [] \<noteq> []"
    "su_observing (profile_init_manager_stage b e initial s)"
    using assms
    by (cases initial; simp add: profile_init_manager_stage_def Let_def profiles_added_product
        initialised_eq call_stage_product del: filter_filter)+
qed

lemma initialised_later:
  "initialised c initial loaded [] @ added c xs = initialised c initial loaded xs"
  by (simp add: initialised_def)

lemma profile_events_product:
  "product_calls (fold (profile_event b e) xs s) =
     product_calls s @ (if su_observing s then starts_for b (su_initialized s) (added (is_chromeos b) xs) else [])"
proof (induction xs arbitrary: s)
  case (Cons x xs)
  show ?case
  proof (cases x)
    case (ProfileAdded p)
    then show ?thesis
      using Cons.IH [of "profile_event b e x s"]
        starts_for_append [of b "su_initialized s" "List.filter (browsing (is_chromeos b)) [p]" "added (is_chromeos b) xs"]
      by (auto simp: added_stage_product)
  next
    case ProfileManagerDestroying
    then show ?thesis using Cons.IH [of "profile_event b e x s"] by simp
  qed
qed simp

lemma shutdown_product:
  "post_main_message_loop_run b e s = Some t \<Longrightarrow> product_calls t = product_calls s"
  "post_destroy_threads_stage b e s = Some t \<Longrightarrow>
     product_calls t = product_calls s @ on_flag (is_purecloak b) [tell ''StopPureCloakApiServer'']"
  by (auto simp: post_main_message_loop_run_def post_destroy_threads_stage_def Let_def split: if_splits)

text \<open>Choosing the profile, and with it the registration of the product's page.\<close>

lemma profile_setup_product:
  assumes "\<not> su_initialized s" "\<not> su_observing s"
  shows "let t = ended (until_stop (profile_setup b e) s)
    in if no_profile b e s then quiet_run s t
       else product_calls t = product_calls s @ on_flag (is_purecloak b) [tell ''RegisterPureCloakWebUIConfigs''] @
              starts_for b False (initialised (is_chromeos b)
                (sp_profile (the (first_profile b e s))) (loaded_profiles e) []) \<and>
            (su_initialized t \<longleftrightarrow> initialised (is_chromeos b)
                (sp_profile (the (first_profile b e s))) (loaded_profiles e) [] \<noteq> []) \<and> su_observing t"
proof -
  let ?u = "pre_profile_init b e s"
  have q: "quiet_run s ?u" by simp
  then have i: "\<not> su_initialized ?u" "\<not> su_observing ?u" "product_calls ?u = product_calls s"
    using assms by (simp_all add: quiet_run_def)
  have "same_run s ?u" by (simp add: stages_same)
  then have c: "create_initial_profile b e ?u = create_initial_profile b e s"
    by (intro create_initial_profile_cong) (rule same_run_has)
  obtain info l where l: "create_initial_profile b e s = (info, l)" by fastforce
  note lq = initial_profile_quiet [OF l]
  have t: "ended (until_stop (profile_setup b e) s) = ended (choose_profile b e ?u)"
    by (simp add: profile_setup_def)
  show ?thesis
  proof (cases info)
    case None
    then show ?thesis
      using q lq by (simp add: t choose_profile_def c l no_profile_def first_profile_def)
  next
    case (Some inf)
    then show ?thesis
      using q lq i manager_product [of "say (profile_calls b e (say l ?u)) (say l ?u)" b e "sp_profile inf"]
      by (simp add: t choose_profile_def c l no_profile_def first_profile_def profile_calls_product
          first_run_quiet Let_def)
  qed
qed

lemma no_profile_cong: "same_run s t \<Longrightarrow> create_initial_profile b e t = create_initial_profile b e s"
  by (intro create_initial_profile_cong) (rule same_run_has)

text \<open>Whether the stage gets as far as a profile.\<close>

definition gets_profile :: "main_build \<Rightarrow> startup_env \<Rightarrow> startup \<Rightarrow> bool" where
  "gets_profile b e s \<longleftrightarrow> first_reason (reasons_before_profile b e s) = None \<and> \<not> no_profile b e s"

lemma impl_product:
  assumes "\<not> su_initialized s" "\<not> su_observing s" "product_calls s = []"
    "pre_main_message_loop_run_impl b e s = (r, t)"
  shows "if gets_profile b e s
     then product_calls t = on_flag (is_purecloak b) [tell ''RegisterPureCloakWebUIConfigs''] @
            starts_for b False (initialised (is_chromeos b) (sp_profile (the (first_profile b e s))) (loaded_profiles e) []) \<and>
          (su_initialized t \<longleftrightarrow>
             initialised (is_chromeos b) (sp_profile (the (first_profile b e s))) (loaded_profiles e) [] \<noteq> []) \<and>
          su_observing t
     else quiet_run s t"
proof -
  let ?u = "ended (until_stop (early_checks b e) s)"
  let ?v = "ended (until_stop (profile_setup b e) ?u)"
  have u: "quiet_run s ?u" by (rule early_checks_quiet)
  then have i: "\<not> su_initialized ?u" "\<not> su_observing ?u" "product_calls ?u = []"
    using assms(1-3) by (simp_all add: quiet_run_def)
  have same: "no_profile b e ?u = no_profile b e s" "first_profile b e ?u = first_profile b e s"
    using no_profile_cong [OF early_checks_same, of b e b e s] by (simp_all add: no_profile_def first_profile_def)
  note v = profile_setup_product [OF i(1, 2), of b e, unfolded Let_def same i(3) append_Nil]
  note w = profile_setup_why [OF early_checks_same, of b e b e s]
  show ?thesis
  proof (cases rule: startup_parts [of b e s])
    case (early r' t')
    then show ?thesis using u assms(4) by (simp add: gets_profile_def)
  next
    case (profile r' t' u')
    then show ?thesis
      using v assms(1-4) u by (auto simp: gets_profile_def quiet_run_def split: if_splits)
  next
    case (browser x u' v')
    then have t: "t = ended (until_stop (browser_setup b e) ?v)" using assms(4) by simp
    have q: "quiet_run ?v t" unfolding t by (rule browser_setup_quiet)
    have "\<not> no_profile b e s" using w browser by (auto split: if_splits)
    then show ?thesis using v q browser(1) by (simp add: gets_profile_def quiet_run_def)
  qed
qed

subsection \<open>The order of the stages\<close>


definition milestone :: "call \<Rightarrow> bool" where
  "milestone c = (case c of Call f _ \<Rightarrow>
     f \<in> {''SetGlobalAppName'', ''RegisterChromeWebUIConfigs'', ''subresource_filter_ruleset_service'',
          ''StartupBrowserCreator::Start'', ''OnBrowserStarted''})"

definition milestones :: "call list \<Rightarrow> string list" where
  "milestones l = map (\<lambda>c. case c of Call f _ \<Rightarrow> f) (List.filter milestone l)"

definition stages_of :: "startup \<Rightarrow> string list" where
  "stages_of s = milestones (su_log s)"

lemma milestones_simps [simp]:
  "milestones [] = []" "milestones (l @ m) = milestones l @ milestones m"
  "milestones (Call f args # l) =
     (if f = ''SetGlobalAppName'' \<or> f = ''RegisterChromeWebUIConfigs'' \<or> f = ''subresource_filter_ruleset_service'' \<or>
         f = ''StartupBrowserCreator::Start'' \<or> f = ''OnBrowserStarted'' then [f] else []) @ milestones l"
  "milestones (on_flag c l) = (if c then milestones l else [])"
  by (auto simp: milestones_def milestone_def on_flag_def)

lemma stages_of_say [simp]: "stages_of (say l s) = stages_of s @ milestones l"
  by (simp add: stages_of_def)

lemma stages_of_update [simp]:
  "stages_of (s\<lparr>su_initialized := x\<rparr>) = stages_of s" "stages_of (s\<lparr>su_observing := x\<rparr>) = stages_of s"
  "stages_of (s\<lparr>su_loop := x\<rparr>) = stages_of s" "stages_of (s\<lparr>su_creator := x\<rparr>) = stages_of s"
  by (simp_all add: stages_of_def)

lemma stages_of_if [simp]: "stages_of (if c then s else t) = (if c then stages_of s else stages_of t)"
  by simp

lemma milestones_map [simp]: "milestones [Call f []] = [] \<Longrightarrow> milestones (map (\<lambda>x. Call f (g x)) xs) = []"
  by (induction xs) (auto split: if_splits)

lemma milestones_calls [simp]:
  "milestones (start_metrics_recording b e) = []" "milestones (resource_calls b e s) = []"
  "milestones (record_browser_startup_time b e) = []" "milestones (first_run_calls b e initial) = []"
  "milestones (profile_calls b e s) = [''RegisterChromeWebUIConfigs'']"
  "milestones [Call f []] = [] \<Longrightarrow> milestones (part_calls f s) = []"
  by (simp_all add: start_metrics_recording_def resource_calls_def record_browser_startup_time_def
      first_run_calls_def profile_calls_def part_calls_def split: option.split)










text \<open>The life of the browser: the stage, the profiles that come later, and the end.\<close>

definition browser_life :: "main_build \<Rightarrow> startup_env \<Rightarrow> main_event list \<Rightarrow> startup \<Rightarrow> startup option" where
  "browser_life b e xs s =
     Option.bind (pre_main_message_loop_run b e s)
       (\<lambda>(r, s). Option.bind (post_main_message_loop_run b e (fold (profile_event b e) xs s))
                   (post_destroy_threads_stage b e))"

text \<open>
  C17 (refinement): the product's hooks run in their order, and once. Over the life of the browser,
  whatever the environment answers, the calls to the product are the registration of its page, then
  one start of the server, with the first profile that \<open>Chrome_Startup\<close> initialises, and at the end
  one stop; nothing is registered or started when startup ends before there is a profile.
\<close>

theorem product_hooks_in_order:
  assumes "browser_life b e xs s = Some t" "\<not> su_initialized s" "\<not> su_observing s" "product_calls s = []"
  shows "product_calls t =
    (if is_purecloak b
     then (if gets_profile b e s
           then tell ''RegisterPureCloakWebUIConfigs'' #
                map started_with (take 1 (initialised (is_chromeos b)
                  (sp_profile (the (first_profile b e s))) (loaded_profiles e) xs))
           else []) @ [tell ''StopPureCloakApiServer'']
     else [])"
proof -
  obtain r u where u: "pre_main_message_loop_run_impl b e s = (Exit r, u)"
    and run: "Option.bind (post_main_message_loop_run b e (fold (profile_event b e) xs
        (say (part_calls ''PreMainMessageLoopRun'' u) (u\<lparr>su_result := r\<rparr>)))) (post_destroy_threads_stage b e) = Some t"
    using assms(1)
    by (auto simp: browser_life_def pre_main_message_loop_run_def Let_def part_calls_def
        split: Option.bind_splits prod.splits stop.splits)
  let ?u = "say (part_calls ''PreMainMessageLoopRun'' u) (u\<lparr>su_result := r\<rparr>)"
  have q: "quiet_run u ?u" by (simp add: quiet_run_def product_calls_def)
  have t: "product_calls t = product_calls (fold (profile_event b e) xs ?u) @
      on_flag (is_purecloak b) [tell ''StopPureCloakApiServer'']"
    using run shutdown_product by (auto split: Option.bind_splits)
  show ?thesis
    using impl_product [OF assms(2-4) u] q assms(2-4)
      starts_for_append [of b False "initialised (is_chromeos b) (sp_profile (the (first_profile b e s)))
        (loaded_profiles e) []" "added (is_chromeos b) xs"]
    by (auto simp: t profile_events_product quiet_run_def initialised_later starts_for_def on_flag_def
        split: if_splits)
qed

theorem product_hooks_in_order_witness:
  "\<exists>t. browser_life linux_build
      (startup_env_of {AuraEnvExists, Enrolled, CreatorStarts} \<lparr>sp_mode = ProfilePicker, sp_profile = None\<rparr> [])
      [ProfileAdded (sample_profile 1), ProfileAdded (sample_profile 2)] (new_startup []) = Some t \<and>
    product_calls t = [tell ''RegisterPureCloakWebUIConfigs'', started_with (sample_profile 1),
      tell ''StopPureCloakApiServer'']"
proof -
  let ?e = "startup_env_of {AuraEnvExists, Enrolled, CreatorStarts} \<lparr>sp_mode = ProfilePicker, sp_profile = None\<rparr> []"
  let ?xs = "[ProfileAdded (sample_profile 1), ProfileAdded (sample_profile 2)]"
  have n: "\<not> su_initialized (new_startup [])" "\<not> su_observing (new_startup [])"
    "product_calls (new_startup []) = []" "\<not> su_loop (new_startup [])"
    by (simp_all add: new_startup_def product_calls_def)
  note reasons = reasons_before_profile_def linux_build_def startup_env_of_def has_sw_def new_startup_def
    no_profile_def first_profile_def create_initial_profile_def requested_directory_def Let_def
  have g: "gets_profile linux_build ?e (new_startup [])" "sp_profile (the (first_profile linux_build ?e (new_startup []))) = None"
    by (simp_all add: gets_profile_def reasons)
  obtain t where t: "browser_life linux_build ?e ?xs (new_startup []) = Some t"
  proof -
    obtain r s' where s': "pre_main_message_loop_run_impl linux_build ?e (new_startup []) = (r, s')" by fastforce
    have "first_reason (reasons_not_to_start linux_build ?e (new_startup [])) = None"
      by (simp add: reasons_not_to_start_def reasons)
    then have "r = Exit NormalExit"
      using startup_verdict(1) [OF n(4), of linux_build ?e] s' by (simp add: new_startup_def)
    then show ?thesis using that s'
      by (simp add: browser_life_def pre_main_message_loop_run_def Let_def post_main_message_loop_run_def
          post_destroy_threads_stage_def linux_build_def)
  qed
  show ?thesis
    using product_hooks_in_order [OF t n(1-3)] t g
    by (simp add: initialised_def browsing_def sample_profile_def linux_build_def startup_env_of_def)
qed

end
