(* ===== verification/Tests_Units.thy ===== *)
theory Tests_Units
  imports Api_Rest Fingerprint_Seed
begin

text \<open>
  The unit tests of the API, the seed and the launcher, each as the condition it checks on the
  model: \<open>browser/api/api_unittest.cc\<close>, \<open>common/purecloak_seed_unittest.cc\<close>,
  \<open>browser/workspace_launcher_unittest.cc\<close>, \<open>browser/workspace_manager_unittest.cc\<close>. An \<open>EXPECT\<close> or \<open>ASSERT\<close> is
  a conjunct; a dereferenced lookup is one that succeeds; that a call does not crash is that it has
  a result. The API tests bring a path parser of their own, which is compared with the handler's.
\<close>

subsection \<open>Paths of the API\<close>

text \<open>\<open>ParsePath\<close> of the tests: \<open>path.find('/', start)\<close> is the first slash after \<open>start\<close> characters.\<close>

function tested_segments :: "string \<Rightarrow> nat \<Rightarrow> string list" where
  "tested_segments path start =
     (if start < length path
      then (case str_find ''/'' (drop start path) of
              None \<Rightarrow> [drop start path]
            | Some n \<Rightarrow> (if 0 < n then [take n (drop start path)] else []) @
                        tested_segments path (start + n + 1))
      else [])"
  by pat_completeness auto
termination by (relation "measure (\<lambda>(path, start). length path - start)") auto

declare tested_segments.simps [simp del]

definition tested_parse_path :: "string \<Rightarrow> string list" where
  "tested_parse_path path =
     (if path = [] \<or> path = ''/'' then []
      else tested_segments path (if hd path = CHR ''/'' then 1 else 0))"

text \<open>The loop gives the parts between the slashes that are not empty.\<close>

lemma find_slash:
  "str_find ''/'' s = (if CHR ''/'' \<in> set s then Some (length (takeWhile (\<lambda>c. c \<noteq> CHR ''/'') s)) else None)"
  by (induction s) auto

lemma split_slash_at:
  "CHR ''/'' \<in> set s \<Longrightarrow>
   split_slash s = takeWhile (\<lambda>c. c \<noteq> CHR ''/'') s #
     split_slash (drop (length (takeWhile (\<lambda>c. c \<noteq> CHR ''/'') s) + 1) s)"
  by (induction s) auto

lemma tested_segments_eq:
  "tested_segments path start = filter (\<lambda>w. w \<noteq> []) (split_slash (drop start path))"
proof (induction path start rule: tested_segments.induct)
  case (1 path start)
  show ?case
  proof (cases "start < length path")
    case True
    let ?s = "drop start path"
    let ?n = "length (takeWhile (\<lambda>c. c \<noteq> CHR ''/'') ?s)"
    show ?thesis
    proof (cases "CHR ''/'' \<in> set ?s")
      case True
      have "tested_segments path (start + ?n + 1) = filter (\<lambda>w. w \<noteq> []) (split_slash (drop (?n + 1) ?s))"
        using 1 [OF \<open>start < length path\<close>] True by (simp add: find_slash add.commute)
      moreover have "take ?n ?s = takeWhile (\<lambda>c. c \<noteq> CHR ''/'') ?s" by (rule takeWhile_eq_take [symmetric])
      ultimately show ?thesis
        using \<open>start < length path\<close> True split_slash_at [OF True]
        by (subst tested_segments.simps) (simp add: find_slash)
    next
      case False
      then show ?thesis
        using \<open>start < length path\<close>
        by (subst tested_segments.simps) (simp add: find_slash split_slash_plain)
    qed
  next
    case False
    then show ?thesis by (subst tested_segments.simps) simp
  qed
qed

lemma tested_parse_path_eq:
  "tested_parse_path path = filter (\<lambda>w. w \<noteq> []) (parse_path split_slash path)"
  by (cases path) (auto simp: tested_parse_path_def tested_segments_eq parse_path_def)

text \<open>What the handler's splitter is to do: it keeps the empty parts.\<close>

lemma split_slash_ok:
  "split_slash s \<noteq> []" "list_all (\<lambda>w. CHR ''/'' \<notin> set w) (split_slash s)"
  by (induction s) (auto split: list.split)

lemma join_split_slash: "join_slash (split_slash s) = s"
proof (induction s)
  case (Cons c s)
  obtain w ws where "split_slash s = w # ws" using split_slash_ok(1) by (metis list.exhaust)
  then show ?case using Cons by (cases ws) auto
qed simp

lemma splits_is_split_slash: "splits split \<Longrightarrow> split = split_slash"
  using split_slash_ok join_split_slash unfolding splits_def by (intro ext) metis

text \<open>
  C39 (equivalence): the parser of the API tests is not the parser of the handler. It gives the parts of
  the handler's without the empty ones; so they agree exactly on the paths in which no part is
  empty, and on a path with a slash at its end, or two in a row, the tests say nothing of the
  routes the handler takes.
\<close>

theorem tested_parser_agrees_iff:
  assumes "splits split"
  shows "tested_parse_path path = filter (\<lambda>w. w \<noteq> []) (parse_path split path) \<and>
         (tested_parse_path path = parse_path split path \<longleftrightarrow> [] \<notin> set (parse_path split path))"
proof -
  have p: "parse_path split path = parse_path split_slash path"
    by (rule arg_cong [OF splits_is_split_slash [OF assms], of "\<lambda>f. parse_path f path"])
  have "filter (\<lambda>w. w \<noteq> []) ws = ws \<longleftrightarrow> [] \<notin> set ws" for ws :: "string list"
    by (auto simp: filter_id_conv)
  then show ?thesis by (simp add: p tested_parse_path_eq)
qed

theorem tested_parser_agrees_iff_witness:
  "tested_parse_path ''/api/workspaces/'' = [''api'', ''workspaces''] \<and>
   parse_path split_slash ''/api/workspaces/'' = [''api'', ''workspaces'', []] \<and>
   tested_parse_path ''/api/workspaces/'' \<noteq> parse_path split_slash ''/api/workspaces/''"
  using tested_parser_agrees_iff [OF splits_slash, of "''/api/workspaces/''"] by (simp add: parse_path_def)

subsection \<open>Tests of the API\<close>

definition parse_empty_path :: bool where "parse_empty_path \<longleftrightarrow> tested_parse_path [] = []"

definition parse_root_path :: bool where "parse_root_path \<longleftrightarrow> tested_parse_path ''/'' = []"

definition parse_simple_path :: bool where
  "parse_simple_path \<longleftrightarrow>
     (let segments = tested_parse_path ''/api/workspaces''
      in length segments = 2 \<and> segments ! 0 = ''api'' \<and> segments ! 1 = ''workspaces'')"

definition parse_path_with_id :: bool where
  "parse_path_with_id \<longleftrightarrow>
     (let segments = tested_parse_path ''/api/workspaces/abc-123''
      in length segments = 3 \<and> segments ! 0 = ''api'' \<and> segments ! 1 = ''workspaces'' \<and>
         segments ! 2 = ''abc-123'')"

definition parse_path_with_action :: bool where
  "parse_path_with_action \<longleftrightarrow>
     (let segments = tested_parse_path ''/api/workspaces/abc-123/launch''
      in length segments = 4 \<and> segments ! 0 = ''api'' \<and> segments ! 1 = ''workspaces'' \<and>
         segments ! 2 = ''abc-123'' \<and> segments ! 3 = ''launch'')"

definition parse_path_with_subpath :: bool where
  "parse_path_with_subpath \<longleftrightarrow>
     (let segments = tested_parse_path ''/api/workspaces/abc-123/cdp/devtools/browser''
      in length segments = 6 \<and> segments ! 0 = ''api'' \<and> segments ! 1 = ''workspaces'' \<and>
         segments ! 2 = ''abc-123'' \<and> segments ! 3 = ''cdp'' \<and> segments ! 4 = ''devtools'' \<and>
         segments ! 5 = ''browser'')"

definition parse_status_path :: bool where
  "parse_status_path \<longleftrightarrow>
     (let segments = tested_parse_path ''/api/status''
      in length segments = 2 \<and> segments ! 0 = ''api'' \<and> segments ! 1 = ''status'')"

text \<open>The formats of the answers are those of dictionaries the tests make themselves.\<close>

definition error_response_format :: bool where
  "error_response_format \<longleftrightarrow>
     (let error_detail = dict_set ''code'' (JString ''NOT_FOUND'') [];
          error_detail = dict_set ''message'' (JString ''Test error'') error_detail;
          error = dict_set ''success'' (JBool False) [];
          error = dict_set ''error'' (JDict error_detail) error
      in find_bool error ''success'' = Some False \<and>
         (case find_dict error ''error'' of
            None \<Rightarrow> False
          | Some detail \<Rightarrow> find_string detail ''code'' = Some ''NOT_FOUND'' \<and>
              find_string detail ''message'' = Some ''Test error''))"

definition success_response_format :: bool where
  "success_response_format \<longleftrightarrow>
     (let data = dict_set ''id'' (JString ''test-id'') [];
          data = dict_set ''name'' (JString ''test-workspace'') data;
          response = dict_set ''success'' (JBool True) [];
          response = dict_set ''data'' (JDict data) response
      in find_bool response ''success'' = Some True \<and>
         (case find_dict response ''data'' of
            None \<Rightarrow> False
          | Some data_out \<Rightarrow> find_string data_out ''id'' = Some ''test-id'' \<and>
              find_string data_out ''name'' = Some ''test-workspace''))"

definition workspace_to_dict_basic :: bool where
  "workspace_to_dict_basic \<longleftrightarrow>
     (let ws = dict_set ''id'' (JString ''ws-001'') [];
          ws = dict_set ''name'' (JString ''Test'') ws;
          ws = dict_set ''type'' (JString ''normal'') ws
      in find_string ws ''id'' = Some ''ws-001'' \<and> find_string ws ''name'' = Some ''Test'' \<and>
         find_string ws ''type'' = Some ''normal'')"

lemma api_path_tests:
  "parse_empty_path" "parse_root_path" "parse_simple_path" "parse_path_with_id" "parse_path_with_action"
  "parse_path_with_subpath" "parse_status_path"
  by (simp_all add: parse_empty_path_def parse_root_path_def parse_simple_path_def parse_path_with_id_def
      parse_path_with_action_def parse_path_with_subpath_def parse_status_path_def tested_parse_path_eq
      parse_path_def)

lemma api_format_tests: "error_response_format" "success_response_format" "workspace_to_dict_basic"
  by (simp_all add: error_response_format_def success_response_format_def workspace_to_dict_basic_def)


subsection \<open>Tests of the seed\<close>

text \<open>
  The tests make command lines with \<open>AppendSwitchASCII\<close>, code of the base library: \<open>line sws\<close> is the one
  with the switches \<open>sws\<close>, of which a later one replaces an earlier one of the same name. \<open>current\<close> is the
  command line of the test process, which the fixture reads before every test.
\<close>

definition appends_switches :: "((string \<times> string) list \<Rightarrow> command_line) \<Rightarrow> bool" where
  "appends_switches line \<longleftrightarrow>
     (\<forall>sws k. has_switch (line sws) k = (k \<in> fst ` set sws) \<and>
        switch_value (line sws) k = (case map_of (rev sws) k of None \<Rightarrow> [] | Some v \<Rightarrow> v))"

text \<open>\<open>StringToInt\<close> on the numbers of the tests.\<close>

definition reads_numbers :: "(string \<Rightarrow> bool \<times> int) \<Rightarrow> bool" where
  "reads_numbers stoi \<longleftrightarrow> (\<forall>n<10000. stoi (show_nat n) = (True, int n))"

type_synonym seed_test = "(string \<Rightarrow> bool \<times> int) \<Rightarrow> command_line \<Rightarrow> ((string \<times> string) list \<Rightarrow> command_line) \<Rightarrow> seed_state \<Rightarrow> bool"

definition default_values :: seed_test where
  "default_values stoi current line st \<longleftrightarrow>
     (let seed = initialize_from_command_line stoi current st
      in sd_hardware_concurrency seed \<ge> 1 \<and> sd_device_memory seed \<ge> 1 \<and>
         sd_screen_width seed \<ge> 800 \<and> sd_screen_height seed \<ge> 600 \<and> sd_platform seed \<noteq> [])"

definition command_line_override :: seed_test where
  "command_line_override stoi current line st \<longleftrightarrow>
     (let seed = initialize_from_command_line stoi current st;
          cmd = line [(''fingerprint'', ''42''), (''fingerprint-platform'', ''macos''),
                      (''fingerprint-hardware-concurrency'', ''16''), (''fingerprint-device-memory'', ''4''),
                      (''fingerprint-screen-width'', ''1440''), (''fingerprint-screen-height'', ''900''),
                      (''fingerprint-taskbar-height'', ''95''), (''fingerprint-storage-quota'', ''1000''),
                      (''fingerprint-noise'', ''false'')];
          seed = initialize_from_command_line stoi cmd seed
      in sd_seed seed = 42 \<and> sd_platform seed = ''macos'' \<and> sd_hardware_concurrency seed = 16 \<and>
         sd_device_memory seed = 4 \<and> sd_screen_width seed = 1440 \<and> sd_screen_height seed = 900 \<and>
         sd_taskbar_height seed = 95 \<and> sd_storage_quota_mb seed = 1000 \<and> \<not> sd_noise_enabled seed)"

definition thread_safe_access :: seed_test where
  "thread_safe_access stoi current line st \<longleftrightarrow>
     (let seed = initialize_from_command_line stoi current st
      in list_all (\<lambda>i :: nat. sd_screen_width seed \<ge> 800 \<and> sd_screen_height seed \<ge> 600 \<and> sd_platform seed \<noteq> []) [0..<100])"

definition platform_defaults :: seed_test where
  "platform_defaults stoi current line st \<longleftrightarrow>
     (let seed = initialize_from_command_line stoi current st;
          seed = initialize_from_command_line stoi (line [(''fingerprint-platform'', ''windows'')]) seed;
          windows_ok = (sd_taskbar_height seed = 48);
          seed = initialize_from_command_line stoi
            (line [(''fingerprint-platform'', ''windows''), (''fingerprint-platform'', ''macos'')]) seed
      in windows_ok \<and> sd_screen_width seed = 1440 \<and> sd_screen_height seed = 900 \<and> sd_taskbar_height seed = 95)"

text \<open>The command line of the test process has no fingerprint switches.\<close>

definition no_fingerprint :: "command_line \<Rightarrow> bool" where
  "no_fingerprint cmd \<longleftrightarrow>
     list_all (\<lambda>k. \<not> has_switch cmd k \<and> switch_value cmd k = [])
       [kFingerprint, kFingerprintPlatform, kFingerprintHardwareConcurrency, kFingerprintDeviceMemory,
        kFingerprintScreenWidth, kFingerprintScreenHeight]"

lemma number_read:
  assumes "reads_numbers stoi"
  shows "stoi ''42'' = (True, 42)" "stoi ''16'' = (True, 16)" "stoi ''4'' = (True, 4)" "stoi ''1440'' = (True, 1440)"
    "stoi ''900'' = (True, 900)" "stoi ''95'' = (True, 95)" "stoi ''1000'' = (True, 1000)"
proof -
  have "show_nat 42 = ''42'' \<and> show_nat 16 = ''16'' \<and> show_nat 4 = ''4'' \<and> show_nat 1440 = ''1440'' \<and>
      show_nat 900 = ''900'' \<and> show_nat 95 = ''95'' \<and> show_nat 1000 = ''1000''"
    by code_simp
  moreover have r: "stoi (show_nat n) = (True, int n)" if "n < 10000" for n
    using assms that by (simp add: reads_numbers_def)
  ultimately show "stoi ''42'' = (True, 42)" "stoi ''16'' = (True, 16)" "stoi ''4'' = (True, 4)" "stoi ''1440'' = (True, 1440)"
    "stoi ''900'' = (True, 900)" "stoi ''95'' = (True, 95)" "stoi ''1000'' = (True, 1000)"
    using r [of 42] r [of 16] r [of 4] r [of 1440] r [of 900] r [of 95] r [of 1000] by simp_all
qed

lemma line_switches:
  assumes "appends_switches line"
  shows "has_switch (line sws) k = (k \<in> fst ` set sws)"
    "switch_value (line sws) k = (case map_of (rev sws) k of None \<Rightarrow> [] | Some v \<Rightarrow> v)"
  using assms by (simp_all add: appends_switches_def)

lemma seed_tests:
  assumes "appends_switches line" "reads_numbers stoi" "no_fingerprint current"
  shows "default_values stoi current line st" "command_line_override stoi current line st"
    "thread_safe_access stoi current line st" "platform_defaults stoi current line st"
proof -
  note line = line_switches [OF assms(1)]
  have d: "sd_platform (initialize_from_command_line stoi current st) = ''windows''"
    "sd_screen_width (initialize_from_command_line stoi current st) = 1920"
    "sd_screen_height (initialize_from_command_line stoi current st) = 1080"
    "sd_hardware_concurrency (initialize_from_command_line stoi current st) = 8"
    "sd_device_memory (initialize_from_command_line stoi current st) = 8"
    using assms(3) by (simp_all add: seed_defs no_fingerprint_def)
  show "default_values stoi current line st" "thread_safe_access stoi current line st"
    by (simp_all add: default_values_def thread_safe_access_def d list_all_iff)
  show "command_line_override stoi current line st"
    by (simp add: command_line_override_def seed_defs line switch_key_defs number_read [OF assms(2)])
  show "platform_defaults stoi current line st"
    by (simp add: platform_defaults_def seed_defs line switch_key_defs)
qed

text \<open>The fixture says it resets the state, but the storage quota is kept from the test before.\<close>

lemma quota_survives_reset:
  "\<not> has_switch current kFingerprintStorageQuota \<Longrightarrow>
   sd_storage_quota_mb (initialize_from_command_line stoi current st) = sd_storage_quota_mb st"
  by (simp add: seed_defs)


subsection \<open>Tests of running workspaces\<close>

text \<open>\<open>RunningWorkspace ws;\<close> has the initialisers of its fields.\<close>

definition default_running :: running where
  "default_running =
     \<lparr>rw_id = [], rw_type = KNormal, rw_process = None, rw_dir = [], rw_port = 0, rw_url = [],
      rw_status = SStarting, rw_launched_at = 0\<rparr>"

definition status_to_string_tests :: bool where
  "status_to_string_tests \<longleftrightarrow>
     status_to_string SStarting = ''starting'' \<and> status_to_string SRunning = ''running'' \<and>
     status_to_string SStopped = ''stopped'' \<and> status_to_string SCrashed = ''crashed''"

definition string_to_status_tests :: bool where
  "string_to_status_tests \<longleftrightarrow>
     string_to_status ''starting'' = SStarting \<and> string_to_status ''running'' = SRunning \<and>
     string_to_status ''stopped'' = SStopped \<and> string_to_status ''crashed'' = SCrashed"

definition string_to_status_invalid_defaults_to_stopped :: bool where
  "string_to_status_invalid_defaults_to_stopped \<longleftrightarrow>
     string_to_status ''invalid'' = SStopped \<and> string_to_status [] = SStopped"

definition status_round_trip :: bool where
  "status_round_trip \<longleftrightarrow>
     list_all (\<lambda>status. let str = status_to_string status in string_to_status str = status)
       [SStarting, SRunning, SStopped, SCrashed]"

text \<open>\<open>now\<close> is the clock when the workspace is made, \<open>later\<close> when it is asked.\<close>

definition to_dict_contains_id :: "int \<Rightarrow> bool" where
  "to_dict_contains_id later \<longleftrightarrow>
     (let ws = default_running\<lparr>rw_id := ''ws-123''\<rparr>; dict = running_to_dict later ws
      in find_string dict ''workspace_id'' = Some ''ws-123'')"

definition to_dict_contains_status :: "int \<Rightarrow> bool" where
  "to_dict_contains_status later \<longleftrightarrow>
     (let ws = default_running\<lparr>rw_status := SRunning\<rparr>; dict = running_to_dict later ws
      in find_string dict ''status'' = Some ''running'')"

definition to_dict_contains_cdp_port :: "int \<Rightarrow> bool" where
  "to_dict_contains_cdp_port later \<longleftrightarrow>
     (let ws = default_running\<lparr>rw_port := 9333\<rparr>; dict = running_to_dict later ws
      in (find_int dict ''cdp_port'' \<noteq> None \<or> find_string dict ''cdp_port'' \<noteq> None) \<and>
         (case find_int dict ''cdp_port'' of None \<Rightarrow> True | Some port \<Rightarrow> port = 9333))"

definition to_dict_contains_cdp_url :: "int \<Rightarrow> bool" where
  "to_dict_contains_cdp_url later \<longleftrightarrow>
     (let ws = default_running\<lparr>rw_url := ''http://127.0.0.1:9333''\<rparr>; dict = running_to_dict later ws
      in find_string dict ''cdp_url'' = Some ''http://127.0.0.1:9333'')"

definition to_dict_contains_uptime_seconds :: "int \<Rightarrow> int \<Rightarrow> bool" where
  "to_dict_contains_uptime_seconds now later \<longleftrightarrow>
     (let ws = default_running\<lparr>rw_launched_at := now\<rparr>; dict = running_to_dict later ws
      in find_int dict ''uptime_seconds'' \<noteq> None)"

definition uptime_zero_just_launched :: "int \<Rightarrow> int \<Rightarrow> bool" where
  "uptime_zero_just_launched now later \<longleftrightarrow>
     in_seconds (uptime later (default_running\<lparr>rw_launched_at := now\<rparr>)) < 1"

definition uptime_non_zero_after_delay :: "int \<Rightarrow> int \<Rightarrow> bool" where
  "uptime_non_zero_after_delay now later \<longleftrightarrow>
     (let up = uptime later (default_running\<lparr>rw_launched_at := now - 60 * 1000000\<rparr>)
      in in_seconds up \<ge> 59 \<and> in_seconds up \<le> 61)"

definition uptime_never_launched :: "int \<Rightarrow> bool" where
  "uptime_never_launched later \<longleftrightarrow> in_seconds (uptime later default_running) \<ge> 0"

definition running_defaults :: bool where
  "running_defaults \<longleftrightarrow>
     rw_status default_running = SStarting \<and> rw_port default_running = 0 \<and> rw_url default_running = []"

lemma running_tests:
  "status_to_string_tests" "string_to_status_tests" "string_to_status_invalid_defaults_to_stopped"
  "status_round_trip" "to_dict_contains_id later" "to_dict_contains_status later"
  "to_dict_contains_cdp_port later" "to_dict_contains_cdp_url later"
  "to_dict_contains_uptime_seconds now later" "uptime_never_launched later" "running_defaults"
  by (simp_all add: status_to_string_tests_def string_to_status_tests_def string_to_status_def
      string_to_status_invalid_defaults_to_stopped_def status_round_trip_def to_dict_contains_id_def
      to_dict_contains_status_def to_dict_contains_cdp_port_def to_dict_contains_cdp_url_def
      to_dict_contains_uptime_seconds_def uptime_never_launched_def running_defaults_def
      default_running_def running_to_dict_def uptime_def in_seconds_def Let_def)

text \<open>The tests of the clock hold when less than a second passes between the two, after 1601.\<close>

lemma clock_tests:
  assumes "now \<le> later" "later < now + 1000000" "60 * 1000000 < now"
  shows "uptime_zero_just_launched now later" "uptime_non_zero_after_delay now later"
  using assms by (auto simp: uptime_zero_just_launched_def uptime_non_zero_after_delay_def uptime_def
      in_seconds_def default_running_def Let_def)

subsection \<open>Tests of the manager\<close>

text \<open>
  \<open>GetOrCreate\<close>: a context, if any, keeps its manager as user data, here by the manager's address;
  \<open>fresh\<close> is where a new one is allocated.
\<close>

definition get_or_create_at :: "nat \<Rightarrow> 'c option \<Rightarrow> ('c \<Rightarrow> nat option) \<Rightarrow> nat option \<times> ('c \<Rightarrow> nat option)" where
  "get_or_create_at fresh context user_data =
     (case context of
        None \<Rightarrow> (None, user_data)
      | Some c \<Rightarrow>
          (case user_data c of
             Some data \<Rightarrow> (Some data, user_data)
           | None \<Rightarrow> (Some fresh, user_data(c := Some fresh))))"

datatype test_context = BrowserContext | OtherContext

definition get_or_create_returns_non_null :: "nat \<Rightarrow> bool" where
  "get_or_create_returns_non_null a \<longleftrightarrow> fst (get_or_create_at a (Some BrowserContext) Map.empty) \<noteq> None"

definition get_or_create_returns_same_instance :: "nat \<Rightarrow> nat \<Rightarrow> bool" where
  "get_or_create_returns_same_instance a b \<longleftrightarrow>
     (let (mgr1, data) = get_or_create_at a (Some BrowserContext) Map.empty;
          (mgr2, data) = get_or_create_at b (Some BrowserContext) data
      in mgr1 = mgr2)"

definition get_or_create_null_context_returns_null :: "nat \<Rightarrow> bool" where
  "get_or_create_null_context_returns_null a \<longleftrightarrow>
     fst (get_or_create_at a (None :: test_context option) Map.empty) = None"

definition separate_contexts_get_separate_managers :: "nat \<Rightarrow> nat \<Rightarrow> bool" where
  "separate_contexts_get_separate_managers a b \<longleftrightarrow>
     (let (mgr1, data) = get_or_create_at a (Some BrowserContext) Map.empty;
          (mgr2, data) = get_or_create_at b (Some OtherContext) data
      in mgr1 \<noteq> mgr2)"

definition running_count_zero_on_empty :: bool where
  "running_count_zero_on_empty \<longleftrightarrow> running_count new_manager = 0"

definition is_running_false_for_non_existent :: bool where
  "is_running_false_for_non_existent \<longleftrightarrow> \<not> is_running new_manager ''nonexistent-id''"

definition get_returns_null_for_non_existent :: bool where
  "get_returns_null_for_non_existent \<longleftrightarrow> get_running new_manager ''nonexistent-id'' = None"

definition get_all_returns_empty_on_empty :: bool where
  "get_all_returns_empty_on_empty \<longleftrightarrow> get_all_running new_manager = []"

text \<open>What a \<open>TestWorkspaceObserver\<close> has been told, from the log of the manager.\<close>

fun told_status :: "nat \<Rightarrow> launch_effect \<Rightarrow> (string \<times> rw_status) list" where
  "told_status ob (ObserverStatus ob' i status details) = (if ob' = ob then [(i, status)] else [])"
| "told_status ob e = []"

fun told_id :: "nat \<Rightarrow> launch_effect \<Rightarrow> string list" where
  "told_id ob (ObserverStatus ob' i status details) = (if ob' = ob then [i] else [])"
| "told_id ob (ObserverLaunched ob' r) = (if ob' = ob then [rw_id r] else [])"
| "told_id ob (ObserverStopped ob' i) = (if ob' = ob then [i] else [])"
| "told_id ob e = []"

definition status_changed_count :: "nat \<Rightarrow> manager \<Rightarrow> nat" where
  "status_changed_count ob mg = length (concat (map (told_status ob) (mg_log mg)))"

definition last_workspace_id :: "nat \<Rightarrow> manager \<Rightarrow> string" where
  "last_workspace_id ob mg = last ([] # concat (map (told_id ob) (mg_log mg)))"

definition last_status :: "nat \<Rightarrow> manager \<Rightarrow> rw_status" where
  "last_status ob mg = last (SStopped # map snd (concat (map (told_status ob) (mg_log mg))))"

definition notify_status_changed_fires_observer :: "nat \<Rightarrow> int \<Rightarrow> bool" where
  "notify_status_changed_fires_observer ob now \<longleftrightarrow>
     (let mgr = add_running_observer ob new_manager;
          mgr = notify_status_changed now ''test-ws'' SRunning mgr
      in status_changed_count ob mgr \<ge> 1 \<and> last_workspace_id ob mgr = ''test-ws'' \<and>
         last_status ob mgr = SRunning)"

definition removed_observer_not_notified :: "nat \<Rightarrow> int \<Rightarrow> bool" where
  "removed_observer_not_notified ob now \<longleftrightarrow>
     (let mgr = add_running_observer ob new_manager;
          mgr = notify_status_changed now ''ws1'' SRunning mgr;
          once = (status_changed_count ob mgr = 1);
          mgr = remove_running_observer ob mgr;
          mgr = notify_status_changed now ''ws2'' SCrashed mgr
      in once \<and> status_changed_count ob mgr = 1)"

definition get_status_dict_for_non_existent_workspace :: "int \<Rightarrow> bool" where
  "get_status_dict_for_non_existent_workspace now \<longleftrightarrow>
     (let dict = get_status_dict now new_manager ''nonexistent-id''
      in find_string dict ''workspace_id'' = Some ''nonexistent-id'' \<and> find_string dict ''status'' = Some ''stopped'')"

definition stop_all_on_empty_does_not_crash :: bool where
  "stop_all_on_empty_does_not_crash \<longleftrightarrow> running_count (stop_all new_manager) = 0"

definition stop_non_existent_does_not_crash :: bool where
  "stop_non_existent_does_not_crash \<longleftrightarrow> running_count (stop_workspace ''nonexistent-id'' new_manager) = 0"

lemma get_or_create_tests:
  "get_or_create_returns_non_null a" "get_or_create_returns_same_instance a b"
  "get_or_create_null_context_returns_null a" "a \<noteq> b \<Longrightarrow> separate_contexts_get_separate_managers a b"
  by (simp_all add: get_or_create_returns_non_null_def get_or_create_returns_same_instance_def
      get_or_create_null_context_returns_null_def separate_contexts_get_separate_managers_def get_or_create_at_def)

lemma manager_query_tests:
  "running_count_zero_on_empty" "is_running_false_for_non_existent" "get_returns_null_for_non_existent"
  "get_all_returns_empty_on_empty" "get_status_dict_for_non_existent_workspace now"
  "stop_all_on_empty_does_not_crash" "stop_non_existent_does_not_crash"
  by (simp_all add: running_count_zero_on_empty_def is_running_false_for_non_existent_def
      get_returns_null_for_non_existent_def get_all_returns_empty_on_empty_def running_count_def is_running_def
      get_running_def get_all_running_def get_status_dict_for_non_existent_workspace_def get_status_dict_def
      stop_all_on_empty_does_not_crash_def stop_non_existent_does_not_crash_def stop_all_def
      stop_workspace_def watchdog_stop_all_def new_manager_def)

lemma manager_observer_tests:
  "notify_status_changed_fires_observer ob now" "removed_observer_not_notified ob now"
  by (simp_all add: notify_status_changed_fires_observer_def removed_observer_not_notified_def
      add_running_observer_def remove_running_observer_def notify_status_changed_def notify_all_def
      new_manager_def status_changed_count_def last_workspace_id_def last_status_def Let_def)

end
