(* ===== verification/Tests_Scripts.thy ===== *)
theory Tests_Scripts
  imports Cdp_Injector
begin

text \<open>
  The unit tests of the generated scripts and commands, each as the condition it checks on the model:
  \<open>content/anti_detection/anti_detection_engine_unittest.cc\<close> and \<open>content/profile_cdp_injector_unittest.cc\<close>.
  They look for pieces of text in the scripts. The escapes of the base library are a parameter, which
  is to leave the plain texts of the tests alone.
\<close>

subsection \<open>Pieces of text\<close>

lemma str_contains_Cons: "str_contains (c # s) p \<longleftrightarrow> starts_with p (c # s) \<or> str_contains s p"
  by (simp add: str_contains_def)

lemma str_contains_Nil: "str_contains [] p \<longleftrightarrow> p = []"
  by (simp add: str_contains_def)

text \<open>A piece is looked for in one literal of the script after the other.\<close>

lemma in_this: "str_contains s p \<Longrightarrow> str_contains (s @ t) p" by (rule str_contains_append1)

lemma in_next: "str_contains t p \<Longrightarrow> str_contains (s @ t) p" by (rule str_contains_append2)

lemma in_itself: "str_contains s s"
  using str_containsI [of "[]" s "[]"] by simp

lemmas piece_simps = append.assoc str_contains_append1 str_contains_append2 in_itself
  str_contains_Cons str_contains_Nil starts_with.simps char.inject simp_thms


text \<open>The plain texts, which \<open>base::EscapeJSONString\<close> leaves alone.\<close>

definition plain_ascii :: "char \<Rightarrow> bool" where
  "plain_ascii c \<longleftrightarrow> 0x20 \<le> (of_char c :: nat) \<and> (of_char c :: nat) < 0x7F \<and> c \<notin> {CHR 0x22, CHR 0x5C, CHR 0x3C}"

definition keeps_plain :: "js_lib \<Rightarrow> bool" where
  "keeps_plain js \<longleftrightarrow> (\<forall>s. list_all plain_ascii s \<longrightarrow> js_escape js s = s)"

subsection \<open>Tests of the anti-detection engine\<close>

definition make_workspace :: "int \<Rightarrow> string \<Rightarrow> string \<Rightarrow> workspace" where
  "make_workspace seed gpu_vendor gpu_renderer =
     workspace_default\<lparr>ws_fingerprint_seed := seed, ws_gpu_vendor := gpu_vendor, ws_gpu_renderer := gpu_renderer\<rparr>"

definition prng_contains_seed :: "bool" where
  "prng_contains_seed \<longleftrightarrow>
     str_contains (generate_prng_function 12345) ''12345''"

definition prng_is_function_definition :: "bool" where
  "prng_is_function_definition \<longleftrightarrow>
     str_contains (generate_prng_function 42) ''function _pcNoise''"

definition prng_deterministic :: "bool" where
  "prng_deterministic \<longleftrightarrow>
     generate_prng_function 9999 = generate_prng_function 9999"

definition prng_different_seeds_differ :: "bool" where
  "prng_different_seeds_differ \<longleftrightarrow>
     generate_prng_function 100 \<noteq> generate_prng_function 200"

definition canvas_protector_overrides_get_image_data :: "bool" where
  "canvas_protector_overrides_get_image_data \<longleftrightarrow>
     str_contains (generate_canvas_protector 5555) ''getImageData'' \<and>
     str_contains (generate_canvas_protector 5555) ''CanvasRenderingContext2D''"

definition canvas_protector_overrides_to_data_url :: "bool" where
  "canvas_protector_overrides_to_data_url \<longleftrightarrow>
     str_contains (generate_canvas_protector 5555) ''toDataURL'' \<and>
     str_contains (generate_canvas_protector 5555) ''HTMLCanvasElement''"

definition canvas_protector_contains_seed :: "bool" where
  "canvas_protector_contains_seed \<longleftrightarrow>
     str_contains (generate_canvas_protector 7777) ''7777''"

definition canvas_protector_deterministic :: "bool" where
  "canvas_protector_deterministic \<longleftrightarrow>
     generate_canvas_protector 333 = generate_canvas_protector 333"

definition web_gl_protector_with_gpu_info :: "js_lib \<Rightarrow> bool" where
  "web_gl_protector_with_gpu_info js \<longleftrightarrow>
     (let p = make_workspace 100 ''Google Inc. (NVIDIA)'' ''ANGLE (NVIDIA)'';
          js_text = generate_webgl_protector js p
      in str_contains js_text ''Google Inc. (NVIDIA)'' \<and>
         str_contains js_text ''ANGLE (NVIDIA)'' \<and>
         str_contains js_text ''getParameter'')"

definition web_gl_protector_without_gpu_info :: "js_lib \<Rightarrow> bool" where
  "web_gl_protector_without_gpu_info js \<longleftrightarrow>
     (let js_text = generate_webgl_protector js (make_workspace 100 [] [])
      in str_contains js_text ''getSupportedExtensions'' \<and>
         str_contains js_text ''WEBGL_debug_renderer'')"

definition web_gl_protector_escapes_single_quotes :: "js_lib \<Rightarrow> bool" where
  "web_gl_protector_escapes_single_quotes js \<longleftrightarrow>
     (let p = make_workspace 100 (''Vendor'' @ [quote] @ ''s '' @ [quote] @ ''GPU'' @ [quote]) []
      in str_contains (generate_webgl_protector js p) [backslash, quote])"

definition web_gl_protector_overrides_web_gl2 :: "js_lib \<Rightarrow> bool" where
  "web_gl_protector_overrides_web_gl2 js \<longleftrightarrow>
     str_contains (generate_webgl_protector js (make_workspace 100 ''TestVendor'' ''TestRenderer'')) ''WebGL2RenderingContext''"

definition audio_protector_overrides_analyser_node :: "bool" where
  "audio_protector_overrides_analyser_node \<longleftrightarrow>
     str_contains (generate_audio_protector 4242) ''AnalyserNode'' \<and>
     str_contains (generate_audio_protector 4242) ''getFloatFrequencyData'' \<and>
     str_contains (generate_audio_protector 4242) ''getByteFrequencyData''"

definition audio_protector_overrides_audio_buffer :: "bool" where
  "audio_protector_overrides_audio_buffer \<longleftrightarrow>
     str_contains (generate_audio_protector 4242) ''AudioBuffer'' \<and>
     str_contains (generate_audio_protector 4242) ''getChannelData''"

definition audio_protector_contains_seed :: "bool" where
  "audio_protector_contains_seed \<longleftrightarrow>
     str_contains (generate_audio_protector 8888) ''8888''"

definition font_protector_overrides_measure_text :: "bool" where
  "font_protector_overrides_measure_text \<longleftrightarrow>
     str_contains (generate_font_protector 6666) ''measureText'' \<and>
     str_contains (generate_font_protector 6666) ''CanvasRenderingContext2D''"

definition font_protector_overrides_query_local_fonts :: "bool" where
  "font_protector_overrides_query_local_fonts \<longleftrightarrow>
     str_contains (generate_font_protector 6666) ''queryLocalFonts''"

definition font_protector_contains_seed :: "bool" where
  "font_protector_contains_seed \<longleftrightarrow>
     str_contains (generate_font_protector 6666) ''6666''"

definition web_rtc_protector_wraps_rtc_peer_connection :: "bool" where
  "web_rtc_protector_wraps_rtc_peer_connection \<longleftrightarrow>
     str_contains generate_webrtc_protector ''RTCPeerConnection'' \<and>
     str_contains generate_webrtc_protector ''addIceCandidate''"

definition web_rtc_protector_filters_srflx_candidates :: "bool" where
  "web_rtc_protector_filters_srflx_candidates \<longleftrightarrow>
     str_contains generate_webrtc_protector ''srflx''"

definition webdriver_remover_removes_navigator_webdriver :: "bool" where
  "webdriver_remover_removes_navigator_webdriver \<longleftrightarrow>
     str_contains generate_webdriver_remover ''webdriver'' \<and>
     str_contains generate_webdriver_remover ''navigator''"

definition webdriver_remover_overrides_plugins :: "bool" where
  "webdriver_remover_overrides_plugins \<longleftrightarrow>
     str_contains generate_webdriver_remover ''plugins'' \<and>
     str_contains generate_webdriver_remover ''PDF Viewer''"

definition webdriver_remover_overrides_languages :: "bool" where
  "webdriver_remover_overrides_languages \<longleftrightarrow>
     str_contains generate_webdriver_remover ''languages''"

definition protection_script_empty_for_zero_seed :: "js_lib \<Rightarrow> bool" where
  "protection_script_empty_for_zero_seed js \<longleftrightarrow>
     generate_protection_script js (make_workspace 0 [] []) = []"

definition protection_script_non_empty_for_non_zero_seed :: "js_lib \<Rightarrow> bool" where
  "protection_script_non_empty_for_non_zero_seed js \<longleftrightarrow>
     (let js_text = generate_protection_script js (make_workspace 12345 [] [])
      in js_text \<noteq> [] \<and> 100 < length js_text)"

definition protection_script_contains_all_protectors :: "js_lib \<Rightarrow> bool" where
  "protection_script_contains_all_protectors js \<longleftrightarrow>
     (let js_text = generate_protection_script js (make_workspace 12345 ''TestVendor'' ''TestRenderer'')
      in str_contains js_text ''_pcNoise'' \<and>
         str_contains js_text ''getImageData'' \<and>
         str_contains js_text ''getParameter'' \<and>
         str_contains js_text ''AnalyserNode'' \<and>
         str_contains js_text ''measureText'' \<and>
         str_contains js_text ''RTCPeerConnection'' \<and>
         str_contains js_text ''webdriver'')"

definition protection_script_wrapped_in_iife :: "js_lib \<Rightarrow> bool" where
  "protection_script_wrapped_in_iife js \<longleftrightarrow>
     (let js_text = generate_protection_script js (make_workspace 12345 [] [])
      in str_contains js_text ''(function(){'' \<and>
         str_contains js_text ''})();'')"

definition protection_script_deterministic :: "js_lib \<Rightarrow> bool" where
  "protection_script_deterministic js \<longleftrightarrow>
     (let p = make_workspace 54321 ''Vendor'' ''Renderer''
      in generate_protection_script js p = generate_protection_script js p)"

subsection \<open>They hold\<close>

text \<open>A number that is written into a script is found there.\<close>

lemma seed_in_script:
  "str_contains (generate_prng_function seed) (show_int seed)"
  "str_contains (generate_canvas_protector seed) (show_int seed)"
  "str_contains (generate_audio_protector seed) (show_int seed)"
  "str_contains (generate_font_protector seed) (show_int seed)"
  unfolding generate_prng_function_def generate_canvas_protector_def generate_audio_protector_def
    generate_font_protector_def
  by (rule in_next, rule in_this, rule in_itself)+

lemma digit_char_1: "digit_char (Suc 0) = CHR ''1''"
proof -
  have "char_of (49 :: nat) = CHR ''1''" by code_simp
  then show ?thesis by (simp add: digit_char_def)
qed

lemma digit_chars:
  "digit_char 0 = CHR ''0''" "digit_char 2 = CHR ''2''" "digit_char 3 = CHR ''3''"
  "digit_char 4 = CHR ''4''" "digit_char 5 = CHR ''5''" "digit_char 6 = CHR ''6''" "digit_char 7 = CHR ''7''"
  "digit_char 8 = CHR ''8''" "digit_char 9 = CHR ''9''"
  by code_simp+

lemma test_numbers:
  "show_int 12345 = ''12345''" "show_int 7777 = ''7777''" "show_int 8888 = ''8888''" "show_int 6666 = ''6666''"
  by (simp_all add: show_int_def show_nat.simps digit_char_1 digit_chars)

lemma engine_seed_tests:
  "prng_contains_seed" "canvas_protector_contains_seed" "audio_protector_contains_seed" "font_protector_contains_seed"
  unfolding prng_contains_seed_def canvas_protector_contains_seed_def audio_protector_contains_seed_def
    font_protector_contains_seed_def test_numbers [symmetric]
  by (rule seed_in_script)+

lemma prng_pieces:
  "str_contains (generate_prng_function seed) ''function _pcNoise''"
  "str_contains (generate_prng_function seed) ''_pcNoise''"
  unfolding generate_prng_function_def by (simp_all only: piece_simps)

lemma canvas_pieces:
  "str_contains (generate_canvas_protector seed) ''getImageData''"
  "str_contains (generate_canvas_protector seed) ''CanvasRenderingContext2D''"
  "str_contains (generate_canvas_protector seed) ''toDataURL''"
  "str_contains (generate_canvas_protector seed) ''HTMLCanvasElement''"
  unfolding generate_canvas_protector_def by (simp_all only: piece_simps)

lemma audio_pieces:
  "str_contains (generate_audio_protector seed) ''AnalyserNode''"
  "str_contains (generate_audio_protector seed) ''getFloatFrequencyData''"
  "str_contains (generate_audio_protector seed) ''getByteFrequencyData''"
  "str_contains (generate_audio_protector seed) ''AudioBuffer''"
  "str_contains (generate_audio_protector seed) ''getChannelData''"
  unfolding generate_audio_protector_def by (simp_all only: piece_simps)

lemma font_pieces:
  "str_contains (generate_font_protector seed) ''measureText''"
  "str_contains (generate_font_protector seed) ''CanvasRenderingContext2D''"
  "str_contains (generate_font_protector seed) ''queryLocalFonts''"
  unfolding generate_font_protector_def by (simp_all only: piece_simps)

lemma webrtc_pieces:
  "str_contains generate_webrtc_protector ''RTCPeerConnection''"
  "str_contains generate_webrtc_protector ''addIceCandidate''"
  "str_contains generate_webrtc_protector ''srflx''"
  unfolding generate_webrtc_protector_def by (simp_all only: piece_simps)

lemma webdriver_pieces:
  "str_contains generate_webdriver_remover ''webdriver''"
  "str_contains generate_webdriver_remover ''navigator''"
  "str_contains generate_webdriver_remover ''plugins''"
  "str_contains generate_webdriver_remover ''PDF Viewer''"
  "str_contains generate_webdriver_remover ''languages''"
  unfolding generate_webdriver_remover_def by (simp_all only: piece_simps)

lemma webgl_pieces:
  "str_contains (webgl_override v r) (c_str v)"
  "str_contains (webgl_override v r) (c_str r)"
  "str_contains (webgl_override v r) ''getParameter''"
  "str_contains (webgl_override v r) ''WebGL2RenderingContext''"
  "str_contains webgl_filter_only ''getSupportedExtensions''"
  "str_contains webgl_filter_only ''WEBGL_debug_renderer''"
proof -
  show "str_contains (webgl_override v r) (c_str v)"
    unfolding webgl_override_def by (rule in_next, rule in_this, rule in_itself)
  show "str_contains (webgl_override v r) (c_str r)"
    unfolding webgl_override_def by (rule in_next, rule in_next, rule in_next, rule in_this, rule in_itself)
qed (unfold webgl_override_def webgl_filter_only_def, (simp only: piece_simps)+)

lemmas script_pieces = prng_pieces canvas_pieces audio_pieces font_pieces webrtc_pieces webdriver_pieces

text \<open>A protector that is part of the script is found in the script with all that is in it.\<close>

lemma in_protection_script:
  assumes "ws_fingerprint_seed w \<noteq> 0"
  shows "str_contains ''(function(){'' p \<Longrightarrow> str_contains (generate_protection_script js w) p"
    "str_contains (generate_prng_function (ws_fingerprint_seed w)) p \<Longrightarrow> str_contains (generate_protection_script js w) p"
    "str_contains (generate_canvas_protector (ws_fingerprint_seed w)) p \<Longrightarrow> str_contains (generate_protection_script js w) p"
    "str_contains (generate_webgl_protector js w) p \<Longrightarrow> str_contains (generate_protection_script js w) p"
    "str_contains (generate_audio_protector (ws_fingerprint_seed w)) p \<Longrightarrow> str_contains (generate_protection_script js w) p"
    "str_contains (generate_font_protector (ws_fingerprint_seed w)) p \<Longrightarrow> str_contains (generate_protection_script js w) p"
    "str_contains generate_webrtc_protector p \<Longrightarrow> str_contains (generate_protection_script js w) p"
    "str_contains generate_webdriver_remover p \<Longrightarrow> str_contains (generate_protection_script js w) p"
    "str_contains ''})();'' p \<Longrightarrow> str_contains (generate_protection_script js w) p"
proof -
  obtain lat lng where c: "coordinates_of (ws_timezone w) = (lat, lng)" by fastforce
  note script = generate_protection_script_def [of js w, unfolded Let_def c prod.case add_when_eq if_not_P [OF assms] if_True append_Nil append.assoc]
  show "str_contains ''(function(){'' p \<Longrightarrow> str_contains (generate_protection_script js w) p"
    "str_contains (generate_prng_function (ws_fingerprint_seed w)) p \<Longrightarrow> str_contains (generate_protection_script js w) p"
    "str_contains (generate_canvas_protector (ws_fingerprint_seed w)) p \<Longrightarrow> str_contains (generate_protection_script js w) p"
    "str_contains (generate_webgl_protector js w) p \<Longrightarrow> str_contains (generate_protection_script js w) p"
    "str_contains (generate_audio_protector (ws_fingerprint_seed w)) p \<Longrightarrow> str_contains (generate_protection_script js w) p"
    "str_contains (generate_font_protector (ws_fingerprint_seed w)) p \<Longrightarrow> str_contains (generate_protection_script js w) p"
    "str_contains generate_webrtc_protector p \<Longrightarrow> str_contains (generate_protection_script js w) p"
    "str_contains generate_webdriver_remover p \<Longrightarrow> str_contains (generate_protection_script js w) p"
    "str_contains ''})();'' p \<Longrightarrow> str_contains (generate_protection_script js w) p"
    unfolding script by (simp_all only: str_contains_append1 str_contains_append2)
qed

text \<open>The suite of the engine.\<close>

lemma plain_texts:
  "list_all plain_ascii ''Google Inc. (NVIDIA)''" "list_all plain_ascii ''ANGLE (NVIDIA)''"
  "list_all plain_ascii ''TestVendor''" "list_all plain_ascii ''TestRenderer''"
  "list_all plain_ascii (''Vendor'' @ [quote] @ ''s '' @ [quote] @ ''GPU'' @ [quote])"
  "list_all plain_ascii ''Mozilla/5.0 (Windows NT 10.0; Win64; x64)''" "list_all plain_ascii ''MyCustomUA/1.0''"
  "list_all plain_ascii (''Mozilla'' @ [quote] @ ''5.0'')"
  by code_simp+

lemma plain_escaped: "keeps_plain js \<Longrightarrow> list_all plain_ascii s \<Longrightarrow> js_escape js s = s"
  by (simp add: keeps_plain_def)

lemma engine_script_tests:
  "prng_is_function_definition" "prng_deterministic" "prng_different_seeds_differ"
  "canvas_protector_overrides_get_image_data" "canvas_protector_overrides_to_data_url" "canvas_protector_deterministic"
  "audio_protector_overrides_analyser_node" "audio_protector_overrides_audio_buffer"
  "font_protector_overrides_measure_text" "font_protector_overrides_query_local_fonts"
  "web_rtc_protector_wraps_rtc_peer_connection" "web_rtc_protector_filters_srflx_candidates"
  "webdriver_remover_removes_navigator_webdriver" "webdriver_remover_overrides_plugins"
  "webdriver_remover_overrides_languages"
proof -
  show "prng_different_seeds_differ"
    by (simp add: prng_different_seeds_differ_def generate_prng_function_def)
qed (simp_all only: prng_is_function_definition_def prng_deterministic_def
    canvas_protector_overrides_get_image_data_def canvas_protector_overrides_to_data_url_def
    canvas_protector_deterministic_def audio_protector_overrides_analyser_node_def
    audio_protector_overrides_audio_buffer_def font_protector_overrides_measure_text_def
    font_protector_overrides_query_local_fonts_def web_rtc_protector_wraps_rtc_peer_connection_def
    web_rtc_protector_filters_srflx_candidates_def webdriver_remover_removes_navigator_webdriver_def
    webdriver_remover_overrides_plugins_def webdriver_remover_overrides_languages_def script_pieces simp_thms)

lemma engine_webgl_tests:
  assumes "keeps_plain js"
  shows "web_gl_protector_with_gpu_info js" "web_gl_protector_without_gpu_info js"
    "web_gl_protector_escapes_single_quotes js" "web_gl_protector_overrides_web_gl2 js"
proof -
  note escaped = plain_texts [THEN plain_escaped [OF assms]]
  have "generate_webgl_protector js (make_workspace 100 ''Google Inc. (NVIDIA)'' ''ANGLE (NVIDIA)'') =
      webgl_override ''Google Inc. (NVIDIA)'' ''ANGLE (NVIDIA)''"
    by (simp add: generate_webgl_protector_def make_workspace_def escaped)
  moreover have "c_str ''Google Inc. (NVIDIA)'' = ''Google Inc. (NVIDIA)''" "c_str ''ANGLE (NVIDIA)'' = ''ANGLE (NVIDIA)''"
    by (simp_all add: c_str_def)
  ultimately show "web_gl_protector_with_gpu_info js"
    using webgl_pieces(1-3) [of "''Google Inc. (NVIDIA)''" "''ANGLE (NVIDIA)''"]
    by (simp add: web_gl_protector_with_gpu_info_def)
  show "web_gl_protector_without_gpu_info js"
    using webgl_pieces(5, 6)
    by (simp add: web_gl_protector_without_gpu_info_def generate_webgl_protector_def make_workspace_def)
  let ?v = "''Vendor'' @ [backslash, quote] @ ''s '' @ [backslash, quote] @ ''GPU'' @ [backslash, quote]"
  have "generate_webgl_protector js (make_workspace 100 (''Vendor'' @ [quote] @ ''s '' @ [quote] @ ''GPU'' @ [quote]) []) =
      webgl_override ?v []"
    using escaped(5) by (simp add: generate_webgl_protector_def make_workspace_def)
  moreover have "str_contains (webgl_override ?v []) [backslash, quote]"
  proof -
    have "str_contains (c_str ?v) [backslash, quote]"
      using str_containsI [of "''Vendor''" "[backslash, quote]" "''s '' @ [backslash, quote] @ ''GPU'' @ [backslash, quote]"]
      by (simp add: c_str_def)
    then show ?thesis unfolding webgl_override_def by (rule in_next [OF in_this])
  qed
  ultimately show "web_gl_protector_escapes_single_quotes js"
    by (simp add: web_gl_protector_escapes_single_quotes_def)
  show "web_gl_protector_overrides_web_gl2 js"
    using webgl_pieces(4)
    by (simp add: web_gl_protector_overrides_web_gl2_def generate_webgl_protector_def make_workspace_def escaped)
qed

lemma script_is_long:
  assumes "ws_fingerprint_seed w \<noteq> 0"
  shows "100 < length (generate_protection_script js w)"
proof -
  have l: "length p \<le> length s" if "str_contains s p" for s p :: string
    using that by (auto simp: str_contains_iff)
  have "str_contains (generate_protection_script js w) generate_webdriver_remover"
    by (rule in_protection_script(8) [OF assms in_itself])
  moreover have "100 < length generate_webdriver_remover" by (simp add: generate_webdriver_remover_def)
  ultimately show ?thesis using l by fastforce
qed

lemma engine_protection_tests:
  assumes "keeps_plain js"
  shows "protection_script_empty_for_zero_seed js" "protection_script_non_empty_for_non_zero_seed js"
    "protection_script_contains_all_protectors js" "protection_script_wrapped_in_iife js"
    "protection_script_deterministic js"
proof -
  note escaped = plain_texts [THEN plain_escaped [OF assms]]
  show "protection_script_empty_for_zero_seed js" "protection_script_deterministic js"
    by (simp_all add: protection_script_empty_for_zero_seed_def protection_script_deterministic_def
        make_workspace_def script_empty)
  have n: "ws_fingerprint_seed (make_workspace 12345 v r) = 12345" for v r by (simp add: make_workspace_def)
  then have "ws_fingerprint_seed (make_workspace 12345 v r) \<noteq> 0" for v r by simp
  note part = in_protection_script [where js = js, OF this, unfolded n]
  show "protection_script_non_empty_for_non_zero_seed js"
    using script_is_long [of "make_workspace 12345 [] []" js]
    by (auto simp: protection_script_non_empty_for_non_zero_seed_def n)
  let ?w = "make_workspace 12345 ''TestVendor'' ''TestRenderer''"
  have "str_contains (generate_webgl_protector js ?w) ''getParameter''"
    using webgl_pieces(3) by (simp add: generate_webgl_protector_def make_workspace_def escaped)
  then show "protection_script_contains_all_protectors js"
    by (simp only: protection_script_contains_all_protectors_def Let_def simp_thms part(4)
        part(2) [OF prng_pieces(2)] part(3) [OF canvas_pieces(1)] part(5) [OF audio_pieces(1)]
        part(6) [OF font_pieces(1)] part(7) [OF webrtc_pieces(1)] part(8) [OF webdriver_pieces(1)])
  show "protection_script_wrapped_in_iife js"
    by (simp only: protection_script_wrapped_in_iife_def Let_def simp_thms part(1) [OF in_itself]
        part(9) [OF in_itself])
qed

subsection \<open>Tests of the injector\<close>

definition make_test_workspace :: workspace where
  "make_test_workspace = workspace_default
     \<lparr>ws_id := ''test-workspace-id'', ws_name := ''Test Workspace'', ws_fingerprint_seed := 12345,
      ws_screen_width := 1920, ws_screen_height := 1080, ws_timezone := ''America/New_York'',
      ws_locale := ''en-US'', ws_platform := ''windows'', ws_color_scheme := ''dark'',
      ws_gpu_vendor := ''Google Inc. (NVIDIA)'', ws_gpu_renderer := ''ANGLE (NVIDIA, RTX 3080)'',
      ws_hardware_concurrency := 8, ws_user_agent := ''Mozilla/5.0 (Windows NT 10.0; Win64; x64)''\<rparr>"

text \<open>The tests of the commands go through them until one has the method; some look at its parameters.\<close>

definition has_method :: "string \<Rightarrow> dict \<Rightarrow> bool" where
  "has_method method cmd \<longleftrightarrow> find_string cmd ''method'' = Some method"

fun screen_script_found :: "dict list \<Rightarrow> bool" where
  "screen_script_found [] = False"
| "screen_script_found (cmd # commands) =
     (if has_method ''Page.addScriptToEvaluateOnNewDocument'' cmd
      then (case find_dict cmd ''params'' of
              None \<Rightarrow> False
            | Some params \<Rightarrow>
                (case find_string params ''source'' of
                   None \<Rightarrow> False
                 | Some source \<Rightarrow>
                     if str_contains source ''window.screen'' \<and> str_contains source ''1920'' then True
                     else screen_script_found commands))
      else screen_script_found commands)"

fun dark_mode_found_disabled :: "dict list \<Rightarrow> bool" where
  "dark_mode_found_disabled [] = False"
| "dark_mode_found_disabled (cmd # commands) =
     (if has_method ''Emulation.setAutoDarkModeOverride'' cmd
      then (case find_dict cmd ''params'' of
              None \<Rightarrow> False
            | Some params \<Rightarrow> find_bool params ''enabled'' = Some False)
      else dark_mode_found_disabled commands)"

definition make_command_structure :: bool where
  "make_command_structure \<longleftrightarrow>
     (let cmd = make_command ''Test.method'' (dict_set ''foo'' (JString ''bar'') [])
      in find_string cmd ''method'' = Some ''Test.method'' \<and>
         (case find_dict cmd ''params'' of None \<Rightarrow> False | Some params \<Rightarrow> find_string params ''foo'' = Some ''bar''))"

definition screen_overrides_contain_width_height :: bool where
  "screen_overrides_contain_width_height \<longleftrightarrow>
     (let js_text = generate_screen_overrides make_test_workspace
      in str_contains js_text ''1920'' \<and>
         str_contains js_text ''1080'' \<and>
         str_contains js_text ''window.screen'' \<and>
         str_contains js_text ''Proxy'')"

definition screen_overrides_defaults_for_zero :: bool where
  "screen_overrides_defaults_for_zero \<longleftrightarrow>
     (let p = make_test_workspace\<lparr>ws_screen_width := 0, ws_screen_height := 0\<rparr>;
          js_text = generate_screen_overrides p
      in str_contains js_text ''1366'' \<and>
         str_contains js_text ''768'')"

definition screen_overrides_custom_values :: bool where
  "screen_overrides_custom_values \<longleftrightarrow>
     (let p = make_test_workspace\<lparr>ws_screen_width := 2560, ws_screen_height := 1440\<rparr>;
          js_text = generate_screen_overrides p
      in str_contains js_text ''2560'' \<and>
         str_contains js_text ''1440'')"

definition make_screen_override_test :: bool where
  "make_screen_override_test \<longleftrightarrow>
     (let cmd = make_screen_override 1920 1080
      in find_string cmd ''method'' = Some ''Emulation.setDeviceMetricsOverride'' \<and>
         (case find_dict cmd ''params'' of
            None \<Rightarrow> False
          | Some params \<Rightarrow> find_int params ''width'' = Some 1920 \<and> find_int params ''height'' = Some 1080 \<and>
              find_int params ''deviceScaleFactor'' = Some 1 \<and> find_bool params ''mobile'' = Some False))"

definition make_screen_override_custom :: bool where
  "make_screen_override_custom \<longleftrightarrow>
     (let cmd = make_screen_override 2560 1440
      in (case find_dict cmd ''params'' of
            None \<Rightarrow> False
          | Some params \<Rightarrow> find_int params ''width'' = Some 2560 \<and> find_int params ''height'' = Some 1440))"

definition make_timezone_override_test :: bool where
  "make_timezone_override_test \<longleftrightarrow>
     (let cmd = make_timezone_override ''Europe/London''
      in find_string cmd ''method'' = Some ''Emulation.setTimezoneOverride'' \<and>
         (case find_dict cmd ''params'' of
            None \<Rightarrow> False
          | Some params \<Rightarrow> find_string params ''timezoneId'' = Some ''Europe/London''))"

definition make_dark_mode_override_enabled :: bool where
  "make_dark_mode_override_enabled \<longleftrightarrow>
     (let cmd = make_dark_mode_override True
      in find_string cmd ''method'' = Some ''Emulation.setAutoDarkModeOverride'' \<and>
         (case find_dict cmd ''params'' of
            None \<Rightarrow> False
          | Some params \<Rightarrow> find_bool params ''enabled'' = Some True))"

definition make_dark_mode_override_disabled :: bool where
  "make_dark_mode_override_disabled \<longleftrightarrow>
     (let cmd = make_dark_mode_override False
      in (case find_dict cmd ''params'' of
            None \<Rightarrow> False
          | Some params \<Rightarrow> find_bool params ''enabled'' = Some False))"

definition make_script_injection_test :: bool where
  "make_script_injection_test \<longleftrightarrow>
     (let cmd = make_script_injection (''console.log('' @ [quote] @ ''test'' @ [quote] @ '');'')
      in find_string cmd ''method'' = Some ''Page.addScriptToEvaluateOnNewDocument'' \<and>
         (case find_dict cmd ''params'' of
            None \<Rightarrow> False
          | Some params \<Rightarrow> find_string params ''source'' = Some (''console.log('' @ [quote] @ ''test'' @ [quote] @ '');'')))"

definition generate_cdp_commands_contains_screen_overrides :: "js_lib \<Rightarrow> bool" where
  "generate_cdp_commands_contains_screen_overrides js \<longleftrightarrow>
     screen_script_found (generate_cdp_commands js make_test_workspace)"

definition generate_cdp_commands_contains_timezone :: "js_lib \<Rightarrow> bool" where
  "generate_cdp_commands_contains_timezone js \<longleftrightarrow>
     list_ex (has_method ''Emulation.setTimezoneOverride'') (generate_cdp_commands js make_test_workspace)"

definition generate_cdp_commands_contains_dark_mode :: "js_lib \<Rightarrow> bool" where
  "generate_cdp_commands_contains_dark_mode js \<longleftrightarrow>
     (let p = make_test_workspace\<lparr>ws_color_scheme := ''dark''\<rparr>
      in list_ex (has_method ''Emulation.setAutoDarkModeOverride'') (generate_cdp_commands js p))"

definition generate_cdp_commands_light_mode_disables_dark_mode :: "js_lib \<Rightarrow> bool" where
  "generate_cdp_commands_light_mode_disables_dark_mode js \<longleftrightarrow>
     (let p = make_test_workspace\<lparr>ws_color_scheme := ''light''\<rparr>
      in dark_mode_found_disabled (generate_cdp_commands js p))"

definition generate_cdp_commands_contains_script_injection :: "js_lib \<Rightarrow> bool" where
  "generate_cdp_commands_contains_script_injection js \<longleftrightarrow>
     list_ex (has_method ''Page.addScriptToEvaluateOnNewDocument'') (generate_cdp_commands js make_test_workspace)"

definition generate_cdp_commands_no_script_for_zero_seed :: "js_lib \<Rightarrow> bool" where
  "generate_cdp_commands_no_script_for_zero_seed js \<longleftrightarrow>
     (let p = make_test_workspace\<lparr>ws_fingerprint_seed := 0\<rparr>
      in list_ex (has_method ''Page.addScriptToEvaluateOnNewDocument'') (generate_cdp_commands js p))"

definition navigator_overrides_windows_platform :: "js_lib \<Rightarrow> bool" where
  "navigator_overrides_windows_platform js \<longleftrightarrow>
     (let p = make_test_workspace\<lparr>ws_platform := ''windows''\<rparr>
      in str_contains (generate_navigator_overrides js p) ''Win32'')"

definition navigator_overrides_mac_os_platform :: "js_lib \<Rightarrow> bool" where
  "navigator_overrides_mac_os_platform js \<longleftrightarrow>
     (let p = make_test_workspace\<lparr>ws_platform := ''macos''\<rparr>
      in str_contains (generate_navigator_overrides js p) ''MacIntel'')"

definition navigator_overrides_linux_platform :: "js_lib \<Rightarrow> bool" where
  "navigator_overrides_linux_platform js \<longleftrightarrow>
     (let p = make_test_workspace\<lparr>ws_platform := ''linux''\<rparr>
      in str_contains (generate_navigator_overrides js p) ''Linux x86_64'')"

definition navigator_overrides_default_platform :: "js_lib \<Rightarrow> bool" where
  "navigator_overrides_default_platform js \<longleftrightarrow>
     (let p = make_test_workspace\<lparr>ws_platform := []\<rparr>
      in str_contains (generate_navigator_overrides js p) ''Win32'')"

definition navigator_overrides_hardware_concurrency :: "js_lib \<Rightarrow> bool" where
  "navigator_overrides_hardware_concurrency js \<longleftrightarrow>
     (let p = make_test_workspace\<lparr>ws_hardware_concurrency := 16\<rparr>
      in str_contains (generate_navigator_overrides js p) ''16'')"

definition navigator_overrides_default_concurrency :: "js_lib \<Rightarrow> bool" where
  "navigator_overrides_default_concurrency js \<longleftrightarrow>
     (let p = make_test_workspace\<lparr>ws_hardware_concurrency := 0\<rparr>
      in str_contains (generate_navigator_overrides js p) ''return 4;'')"

definition navigator_overrides_user_agent :: "js_lib \<Rightarrow> bool" where
  "navigator_overrides_user_agent js \<longleftrightarrow>
     (let p = make_test_workspace\<lparr>ws_user_agent := ''MyCustomUA/1.0''\<rparr>
      in str_contains (generate_navigator_overrides js p) ''MyCustomUA/1.0'')"

definition navigator_overrides_escapes_user_agent_quotes :: "js_lib \<Rightarrow> bool" where
  "navigator_overrides_escapes_user_agent_quotes js \<longleftrightarrow>
     (let p = make_test_workspace\<lparr>ws_user_agent := ''Mozilla'' @ [quote] @ ''5.0''\<rparr>
      in str_contains (generate_navigator_overrides js p) [backslash, quote])"

definition injection_script_without_anti_detection :: "js_lib \<Rightarrow> bool" where
  "injection_script_without_anti_detection js \<longleftrightarrow>
     (let js_text = generate_injection_script js make_test_workspace False
      in str_contains js_text ''navigator'' \<and>
         str_contains js_text ''window.screen'' \<and>
         str_contains js_text ''1920'' \<and>
         \<not> str_contains js_text ''_pcNoise'')"

definition injection_script_with_anti_detection :: "js_lib \<Rightarrow> bool" where
  "injection_script_with_anti_detection js \<longleftrightarrow>
     (let js_text = generate_injection_script js make_test_workspace True
      in str_contains js_text ''navigator'' \<and>
         str_contains js_text ''_pcNoise'')"

definition injection_script_anti_detection_no_seed :: "js_lib \<Rightarrow> bool" where
  "injection_script_anti_detection_no_seed js \<longleftrightarrow>
     (let p = make_test_workspace\<lparr>ws_fingerprint_seed := 0\<rparr>;
          js_text = generate_injection_script js p True
      in str_contains js_text ''navigator'' \<and> \<not> str_contains js_text ''_pcNoise'')"

subsection \<open>They hold\<close>

lemma command_tests:
  "make_command_structure" "make_screen_override_test" "make_screen_override_custom" "make_timezone_override_test"
  "make_dark_mode_override_enabled" "make_dark_mode_override_disabled" "make_script_injection_test"
  by (simp_all add: make_command_structure_def make_screen_override_test_def make_screen_override_custom_def
      make_timezone_override_test_def make_dark_mode_override_enabled_def make_dark_mode_override_disabled_def
      make_script_injection_test_def make_screen_override_def make_timezone_override_def
      make_dark_mode_override_def make_script_injection_def)

lemma screen_numbers:
  "show_int 1920 = ''1920''" "show_int 1080 = ''1080''" "show_int 1366 = ''1366''" "show_int 768 = ''768''"
  "show_int 2560 = ''2560''" "show_int 1440 = ''1440''" "show_int 16 = ''16''" "show_int 4 = ''4''" "show_int 8 = ''8''"
  by (simp_all add: show_int_def show_nat.simps digit_char_1 digit_chars)

lemma screen_pieces:
  "str_contains (screen_script w h) (show_int w)" "str_contains (screen_script w h) (show_int h)"
  "str_contains (screen_script w h) ''window.screen''" "str_contains (screen_script w h) ''Proxy''"
proof -
  show "str_contains (screen_script w h) (show_int w)"
    unfolding screen_script_def by (rule in_next, rule in_this, rule in_itself)
  show "str_contains (screen_script w h) (show_int h)"
    unfolding screen_script_def by (rule in_next, rule in_next, rule in_next, rule in_this, rule in_itself)
qed (unfold screen_script_def, (simp only: piece_simps)+)

lemma screen_tests:
  "screen_overrides_contain_width_height" "screen_overrides_defaults_for_zero" "screen_overrides_custom_values"
proof -
  have s: "generate_screen_overrides make_test_workspace = screen_script 1920 1080"
    "generate_screen_overrides (make_test_workspace\<lparr>ws_screen_width := 0, ws_screen_height := 0\<rparr>) = screen_script 1366 768"
    "generate_screen_overrides (make_test_workspace\<lparr>ws_screen_width := 2560, ws_screen_height := 1440\<rparr>) =
       screen_script 2560 1440"
    by (simp_all add: generate_screen_overrides_def make_test_workspace_def)
  show "screen_overrides_contain_width_height" "screen_overrides_defaults_for_zero" "screen_overrides_custom_values"
    unfolding screen_overrides_contain_width_height_def screen_overrides_defaults_for_zero_def
      screen_overrides_custom_values_def Let_def s screen_numbers(1-6) [symmetric]
    by (simp_all only: screen_pieces simp_thms)
qed

text \<open>The commands for a workspace with all settings.\<close>

lemma test_commands:
  assumes "ws_screen_width p > 0" "ws_screen_height p > 0" "ws_timezone p \<noteq> []"
    "ws_color_scheme p = ''dark'' \<or> ws_color_scheme p = ''light''"
  shows "generate_cdp_commands js p =
    [make_screen_override (ws_screen_width p) (ws_screen_height p), make_timezone_override (ws_timezone p),
     make_dark_mode_override (ws_color_scheme p = ''dark''),
     make_script_injection (generate_injection_script js p True)]"
proof -
  have "generate_injection_script js p True \<noteq> []"
    by (simp add: generate_injection_script_def Let_def)
  then show ?thesis using assms by (auto simp: generate_cdp_commands_def Let_def)
qed

lemma script_injection_source:
  "find_dict (make_script_injection s) ''params'' = Some (dict_set ''source'' (JString s) [])"
  by (simp add: make_script_injection_def)

lemma in_tail: "str_contains s p \<Longrightarrow> str_contains (c # s) p"
  by (simp add: str_contains_Cons)

lemma injection_parts:
  "str_contains (generate_navigator_overrides js w) p \<Longrightarrow> str_contains (generate_injection_script js w b) p"
  "str_contains (generate_screen_overrides w) p \<Longrightarrow> str_contains (generate_injection_script js w b) p"
  "str_contains (generate_protection_script js w) p \<Longrightarrow> generate_protection_script js w \<noteq> [] \<Longrightarrow>
     str_contains (generate_injection_script js w True) p"
  by (simp_all add: generate_injection_script_def Let_def str_contains_append1 str_contains_append2 in_tail)


lemma navigator_text:
  assumes "keeps_plain js" "list_all plain_ascii (ws_user_agent p)" "ws_user_agent p \<noteq> []"
  shows "generate_navigator_overrides js p =
    navigator_script (navigator_platform (ws_platform p))
      (if ws_hardware_concurrency p \<le> 0 then 4 else ws_hardware_concurrency p)
      (user_agent_override (escape_quotes (ws_user_agent p)))"
  using assms plain_escaped [OF assms(1, 2)] by (simp add: generate_navigator_overrides_def)

lemma navigator_pieces:
  "str_contains (navigator_script pl n a) (c_str pl)" "str_contains (navigator_script pl n a) (show_int n)"
  "str_contains (navigator_script pl n a) (c_str a)" "str_contains (navigator_script pl n a) ''navigator''"
proof -
  show "str_contains (navigator_script pl n a) (c_str pl)"
    unfolding navigator_script_def navigator_head_def append.assoc
    by (rule in_next, rule in_next, rule in_this, rule in_itself)
qed (unfold navigator_script_def navigator_head_def navigator_tail_def, (simp only: piece_simps)+)

lemma agent_pieces:
  "str_contains (c_str (user_agent_override ''MyCustomUA/1.0'')) ''MyCustomUA/1.0''"
  "str_contains (c_str (user_agent_override (escape_quotes (''Mozilla'' @ [quote] @ ''5.0'')))) [backslash, quote]"
  by (simp_all add: user_agent_override_def c_str_def str_contains_Cons str_contains_Nil)

lemma navigator_tests:
  assumes "keeps_plain js"
  shows "navigator_overrides_windows_platform js" "navigator_overrides_mac_os_platform js"
    "navigator_overrides_linux_platform js" "navigator_overrides_default_platform js"
    "navigator_overrides_hardware_concurrency js" "navigator_overrides_user_agent js"
proof -
  note script = navigator_text [OF assms]
  have c: "c_str ''Win32'' = ''Win32''" "c_str ''MacIntel'' = ''MacIntel''" "c_str ''Linux x86_64'' = ''Linux x86_64''"
    by (simp_all add: c_str_def)
  have plat: "str_contains (generate_navigator_overrides js (make_test_workspace\<lparr>ws_platform := pl\<rparr>))
      (c_str (navigator_platform pl))" for pl
    using navigator_pieces(1) plain_texts(6) by (simp add: script make_test_workspace_def)
  show "navigator_overrides_windows_platform js" "navigator_overrides_mac_os_platform js"
    "navigator_overrides_linux_platform js" "navigator_overrides_default_platform js"
    using plat [of "''windows''"] plat [of "''macos''"] plat [of "''linux''"] plat [of "[]"]
    by (simp_all add: navigator_overrides_windows_platform_def navigator_overrides_mac_os_platform_def
        navigator_overrides_linux_platform_def navigator_overrides_default_platform_def navigator_platform_def c)
  have "str_contains (generate_navigator_overrides js (make_test_workspace\<lparr>ws_hardware_concurrency := 16\<rparr>)) (show_int 16)"
    using navigator_pieces(2) [of _ 16] plain_texts(6) by (simp add: script make_test_workspace_def)
  then show "navigator_overrides_hardware_concurrency js"
    unfolding navigator_overrides_hardware_concurrency_def Let_def screen_numbers .
  have "generate_navigator_overrides js (make_test_workspace\<lparr>ws_user_agent := ''MyCustomUA/1.0''\<rparr>) =
      navigator_script ''Win32'' 8 (user_agent_override ''MyCustomUA/1.0'')"
    using plain_texts(7) by (simp add: script make_test_workspace_def navigator_platform_def)
  moreover have "str_contains (navigator_script pl n (user_agent_override ''MyCustomUA/1.0'')) ''MyCustomUA/1.0''" for pl n
    unfolding navigator_script_def by (rule in_next, rule in_this, rule agent_pieces)
  ultimately show "navigator_overrides_user_agent js"
    by (simp only: navigator_overrides_user_agent_def Let_def)
qed

lemma navigator_value_tests:
  assumes "keeps_plain js"
  shows "navigator_overrides_default_concurrency js" "navigator_overrides_escapes_user_agent_quotes js"
proof -
  note script = navigator_text [OF assms]
  let ?ua = "''Mozilla/5.0 (Windows NT 10.0; Win64; x64)''"
  have "generate_navigator_overrides js (make_test_workspace\<lparr>ws_hardware_concurrency := 0\<rparr>) =
      navigator_script ''Win32'' 4 (user_agent_override (escape_quotes ?ua))"
    using plain_texts(6)
    by (simp add: script make_test_workspace_def navigator_platform_def del: escape_quotes_simps)
  moreover have "str_contains (navigator_head ''Win32'' 4) ''return 4;''"
    by (simp add: navigator_head_def c_str_def screen_numbers str_contains_Cons str_contains_Nil)
  ultimately show "navigator_overrides_default_concurrency js"
    by (simp only: navigator_overrides_default_concurrency_def Let_def navigator_script_def str_contains_append1)
  let ?q = "''Mozilla'' @ [quote] @ ''5.0''"
  have "generate_navigator_overrides js (make_test_workspace\<lparr>ws_user_agent := ?q\<rparr>) =
      navigator_script ''Win32'' 8 (user_agent_override (escape_quotes ?q))"
    using plain_texts(8) by (simp add: script make_test_workspace_def navigator_platform_def del: escape_quotes_simps)
  moreover have "str_contains (navigator_script pl n (user_agent_override (escape_quotes ?q))) [backslash, quote]" for pl n
    unfolding navigator_script_def by (rule in_next, rule in_this, rule agent_pieces)
  ultimately show "navigator_overrides_escapes_user_agent_quotes js"
    by (simp only: navigator_overrides_escapes_user_agent_quotes_def Let_def)
qed

text \<open>The whole script without the protection has no noise function.\<close>

lemma no_noise: "\<not> str_contains (navigator_script ''Win32'' 8 (user_agent_override ''Mozilla/5.0 (Windows NT 10.0; Win64; x64)'') @
    [newline] @ screen_script 1920 1080) ''_pcNoise''"
  by (simp add: navigator_script_def navigator_head_def navigator_tail_def user_agent_override_def screen_script_def
      c_str_def screen_numbers str_contains_Cons str_contains_Nil)

lemma test_navigator:
  "keeps_plain js \<Longrightarrow> generate_navigator_overrides js (make_test_workspace\<lparr>ws_fingerprint_seed := seed\<rparr>) =
     navigator_script ''Win32'' 8 (user_agent_override ''Mozilla/5.0 (Windows NT 10.0; Win64; x64)'')"
  using plain_texts(6) by (simp add: navigator_text make_test_workspace_def navigator_platform_def)

lemma test_screen:
  "generate_screen_overrides (make_test_workspace\<lparr>ws_fingerprint_seed := seed, ws_color_scheme := c\<rparr>) = screen_script 1920 1080"
  "generate_screen_overrides (make_test_workspace\<lparr>ws_fingerprint_seed := seed\<rparr>) = screen_script 1920 1080"
  "generate_screen_overrides make_test_workspace = screen_script 1920 1080"
  by (simp_all add: generate_screen_overrides_def make_test_workspace_def)

lemma test_seed: "make_test_workspace\<lparr>ws_fingerprint_seed := 12345\<rparr> = make_test_workspace"
  by (simp add: make_test_workspace_def)

lemma injection_tests:
  assumes "keeps_plain js"
  shows "injection_script_without_anti_detection js" "injection_script_with_anti_detection js"
    "injection_script_anti_detection_no_seed js"
proof -
  note nav = test_navigator [OF assms]
  have none: "generate_injection_script js (make_test_workspace\<lparr>ws_fingerprint_seed := seed\<rparr>) False =
      navigator_script ''Win32'' 8 (user_agent_override ''Mozilla/5.0 (Windows NT 10.0; Win64; x64)'') @
      [newline] @ screen_script 1920 1080" for seed
    by (simp only: generate_injection_script_def Let_def nav test_screen if_False append.assoc append_Nil)
  have pieces: "str_contains (generate_injection_script js (make_test_workspace\<lparr>ws_fingerprint_seed := seed\<rparr>) b) ''navigator''"
    "str_contains (generate_injection_script js (make_test_workspace\<lparr>ws_fingerprint_seed := seed\<rparr>) b) ''window.screen''"
    "str_contains (generate_injection_script js (make_test_workspace\<lparr>ws_fingerprint_seed := seed\<rparr>) b) (show_int 1920)" for seed b
    by (simp_all only: injection_parts(1, 2) nav test_screen navigator_pieces(4) screen_pieces)
  show "injection_script_without_anti_detection js"
    using none [of 12345] pieces [of 12345 False] no_noise
    by (simp only: injection_script_without_anti_detection_def Let_def test_seed screen_numbers(1) simp_thms)
  have "str_contains (generate_protection_script js make_test_workspace) ''_pcNoise''"
    using in_protection_script(2) [of make_test_workspace "''_pcNoise''" js] prng_pieces(2)
    by (simp add: make_test_workspace_def)
  moreover have "generate_protection_script js make_test_workspace \<noteq> []"
    by (simp add: script_empty make_test_workspace_def)
  ultimately show "injection_script_with_anti_detection js"
    using pieces(1) [of 12345 True] injection_parts(3)
    by (simp only: injection_script_with_anti_detection_def Let_def test_seed simp_thms)
  have "generate_injection_script js (make_test_workspace\<lparr>ws_fingerprint_seed := 0\<rparr>) True =
      generate_injection_script js (make_test_workspace\<lparr>ws_fingerprint_seed := 0\<rparr>) False"
    by (simp add: generate_injection_script_def generate_protection_script_def make_test_workspace_def workspace_default_def)
  then show "injection_script_anti_detection_no_seed js"
    using none [of 0] pieces(1) [of 0 True] no_noise
    by (simp only: injection_script_anti_detection_no_seed_def Let_def simp_thms)
qed

lemma command_list_tests:
  assumes "keeps_plain js"
  shows "generate_cdp_commands_contains_screen_overrides js" "generate_cdp_commands_contains_timezone js"
    "generate_cdp_commands_contains_dark_mode js" "generate_cdp_commands_light_mode_disables_dark_mode js"
    "generate_cdp_commands_contains_script_injection js" "generate_cdp_commands_no_script_for_zero_seed js"
proof -
  have c: "generate_cdp_commands js make_test_workspace =
      [make_screen_override 1920 1080, make_timezone_override ''America/New_York'', make_dark_mode_override True,
       make_script_injection (generate_injection_script js make_test_workspace True)]"
    using test_commands [of make_test_workspace js] by (simp add: make_test_workspace_def)
  have "str_contains (generate_injection_script js make_test_workspace True) ''window.screen''"
    "str_contains (generate_injection_script js make_test_workspace True) (show_int 1920)"
    by (simp_all only: injection_parts(2) test_screen screen_pieces)
  then show "generate_cdp_commands_contains_screen_overrides js"
    by (simp add: generate_cdp_commands_contains_screen_overrides_def c has_method_def script_injection_source screen_numbers(1))
  show "generate_cdp_commands_contains_timezone js" "generate_cdp_commands_contains_script_injection js"
    by (simp_all add: generate_cdp_commands_contains_timezone_def generate_cdp_commands_contains_script_injection_def
        c has_method_def)
  show "generate_cdp_commands_contains_dark_mode js"
    by (simp add: generate_cdp_commands_contains_dark_mode_def test_commands make_test_workspace_def has_method_def)
  show "generate_cdp_commands_light_mode_disables_dark_mode js"
    by (simp add: generate_cdp_commands_light_mode_disables_dark_mode_def test_commands make_test_workspace_def
        has_method_def make_dark_mode_override_def)
  show "generate_cdp_commands_no_script_for_zero_seed js"
    by (simp add: generate_cdp_commands_no_script_for_zero_seed_def test_commands make_test_workspace_def has_method_def)
qed

end
