(* ===== verification/Tests_Client.thy ===== *)
theory Tests_Client
  imports Cdp_Client
begin

text \<open>
  The unit tests of \<open>content/cdp_websocket_client_unittest.cc\<close>. The mock server is the function from the
  request it reads to the response it sends; a connection to it is a socket that takes the request and
  on which the response arrives, in whatever pieces. A port nobody listens on refuses the connection.
\<close>

subsection \<open>The mock server\<close>

record mock_cdp_server =
  version_body :: string
  targets_body :: string

text \<open>The default bodies; \<open>dq\<close> is the double quote.\<close>

abbreviation (input) dq :: string where "dq \<equiv> [CHR 0x22]"

definition new_mock_server :: mock_cdp_server where
  "new_mock_server =
     \<lparr>version_body = ''{'' @ dq @ ''Browser'' @ dq @ '':'' @ dq @ ''Chrome/130.0'' @ dq @ '','' @ dq @
        ''webSocketDebuggerUrl'' @ dq @ '':'' @ dq @ ''ws://127.0.0.1:0/devtools/browser/fake'' @ dq @ ''}'',
      targets_body = ''[{'' @ dq @ ''type'' @ dq @ '':'' @ dq @ ''page'' @ dq @ '','' @ dq @ ''url'' @ dq @ '':'' @ dq @
        ''about:blank'' @ dq @ '','' @ dq @ ''webSocketDebuggerUrl'' @ dq @ '':'' @ dq @
        ''ws://127.0.0.1:0/devtools/page/fake-id'' @ dq @ '','' @ dq @ ''id'' @ dq @ '':'' @ dq @ ''fake-id'' @ dq @ ''}]''\<rparr>"

definition set_version_response :: "string \<Rightarrow> mock_cdp_server \<Rightarrow> mock_cdp_server" where
  "set_version_response body server = server\<lparr>version_body := body\<rparr>"

definition set_targets_response :: "string \<Rightarrow> mock_cdp_server \<Rightarrow> mock_cdp_server" where
  "set_targets_response body server = server\<lparr>targets_body := body\<rparr>"

definition mock_response :: "string \<Rightarrow> string" where
  "mock_response body =
     ''HTTP/1.1 200 OK'' @ crlf @
     ''Content-Type: application/json'' @ crlf @
     ''Content-Length: '' @ show_nat (length body) @ crlf @
     ''Connection: close'' @ crlf @ crlf @
     takeWhile (\<lambda>c. c \<noteq> CHR 0x00) body"

text \<open>One turn of \<open>ServerLoop\<close>: what it sends before it closes the connection.\<close>

definition server_turn :: "mock_cdp_server \<Rightarrow> string \<Rightarrow> string" where
  "server_turn server received =
     (let request = take 4095 received in
      if request = [] then []
      else if str_contains request ''GET /json/version'' then mock_response (version_body server)
      else if str_contains request ''GET /json'' then mock_response (targets_body server)
      else [])"

text \<open>A connection on which the client's request for \<open>path\<close> is answered by the server.\<close>

definition served_by :: "mock_cdp_server \<Rightarrow> int \<Rightarrow> string \<Rightarrow> sock \<Rightarrow> bool" where
  "served_by server port path s \<longleftrightarrow>
     fst (send_all (bytes_of (http_request path port)) s) \<and>
     arriving s = bytes_of (server_turn server (http_request path port))"

subsection \<open>Tests\<close>

text \<open>\<open>nt\<close> is the network at the call; the ports of closed sockets and port 0 are those it refuses.\<close>

definition is_cdp_available_false_for_closed_port :: "int \<Rightarrow> net \<Rightarrow> bool" where
  "is_cdp_available_false_for_closed_port port nt \<longleftrightarrow> \<not> fst (is_cdp_available port nt)"

definition is_cdp_available_false_for_zero_port :: "net \<Rightarrow> bool" where
  "is_cdp_available_false_for_zero_port nt \<longleftrightarrow> \<not> fst (is_cdp_available 0 nt)"

definition is_cdp_available_true_for_mock_server :: "int \<Rightarrow> net \<Rightarrow> bool" where
  "is_cdp_available_true_for_mock_server port nt \<longleftrightarrow> fst (is_cdp_available port nt)"

definition is_cdp_available_false_for_bad_response :: "int \<Rightarrow> net \<Rightarrow> bool" where
  "is_cdp_available_false_for_bad_response port nt \<longleftrightarrow> \<not> fst (is_cdp_available port nt)"

definition bad_response_server :: mock_cdp_server where
  "bad_response_server =
     set_version_response (''{'' @ dq @ ''error'' @ dq @ '':'' @ dq @ ''not found'' @ dq @ ''}'') new_mock_server"

definition get_page_web_socket_url_from_mock_server :: "json_lib \<Rightarrow> int \<Rightarrow> net \<Rightarrow> bool" where
  "get_page_web_socket_url_from_mock_server jl port nt \<longleftrightarrow>
     (case fst (get_page_websocket_url jl port nt) of
        None \<Rightarrow> False
      | Some url \<Rightarrow> url \<noteq> [] \<and> str_contains url ''ws://'' \<and> str_contains url ''page'')"

definition get_page_web_socket_url_empty :: "json_lib \<Rightarrow> int \<Rightarrow> net \<Rightarrow> bool" where
  "get_page_web_socket_url_empty jl port nt \<longleftrightarrow> fst (get_page_websocket_url jl port nt) = Some []"

definition no_page_server :: mock_cdp_server where
  "no_page_server = set_targets_response
     (''[{'' @ dq @ ''type'' @ dq @ '':'' @ dq @ ''browser'' @ dq @ '','' @ dq @ ''webSocketDebuggerUrl'' @ dq @ '':'' @ dq @
      ''ws://127.0.0.1:0/devtools/browser/x'' @ dq @ ''}]'') new_mock_server"

definition get_page_web_socket_url_no_page_targets :: "json_lib \<Rightarrow> int \<Rightarrow> net \<Rightarrow> bool" where
  "get_page_web_socket_url_no_page_targets jl port nt \<longleftrightarrow>
     (case fst (get_page_websocket_url jl port nt) of None \<Rightarrow> False | Some url \<Rightarrow> url \<noteq> [])"

definition empty_targets_server :: mock_cdp_server where
  "empty_targets_server = set_targets_response ''[]'' new_mock_server"

definition malformed_server :: mock_cdp_server where
  "malformed_server = set_targets_response ''not valid json {{{'' new_mock_server"

definition send_commands_empty_returns_negative ::
  "json_lib \<Rightarrow> (string \<Rightarrow> string) \<Rightarrow> string \<Rightarrow> (nat \<Rightarrow> byte list) \<Rightarrow> net \<Rightarrow> bool" where
  "send_commands_empty_returns_negative jl base64 raw keys nt \<longleftrightarrow>
     (case fst (send_commands jl base64 raw keys 99999 [] nt) of None \<Rightarrow> False | Some (fd, s) \<Rightarrow> fd < 0)"

definition send_commands_fails_for_no_server ::
  "json_lib \<Rightarrow> (string \<Rightarrow> string) \<Rightarrow> string \<Rightarrow> (nat \<Rightarrow> byte list) \<Rightarrow> int \<Rightarrow> net \<Rightarrow> bool" where
  "send_commands_fails_for_no_server jl base64 raw keys port nt \<longleftrightarrow>
     (let cmd = ''{'' @ dq @ ''id'' @ dq @ '':1,'' @ dq @ ''method'' @ dq @ '':'' @ dq @ ''Target.getTargets'' @ dq @ '','' @ dq @
        ''params'' @ dq @ '':{}}''
      in case fst (send_commands jl base64 raw keys port [cmd] nt) of None \<Rightarrow> False | Some (fd, s) \<Rightarrow> fd < 0)"

subsection \<open>They hold\<close>

text \<open>Nobody listens: the connection is refused.\<close>

definition refuses :: "net \<Rightarrow> bool" where
  "refuses nt \<longleftrightarrow> (nt_conns nt = [] \<or> hd (nt_conns nt) = None)"

lemma refused_get:
  assumes "refuses nt"
  obtains nt' where "http_get port path nt = ([], nt')"
  using assms that by (cases "nt_conns nt") (auto simp: refuses_def http_get_def tcp_connect_def)

lemma closed_port_tests:
  assumes "refuses nt"
  shows "is_cdp_available_false_for_closed_port port nt" "is_cdp_available_false_for_zero_port nt"
    "get_page_web_socket_url_empty jl port nt" "send_commands_fails_for_no_server jl base64 raw keys port nt"
proof -
  obtain nt' where g: "http_get port ''/json'' nt = ([], nt')" using refused_get [OF assms] by blast
  then show "get_page_web_socket_url_empty jl port nt"
    by (simp add: get_page_web_socket_url_empty_def get_page_websocket_url_def)
  show "send_commands_fails_for_no_server jl base64 raw keys port nt"
    using g by (simp add: send_commands_fails_for_no_server_def send_commands_def get_page_websocket_url_def)
  obtain nt1 where "http_get port ''/json/version'' nt = ([], nt1)" using refused_get [OF assms] by blast
  then show "is_cdp_available_false_for_closed_port port nt"
    by (simp add: is_cdp_available_false_for_closed_port_def is_cdp_available_def)
  obtain nt0 where "http_get 0 ''/json/version'' nt = ([], nt0)" using refused_get [OF assms] by blast
  then show "is_cdp_available_false_for_zero_port nt"
    by (simp add: is_cdp_available_false_for_zero_port_def is_cdp_available_def)
qed

lemma send_nothing: "send_commands_empty_returns_negative jl base64 raw keys nt"
  by (simp add: send_commands_empty_returns_negative_def send_commands_def)

text \<open>What the client makes of the server's response is the body, in whatever pieces it arrives.\<close>

lemma http_get_served:
  assumes "nt_conns nt = Some s # cs" "served_by server port path s"
    "length (server_turn server (http_request path port)) \<le> kMaxHttpResponse"
  shows "fst (http_get port path nt) = body_of (server_turn server (http_request path port))"
proof -
  let ?answer = "server_turn server (http_request path port)"
  let ?req = "bytes_of (http_request path port)"
  obtain t where t: "send_all ?req s = (True, t)"
    using assms(2) by (cases "send_all ?req s") (auto simp: served_by_def)
  then have "sk_in t = sk_in s" using send_all_fields [of ?req s] by simp
  obtain r u where u: "read_response [] t = (r, u)" by fastforce
  have "arriving t = bytes_of ?answer"
    using \<open>sk_in t = sk_in s\<close> assms(2) by (simp add: served_by_def arriving_def)
  then have "r = ?answer"
    using read_response_whole [of "[]" t] u assms(3) by simp
  then show ?thesis using t u assms(1) by (simp add: http_get_def tcp_connect_def)
qed

text \<open>The end of the header is found behind its lines.\<close>

lemma find_in_next_line:
  assumes "CHR 0x0D \<notin> set w" "v \<noteq> []" "hd v \<noteq> CHR 0x0D"
  shows "str_find (crlf @ crlf) (w @ crlf @ v @ s) =
    map_option ((+) (length w + 2)) (str_find (crlf @ crlf) (v @ s))"
  using assms(1)
proof (induction w)
  case Nil
  then show ?case using assms(2, 3)
    by (cases v) (auto simp: crlf_def option.map_comp comp_def split: option.split)
next
  case (Cons c w)
  then show ?case by (auto simp: crlf_def option.map_comp comp_def intro!: option.map_cong)
qed

lemma find_empty_line:
  "CHR 0x0D \<notin> set w \<Longrightarrow> str_find (crlf @ crlf) (w @ crlf @ crlf @ s) = Some (length w)"
  by (induction w) (auto simp: crlf_def)

lemma body_of_response:
  assumes "CHR 0x00 \<notin> set body"
  shows "body_of (mock_response body) = body"
proof -
  let ?w1 = "''HTTP/1.1 200 OK''" and ?w2 = "''Content-Type: application/json''"
  let ?w3 = "''Content-Length: '' @ show_nat (length body)" and ?w4 = "''Connection: close''"
  have n: "CHR 0x0D \<notin> set ?w3" using show_nat_digits [of "CHR 0x0D" "length body"] by auto
  have all: "takeWhile (\<lambda>c. c \<noteq> CHR 0x00) body = body"
    using assms by (auto simp: takeWhile_eq_all_conv)
  have r: "mock_response body = ?w1 @ crlf @ ?w2 @ crlf @ ?w3 @ crlf @ ?w4 @ crlf @ crlf @ body"
    using all by (simp add: mock_response_def)
  let ?head = "?w1 @ crlf @ ?w2 @ crlf @ ?w3 @ crlf @ ?w4 @ crlf @ crlf"
  have "str_find (crlf @ crlf) (?w4 @ crlf @ crlf @ body) = Some (length ?w4)"
    by (rule find_empty_line) simp
  then have "str_find (crlf @ crlf) (?w3 @ crlf @ ?w4 @ crlf @ crlf @ body) = Some (length ?w3 + 2 + length ?w4)"
    using find_in_next_line [OF n, of ?w4 "crlf @ crlf @ body"] by simp
  then have "str_find (crlf @ crlf) (?w2 @ crlf @ ?w3 @ crlf @ ?w4 @ crlf @ crlf @ body) =
      Some (length ?w2 + 2 + (length ?w3 + 2 + length ?w4))"
    using find_in_next_line [of ?w2 ?w3 "crlf @ ?w4 @ crlf @ crlf @ body"] by simp
  then have "str_find (crlf @ crlf) (mock_response body) =
      Some (length ?w1 + 2 + (length ?w2 + 2 + (length ?w3 + 2 + length ?w4)))"
    unfolding r using find_in_next_line [of ?w1 ?w2 "crlf @ ?w3 @ crlf @ ?w4 @ crlf @ crlf @ body"] by simp
  moreover have "length ?w1 + 2 + (length ?w2 + 2 + (length ?w3 + 2 + length ?w4)) + 4 = length ?head"
    by (simp add: crlf_def)
  moreover have "drop (length ?head) (?head @ body) = body" by (rule append_eq_conv_conj [THEN iffD1, OF refl, THEN conjunct2, symmetric])
  ultimately show ?thesis
    unfolding body_of_def by (simp only: option.case r append.assoc)
qed

text \<open>The server tells the two requests of the client apart.\<close>

lemma absent_char: "c \<notin> set s \<Longrightarrow> \<not> str_contains s (c # p)"
  by (auto simp: str_contains_iff)

lemma version_turn:
  "server_turn server (http_request ''/json/version'' port) = mock_response (version_body server)"
proof -
  have "str_contains (''GET /json/version'' @ x) ''GET /json/version''" for x
    by (rule str_contains_append1) (simp add: str_contains_def)
  moreover have "take 4095 (http_request ''/json/version'' port) = ''GET /json/version'' @
      take 4078 ('' HTTP/1.1'' @ crlf @ ''Host: 127.0.0.1:'' @ show_int port @ crlf @ ''Connection: close'' @ crlf @ crlf)"
    by (simp add: http_request_def)
  ultimately show ?thesis by (simp only: server_turn_def Let_def if_True) simp
qed

lemma targets_turn:
  "server_turn server (http_request ''/json'' port) = mock_response (targets_body server)"
proof -
  let ?r = "crlf @ ''Host: 127.0.0.1:'' @ show_int port @ crlf @ ''Connection: close'' @ crlf @ crlf"
  have "CHR ''G'' \<notin> set ?r"
    using show_int_chars [of "CHR ''G''" port] by (auto simp: crlf_def)
  then have g: "CHR ''G'' \<notin> set (''ET /json HTTP/1.1'' @ take k ?r)" for k
    using set_take_subset [of k ?r] by auto
  have "take 4095 (http_request ''/json'' port) = ''GET /json'' @ '' HTTP/1.1'' @ take 4077 ?r"
    by (simp add: http_request_def)
  moreover have "str_contains (''GET /json'' @ '' HTTP/1.1'' @ take 4077 ?r) ''GET /json''"
    by (rule str_contains_append1) (simp add: str_contains_def)
  moreover have "\<not> str_contains (''GET /json'' @ '' HTTP/1.1'' @ take 4077 ?r) ''GET /json/version''"
  proof -
    have "\<not> str_contains (''ET /json HTTP/1.1'' @ take 4077 ?r) ''GET /json/version''"
      by (rule absent_char [OF g])
    then show ?thesis by (simp add: str_contains_def)
  qed
  ultimately show ?thesis by (simp only: server_turn_def Let_def if_True if_False) simp
qed

text \<open>The bodies are short texts.\<close>

definition short_text :: "string \<Rightarrow> bool" where
  "short_text body \<longleftrightarrow> CHR 0x00 \<notin> set body \<and> length body < 1000"

lemma response_fits: "short_text body \<Longrightarrow> length (mock_response body) \<le> kMaxHttpResponse"
proof -
  assume b: "short_text body"
  have "length (show_nat n) \<le> Suc n" for n
  proof (induction n rule: show_nat.induct)
    case (1 n)
    then show ?case by (cases "n < 10") (simp_all add: show_nat.simps [of n])
  qed
  from this [of "length body"] show ?thesis
    using b length_takeWhile_le [of "\<lambda>c. c \<noteq> CHR 0x00" body]
    by (simp add: mock_response_def short_text_def kMaxHttpResponse_def crlf_def)
qed

lemma get_from_mock:
  assumes "nt_conns nt = Some s # cs" "served_by server port path s"
  shows "path = ''/json/version'' \<Longrightarrow> short_text (version_body server) \<Longrightarrow> fst (http_get port path nt) = version_body server"
    "path = ''/json'' \<Longrightarrow> short_text (targets_body server) \<Longrightarrow> fst (http_get port path nt) = targets_body server"
  using http_get_served [OF assms]
  by (simp_all add: version_turn targets_turn response_fits body_of_response short_text_def [of "_ :: string"])

text \<open>The JSON texts of the targets, as the reader of the base library gives them.\<close>

definition page_target :: dict where
  "page_target = dict_set ''type'' (JString ''page'') (dict_set ''url'' (JString ''about:blank'')
     (dict_set ''webSocketDebuggerUrl'' (JString ''ws://127.0.0.1:0/devtools/page/fake-id'')
       (dict_set ''id'' (JString ''fake-id'') [])))"

definition browser_target :: dict where
  "browser_target = dict_set ''type'' (JString ''browser'')
     (dict_set ''webSocketDebuggerUrl'' (JString ''ws://127.0.0.1:0/devtools/browser/x'') [])"

definition reads_targets :: "json_lib \<Rightarrow> bool" where
  "reads_targets jl \<longleftrightarrow>
     json_read jl (targets_body new_mock_server) = Some (JList [JDict page_target]) \<and>
     json_read jl (targets_body no_page_server) = Some (JList [JDict browser_target]) \<and>
     json_read jl ''[]'' = Some (JList []) \<and> json_read jl ''not valid json {{{'' = None"

lemmas mock_defs = new_mock_server_def bad_response_server_def no_page_server_def empty_targets_server_def
  malformed_server_def set_version_response_def set_targets_response_def

lemma availability_tests:
  assumes "nt_conns nt = Some s # cs"
  shows "served_by new_mock_server port ''/json/version'' s \<Longrightarrow> is_cdp_available_true_for_mock_server port nt"
    "served_by bad_response_server port ''/json/version'' s \<Longrightarrow> is_cdp_available_false_for_bad_response port nt"
proof -
  have body: "fst (is_cdp_available port nt) = (version_body server \<noteq> [] \<and> str_find ''Browser'' (version_body server) \<noteq> None)"
    if "served_by server port ''/json/version'' s" "short_text (version_body server)" for server
    using get_from_mock(1) [OF assms that(1) refl that(2)] by (auto simp: is_cdp_available_def split: prod.split)
  show "served_by new_mock_server port ''/json/version'' s \<Longrightarrow> is_cdp_available_true_for_mock_server port nt"
    "served_by bad_response_server port ''/json/version'' s \<Longrightarrow> is_cdp_available_false_for_bad_response port nt"
    by (simp_all add: body is_cdp_available_true_for_mock_server_def is_cdp_available_false_for_bad_response_def
        short_text_def mock_defs)
qed

lemma discovery_tests:
  assumes "nt_conns nt = Some s # cs" "reads_targets jl"
  shows "served_by new_mock_server port ''/json'' s \<Longrightarrow> get_page_web_socket_url_from_mock_server jl port nt"
    "served_by no_page_server port ''/json'' s \<Longrightarrow> get_page_web_socket_url_no_page_targets jl port nt"
    "served_by empty_targets_server port ''/json'' s \<Longrightarrow> get_page_web_socket_url_empty jl port nt"
    "served_by malformed_server port ''/json'' s \<Longrightarrow> get_page_web_socket_url_empty jl port nt"
proof -
  have url: "fst (get_page_websocket_url jl port nt) =
      (case json_read jl (targets_body server) of
         None \<Rightarrow> Some []
       | Some v \<Rightarrow> (case as_list v of None \<Rightarrow> Some [] | Some targets \<Rightarrow> choose_target targets))"
    if "served_by server port ''/json'' s" "short_text (targets_body server)" "targets_body server \<noteq> []" for server
    using get_from_mock(2) [OF assms(1) that(1) refl that(2)] that(3)
    by (auto simp: get_page_websocket_url_def split: prod.split option.split)
  have short: "short_text (targets_body server) \<and> targets_body server \<noteq> []"
    if "server \<in> {new_mock_server, no_page_server, empty_targets_server, malformed_server}" for server
    using that by (auto simp: short_text_def mock_defs)
  have bodies: "targets_body empty_targets_server = ''[]''" "targets_body malformed_server = ''not valid json {{{''"
    by (simp_all add: mock_defs)
  note read = assms(2) [unfolded reads_targets_def]
  show "get_page_web_socket_url_from_mock_server jl port nt" if "served_by new_mock_server port ''/json'' s"
    using url [OF that] short [of new_mock_server] read
    by (simp add: get_page_web_socket_url_from_mock_server_def choose_target_def page_target_def str_contains_def)
  show "get_page_web_socket_url_no_page_targets jl port nt" if "served_by no_page_server port ''/json'' s"
    using url [OF that] short [of no_page_server] read
    by (simp add: get_page_web_socket_url_no_page_targets_def choose_target_def browser_target_def)
  show "get_page_web_socket_url_empty jl port nt" if "served_by empty_targets_server port ''/json'' s"
    using url [OF that] short [of empty_targets_server] read bodies
    by (simp add: get_page_web_socket_url_empty_def choose_target_def)
  show "get_page_web_socket_url_empty jl port nt" if "served_by malformed_server port ''/json'' s"
    using url [OF that] short [of malformed_server] read bodies by (simp add: get_page_web_socket_url_empty_def)
qed

text \<open>
  The integration tests (\<open>tests/cdp_integration_test.cc\<close>) keep the result of \<open>SendCommands\<close> in a \<open>bool\<close>, which
  is true for every number but 0: they pass when nothing could be sent.
\<close>

definition integration_test_passes ::
  "json_lib \<Rightarrow> (string \<Rightarrow> string) \<Rightarrow> string \<Rightarrow> (nat \<Rightarrow> byte list) \<Rightarrow> int \<Rightarrow> string list \<Rightarrow> net \<Rightarrow> bool" where
  "integration_test_passes jl base64 raw keys port commands nt \<longleftrightarrow>
     (case fst (send_commands jl base64 raw keys port commands nt) of
        None \<Rightarrow> False
      | Some (fd, s) \<Rightarrow> (let success = (fd \<noteq> 0) in success))"

lemma integration_test_passes_on_failure:
  "send_commands jl base64 raw keys port commands nt = (Some (-1, None), nt') \<Longrightarrow>
   integration_test_passes jl base64 raw keys port commands nt"
  by (simp add: integration_test_passes_def)

end
