(* ===== verification/Spec2Isabelle.thy ===== *)
theory Spec2Isabelle
  imports Workspace_Store Noise Fingerprint_Seed Storage_Partition Anti_Detection Cdp_Injector
    Profile_Applier Api_Conservation Api_Rest Webui_Safety Api_Server Side_Panel Whole_System
    Chrome_Startup Command_Claims Profile_Menu_Safety Workspace_Applied Panel_Views Startup_Safety
    Tests_Units Tests_Scripts Tests_Client
begin

text \<open>
  PureCloak is a browser built on Chromium that runs isolated \<open>workspaces\<close>: named profiles with a
  fingerprint, a proxy and a user agent of their own. This library models the C++ of the extension
  (\<open>src/chromium_src/purecloak/\<close>) and of the Chromium files that lead into it
  (\<open>src/chromium_src/chrome/\<close>), and proves what its parts promise, and where they do not keep it.

  \<^bold>\<open>The program.\<close> The browser keeps the workspaces of a profile in a store that is saved to a JSON file.
  Starting a workspace launches a process with its own data directory and debugging port; a
  watchdog polls the processes, and a profile applier sends each the commands and scripts that
  put its fingerprint in place, over a WebSocket client written for the purpose. The page of the
  extension, a side panel and a REST API drive both. The startup of the browser starts the API with
  the first profile; the profile menu and a command of every window lead to the page. The API runs
  on a thread of its own and posts tasks to the UI thread, where store and launcher live; it also
  forwards requests and WebSockets to the debugging ports. Inside a workspace, storage is partitioned per profile and values are perturbed
  by a deterministic noise.

  \<^bold>\<open>The theories\<close>, below the prelude (\<open>PC_Prelude\<close>: strings, ordered maps, transition systems, hint
  collections), in the order of their imports:

  \<^item> \<open>Json_Value\<close> (\<open>base::Value\<close>), \<open>Workspace_Model\<close> (\<open>browser/profiles/workspace.{h,cc}\<close>), \<open>Workspace_Store\<close>
    (\<open>browser/profiles/workspace_store.{h,cc}\<close>): the data, its dictionaries, the operations of the
    store, its observers, its file and the tasks that read and write it. The store implements
    a map from ids to workspaces, for any mix of updates and queries (over the locale \<open>workspace_repo\<close>), saving and
    restarting gives every persisted field back, the type of a workspace never changes, and the
    race between loading and creating loses workspaces.
  \<^item> \<open>Js_Text\<close>, \<open>Anti_Detection\<close>, \<open>Cdp_Injector\<close> (\<open>content/anti_detection/anti_detection_engine.cc\<close>,
    \<open>content/profile_cdp_injector.cc\<close>): every generated script and command as text, with a scanner for
    JavaScript string literals that decides what user text can become code.
  \<^item> \<open>Byte_Stream\<close>, \<open>Ws_Frame\<close>, \<open>Cdp_Client\<close> (\<open>content/cdp_websocket_client.cc\<close>): sockets that deliver
    bytes in pieces, frames, discovery, handshake and the command loop. Frames survive a round trip
    however they are cut, no descriptor is lost, the commands arrive in order.
  \<^item> \<open>Profile_Applier\<close> (\<open>browser/workspace_profile_applier.cc\<close>): polling, sending and reconnecting. It
    reports one outcome until a connection is lost; the report after that ends the process.
    \<open>Workspace_Applied\<close> composes it with the client it calls on the thread pool: what happens is a run of
    the applier alone, every open descriptor is accounted for, and a success means that the
    connection the applier watches carries all commands in order.
  \<^item> \<open>Launcher\<close> (\<open>browser/workspace_launcher.{h,cc}\<close>, \<open>browser/workspace_launcher_watchdog.cc\<close>): the table of
    processes, starts in flight, the watchdog. \<open>Launch_Replies\<close> states what its clients build on: every
    start is answered once.
  \<^item> \<open>Cdp_Proxy\<close>, \<open>Api_Handler\<close> (\<open>browser/api/cdp_proxy_handler.cc\<close>, \<open>browser/api/workspace_api_handler.cc\<close>):
    the relay and the REST handlers with both task queues, composed with store, launcher and
    relay. \<open>Api_Conservation\<close> proves that every request is answered exactly once or in flight, and that
    all are answered; \<open>Api_Rest\<close> what updates, imports and forwarding do and who gets in.
  \<^item> \<open>Webui_Handler\<close> (\<open>browser/ui/webui/purecloak_handler.cc\<close>): the messages of the page. \<open>Webui_Safety\<close> proves
    which of them end the browser or have no defined result, that all others are answered once, and what edits forget.
  \<^item> \<open>Side_Panel\<close> (\<open>browser/ui/views/side_panel/\<close>): the cards and dialogs of the side panel, as an observer of
    the store: it shows the store, except for what the initial load brings in. \<open>Panel_Views\<close> adds the texts of
    \<open>common/purecloak_i18n.h\<close>, the view trees, the registration of the panel and the toolbar button: what is on
    the screen determines the cards, and a rename starts from the name.
  \<^item> \<open>Fingerprint_Seed\<close>, \<open>Noise\<close>, \<open>Storage_Partition\<close> (\<open>common/purecloak_seed.cc\<close>, \<open>common/purecloak_prng.h\<close>,
    \<open>content/storage_partition_controller.cc\<close>): the settings a process reads from its command line, the
    noise hash, the choice of storage partitions.
  \<^item> \<open>Api_Server\<close> (\<open>browser/api/workspace_api_server.cc\<close>, \<open>browser/purecloak_browser_main_parts.cc\<close>,
    \<open>browser/profiles/store_provider.cc\<close>): bringing the parts up and down.
  \<^item> \<open>Whole_System\<close>: the API, the page and the panel over the one store of a profile. A step of the product
    is the step of one of them; the abstraction \<open>run_events\<close> gives the operations of the store it
    performs. Whatever happens, the store, its file and its pending replies are those that these
    operations give, and an open panel shows what the API and the page change.
  \<^item> \<open>Chrome_Startup\<close> (\<open>chrome/browser/chrome_browser_main.cc\<close>): the manager that initialises profiles and the
    hooks of the API server: it starts once, with the first profile, and is stopped too late.
    \<open>Startup_Parts\<close> and \<open>Startup_Stages\<close> hold the stages of the same file, from the creation of the main parts to
    the end of the process, for all builds: the stage before the main loop is a list of actions that
    can end the start. \<open>Startup_Safety\<close> proves that the stages are gone through in their order, when a run
    loop is left, and that the hooks of the stages are those of \<open>Chrome_Startup\<close>, in their order and once.
  \<^item> \<open>Command_Ids\<close>, \<open>Command_State\<close>, \<open>Command_Execute\<close>, \<open>Command_Events\<close>
    (\<open>chrome/browser/ui/browser_command_controller.cc\<close>): the commands of a window in groups, which of them
    every update enables, what executing one does, and the life of a controller as a transition
    system, for all platforms at once (the \<open>#if\<close>s are conditions on the record \<open>build\<close>). \<open>Command_Safety\<close> holds
    the locale \<open>command_bound\<close>: a lower and an upper bound of the enabled commands that construction,
    every update and every event keep. \<open>Command_Claims\<close> interprets it for guests, for the command that opens the
    workspaces, for the commands that could stop the browser, and for locked fullscreen.
  \<^item> \<open>Profile_Menu\<close>, \<open>Profile_Menu_Safety\<close> (\<open>chrome/browser/ui/views/profiles/profile_menu_view.cc\<close>): the buttons of
    the profile menu and what clicking one does, the checks that can stop the browser included; which
    buttons lead to the workspaces.
  \<^item> \<open>Tests_Units\<close>, \<open>Tests_Scripts\<close>, \<open>Tests_Client\<close> (the files \<open>_unittest.cc\<close>): every unit test as the condition
    it checks, which the model is proved to meet. The tests of the API check a copy of the path parser;
    it is compared with the one of the handler.
  \<^item> This theory composes the launcher with the settings of its processes.

  \<^bold>\<open>How the code is translated.\<close> Structs and classes are records, enums datatypes, \<open>std::map\<close> a list in
  key order (\<open>om_put\<close>, \<open>om_del\<close>), \<open>std::string\<close> a list of bytes, \<open>uint32_t\<close> and socket ports words, other
  numbers integers. Work posted to another thread or answered later is kept in an explicit queue of
  the state and run by an event; where the code fixes no order, events take any element. What the
  operating system, the clock and the generators answer are arguments of the events. Observable
  effects (processes, files, notifications, answers, bytes on a socket) are logs of the state. A
  failed \<open>CHECK\<close> and a wait that never ends are the result \<open>None\<close> or a flag of the state.

  \<^bold>\<open>Parameters.\<close> JSON text (\<open>json_lib\<close>), calendar (\<open>time_lib\<close>), script escapes and the humanising script
  (\<open>js_lib\<close>), Base64, \<open>SplitString\<close>, \<open>StringToInt\<close>, \<open>ToLowerASCII\<close>, \<open>AppendASCII\<close> and the parsing of a command line
  (\<open>child\<close>, with the law \<open>reads_switches\<close>) are library code outside the repository; the properties that
  rely on one state what they need. So is the
  command updater of Chromium (\<open>updater\<close>, with \<open>updater_laws\<close>) and the conversions between UTF-8 and UTF-16
  (\<open>utf_lib\<close>, with \<open>utf_ok\<close>); what the command controller, the profile menu and the stages of startup ask the
  rest of Chromium is an environment (\<open>env\<close>, \<open>menu_env\<close>, \<open>startup_env\<close>), for the first two another one at every
  event.

  \<^bold>\<open>Bounds and fuel.\<close> No definition runs on fuel: loops are structural recursions, or functions whose
  measure is the bytes or the answers left. The constants are those of the code (10 workspaces,
  ports 9333 to 9352, 30 polls, 256 KB responses, 1 MB frames).

  \<^bold>\<open>Not modelled.\<close> Sizes, colours and fonts of the side panel; the page itself and the registration of its
  URL; trace events, timing histograms and the Windows relaunch export of
  \<open>chrome/browser/chrome_browser_main.cc\<close>; the headers that let the Chromium files compile (\<open>ash/\<close>, \<open>chromeos/\<close>);
  the integration test, which starts a browser, apart from how it judges sending. The meaning of the
  generated JavaScript is not modelled beyond its string literals.
\<close>

subsection \<open>Workspaces and the settings of their processes\<close>

text \<open>
  How the new process reads its command line is up to the base library: \<open>child\<close> is what it reads from
  the items the launcher appends. An argument that looks like a switch is parsed as one, with one or
  two dashes and with or without a value; \<open>--\<close> ends the switches. What the library documents: whether
  a switch is there, and its value, is determined by the items that give it and the arguments that
  name it or end the switches, and without any item there is none.
\<close>

definition names_switch :: "string \<Rightarrow> string \<Rightarrow> bool" where
  "names_switch k a \<longleftrightarrow>
     a = ''--'' @ k \<or> a = ''-'' @ k \<or> starts_with (''--'' @ k @ ''='') a \<or> starts_with (''-'' @ k @ ''='') a"

fun gives_switch :: "string \<Rightarrow> cmd_item \<Rightarrow> bool" where
  "gives_switch k (Arg a) = names_switch k a"
| "gives_switch k x = (switch_name x = Some k)"

definition concerns :: "string \<Rightarrow> cmd_item \<Rightarrow> bool" where
  "concerns k x \<longleftrightarrow> x = Arg ''--'' \<or> gives_switch k x"

definition reads_switches :: "(cmd_item list \<Rightarrow> command_line) \<Rightarrow> bool" where
  "reads_switches child \<longleftrightarrow>
     (\<forall>k items items'. filter (concerns k) items = filter (concerns k) items' \<longrightarrow>
        has_switch (child items) k = has_switch (child items') k \<and>
        switch_value (child items) k = switch_value (child items') k) \<and>
     (\<forall>k. \<not> has_switch (child []) k \<and> switch_value (child []) k = [])"

definition fingerprint_keys :: "string list" where
  "fingerprint_keys =
     [kFingerprint, kFingerprintPlatform, kFingerprintGpuVendor, kFingerprintGpuRenderer,
      kFingerprintHardwareConcurrency, kFingerprintDeviceMemory, kFingerprintScreenWidth,
      kFingerprintScreenHeight, kFingerprintTaskbarHeight, kFingerprintBrand, kFingerprintBrandVersion,
      kFingerprintPlatformVersion, kFingerprintWebrtcIp, kFingerprintFontsDir, kFingerprintLocation,
      kFingerprintStorageQuota, kFingerprintNoise, kFingerprintTimezone, kFingerprintLocale]"

lemma reads_switchesD:
  assumes "reads_switches child" "filter (concerns k) items = filter (concerns k) items'"
  shows "has_switch (child items) k = has_switch (child items') k \<and>
    switch_value (child items) k = switch_value (child items') k"
  using assms unfolding reads_switches_def by blast

text \<open>The settings are a function of these switches.\<close>

lemma settings_cong:
  assumes "\<And>k. k \<in> set fingerprint_keys \<Longrightarrow> has_switch c k = has_switch c' k \<and> switch_value c k = switch_value c' k"
  shows "initialize_from_command_line stoi c st = initialize_from_command_line stoi c' st"
  using assms by (simp add: fingerprint_keys_def initialize_from_command_line_def get_switch_def int_switch_def Let_def)

text \<open>Of the items of a workspace's command line only the extra arguments can concern one of them.\<close>

definition own_switches :: "workspace \<Rightarrow> string \<Rightarrow> int \<Rightarrow> cmd_item list" where
  "own_switches w dir port =
     [SwitchPath ''user-data-dir'' dir, SwitchText ''remote-debugging-port'' (show_int port),
      Switch ''no-first-run'', Switch ''no-default-browser-check'', SwitchText ''disable-features'' ''Translate''] @
     (if ws_user_agent w \<noteq> [] then [SwitchText ''user-agent'' (ws_user_agent w)] else []) @
     (if ws_screen_width w > 0 \<and> ws_screen_height w > 0
      then [SwitchText ''window-size'' (show_int (ws_screen_width w) @ '','' @ show_int (ws_screen_height w))] else []) @
     (if ws_proxy w \<noteq> [] then [SwitchText ''proxy-server'' (ws_proxy w)] else []) @
     (if ws_locale w \<noteq> [] then [SwitchText ''accept-lang'' (ws_locale w)] else []) @
     (if ws_headless w then [SwitchText ''headless'' ''new''] else []) @
     [SwitchText ''force-webrtc-ip-handling-policy'' ''disable_non_proxied_udp'']"

lemma if_append: "(if c then l @ m else l) = l @ (if c then m else [])"
  by simp

lemma command_line_parts:
  "build_command_line w dir port = own_switches w dir port @ map Arg (ws_launch_args w) @ [Arg ''about:blank'']"
  by (simp only: build_command_line_def own_switches_def Let_def if_append append_assoc append.simps)

lemma own_is_switch: "x \<in> set (own_switches w dir port) \<Longrightarrow> switch_name x \<noteq> None"
  unfolding own_switches_def set_append by (elim UnE) (simp_all split: if_splits, (elim disjE; simp)+)

lemma filter_command_line:
  assumes k: "k \<in> set fingerprint_keys"
  shows "filter (concerns k) (build_command_line w dir port) = filter (concerns k) (map Arg (ws_launch_args w))"
proof -
  have "\<not> concerns k x" if x: "x \<in> set (own_switches w dir port)" for x
  proof -
    obtain s where s: "switch_name x = Some s" using own_is_switch [OF x] by blast
    have "x \<in> set (build_command_line w dir port)" using x by (simp add: command_line_parts)
    then have "Some s \<in> switch_name ` set (build_command_line w dir port)" using s by force
    note names = switch_names_of [OF this]
    have "s \<noteq> k" using k names by (auto simp: fingerprint_keys_def switch_key_defs)
    then show ?thesis using s by (cases x) (simp_all add: concerns_def)
  qed
  then have "filter (concerns k) (own_switches w dir port) = []" by (simp add: filter_empty_conv)
  moreover have "\<not> concerns k (Arg ''about:blank'')" by (auto simp: concerns_def names_switch_def)
  ultimately show ?thesis by (simp add: command_line_parts)
qed

text \<open>
  C36 (safety): no field of a workspace but its extra arguments reaches the fingerprint settings of its
  process. These are the settings that the extra arguments alone would give, whatever seed, GPU,
  screen, time zone or locale the workspace has; if none of them names a fingerprint switch or ends
  the switches, they are seed 0, platform windows and the other defaults, for every workspace.
\<close>

theorem child_seed_ignores_workspace:
  assumes "reads_switches child"
  shows "initialize_from_command_line stoi (child (build_command_line w dir port)) new_seed =
      initialize_from_command_line stoi (child (map Arg (ws_launch_args w))) new_seed \<and>
    ((\<forall>a\<in>set (ws_launch_args w). \<forall>k\<in>set fingerprint_keys. \<not> concerns k (Arg a)) \<longrightarrow>
      initialize_from_command_line stoi (child (build_command_line w dir port)) new_seed = windows_defaults)"
proof -
  have same: "initialize_from_command_line stoi (child items) new_seed =
      initialize_from_command_line stoi (child items') new_seed"
    if "\<And>k. k \<in> set fingerprint_keys \<Longrightarrow> filter (concerns k) items = filter (concerns k) items'" for items items'
    by (rule settings_cong) (rule reads_switchesD [OF assms that])
  have args: "initialize_from_command_line stoi (child (build_command_line w dir port)) new_seed =
      initialize_from_command_line stoi (child (map Arg (ws_launch_args w))) new_seed"
    by (rule same) (rule filter_command_line)
  have none: "initialize_from_command_line stoi (child []) new_seed = windows_defaults"
    using assms by (intro init_no_switches) (simp_all add: reads_switches_def)
  have "initialize_from_command_line stoi (child (map Arg (ws_launch_args w))) new_seed = windows_defaults"
    if "\<forall>a\<in>set (ws_launch_args w). \<forall>k\<in>set fingerprint_keys. \<not> concerns k (Arg a)"
    unfolding none [symmetric] using that by (intro same) (simp add: filter_empty_conv)
  then show ?thesis using args by simp
qed

text \<open>A way of reading command lines with the documented behaviour.\<close>

fun switch_text :: "string \<Rightarrow> cmd_item \<Rightarrow> string" where
  "switch_text k (SwitchPath s v) = v"
| "switch_text k (SwitchText s v) = v"
| "switch_text k (Switch s) = []"
| "switch_text k (Arg a) = drop (length k + (if starts_with ''--'' a then 3 else 2)) a"

definition posix_child :: "cmd_item list \<Rightarrow> command_line" where
  "posix_child items =
     (let given = (\<lambda>k. filter (gives_switch k) (takeWhile (\<lambda>x. x \<noteq> Arg ''--'') items)) in
      \<lparr>has_switch = (\<lambda>k. given k \<noteq> []),
       switch_value = (\<lambda>k. if given k = [] then [] else switch_text k (last (given k)))\<rparr>)"

lemma given_concerns:
  "filter (gives_switch k) (takeWhile (\<lambda>x. x \<noteq> Arg ''--'') items) =
   filter (gives_switch k) (takeWhile (\<lambda>x. x \<noteq> Arg ''--'') (filter (concerns k) items))"
  by (induction items) (auto simp: concerns_def)

lemma posix_child_reads: "reads_switches posix_child"
proof -
  have given: "filter (gives_switch k) (takeWhile (\<lambda>x. x \<noteq> Arg ''--'') items) =
      filter (gives_switch k) (takeWhile (\<lambda>x. x \<noteq> Arg ''--'') items')"
    if "filter (concerns k) items = filter (concerns k) items'" for k items items'
    using given_concerns [of k items] given_concerns [of k items'] unfolding that by (rule trans [OF _ sym])
  have "has_switch (posix_child items) k = has_switch (posix_child items') k \<and>
      switch_value (posix_child items) k = switch_value (posix_child items') k"
    if "filter (concerns k) items = filter (concerns k) items'" for k items items'
    unfolding posix_child_def Let_def command_line.simps given [OF that] by (intro conjI refl)
  moreover have "\<not> has_switch (posix_child []) k \<and> switch_value (posix_child []) k = []" for k
    by (simp add: posix_child_def)
  ultimately show ?thesis unfolding reads_switches_def by blast
qed

theorem child_seed_ignores_workspace_witness:
  "sd_seed (initialize_from_command_line sample_stoi (posix_child (build_command_line
      (workspace_default\<lparr>ws_fingerprint_seed := 7, ws_launch_args := [''--fingerprint=42'']\<rparr>) ''/d'' 9333)) new_seed) =
     snd (sample_stoi ''42'') \<and>
   initialize_from_command_line sample_stoi (posix_child (build_command_line
      (workspace_default\<lparr>ws_fingerprint_seed := 7\<rparr>) ''/d'' 9333)) new_seed = windows_defaults"
proof
  let ?w = "workspace_default\<lparr>ws_fingerprint_seed := 7\<rparr>"
  let ?v = "?w\<lparr>ws_launch_args := [''--fingerprint=42'']\<rparr>"
  note claim = child_seed_ignores_workspace [OF posix_child_reads, of sample_stoi]
  have "sd_seed (initialize_from_command_line sample_stoi (posix_child [Arg ''--fingerprint=42'']) new_seed) =
      snd (sample_stoi ''42'')"
    by (simp add: initialize_from_command_line_def Let_def posix_child_def names_switch_def kFingerprint_def)
  then show "sd_seed (initialize_from_command_line sample_stoi (posix_child (build_command_line
      (workspace_default\<lparr>ws_fingerprint_seed := 7, ws_launch_args := [''--fingerprint=42'']\<rparr>) ''/d'' 9333)) new_seed) =
      snd (sample_stoi ''42'')"
    using claim [of ?v "''/d''" 9333, THEN conjunct1] by simp
  have "ws_launch_args ?w = []" by (simp add: workspace_default_def)
  then show "initialize_from_command_line sample_stoi (posix_child (build_command_line
      (workspace_default\<lparr>ws_fingerprint_seed := 7\<rparr>) ''/d'' 9333)) new_seed = windows_defaults"
    using claim [of ?w "''/d''" 9333, THEN conjunct2] by simp
qed

end
